(* ===== verification/Prelude.thy ===== *)
theory Prelude
  imports Main "HOL-Library.Char_ord" "HOL-Library.List_Lexorder" "HOL-Library.Product_Lexorder"
begin

text \<open>Shared vocabulary of the development: identifiers and instants, the error chain of an
  \<open>async\<close> service method (every \<open>throw\<close> is a left value), partial updates of columns
  (\<open>Object.assign\<close> over a \<open>Partial\<close>), tables as lists of rows keyed by their id, and the
  \<open>NULLS LAST\<close> order of SQL. Nothing in this theory is specific to one component.\<close>

named_theorems table_simps "rewriting of table lookups and updates"
named_theorems chain_simps "rewriting of error chains"

type_synonym uuid = string
type_synonym instant = int  \<comment> \<open>milliseconds since the epoch, the value of \<open>Date.getTime()\<close>\<close>

section \<open>Error chains\<close>

fun chain :: "'e + 'a \<Rightarrow> ('a \<Rightarrow> 'e + 'b) \<Rightarrow> 'e + 'b" where
  "chain (Inl e) f = Inl e"
| "chain (Inr x) f = f x"

definition ensure :: "bool \<Rightarrow> 'e \<Rightarrow> 'e + unit" where
  "ensure b e = (if b then Inr () else Inl e)"

fun some_or :: "'a option \<Rightarrow> 'e \<Rightarrow> 'e + 'a" where
  "some_or None e = Inl e"
| "some_or (Some x) e = Inr x"

lemma chain_Inr_iff [chain_simps]: "chain r f = Inr y \<longleftrightarrow> (\<exists>x. r = Inr x \<and> f x = Inr y)"
  by (cases r) auto

lemma chain_Inl_iff [chain_simps]:
  "chain r f = Inl e \<longleftrightarrow> r = Inl e \<or> (\<exists>x. r = Inr x \<and> f x = Inl e)"
  by (cases r) auto

lemma ensure_Inr_iff [simp]: "ensure b e = Inr u \<longleftrightarrow> b"
  by (simp add: ensure_def)

lemma ensure_Inl_iff [simp]: "ensure b e = Inl e' \<longleftrightarrow> \<not> b \<and> e = e'"
  by (simp add: ensure_def)

lemma some_or_Inr_iff [simp]: "some_or r e = Inr x \<longleftrightarrow> r = Some x"
  by (cases r) auto

lemma some_or_Inl_iff [simp]: "some_or r e = Inl e' \<longleftrightarrow> r = None \<and> e = e'"
  by (cases r) auto

section \<open>Partial updates\<close>

text \<open>A key of a \<open>Partial\<close> object: absent (the column is left alone) or present, possibly
  with the value null.\<close>

datatype 'a patch = Keep | Put 'a

fun patched :: "'a patch \<Rightarrow> 'a \<Rightarrow> 'a" where
  "patched Keep old = old"
| "patched (Put new) old = new"

fun patch_over :: "'a patch \<Rightarrow> 'a patch \<Rightarrow> 'a patch" where
  "patch_over p Keep = p"
| "patch_over p (Put x) = Put x"

lemma patched_patch_over [simp]: "patched (patch_over p q) v = patched q (patched p v)"
  by (cases q) auto

section \<open>Tables\<close>

definition lookup_by :: "('r \<Rightarrow> 'k) \<Rightarrow> 'k \<Rightarrow> 'r list \<Rightarrow> 'r option" where
  "lookup_by key k rows = find (\<lambda>r. key r = k) rows"

definition update_by :: "('r \<Rightarrow> 'k) \<Rightarrow> 'k \<Rightarrow> ('r \<Rightarrow> 'r) \<Rightarrow> 'r list \<Rightarrow> 'r list" where
  "update_by key k f rows = map (\<lambda>r. if key r = k then f r else r) rows"

lemma lookup_by_Nil [simp]: "lookup_by key k [] = None"
  by (simp add: lookup_by_def)

lemma lookup_by_Cons [simp]:
  "lookup_by key k (r # rows) = (if key r = k then Some r else lookup_by key k rows)"
  by (simp add: lookup_by_def)

lemma update_by_Nil [simp]: "update_by key k f [] = []"
  by (simp add: update_by_def)

lemma update_by_Cons [simp]:
  "update_by key k f (r # rows) = (if key r = k then f r else r) # update_by key k f rows"
  by (simp add: update_by_def)

lemma lookup_by_SomeD: "lookup_by key k rows = Some r \<Longrightarrow> r \<in> set rows \<and> key r = k"
  by (induction rows) (auto split: if_splits)

lemma lookup_by_None_iff: "lookup_by key k rows = None \<longleftrightarrow> k \<notin> key ` set rows"
  by (induction rows) auto

lemma lookup_by_append:
  "lookup_by key k (xs @ ys) =
     (case lookup_by key k xs of Some r \<Rightarrow> Some r | None \<Rightarrow> lookup_by key k ys)"
  by (induction xs) auto

lemma lookup_by_append_other [table_simps]:
  "k \<notin> key ` set ys \<Longrightarrow> lookup_by key k (xs @ ys) = lookup_by key k xs"
  by (simp add: lookup_by_append lookup_by_None_iff[THEN iffD2] split: option.split)

lemma lookup_by_distinct:
  "distinct (map key rows) \<Longrightarrow> r \<in> set rows \<Longrightarrow> lookup_by key (key r) rows = Some r"
  by (induction rows) (auto simp: image_iff)

lemma lookup_by_update_same [table_simps]:
  assumes "\<And>r. key (f r) = key r"
  shows "lookup_by key k (update_by key k f rows) = map_option f (lookup_by key k rows)"
  by (induction rows) (auto simp: assms)

lemma lookup_by_update_other [table_simps]:
  assumes "\<And>r. key (f r) = key r" and "k' \<noteq> k"
  shows "lookup_by key k' (update_by key k f rows) = lookup_by key k' rows"
  using assms by (induction rows) auto

lemma update_by_keys [simp]:
  assumes "\<And>r. key (f r) = key r"
  shows "map key (update_by key k f rows) = map key rows"
  by (induction rows) (auto simp: assms)

lemma set_update_by_cases:
  "r \<in> set (update_by key k f rows) \<Longrightarrow>
     (\<exists>r0 \<in> set rows. key r0 = k \<and> r = f r0) \<or> (r \<in> set rows \<and> key r \<noteq> k)"
  by (auto simp: update_by_def)

lemma length_update_by [simp]: "length (update_by key k f rows) = length rows"
  by (simp add: update_by_def)

lemma update_by_id [simp]: "update_by key k (\<lambda>r. r) rows = rows"
  by (simp add: update_by_def)

lemma update_by_absent: "k \<notin> key ` set rows \<Longrightarrow> update_by key k f rows = rows"
  by (induction rows) auto

lemma filter_update_by_stable [table_simps]:
  assumes "\<And>r. key r = k \<Longrightarrow> P (f r) \<longleftrightarrow> P r" and "\<And>r. key r = k \<Longrightarrow> P r \<Longrightarrow> f r = r"
  shows "filter P (update_by key k f rows) = filter P rows"
  using assms by (induction rows) auto

section \<open>SQL ordering with \<open>NULLS LAST\<close>\<close>

datatype 'a nulls_last = Val 'a | Null_last

fun null_key :: "'a option \<Rightarrow> 'a nulls_last" where
  "null_key None = Null_last"
| "null_key (Some x) = Val x"

instantiation nulls_last :: (linorder) linorder
begin

fun less_eq_nulls_last :: "'a nulls_last \<Rightarrow> 'a nulls_last \<Rightarrow> bool" where
  "less_eq_nulls_last x Null_last = True"
| "less_eq_nulls_last Null_last (Val y) = False"
| "less_eq_nulls_last (Val x) (Val y) = (x \<le> y)"

definition less_nulls_last :: "'a nulls_last \<Rightarrow> 'a nulls_last \<Rightarrow> bool" where
  "less_nulls_last x y = (x \<le> y \<and> \<not> y \<le> x)"

instance
proof
  fix x y z :: "'a nulls_last"
  show "(x < y) = (x \<le> y \<and> \<not> y \<le> x)"
    by (rule less_nulls_last_def)
  show "x \<le> x"
    by (cases x) auto
  show "x \<le> y \<Longrightarrow> y \<le> z \<Longrightarrow> x \<le> z"
    by (cases x; cases y; cases z) auto
  show "x \<le> y \<Longrightarrow> y \<le> x \<Longrightarrow> x = y"
    by (cases x; cases y) auto
  show "x \<le> y \<or> y \<le> x"
    by (cases x; cases y) auto
qed

end

section \<open>Optional instants\<close>

fun coalesce :: "'a option \<Rightarrow> 'a option \<Rightarrow> 'a option" where
  "coalesce (Some x) y = Some x"
| "coalesce None y = y"

fun is_reached :: "instant option \<Rightarrow> instant \<Rightarrow> bool" where
  "is_reached None t = False"
| "is_reached (Some a) t = (a \<le> t)"

lemma is_reached_iff: "is_reached x t \<longleftrightarrow> (\<exists>a. x = Some a \<and> a \<le> t)"
  by (cases x) auto

end
