(* ===== verification/Js_Values.thy ===== *)
theory Js_Values
  imports Prelude "HOL-Library.Word"
begin

text \<open>The values of the language and of JSON that the program computes with: UTF-16 texts
  (\<open>utf16\<close>, the type of what users write), their \<open>trim\<close> and length, decimal rendering of
  non-negative integers (template literals), and JSON objects as association lists in
  insertion order with the assignment and the spread the services use to build the outbox
  payloads. Identifiers and event names are ASCII strings; \<open>js\<close> embeds them in the texts.\<close>

type_synonym utf16 = "16 word list"

definition js :: "string \<Rightarrow> utf16" where
  "js s = map (\<lambda>c. word_of_nat (of_char c)) s"

lemma js_Nil [simp]: "js [] = []"
  by (simp add: js_def)

lemma js_Cons [simp]: "js (c # s) = word_of_nat (of_char c) # js s"
  by (simp add: js_def)

lemma js_append [simp]: "js (s @ t) = js s @ js t"
  by (simp add: js_def)

lemma length_js [simp]: "length (js s) = length s"
  by (simp add: js_def)

lemma code_unit_inj: "(word_of_nat (of_char c) :: 16 word) = word_of_nat (of_char d) \<longleftrightarrow> c = d"
proof
  have small: "(of_char x :: nat) < 2 ^ 16" for x :: char
    by (rule less_trans [of _ 256]) auto
  assume "(word_of_nat (of_char c) :: 16 word) = word_of_nat (of_char d)"
  then have "unat (word_of_nat (of_char c) :: 16 word) = unat (word_of_nat (of_char d) :: 16 word)"
    by simp
  then have "(of_char c :: nat) = of_char d"
    using small [of c] small [of d] by (simp add: unat_of_nat)
  then show "c = d"
    by simp
qed simp

lemma js_eq_iff [simp]: "js s = js t \<longleftrightarrow> s = t"
proof (induction s arbitrary: t)
  case Nil
  then show ?case by (cases t) auto
next
  case (Cons c s)
  then show ?case by (cases t) (auto simp: code_unit_inj)
qed

section \<open>Trimming\<close>

text \<open>The code units \<open>String.prototype.trim\<close> removes: white space and line terminators.\<close>

definition is_js_space :: "16 word \<Rightarrow> bool" where
  "is_js_space u \<longleftrightarrow> (9 \<le> u \<and> u \<le> 13) \<or> u = 0x20 \<or> u = 0xA0 \<or> u = 0x1680 \<or>
     (0x2000 \<le> u \<and> u \<le> 0x200A) \<or> u = 0x2028 \<or> u = 0x2029 \<or> u = 0x202F \<or>
     u = 0x205F \<or> u = 0x3000 \<or> u = 0xFEFF"

definition js_trim :: "utf16 \<Rightarrow> utf16" where
  "js_trim t = rev (dropWhile is_js_space (rev (dropWhile is_js_space t)))"

lemma dropWhile_idem [simp]: "dropWhile P (dropWhile P xs) = dropWhile P xs"
  by (induction xs) auto

lemma dropWhile_eq_self: "xs \<noteq> [] \<Longrightarrow> \<not> P (hd xs) \<Longrightarrow> dropWhile P xs = xs"
  by (cases xs) auto

lemma js_trim_first: "js_trim t \<noteq> [] \<Longrightarrow> \<not> is_js_space (hd (js_trim t))"
proof -
  let ?d = "dropWhile is_js_space t"
  assume ne: "js_trim t \<noteq> []"
  obtain ys where split: "?d = js_trim t @ ys"
    by (metis js_trim_def rev_append rev_rev_ident takeWhile_dropWhile_id)
  have "?d \<noteq> []"
    using ne by (auto simp: js_trim_def dest: set_dropWhileD)
  then have "\<not> is_js_space (hd ?d)"
    by (metis dropWhile_eq_Cons_conv list.collapse)
  then show ?thesis
    using ne split by simp
qed

lemma js_trim_last: "js_trim t \<noteq> [] \<Longrightarrow> \<not> is_js_space (last (js_trim t))"
proof -
  let ?r = "dropWhile is_js_space (rev (dropWhile is_js_space t))"
  assume "js_trim t \<noteq> []"
  then have "?r \<noteq> []"
    by (auto simp: js_trim_def)
  then have "\<not> is_js_space (hd ?r)"
    by (metis dropWhile_eq_Cons_conv list.collapse)
  then show ?thesis
    by (simp add: js_trim_def last_rev)
qed

lemma js_trim_idem [simp]: "js_trim (js_trim t) = js_trim t"
proof (cases "js_trim t = []")
  case True
  show ?thesis
    unfolding True by (simp add: js_trim_def)
next
  case False
  then have "dropWhile is_js_space (js_trim t) = js_trim t"
    by (rule dropWhile_eq_self) (rule js_trim_first [OF False])
  moreover have "dropWhile is_js_space (rev (js_trim t)) = rev (js_trim t)"
    by (rule dropWhile_eq_self) (use False js_trim_last [OF False] in \<open>auto simp: hd_rev\<close>)
  ultimately show ?thesis
    by (simp add: js_trim_def [of "js_trim t"])
qed

lemma length_js_trim: "length (js_trim t) \<le> length t"
proof -
  have "length (js_trim t) \<le> length (dropWhile is_js_space t)"
    using length_dropWhile_le [of is_js_space "rev (dropWhile is_js_space t)"]
    by (simp add: js_trim_def)
  also have "\<dots> \<le> length t"
    by (simp only: length_rev length_dropWhile_le)
  finally show ?thesis .
qed

section \<open>Case and surrogates\<close>

text \<open>Lower case of an ASCII text.\<close>

definition to_lower :: "string \<Rightarrow> string" where
  "to_lower s = map (\<lambda>c. let n = of_char c :: nat in
     if 65 \<le> n \<and> n \<le> 90 then char_of (n + 32) else c) s"

definition high_surrogate :: "16 word \<Rightarrow> bool" where
  "high_surrogate u \<longleftrightarrow> 0xD800 \<le> u \<and> u \<le> 0xDBFF"

definition low_surrogate :: "16 word \<Rightarrow> bool" where
  "low_surrogate u \<longleftrightarrow> 0xDC00 \<le> u \<and> u \<le> 0xDFFF"

section \<open>Decimal rendering\<close>

definition digit :: "nat \<Rightarrow> char" where
  "digit d = char_of (48 + d)"

fun decimal :: "nat \<Rightarrow> string" where
  "decimal n = (if n < 10 then [digit n] else decimal (n div 10) @ [digit (n mod 10)])"

declare decimal.simps [simp del]

fun undecimal :: "string \<Rightarrow> nat" where
  "undecimal [] = 0"
| "undecimal s = fold (\<lambda>c n. 10 * n + (of_char c - 48)) s 0"

lemma of_char_digit [simp]: "d < 10 \<Longrightarrow> (of_char (digit d) :: nat) = 48 + d"
  by (simp add: digit_def)

lemma undecimal_decimal [simp]: "undecimal (decimal n) = n"
proof (induction n rule: decimal.induct)
  case (1 n)
  have fold_eq: "undecimal s = fold (\<lambda>c n. 10 * n + (of_char c - 48)) s 0" for s
    by (cases s) auto
  show ?case
    using 1 by (subst decimal.simps) (auto simp: fold_eq)
qed

lemma decimal_inject [simp]: "decimal m = decimal n \<longleftrightarrow> m = n"
  by (metis undecimal_decimal)

lemma decimal_digits: "c \<in> set (decimal n) \<Longrightarrow> \<exists>d<10. c = digit d"
proof (induction n rule: decimal.induct)
  case (1 n)
  show ?case
  proof (cases "n < 10")
    case True
    then show ?thesis
      using "1.prems" by (subst (asm) decimal.simps) auto
  next
    case False
    then have "c \<in> set (decimal (n div 10)) \<or> c = digit (n mod 10)"
      using "1.prems" by (subst (asm) decimal.simps) auto
    then show ?thesis
      using "1.IH" [OF False] mod_less_divisor [of 10 n] by (metis zero_less_numeral)
  qed
qed

lemma length_decimal: "n < 10 ^ w \<Longrightarrow> 0 < w \<Longrightarrow> length (decimal n) \<le> w"
proof (induction w arbitrary: n)
  case (Suc w)
  show ?case
  proof (cases "n < 10")
    case False
    then have "0 < w"
      using Suc.prems by (cases w) auto
    moreover have "n div 10 < 10 ^ w"
      using Suc.prems(1) by (simp add: less_mult_imp_div_less mult.commute)
    ultimately show ?thesis
      using Suc.IH [of "n div 10"] False by (subst decimal.simps) simp
  qed (simp add: decimal.simps)
qed simp

definition pad_start :: "nat \<Rightarrow> string \<Rightarrow> string" where
  "pad_start w s = replicate (w - length s) (CHR ''0'') @ s"

section \<open>JSON objects\<close>

datatype json =
    JNull
  | JBool bool
  | JNum int
  | JStr utf16
  | JArr "json list"
  | JObj "(string \<times> json) list"

abbreviation jstr :: "string \<Rightarrow> json" where
  "jstr s \<equiv> JStr (js s)"

fun jnullable :: "('a \<Rightarrow> json) \<Rightarrow> 'a option \<Rightarrow> json" where
  "jnullable f None = JNull"
| "jnullable f (Some x) = f x"

type_synonym json_obj = "(string \<times> json) list"

fun obj_put :: "string \<Rightarrow> json \<Rightarrow> json_obj \<Rightarrow> json_obj" where
  "obj_put k v [] = [(k, v)]"
| "obj_put k v ((k', v') # ob) = (if k = k' then (k, v) # ob else (k', v') # obj_put k v ob)"

text \<open>\<open>{ ...a, ...b }\<close>: the keys of \<open>b\<close> overwrite those of \<open>a\<close> in place, new keys go last.\<close>

definition obj_spread :: "json_obj \<Rightarrow> json_obj \<Rightarrow> json_obj" where
  "obj_spread a b = fold (\<lambda>(k, v) acc. obj_put k v acc) b a"

lemma map_of_obj_put [simp]: "map_of (obj_put k v a) = (map_of a)(k \<mapsto> v)"
  by (induction a) (auto simp: fun_eq_iff)

lemma map_of_obj_spread:
  "distinct (map fst b) \<Longrightarrow> map_of (obj_spread a b) = map_of a ++ map_of b"
proof (induction b arbitrary: a)
  case (Cons p b)
  obtain k v where p: "p = (k, v)" by (cases p)
  have k: "map_of b k = None"
    using Cons.prems p by (auto simp: map_of_eq_None_iff)
  have "map_of (obj_spread a (p # b)) = map_of (obj_spread (obj_put k v a) b)"
    by (simp add: obj_spread_def p)
  also have "\<dots> = (map_of a)(k \<mapsto> v) ++ map_of b"
    using Cons by (simp add: p)
  also have "\<dots> = map_of a ++ map_of (p # b)"
    using k by (auto simp: p fun_eq_iff map_add_def split: option.splits)
  finally show ?case .
qed (simp add: obj_spread_def)

lemma obj_spread_Nil [simp]: "obj_spread a [] = a"
  by (simp add: obj_spread_def)

fun json_field :: "string \<Rightarrow> json \<Rightarrow> json option" where
  "json_field k (JObj ob) = map_of ob k"
| "json_field k _ = None"

end
