(* ===== verification/Js_Date.thy ===== *)
theory Js_Date
  imports Js_Values
begin

text \<open>The part of \<open>Date\<close> the program uses: the civil (proleptic Gregorian) date of a day
  number, \<open>toISOString\<close>, and the parsing of a \<open>YYYY-MM-DD\<close> day at midnight UTC with which
  the expenses service rejects days that do not exist. Instants are milliseconds since the
  epoch; the limits of \<open>Date\<close> (about 270,000 years) are not modelled.\<close>

definition is_leap :: "int \<Rightarrow> bool" where
  "is_leap y \<longleftrightarrow> (y mod 4 = 0 \<and> y mod 100 \<noteq> 0) \<or> y mod 400 = 0"

definition month_days :: "int \<Rightarrow> int \<Rightarrow> int" where
  "month_days y m =
     (if m = 2 then (if is_leap y then 29 else 28)
      else if m = 4 \<or> m = 6 \<or> m = 9 \<or> m = 11 then 30 else 31)"

definition days_before_year :: "int \<Rightarrow> int" where
  "days_before_year y =
     365 * (y - 1970) + ((y - 1) div 4 - 492) - ((y - 1) div 100 - 19) + ((y - 1) div 400 - 4)"

definition days_before_month :: "int \<Rightarrow> int \<Rightarrow> int" where
  "days_before_month y m =
     (if m \<le> 1 then 0 else if m = 2 then 31
      else (case nat m of
          0 \<Rightarrow> 0 | Suc m' \<Rightarrow> [0, 31, 59, 90, 120, 151, 181, 212, 243, 273, 304, 334] ! m')
        + (if is_leap y then 1 else 0))"

definition days_from_civil :: "int \<Rightarrow> int \<Rightarrow> int \<Rightarrow> int" where
  "days_from_civil y m d = days_before_year y + days_before_month y m + (d - 1)"

definition valid_civil :: "int \<Rightarrow> int \<Rightarrow> int \<Rightarrow> bool" where
  "valid_civil y m d \<longleftrightarrow> 1 \<le> m \<and> m \<le> 12 \<and> 1 \<le> d \<and> d \<le> month_days y m"

text \<open>The year of a day number: the estimate from the mean year is off by at most one.\<close>

definition year_estimate :: "int \<Rightarrow> int" where
  "year_estimate z = 1970 + (z * 400) div 146097"

definition year_of_day :: "int \<Rightarrow> int" where
  "year_of_day z =
     (let y = year_estimate z in
      if z < days_before_year y then y - 1
      else if days_before_year (y + 1) \<le> z then y + 1 else y)"

definition month_of_day :: "int \<Rightarrow> int \<Rightarrow> int" where
  "month_of_day y n =
     (case find (\<lambda>m. n < days_before_month y (m + 1)) [1, 2, 3, 4, 5, 6, 7, 8, 9, 10, 11] of
        Some m \<Rightarrow> m | None \<Rightarrow> 12)"

definition civil_from_days :: "int \<Rightarrow> int \<times> int \<times> int" where
  "civil_from_days z =
     (let y = year_of_day z; n = z - days_before_year y; m = month_of_day y n
      in (y, m, n - days_before_month y m + 1))"

definition year_string :: "int \<Rightarrow> string" where
  "year_string y =
     (if 0 \<le> y \<and> y \<le> 9999 then pad_start 4 (decimal (nat y))
      else (if y < 0 then ''-'' else ''+'') @ pad_start 6 (decimal (nat \<bar>y\<bar>)))"

definition day_string :: "int \<Rightarrow> string" where
  "day_string z =
     (case civil_from_days z of (y, m, d) \<Rightarrow>
        year_string y @ ''-'' @ pad_start 2 (decimal (nat m)) @ ''-'' @
        pad_start 2 (decimal (nat d)))"

definition ms_per_day :: int where
  "ms_per_day = 86400000"

definition toISOString :: "instant \<Rightarrow> string" where
  "toISOString t =
     (let z = t div ms_per_day; r = t mod ms_per_day in
      day_string z @ ''T'' @
      pad_start 2 (decimal (nat (r div 3600000))) @ '':'' @
      pad_start 2 (decimal (nat (r div 60000 mod 60))) @ '':'' @
      pad_start 2 (decimal (nat (r div 1000 mod 60))) @ ''.'' @
      pad_start 3 (decimal (nat (r mod 1000))) @ ''Z'')"

section \<open>Parsing a day\<close>

definition is_digit :: "char \<Rightarrow> bool" where
  "is_digit c \<longleftrightarrow> (48::nat) \<le> of_char c \<and> (of_char c::nat) \<le> 57"

text \<open>\<open>new Date(value + 'T00:00:00.000Z')\<close> for a value of the form \<open>YYYY-MM-DD\<close>, as a day
  number: no value for a month outside 1 to 12 or a day outside 1 to 31; a day past the end of
  its month runs over into the next one.\<close>

definition js_parse_day :: "string \<Rightarrow> int option" where
  "js_parse_day v =
     (let y = int (undecimal (take 4 v)); m = int (undecimal (take 2 (drop 5 v)));
          d = int (undecimal (drop 8 v)) in
      if length v = 10 \<and> v ! 4 = CHR ''-'' \<and> v ! 7 = CHR ''-'' \<and>
         list_all is_digit (take 4 v) \<and> list_all is_digit (take 2 (drop 5 v)) \<and>
         list_all is_digit (drop 8 v) \<and> 1 \<le> m \<and> m \<le> 12 \<and> 1 \<le> d \<and> d \<le> 31
      then Some (days_from_civil y m d) else None)"

end
