(* ===== verification/Http_Errors.thy ===== *)
theory Http_Errors
  imports Js_Values Js_Date
begin

text \<open>Errors as values: the standard exceptions of the framework (a status, a message and the
  default label) and the coded exceptions of the activities contract
  (\<open>common/errors/coded.exception.ts\<close>), with the JSON body the global filter answers
  (\<open>common/filters/http-exception.filter.ts\<close>). A thrown value that is not an HTTP
  exception (a driver error) is \<open>internal_error\<close>.\<close>

datatype error_code =
    NOT_FOUND | FORBIDDEN | ALREADY_PAST | UNDO_WINDOW_EXPIRED | VALIDATION_FAILED
  | INVALID_TRANSITION

fun error_code_string :: "error_code \<Rightarrow> string" where
  "error_code_string NOT_FOUND = ''ACTIVITY_NOT_FOUND''"
| "error_code_string FORBIDDEN = ''ACTIVITY_FORBIDDEN''"
| "error_code_string ALREADY_PAST = ''ACTIVITY_ALREADY_PAST''"
| "error_code_string UNDO_WINDOW_EXPIRED = ''ACTIVITY_UNDO_WINDOW_EXPIRED''"
| "error_code_string VALIDATION_FAILED = ''VALIDATION_FAILED''"
| "error_code_string INVALID_TRANSITION = ''ACTIVITY_INVALID_TRANSITION''"

record http_error =
  err_status :: nat
  err_code :: "error_code option"
  err_message :: string
  err_label :: string
  err_details :: "json option"

definition httpErrorLabel :: "nat \<Rightarrow> string" where
  "httpErrorLabel status =
     (if status = 404 then ''Not Found''
      else if status = 403 then ''Forbidden''
      else if status = 409 then ''Conflict''
      else if status = 422 then ''Unprocessable Entity''
      else ''Error'')"

definition codedException :: "error_code \<Rightarrow> nat \<Rightarrow> string \<Rightarrow> json option \<Rightarrow> http_error" where
  "codedException code status message details =
     \<lparr>err_status = status, err_code = Some code, err_message = message,
      err_label = httpErrorLabel status, err_details = details\<rparr>"

definition activityNotFound :: http_error where
  "activityNotFound = codedException NOT_FOUND 404 ''Activity not found'' None"

definition activityForbidden :: "string \<Rightarrow> http_error" where
  "activityForbidden message = codedException FORBIDDEN 403 message None"

definition activityAlreadyPast :: http_error where
  "activityAlreadyPast = codedException ALREADY_PAST 409
     ''This activity has already ended and can no longer be acted on'' None"

datatype undo_action = Restore | Undo_decline

definition undoWindowExpired :: "undo_action \<Rightarrow> http_error" where
  "undoWindowExpired action = codedException UNDO_WINDOW_EXPIRED 409
     (''The '' @ (if action = Restore then ''delete'' else ''decline'') @
      '' undo window (5000 ms) has expired'') None"

definition activityInvalidTransition :: "string \<Rightarrow> string \<Rightarrow> string option \<Rightarrow> http_error" where
  "activityInvalidTransition from to message =
     codedException INVALID_TRANSITION 409
       (case message of
          Some m \<Rightarrow> m
        | None \<Rightarrow> ''Invalid activity transition: '' @ from @ '' -> '' @ to)
       (Some (JObj [(''from'', jstr from), (''to'', jstr to)]))"

definition validationFailed :: "string \<Rightarrow> http_error" where
  "validationFailed message = codedException VALIDATION_FAILED 422 message None"

section \<open>The framework's exceptions\<close>

definition plain_exception :: "nat \<Rightarrow> string \<Rightarrow> string \<Rightarrow> http_error" where
  "plain_exception status label message =
     \<lparr>err_status = status, err_code = None, err_message = message, err_label = label,
      err_details = None\<rparr>"

definition notFoundException :: "string \<Rightarrow> http_error" where
  "notFoundException = plain_exception 404 ''Not Found''"

definition badRequestException :: "string \<Rightarrow> http_error" where
  "badRequestException = plain_exception 400 ''Bad Request''"

definition forbiddenException :: "string \<Rightarrow> http_error" where
  "forbiddenException = plain_exception 403 ''Forbidden''"

definition conflictException :: "string \<Rightarrow> http_error" where
  "conflictException = plain_exception 409 ''Conflict''"

definition internal_error :: http_error where
  "internal_error = plain_exception 500 ''Internal Server Error'' ''Internal server error''"

text \<open>\<open>HttpExceptionFilter.catch\<close>: the code and the details appear only when the exception
  carries them.\<close>

definition error_body :: "http_error \<Rightarrow> instant \<Rightarrow> string \<Rightarrow> json" where
  "error_body e now path = JObj (
     [(''statusCode'', JNum (int (err_status e)))] @
     (case err_code e of None \<Rightarrow> [] | Some c \<Rightarrow> [(''code'', jstr (error_code_string c))]) @
     [(''message'', jstr (err_message e)), (''error'', jstr (err_label e))] @
     (case err_details e of None \<Rightarrow> [] | Some d \<Rightarrow> [(''details'', d)]) @
     [(''timestamp'', jstr (toISOString now)), (''path'', jstr path)])"

lemmas exception_defs =
  activityNotFound_def activityForbidden_def activityAlreadyPast_def undoWindowExpired_def
  activityInvalidTransition_def validationFailed_def codedException_def plain_exception_def
  notFoundException_def badRequestException_def forbiddenException_def conflictException_def
  internal_error_def

lemma error_code_string_inject [simp]: "error_code_string c = error_code_string d \<longleftrightarrow> c = d"
  by (cases c; cases d) simp_all

lemma error_body_code:
  "json_field ''code'' (error_body e now path) =
     map_option (\<lambda>c. jstr (error_code_string c)) (err_code e)"
  by (auto simp: error_body_def split: option.splits)

end
