(* ===== verification/Entities.thy ===== *)
theory Entities
  imports Http_Errors "HOL-Library.Option_ord"
begin

text \<open>The persisted rows (\<open>*.entity.ts\<close>): one record per TypeORM entity, one field per
  column, in the order of the class; relation properties (joins) are not columns and have no
  field. Enumerations are datatypes with the stored string of each constructor. Dates of type
  \<open>date\<close> are strings, \<open>timestamptz\<close> columns are instants, \<open>numeric(12,2)\<close> amounts are
  integers of hundredths.\<close>

section \<open>Bonds, members, children, categories, users\<close>

datatype criticality = CRITICAL | HIGH | MEDIUM | LOW

datatype bond_member_role = PROGENITOR | COORDINATOR | THIRD_PARTY

fun role_string :: "bond_member_role \<Rightarrow> string" where
  "role_string PROGENITOR = ''progenitor''"
| "role_string COORDINATOR = ''coordinador''"
| "role_string THIRD_PARTY = ''third_party''"

datatype agreement_type = FORMAL | INFORMAL

record bond_row =
  bond_id :: uuid
  bond_title :: utf16
  bond_agreementType :: agreement_type
  bond_courtCaseRef :: "utf16 option"
  bond_startDate :: "string option"
  bond_endDate :: "string option"
  bond_isActive :: bool
  bond_createdAt :: instant
  bond_updatedAt :: instant

record member_row =
  mem_id :: uuid
  mem_bondId :: uuid
  mem_userId :: uuid
  mem_role :: bond_member_role
  mem_joinedAt :: "instant option"
  mem_leftAt :: "instant option"
  mem_createdAt :: instant

record child_row =
  child_id :: uuid
  child_bondId :: uuid
  child_firstName :: utf16
  child_lastName :: utf16
  child_dateOfBirth :: "string option"
  child_createdAt :: instant
  child_updatedAt :: instant

record category_row =
  cat_id :: uuid
  cat_name :: utf16
  cat_description :: "utf16 option"
  cat_color :: "string option"
  cat_icon :: "string option"
  cat_criticality :: criticality
  cat_isActive :: bool
  cat_createdAt :: instant
  cat_updatedAt :: instant

record personal_data_row =
  pd_id :: uuid
  pd_userId :: uuid
  pd_firstName :: utf16
  pd_lastName :: utf16
  pd_phone :: "utf16 option"
  pd_avatarUrl :: "utf16 option"
  pd_dateOfBirth :: "string option"
  pd_createdAt :: instant
  pd_updatedAt :: instant

datatype system_role = Role_user | Role_admin

fun system_role_string :: "system_role \<Rightarrow> string" where
  "system_role_string Role_user = ''user''"
| "system_role_string Role_admin = ''admin''"

record user_row =
  user_id :: uuid
  user_email :: string
  user_passwordHash :: string
  user_systemRole :: system_role
  user_isActive :: bool
  user_createdAt :: instant
  user_updatedAt :: instant

section \<open>Activities\<close>

datatype activity_type = EVENT | OBLIGATION

datatype activity_status =
    CREATED | ASSIGNED | ASSISTING | IN_PROGRESS | VERIFY | DONE | OVERDUE | NOT_ASSISTING
  | CANCELLED

fun status_string :: "activity_status \<Rightarrow> string" where
  "status_string CREATED = ''created''"
| "status_string ASSIGNED = ''assigned''"
| "status_string ASSISTING = ''assisting''"
| "status_string IN_PROGRESS = ''in_progress''"
| "status_string VERIFY = ''verify''"
| "status_string DONE = ''done''"
| "status_string OVERDUE = ''overdue''"
| "status_string NOT_ASSISTING = ''not_assisting''"
| "status_string CANCELLED = ''cancelled''"

lemma status_string_inject [simp]: "status_string s = status_string t \<longleftrightarrow> s = t"
  by (cases s; cases t) simp_all

instantiation activity_status :: enum
begin

definition enum_activity_status :: "activity_status list" where
  "enum_activity_status =
     [CREATED, ASSIGNED, ASSISTING, IN_PROGRESS, VERIFY, DONE, OVERDUE, NOT_ASSISTING, CANCELLED]"

definition enum_all_activity_status :: "(activity_status \<Rightarrow> bool) \<Rightarrow> bool" where
  "enum_all_activity_status P \<longleftrightarrow> list_all P enum_class.enum"

definition enum_ex_activity_status :: "(activity_status \<Rightarrow> bool) \<Rightarrow> bool" where
  "enum_ex_activity_status P \<longleftrightarrow> list_ex P enum_class.enum"

instance
proof
  show "(UNIV :: activity_status set) = set enum_class.enum"
    by (auto simp: enum_activity_status_def intro: activity_status.exhaust)
  show "distinct (enum_class.enum :: activity_status list)"
    by (simp add: enum_activity_status_def)
  fix P :: "activity_status \<Rightarrow> bool"
  have all: "s \<in> set enum_class.enum" for s :: activity_status
    by (cases s) (simp_all add: enum_activity_status_def)
  show "enum_class.enum_all P \<longleftrightarrow> Ball UNIV P"
    using all by (auto simp: enum_all_activity_status_def list_all_iff)
  show "enum_class.enum_ex P \<longleftrightarrow> Bex UNIV P"
    using all by (auto simp: enum_ex_activity_status_def list_ex_iff)
qed

end

lemma all_statuses:
  "(\<forall>s :: activity_status. P s) \<longleftrightarrow>
     P CREATED \<and> P ASSIGNED \<and> P ASSISTING \<and> P IN_PROGRESS \<and> P VERIFY \<and> P DONE \<and> P OVERDUE \<and>
     P NOT_ASSISTING \<and> P CANCELLED"
  using activity_status.exhaust by metis

record activity_row =
  act_id :: uuid
  act_bondId :: uuid
  act_categoryId :: uuid
  act_type :: activity_type
  act_status :: activity_status
  act_version :: int
  act_criticality :: criticality
  act_title :: utf16
  act_description :: utf16
  act_createdBy :: uuid
  act_assignedTo :: "uuid option"
  act_scheduledStart :: "instant option"
  act_scheduledEnd :: "instant option"
  act_deadline :: "instant option"
  act_notifBefore :: "string option"
  act_notifAfter :: "string option"
  act_confirmedAt :: "instant option"
  act_cancelledAt :: "instant option"
  act_cancelledBy :: "uuid option"
  act_deletedAt :: "instant option"
  act_declinedAt :: "instant option"
  act_declinedReason :: "utf16 option"
  act_completedAt :: "instant option"
  act_verifyAt :: "instant option"
  act_resolvedStatus :: "activity_status option"
  act_createdAt :: instant
  act_updatedAt :: instant

record activity_child_row =
  ac_id :: uuid
  ac_activityId :: uuid
  ac_childId :: uuid
  ac_createdAt :: instant

record act_attachment_row =
  aa_id :: uuid
  aa_activityId :: uuid
  aa_fileUrl :: utf16
  aa_fileName :: utf16
  aa_fileType :: string
  aa_uploadedBy :: uuid
  aa_uploadedAt :: instant

section \<open>Outbox and audit\<close>

datatype aggregate_type = Agg_activity | Agg_expense

fun aggregate_string :: "aggregate_type \<Rightarrow> string" where
  "aggregate_string Agg_activity = ''activity''"
| "aggregate_string Agg_expense = ''expense''"

record outbox_row =
  ob_id :: uuid
  ob_aggregateType :: aggregate_type
  ob_aggregateId :: uuid
  ob_bondId :: uuid
  ob_eventType :: string
  ob_aggregateVersion :: int
  ob_payload :: json_obj
  ob_createdAt :: instant
  ob_dispatchedAt :: "instant option"

record audit_row =
  au_bondId :: "uuid option"
  au_userId :: uuid
  au_entityType :: string
  au_entityId :: "uuid option"
  au_action :: string
  au_oldValue :: "json_obj option"
  au_newValue :: "json_obj option"
  au_detail :: "utf16 option"
  au_ipAddress :: "string option"
  au_userAgent :: "string option"
  au_createdAt :: instant

section \<open>Expenses\<close>

datatype expense_status = PENDING | APPROVED | REJECTED | PAID

fun expense_status_string :: "expense_status \<Rightarrow> string" where
  "expense_status_string PENDING = ''pending''"
| "expense_status_string APPROVED = ''approved''"
| "expense_status_string REJECTED = ''rejected''"
| "expense_status_string PAID = ''paid''"

lemma expense_status_string_inject [simp]:
  "expense_status_string s = expense_status_string t \<longleftrightarrow> s = t"
  by (cases s; cases t) simp_all

record expense_row =
  exp_id :: uuid
  exp_bondId :: uuid
  exp_childId :: "uuid option"
  exp_categoryId :: "uuid option"
  exp_activityId :: "uuid option"
  exp_concept :: utf16
  exp_description :: "utf16 option"
  exp_amount :: int
  exp_expenseDate :: string
  exp_splitRatioPayer :: int
  exp_splitRatioOther :: int
  exp_status :: expense_status
  exp_requestedBy :: uuid
  exp_approvedBy :: "uuid option"
  exp_approvedAt :: "instant option"
  exp_paidAt :: "instant option"
  exp_deletedAt :: "instant option"
  exp_createdAt :: instant
  exp_updatedAt :: instant

record expense_attachment_row =
  ea_id :: uuid
  ea_expenseId :: uuid
  ea_fileUrl :: utf16
  ea_fileName :: utf16
  ea_fileType :: string
  ea_uploadedBy :: uuid
  ea_uploadedAt :: instant

section \<open>Notifications\<close>

record notification_row =
  nt_id :: uuid
  nt_userId :: uuid
  nt_bondId :: "uuid option"
  nt_type :: string
  nt_title :: utf16
  nt_body :: utf16
  nt_refEntityType :: string
  nt_refEntityId :: "uuid option"
  nt_sourceEventId :: "uuid option"
  nt_isRead :: bool
  nt_createdAt :: instant

section \<open>Webhooks\<close>

datatype subscription_status = SUB_ACTIVE | SUB_DISABLED | SUB_AUTO_DISABLED

fun subscription_status_string :: "subscription_status \<Rightarrow> string" where
  "subscription_status_string SUB_ACTIVE = ''ACTIVE''"
| "subscription_status_string SUB_DISABLED = ''DISABLED''"
| "subscription_status_string SUB_AUTO_DISABLED = ''AUTO_DISABLED''"

record subscription_row =
  sub_id :: uuid
  sub_bondId :: uuid
  sub_createdBy :: uuid
  sub_url :: string
  sub_description :: "utf16 option"
  sub_eventTypes :: "string list"
  sub_secretEncrypted :: string
  sub_secretPrevEncrypted :: "string option"
  sub_secretPrevExpiresAt :: "instant option"
  sub_status :: subscription_status
  sub_consecutiveFailureSince :: "instant option"
  sub_createdAt :: instant
  sub_updatedAt :: instant

datatype delivery_status = D_PENDING | D_RETRYING | D_SUCCEEDED | D_FAILED | D_DEAD

fun delivery_status_string :: "delivery_status \<Rightarrow> string" where
  "delivery_status_string D_PENDING = ''PENDING''"
| "delivery_status_string D_RETRYING = ''RETRYING''"
| "delivery_status_string D_SUCCEEDED = ''SUCCEEDED''"
| "delivery_status_string D_FAILED = ''FAILED''"
| "delivery_status_string D_DEAD = ''DEAD''"

record delivery_row =
  del_id :: uuid
  del_eventId :: uuid
  del_subscriptionId :: uuid
  del_status :: delivery_status
  del_attemptCount :: int
  del_nextAttemptAt :: "instant option"
  del_lastStatusCode :: "int option"
  del_lastError :: "utf16 option"
  del_createdAt :: instant
  del_completedAt :: "instant option"

record attempt_row =
  att_id :: uuid
  att_deliveryId :: uuid
  att_attemptNo :: int
  att_startedAt :: instant
  att_durationMs :: "int option"
  att_statusCode :: "int option"
  att_responseSnippet :: "utf16 option"
  att_error :: "utf16 option"

section \<open>Reports\<close>

datatype report_status = R_REQUESTED | R_IN_PROGRESS | R_COMPLETED | R_DELIVERED

record report_row =
  rep_id :: uuid
  rep_bondId :: uuid
  rep_requestedBy :: uuid
  rep_generatedBy :: "uuid option"
  rep_dateFrom :: string
  rep_dateTo :: string
  rep_status :: report_status
  rep_fileUrl :: "utf16 option"
  rep_generatedAt :: "instant option"
  rep_createdAt :: instant

end
