(* ===== verification/Database.thy ===== *)
theory Database
  imports Entities
begin

text \<open>The state: the Postgres tables the modelled components read and write, as lists of rows
  in insertion order, and the environment of one request (the clock readings of \<open>Clock.now()\<close>
  in the order they are taken, the clock of the database, the ids \<open>uuid\<close> columns generate and
  the configuration). A transaction of the code is a function from database to database: it
  either produces the new database or the old one is kept.\<close>

record db =
  db_bonds :: "bond_row list"
  db_members :: "member_row list"
  db_children :: "child_row list"
  db_categories :: "category_row list"
  db_personal :: "personal_data_row list"
  db_activities :: "activity_row list"
  db_activity_children :: "activity_child_row list"
  db_outbox :: "outbox_row list"
  db_audit :: "audit_row list"
  db_expenses :: "expense_row list"
  db_expense_attachments :: "expense_attachment_row list"
  db_notifications :: "notification_row list"
  db_subscriptions :: "subscription_row list"
  db_deliveries :: "delivery_row list"
  db_attempts :: "attempt_row list"
  db_users :: "user_row list"
  db_act_attachments :: "act_attachment_row list"
  db_reports :: "report_row list"

definition empty_db :: db where
  "empty_db =
     \<lparr>db_bonds = [], db_members = [], db_children = [], db_categories = [], db_personal = [],
      db_activities = [], db_activity_children = [], db_outbox = [], db_audit = [],
      db_expenses = [], db_expense_attachments = [], db_notifications = [],
      db_subscriptions = [], db_deliveries = [], db_attempts = [],
      db_users = [], db_act_attachments = [], db_reports = []\<rparr>"

text \<open>\<open>env_clock n\<close> is the n-th reading of the service clock within the request,
  \<open>env_uuid n\<close> the n-th id the database generates in it.\<close>

record env =
  env_clock :: "nat \<Rightarrow> instant"
  env_dbnow :: instant
  env_uuid :: "nat \<Rightarrow> uuid"
  env_response_timeout_hours :: "int option"
  env_min_lead_time_hours :: "int option"

definition tick :: "nat \<Rightarrow> env \<Rightarrow> env" where
  "tick n e = e\<lparr>env_clock := (\<lambda>i. env_clock e (n + i))\<rparr>"

lemma tick_simps [simp]:
  "env_clock (tick n e) i = env_clock e (n + i)"
  "env_dbnow (tick n e) = env_dbnow e"
  "env_uuid (tick n e) = env_uuid e"
  "env_response_timeout_hours (tick n e) = env_response_timeout_hours e"
  "env_min_lead_time_hours (tick n e) = env_min_lead_time_hours e"
  by (simp_all add: tick_def)

text \<open>Generated ids do not repeat and are not in use: the documented behaviour of the
  \<open>uuid\<close> default of the id columns.\<close>

definition fresh_ids :: "env \<Rightarrow> db \<Rightarrow> bool" where
  "fresh_ids e d \<longleftrightarrow> inj (env_uuid e) \<and>
     (\<forall>n. env_uuid e n \<notin> act_id ` set (db_activities d) \<and>
          env_uuid e n \<notin> exp_id ` set (db_expenses d) \<and>
          env_uuid e n \<notin> ob_id ` set (db_outbox d) \<and>
          env_uuid e n \<notin> nt_id ` set (db_notifications d) \<and>
          env_uuid e n \<notin> del_id ` set (db_deliveries d))"

text \<open>The outcome of a request that writes: the answer or the error, and the database, which has
  changed when the transaction committed even if reading the answer back fails.\<close>

type_synonym 'a served = "(http_error + 'a) \<times> db"

end
