(* ===== verification/Bonds.thy ===== *)
theory Bonds
  imports Database
begin

text \<open>Bonds and their members (\<open>bonds/\<close>): the membership test every service starts with, the
  role, coordinator and member queries, the display names, and the child and category lookups
  of the create operations. All are reads.\<close>

section \<open>Repositories\<close>

text \<open>The inner join of \<open>existsActiveBondForMember\<close>: a member row of that bond and user that
  has not left, and the bond row itself active.\<close>

definition existsActiveBondForMember :: "db \<Rightarrow> uuid \<Rightarrow> uuid \<Rightarrow> bool" where
  "existsActiveBondForMember d bondId userId =
     list_ex (\<lambda>b. bond_id b = bondId \<and> bond_isActive b \<and>
        list_ex (\<lambda>m. mem_bondId m = bondId \<and> mem_userId m = userId \<and> mem_leftAt m = None)
          (db_members d)) (db_bonds d)"

definition isActiveBondForMember :: "db \<Rightarrow> uuid \<Rightarrow> uuid \<Rightarrow> bool" where
  "isActiveBondForMember d bondId userId = existsActiveBondForMember d bondId userId"

definition findActiveBondForMember :: "db \<Rightarrow> uuid \<Rightarrow> uuid \<Rightarrow> bond_row option" where
  "findActiveBondForMember d bondId userId =
     find (\<lambda>b. bond_id b = bondId \<and>
        list_ex (\<lambda>m. mem_bondId m = bondId \<and> mem_userId m = userId \<and> mem_leftAt m = None)
          (db_members d)) (db_bonds d)"

definition findOneByBondAndUser :: "db \<Rightarrow> uuid \<Rightarrow> uuid \<Rightarrow> member_row option" where
  "findOneByBondAndUser d bondId userId =
     find (\<lambda>m. mem_bondId m = bondId \<and> mem_userId m = userId) (db_members d)"

definition findCoordinator :: "db \<Rightarrow> uuid \<Rightarrow> member_row option" where
  "findCoordinator d bondId =
     find (\<lambda>m. mem_bondId m = bondId \<and> mem_role m = COORDINATOR \<and> mem_leftAt m = None)
       (db_members d)"

definition findActiveMemberIds :: "db \<Rightarrow> uuid \<Rightarrow> uuid list" where
  "findActiveMemberIds d bondId =
     map mem_userId (filter (\<lambda>m. mem_bondId m = bondId \<and> mem_leftAt m = None) (db_members d))"

definition display_name :: "personal_data_row option \<Rightarrow> utf16" where
  "display_name pd =
     (case pd of None \<Rightarrow> []
      | Some p \<Rightarrow>
          (let parts = filter (\<lambda>part. js_trim part \<noteq> []) [pd_firstName p, pd_lastName p]
           in js_trim (case parts of [] \<Rightarrow> [] | [a] \<Rightarrow> a | a # b # _ \<Rightarrow> a @ js '' '' @ b)))"

text \<open>The \<open>Map\<close> of names: a later row of the same user overwrites; nameless users are absent.\<close>

definition findMemberNames :: "db \<Rightarrow> uuid \<Rightarrow> uuid \<Rightarrow> utf16 option" where
  "findMemberNames d bondId =
     fold (\<lambda>m names.
         (let name = display_name (lookup_by pd_userId (mem_userId m) (db_personal d)) in
          if name \<noteq> [] then names(mem_userId m \<mapsto> name) else names))
       (filter (\<lambda>m. mem_bondId m = bondId) (db_members d)) Map.empty"

definition findByIdsAndBond :: "db \<Rightarrow> uuid list \<Rightarrow> uuid \<Rightarrow> child_row list" where
  "findByIdsAndBond d ids bondId =
     filter (\<lambda>c. child_id c \<in> set ids \<and> child_bondId c = bondId) (db_children d)"

definition findActiveCategoryById :: "db \<Rightarrow> uuid \<Rightarrow> category_row option" where
  "findActiveCategoryById d i = find (\<lambda>c. cat_id c = i \<and> cat_isActive c) (db_categories d)"

text \<open>The bonds of \<open>BondsService.findByUserId\<close>: active, with the user as an active member, and,
  by the inner join, with a child.\<close>

definition findBondsByUserId :: "db \<Rightarrow> uuid \<Rightarrow> bond_row list" where
  "findBondsByUserId d userId =
     rev (sort_key bond_createdAt
       (filter (\<lambda>b. bond_isActive b \<and>
          list_ex (\<lambda>m. mem_bondId m = bond_id b \<and> mem_userId m = userId \<and> mem_leftAt m = None)
            (db_members d) \<and>
          list_ex (\<lambda>c. child_bondId c = bond_id b) (db_children d)) (db_bonds d)))"

section \<open>Facts\<close>

lemma isActiveBondForMember_iff:
  "isActiveBondForMember d b u \<longleftrightarrow>
     (\<exists>r \<in> set (db_bonds d). bond_id r = b \<and> bond_isActive r) \<and>
     (\<exists>m \<in> set (db_members d). mem_bondId m = b \<and> mem_userId m = u \<and> mem_leftAt m = None)"
  by (auto simp: isActiveBondForMember_def existsActiveBondForMember_def list_ex_iff)

lemma member_in_active_ids:
  "isActiveBondForMember d b u \<Longrightarrow> u \<in> set (findActiveMemberIds d b)"
  by (auto simp: isActiveBondForMember_iff findActiveMemberIds_def)

lemma active_ids_member:
  "u \<in> set (findActiveMemberIds d b) \<Longrightarrow>
     \<exists>m \<in> set (db_members d). mem_bondId m = b \<and> mem_userId m = u \<and> mem_leftAt m = None"
  by (auto simp: findActiveMemberIds_def)

lemma member_has_role:
  "isActiveBondForMember d b u \<Longrightarrow> findOneByBondAndUser d b u \<noteq> None"
  by (auto simp: isActiveBondForMember_iff findOneByBondAndUser_def find_None_iff)

text \<open>The membership reads depend on the bond tables only.\<close>

lemma membership_frame:
  assumes "db_bonds d' = db_bonds d" and "db_members d' = db_members d"
  shows "isActiveBondForMember d' b u = isActiveBondForMember d b u"
    and "findActiveMemberIds d' b = findActiveMemberIds d b"
    and "findOneByBondAndUser d' b u = findOneByBondAndUser d b u"
    and "findCoordinator d' b = findCoordinator d b"
  by (simp_all add: assms isActiveBondForMember_def existsActiveBondForMember_def
      findActiveMemberIds_def findOneByBondAndUser_def findCoordinator_def)

end
