(* ===== verification/Outbox.thy ===== *)
theory Outbox
  imports Database
begin

text \<open>The transactional outbox (\<open>outbox/repositories/outbox-event.repository.ts\<close>): the insert
  the activity and expense transactions do, the reads of the relay and the purge of dispatched
  rows. A row is written once; only its dispatch mark ever changes.\<close>

record outbox_input =
  in_aggregateType :: aggregate_type
  in_aggregateId :: uuid
  in_bondId :: uuid
  in_eventType :: string
  in_aggregateVersion :: int
  in_payload :: json_obj

definition outbox_insert :: "uuid \<Rightarrow> instant \<Rightarrow> outbox_input \<Rightarrow> db \<Rightarrow> db" where
  "outbox_insert newId at row d =
     d\<lparr>db_outbox := db_outbox d @
        [\<lparr>ob_id = newId,
          ob_aggregateType = in_aggregateType row,
          ob_aggregateId = in_aggregateId row,
          ob_bondId = in_bondId row,
          ob_eventType = in_eventType row,
          ob_aggregateVersion = in_aggregateVersion row,
          ob_payload = in_payload row,
          ob_createdAt = at,
          ob_dispatchedAt = None\<rparr>]\<rparr>"

definition findOutboxById :: "db \<Rightarrow> uuid \<Rightarrow> outbox_row option" where
  "findOutboxById d i = lookup_by ob_id i (db_outbox d)"

definition is_pending :: "outbox_row \<Rightarrow> bool" where
  "is_pending o1 \<longleftrightarrow> ob_dispatchedAt o1 = None"

definition findPending :: "nat \<Rightarrow> db \<Rightarrow> outbox_row list" where
  "findPending limit d = take limit (sort_key ob_createdAt (filter is_pending (db_outbox d)))"

definition markDispatched :: "uuid \<Rightarrow> instant \<Rightarrow> db \<Rightarrow> db" where
  "markDispatched i at d =
     d\<lparr>db_outbox := update_by ob_id i (\<lambda>r. r\<lparr>ob_dispatchedAt := Some at\<rparr>) (db_outbox d)\<rparr>"

definition oldestPendingCreatedAt :: "db \<Rightarrow> instant option" where
  "oldestPendingCreatedAt d =
     (case sort_key ob_createdAt (filter is_pending (db_outbox d)) of
        [] \<Rightarrow> None | r # _ \<Rightarrow> Some (ob_createdAt r))"

definition purgeable :: "instant \<Rightarrow> outbox_row \<Rightarrow> bool" where
  "purgeable before r \<longleftrightarrow> (case ob_dispatchedAt r of None \<Rightarrow> False | Some t \<Rightarrow> t < before)"

definition purgeDispatchedBefore :: "instant \<Rightarrow> db \<Rightarrow> db \<times> nat" where
  "purgeDispatchedBefore before d =
     (let gone = filter (purgeable before) (db_outbox d);
          gone_ids = set (map ob_id gone);
          gone_del = set (map del_id (filter (\<lambda>v. del_eventId v \<in> gone_ids) (db_deliveries d))) in
      (d\<lparr>db_outbox := filter (\<lambda>r. \<not> purgeable before r) (db_outbox d),
         db_deliveries := filter (\<lambda>v. del_eventId v \<notin> gone_ids) (db_deliveries d),
         db_attempts := filter (\<lambda>a. att_deliveryId a \<notin> gone_del) (db_attempts d)\<rparr>,
       length gone))"

section \<open>Facts\<close>

lemma outbox_insert_frame [simp]:
  "db_activities (outbox_insert i t row d) = db_activities d"
  "db_activity_children (outbox_insert i t row d) = db_activity_children d"
  "db_expenses (outbox_insert i t row d) = db_expenses d"
  "db_bonds (outbox_insert i t row d) = db_bonds d"
  "db_members (outbox_insert i t row d) = db_members d"
  "db_audit (outbox_insert i t row d) = db_audit d"
  by (simp_all add: outbox_insert_def)

lemma db_outbox_insert:
  "\<exists>r. db_outbox (outbox_insert i t row d) = db_outbox d @ [r] \<and>
     ob_id r = i \<and> ob_aggregateType r = in_aggregateType row \<and>
     ob_aggregateId r = in_aggregateId row \<and> ob_bondId r = in_bondId row \<and>
     ob_eventType r = in_eventType row \<and> ob_aggregateVersion r = in_aggregateVersion row \<and>
     ob_payload r = in_payload row \<and> ob_dispatchedAt r = None"
  by (simp add: outbox_insert_def)

lemma findPending_set: "set (findPending limit d) \<subseteq> {r \<in> set (db_outbox d). is_pending r}"
  by (auto simp: findPending_def dest: in_set_takeD)

lemma findPending_length: "length (findPending limit d) \<le> limit"
  by (simp add: findPending_def)

lemma findPending_sorted: "sorted (map ob_createdAt (findPending limit d))"
  by (simp add: findPending_def take_map [symmetric] sorted_wrt_take)

lemma findPending_all:
  "length (filter is_pending (db_outbox d)) \<le> limit \<Longrightarrow>
     set (findPending limit d) = {r \<in> set (db_outbox d). is_pending r}"
  by (simp add: findPending_def)

lemma oldestPending_le:
  assumes "r \<in> set (db_outbox d)" and "is_pending r"
  shows "\<exists>t. oldestPendingCreatedAt d = Some t \<and> t \<le> ob_createdAt r"
proof -
  let ?s = "sort_key ob_createdAt (filter is_pending (db_outbox d))"
  have r: "r \<in> set ?s"
    using assms by simp
  have "sorted (map ob_createdAt ?s)"
    by simp
  then show ?thesis
    using r by (cases ?s) (auto simp: oldestPendingCreatedAt_def)
qed

end
