(* ===== verification/Activity_Transition_Map.thy ===== *)
theory Activity_Transition_Map
  imports Entities
begin

text \<open>The closed map of activity transitions (\<open>activities/activity-transition.map.ts\<close>): the
  rules in the order of the source, the map keyed by \<open>from->to\<close> (a later rule with the same
  key wins, as in \<open>new Map\<close>) and the initial states of \<open>create\<close>.\<close>

datatype transition_actor = Assignee | Bond_member | System

datatype transition_id =
    T1 | T2 | T3 | T5 | T6 | T7 | T8 | T9 | T10 | T11 | T12 | T13 | T14 | T15 | T16

datatype deadline_effect = Deadline_set | Deadline_clear

text \<open>\<open>Some True\<close> stamps the column, \<open>Some False\<close> clears it, \<open>None\<close> (undefined) leaves it.\<close>

record side_effects =
  se_deadline :: "deadline_effect option"
  se_confirmedAt :: "bool option"
  se_cancelledAt :: "bool option"
  se_declinedAt :: "bool option"
  se_completedAt :: "bool option"
  se_verifyAt :: "bool option"

definition no_effects :: side_effects where
  "no_effects = \<lparr>se_deadline = None, se_confirmedAt = None, se_cancelledAt = None,
                 se_declinedAt = None, se_completedAt = None, se_verifyAt = None\<rparr>"

datatype activity_event =
    EV_CREATED | EV_ASSIGNED | EV_UNASSIGNED | EV_ASSISTING | EV_IN_PROGRESS | EV_VERIFY
  | EV_VERIFY_EXPIRED | EV_CREATED_OVERDUE | EV_OVERDUE | EV_NOT_ASSISTING | EV_DONE
  | EV_CANCELLED

fun ACTIVITY_EVENT :: "activity_event \<Rightarrow> string" where
  "ACTIVITY_EVENT EV_CREATED = ''activity.created''"
| "ACTIVITY_EVENT EV_ASSIGNED = ''activity.assigned''"
| "ACTIVITY_EVENT EV_UNASSIGNED = ''activity.unassigned''"
| "ACTIVITY_EVENT EV_ASSISTING = ''activity.assisting''"
| "ACTIVITY_EVENT EV_IN_PROGRESS = ''activity.in_progress''"
| "ACTIVITY_EVENT EV_VERIFY = ''activity.verify''"
| "ACTIVITY_EVENT EV_VERIFY_EXPIRED = ''activity.verify_expired''"
| "ACTIVITY_EVENT EV_CREATED_OVERDUE = ''activity.created_overdue''"
| "ACTIVITY_EVENT EV_OVERDUE = ''activity.overdue''"
| "ACTIVITY_EVENT EV_NOT_ASSISTING = ''activity.not_assisting''"
| "ACTIVITY_EVENT EV_DONE = ''activity.done''"
| "ACTIVITY_EVENT EV_CANCELLED = ''activity.cancelled''"

record transition_rule =
  rule_id :: transition_id
  rule_from :: activity_status
  rule_to :: activity_status
  rule_actors :: "transition_actor list"
  rule_requireAssignee :: bool
  rule_sideEffects :: side_effects
  rule_event :: activity_event

definition mk_rule ::
  "transition_id \<Rightarrow> activity_status \<Rightarrow> activity_status \<Rightarrow> transition_actor list \<Rightarrow> bool \<Rightarrow>
   side_effects \<Rightarrow> activity_event \<Rightarrow> transition_rule" where
  "mk_rule i from to actors req effects ev =
     \<lparr>rule_id = i, rule_from = from, rule_to = to, rule_actors = actors,
      rule_requireAssignee = req, rule_sideEffects = effects, rule_event = ev\<rparr>"

definition CANCEL_EFFECTS :: side_effects where
  "CANCEL_EFFECTS = no_effects\<lparr>se_deadline := Some Deadline_clear,
     se_cancelledAt := Some True, se_verifyAt := Some False\<rparr>"

definition CANCEL_SOURCES :: "activity_status list" where
  "CANCEL_SOURCES = [CREATED, ASSIGNED, ASSISTING, NOT_ASSISTING, OVERDUE, IN_PROGRESS, VERIFY]"

definition RULES :: "transition_rule list" where
  "RULES =
   [ mk_rule T3 CREATED ASSIGNED [Bond_member] False
       (no_effects\<lparr>se_deadline := Some Deadline_set\<rparr>) EV_ASSIGNED,
     mk_rule T5 ASSIGNED ASSISTING [Assignee] True
       (no_effects\<lparr>se_deadline := Some Deadline_clear, se_confirmedAt := Some True\<rparr>)
       EV_ASSISTING,
     mk_rule T6 ASSIGNED NOT_ASSISTING [Assignee] True
       (no_effects\<lparr>se_deadline := Some Deadline_clear, se_declinedAt := Some True\<rparr>)
       EV_NOT_ASSISTING,
     mk_rule T7 ASSIGNED OVERDUE [System] False no_effects EV_OVERDUE,
     mk_rule T8 OVERDUE NOT_ASSISTING [Assignee] True
       (no_effects\<lparr>se_declinedAt := Some True\<rparr>) EV_NOT_ASSISTING,
     mk_rule T9 NOT_ASSISTING ASSIGNED [Bond_member] False
       (no_effects\<lparr>se_deadline := Some Deadline_set, se_declinedAt := Some False,
                   se_confirmedAt := Some False\<rparr>) EV_ASSIGNED,
     mk_rule T10 ASSISTING IN_PROGRESS [System] False no_effects EV_IN_PROGRESS,
     mk_rule T11 IN_PROGRESS DONE [Bond_member] False
       (no_effects\<lparr>se_completedAt := Some True\<rparr>) EV_DONE,
     mk_rule T12 IN_PROGRESS VERIFY [System] False
       (no_effects\<lparr>se_deadline := Some Deadline_set, se_verifyAt := Some True\<rparr>) EV_VERIFY,
     mk_rule T13 VERIFY DONE [Bond_member] False
       (no_effects\<lparr>se_deadline := Some Deadline_clear, se_completedAt := Some True,
                   se_verifyAt := Some False\<rparr>) EV_DONE,
     mk_rule T14 VERIFY OVERDUE [System] False
       (no_effects\<lparr>se_deadline := Some Deadline_clear\<rparr>) EV_VERIFY_EXPIRED,
     mk_rule T16 CREATED OVERDUE [System] False
       (no_effects\<lparr>se_deadline := Some Deadline_clear\<rparr>) EV_CREATED_OVERDUE ] @
   map (\<lambda>from. mk_rule T15 from CANCELLED [Bond_member] False CANCEL_EFFECTS EV_CANCELLED)
     CANCEL_SOURCES"

definition transition_key :: "activity_status \<Rightarrow> activity_status \<Rightarrow> string" where
  "transition_key from to = status_string from @ ''->'' @ status_string to"

definition TRANSITIONS :: "string \<Rightarrow> transition_rule option" where
  "TRANSITIONS = map_of (rev (map (\<lambda>r. (transition_key (rule_from r) (rule_to r), r)) RULES))"

definition resolveTransition :: "activity_status \<Rightarrow> activity_status \<Rightarrow> transition_rule option" where
  "resolveTransition from to = TRANSITIONS (transition_key from to)"

record initial_transition =
  init_status :: activity_status
  init_event :: activity_event

definition resolveInitial :: "bool \<Rightarrow> initial_transition" where
  "resolveInitial hasAssignee =
     (if hasAssignee then \<lparr>init_status = ASSIGNED, init_event = EV_ASSIGNED\<rparr>
      else \<lparr>init_status = CREATED, init_event = EV_CREATED\<rparr>)"

definition TERMINAL_ACTIVITY_STATUSES :: "activity_status list" where
  "TERMINAL_ACTIVITY_STATUSES = [CANCELLED, DONE]"

section \<open>Facts\<close>

text \<open>A status string has no dash, so the key determines both ends.\<close>

lemma transition_key_inject:
  "transition_key f t = transition_key f' t' \<longleftrightarrow> f = f' \<and> t = t'"
proof
  have from_end: "takeWhile (\<lambda>c. c \<noteq> CHR ''-'') (transition_key a b) = status_string a" for a b
    by (cases a) (simp_all add: transition_key_def)
  assume eq: "transition_key f t = transition_key f' t'"
  have "f = f'"
    using from_end [of f t] from_end [of f' t'] by (simp add: eq)
  moreover have "t = t'"
    using eq \<open>f = f'\<close> by (simp add: transition_key_def)
  ultimately show "f = f' \<and> t = t'" ..
qed simp

lemma mk_rule_simps [simp]:
  "rule_id (mk_rule i f t as rq se ev) = i"
  "rule_from (mk_rule i f t as rq se ev) = f"
  "rule_to (mk_rule i f t as rq se ev) = t"
  "rule_actors (mk_rule i f t as rq se ev) = as"
  "rule_requireAssignee (mk_rule i f t as rq se ev) = rq"
  "rule_sideEffects (mk_rule i f t as rq se ev) = se"
  "rule_event (mk_rule i f t as rq se ev) = ev"
  by (simp_all add: mk_rule_def)

lemma no_effects_simps [simp]:
  "se_deadline no_effects = None"
  "se_confirmedAt no_effects = None"
  "se_cancelledAt no_effects = None"
  "se_declinedAt no_effects = None"
  "se_completedAt no_effects = None"
  "se_verifyAt no_effects = None"
  by (simp_all add: no_effects_def)

lemma ACTIVITY_EVENT_inject [simp]: "ACTIVITY_EVENT a = ACTIVITY_EVENT b \<longleftrightarrow> a = b"
  by (cases a; cases b) simp_all

lemma resolveTransition_find:
  "resolveTransition f t = find (\<lambda>r. rule_from r = f \<and> rule_to r = t) (rev RULES)"
proof -
  have "map_of (map (\<lambda>r. (transition_key (rule_from r) (rule_to r), r)) rs) (transition_key f t) =
        find (\<lambda>r. rule_from r = f \<and> rule_to r = t) rs" for rs
    by (induction rs) (auto simp: transition_key_inject)
  then show ?thesis
    by (simp add: resolveTransition_def TRANSITIONS_def rev_map)
qed

lemma rules_have_distinct_ends: "distinct (map (\<lambda>r. (rule_from r, rule_to r)) RULES)"
  by (simp add: RULES_def CANCEL_SOURCES_def)

lemma resolveTransition_Some_iff:
  "resolveTransition f t = Some r \<longleftrightarrow> r \<in> set RULES \<and> rule_from r = f \<and> rule_to r = t"
proof
  assume "resolveTransition f t = Some r"
  then show "r \<in> set RULES \<and> rule_from r = f \<and> rule_to r = t"
    by (auto simp: resolveTransition_find find_Some_iff intro: nth_mem [of _ "rev RULES", simplified])
next
  assume r: "r \<in> set RULES \<and> rule_from r = f \<and> rule_to r = t"
  then obtain r' where r': "resolveTransition f t = Some r'"
    by (cases "resolveTransition f t") (auto simp: resolveTransition_find find_None_iff)
  then have "r' \<in> set RULES \<and> rule_from r' = f \<and> rule_to r' = t"
    by (auto simp: resolveTransition_find find_Some_iff intro: nth_mem [of _ "rev RULES", simplified])
  then have "r' = r"
    using r rules_have_distinct_ends by (auto simp: distinct_map inj_on_def)
  then show "resolveTransition f t = Some r"
    using r' by simp
qed

lemma resolveTransition_ends:
  "resolveTransition f t = Some r \<Longrightarrow> rule_from r = f \<and> rule_to r = t"
  by (simp add: resolveTransition_Some_iff)

lemma rule_cases [consumes 1, case_names T3 T5 T6 T7 T8 T9 T10 T11 T12 T13 T14 T16 T15]:
  assumes "resolveTransition f t = Some r"
  obtains
    "f = CREATED" "t = ASSIGNED" "r = mk_rule T3 CREATED ASSIGNED [Bond_member] False
       (no_effects\<lparr>se_deadline := Some Deadline_set\<rparr>) EV_ASSIGNED"
  | "f = ASSIGNED" "t = ASSISTING" "r = mk_rule T5 ASSIGNED ASSISTING [Assignee] True
       (no_effects\<lparr>se_deadline := Some Deadline_clear, se_confirmedAt := Some True\<rparr>)
       EV_ASSISTING"
  | "f = ASSIGNED" "t = NOT_ASSISTING" "r = mk_rule T6 ASSIGNED NOT_ASSISTING [Assignee] True
       (no_effects\<lparr>se_deadline := Some Deadline_clear, se_declinedAt := Some True\<rparr>)
       EV_NOT_ASSISTING"
  | "f = ASSIGNED" "t = OVERDUE" "r = mk_rule T7 ASSIGNED OVERDUE [System] False no_effects EV_OVERDUE"
  | "f = OVERDUE" "t = NOT_ASSISTING" "r = mk_rule T8 OVERDUE NOT_ASSISTING [Assignee] True
       (no_effects\<lparr>se_declinedAt := Some True\<rparr>) EV_NOT_ASSISTING"
  | "f = NOT_ASSISTING" "t = ASSIGNED" "r = mk_rule T9 NOT_ASSISTING ASSIGNED [Bond_member] False
       (no_effects\<lparr>se_deadline := Some Deadline_set, se_declinedAt := Some False,
                   se_confirmedAt := Some False\<rparr>) EV_ASSIGNED"
  | "f = ASSISTING" "t = IN_PROGRESS"
    "r = mk_rule T10 ASSISTING IN_PROGRESS [System] False no_effects EV_IN_PROGRESS"
  | "f = IN_PROGRESS" "t = DONE" "r = mk_rule T11 IN_PROGRESS DONE [Bond_member] False
       (no_effects\<lparr>se_completedAt := Some True\<rparr>) EV_DONE"
  | "f = IN_PROGRESS" "t = VERIFY" "r = mk_rule T12 IN_PROGRESS VERIFY [System] False
       (no_effects\<lparr>se_deadline := Some Deadline_set, se_verifyAt := Some True\<rparr>) EV_VERIFY"
  | "f = VERIFY" "t = DONE" "r = mk_rule T13 VERIFY DONE [Bond_member] False
       (no_effects\<lparr>se_deadline := Some Deadline_clear, se_completedAt := Some True,
                   se_verifyAt := Some False\<rparr>) EV_DONE"
  | "f = VERIFY" "t = OVERDUE" "r = mk_rule T14 VERIFY OVERDUE [System] False
       (no_effects\<lparr>se_deadline := Some Deadline_clear\<rparr>) EV_VERIFY_EXPIRED"
  | "f = CREATED" "t = OVERDUE" "r = mk_rule T16 CREATED OVERDUE [System] False
       (no_effects\<lparr>se_deadline := Some Deadline_clear\<rparr>) EV_CREATED_OVERDUE"
  | "f \<in> set CANCEL_SOURCES" "t = CANCELLED"
    "r = mk_rule T15 f CANCELLED [Bond_member] False CANCEL_EFFECTS EV_CANCELLED"
proof -
  have "r \<in> set RULES" and ends: "rule_from r = f" "rule_to r = t"
    using assms by (simp_all add: resolveTransition_Some_iff)
  then show thesis
    unfolding RULES_def set_append Un_iff list.set insert_iff empty_iff set_map image_iff
    by (elim disjE bexE) (use that ends in auto)
qed

lemma terminal_no_rule:
  "f \<in> set TERMINAL_ACTIVITY_STATUSES \<Longrightarrow> resolveTransition f t = None"
  by (cases "resolveTransition f t")
    (auto simp: TERMINAL_ACTIVITY_STATUSES_def CANCEL_SOURCES_def elim: rule_cases)

lemma resolve_to_CREATED [simp]: "resolveTransition f CREATED = None"
  by (cases "resolveTransition f CREATED") (auto elim: rule_cases)

text \<open>The five system rules.\<close>

lemma system_rules:
  "resolveTransition ASSIGNED OVERDUE = Some (mk_rule T7 ASSIGNED OVERDUE [System] False no_effects EV_OVERDUE)"
  "resolveTransition CREATED OVERDUE = Some (mk_rule T16 CREATED OVERDUE [System] False
     (no_effects\<lparr>se_deadline := Some Deadline_clear\<rparr>) EV_CREATED_OVERDUE)"
  "resolveTransition VERIFY OVERDUE = Some (mk_rule T14 VERIFY OVERDUE [System] False
     (no_effects\<lparr>se_deadline := Some Deadline_clear\<rparr>) EV_VERIFY_EXPIRED)"
  "resolveTransition ASSISTING IN_PROGRESS = Some (mk_rule T10 ASSISTING IN_PROGRESS [System] False
     no_effects EV_IN_PROGRESS)"
  "resolveTransition IN_PROGRESS VERIFY = Some (mk_rule T12 IN_PROGRESS VERIFY [System] False
     (no_effects\<lparr>se_deadline := Some Deadline_set, se_verifyAt := Some True\<rparr>) EV_VERIFY)"
  by (simp_all add: resolveTransition_Some_iff RULES_def)

end
