(* ===== verification/Activity_Policy.thy ===== *)
theory Activity_Policy
  imports Activity_Transition_Map
begin

text \<open>The pure policy of activities (\<open>activities/activity-policy.service.ts\<close>): where an overdue
  activity came from, whether it has passed, the flags a viewer gets and the undo window.\<close>

datatype overdue_origin = From_created | From_assigned | From_verify

definition overdueOrigin :: "uuid option \<Rightarrow> instant option \<Rightarrow> overdue_origin" where
  "overdueOrigin assignedTo verifyAt =
     (if assignedTo = None then From_created
      else if verifyAt \<noteq> None then From_verify
      else From_assigned)"

record policy_subject =
  ps_createdBy :: uuid
  ps_assignedTo :: "uuid option"
  ps_scheduledStart :: "instant option"
  ps_scheduledEnd :: "instant option"
  ps_status :: activity_status
  ps_verifyAt :: "instant option"

definition subject_of :: "activity_row \<Rightarrow> policy_subject" where
  "subject_of a =
     \<lparr>ps_createdBy = act_createdBy a, ps_assignedTo = act_assignedTo a,
      ps_scheduledStart = act_scheduledStart a, ps_scheduledEnd = act_scheduledEnd a,
      ps_status = act_status a, ps_verifyAt = act_verifyAt a\<rparr>"

record activity_policy_decision =
  canDelete :: bool
  canCancel :: bool
  canAssign :: bool
  canReassign :: bool
  canConfirm :: bool
  canDecline :: bool
  canComplete :: bool
  dec_isPast :: bool

definition isPast :: "policy_subject \<Rightarrow> instant \<Rightarrow> bool" where
  "isPast activity now =
     is_reached (coalesce (ps_scheduledEnd activity) (ps_scheduledStart activity)) now"

definition evaluate :: "policy_subject \<Rightarrow> uuid \<Rightarrow> instant \<Rightarrow> activity_policy_decision" where
  "evaluate activity viewerId now =
     (let past = isPast activity now;
          isCreator = (ps_createdBy activity = viewerId);
          isAssignee = (ps_assignedTo activity = Some viewerId);
          origin = overdueOrigin (ps_assignedTo activity) (ps_verifyAt activity);
          confirm = (isAssignee \<and> ps_status activity = ASSIGNED);
          decline = (isAssignee \<and>
            (ps_status activity = ASSIGNED \<or>
             (ps_status activity = OVERDUE \<and> origin = From_assigned)) \<and> \<not> past) in
      \<lparr>canDelete = isCreator \<and> \<not> past,
       canCancel = isCreator \<and> \<not> past,
       canAssign = (ps_status activity = CREATED),
       canReassign = (ps_status activity = NOT_ASSISTING),
       canConfirm = confirm,
       canDecline = decline,
       canComplete = (ps_status activity = IN_PROGRESS \<or> ps_status activity = VERIFY),
       dec_isPast = past\<rparr>)"

definition UNDO_WINDOW_MS :: int where
  "UNDO_WINDOW_MS = 5000"

definition isWithinUndoWindow :: "instant option \<Rightarrow> instant \<Rightarrow> bool" where
  "isWithinUndoWindow actedAt now =
     (case actedAt of
        None \<Rightarrow> False
      | Some t \<Rightarrow> let elapsed = now - t in 0 \<le> elapsed \<and> elapsed \<le> UNDO_WINDOW_MS)"

section \<open>Facts\<close>

lemma evaluate_simps [simp]:
  "canDelete (evaluate s v now) \<longleftrightarrow> ps_createdBy s = v \<and> \<not> isPast s now"
  "canCancel (evaluate s v now) \<longleftrightarrow> ps_createdBy s = v \<and> \<not> isPast s now"
  "canAssign (evaluate s v now) \<longleftrightarrow> ps_status s = CREATED"
  "canReassign (evaluate s v now) \<longleftrightarrow> ps_status s = NOT_ASSISTING"
  "canConfirm (evaluate s v now) \<longleftrightarrow> ps_assignedTo s = Some v \<and> ps_status s = ASSIGNED"
  "canDecline (evaluate s v now) \<longleftrightarrow> ps_assignedTo s = Some v \<and> \<not> isPast s now \<and>
     (ps_status s = ASSIGNED \<or> (ps_status s = OVERDUE \<and> ps_verifyAt s = None))"
  "canComplete (evaluate s v now) \<longleftrightarrow> ps_status s \<in> {IN_PROGRESS, VERIFY}"
  "dec_isPast (evaluate s v now) \<longleftrightarrow> isPast s now"
  by (auto simp: evaluate_def Let_def overdueOrigin_def)

lemma isPast_mono: "isPast s t \<Longrightarrow> t \<le> t' \<Longrightarrow> isPast s t'"
  by (auto simp: isPast_def is_reached_iff)

lemma subject_of_simps [simp]:
  "ps_createdBy (subject_of a) = act_createdBy a"
  "ps_assignedTo (subject_of a) = act_assignedTo a"
  "ps_scheduledStart (subject_of a) = act_scheduledStart a"
  "ps_scheduledEnd (subject_of a) = act_scheduledEnd a"
  "ps_status (subject_of a) = act_status a"
  "ps_verifyAt (subject_of a) = act_verifyAt a"
  by (simp_all add: subject_of_def)

lemma overdueOrigin_assigned_iff:
  "overdueOrigin a v = From_assigned \<longleftrightarrow> a \<noteq> None \<and> v = None"
  by (auto simp: overdueOrigin_def)

end
