(* ===== verification/Interfaces.thy ===== *)
theory Interfaces
  imports Prelude
begin

text \<open>The contracts the components share, as locales with the lemmas that follow from them.

  \<open>cas_store\<close>: a store whose writes name the state they expect (\<open>UPDATE ... WHERE status = ?\<close>,
  \<open>SELECT ... FOR UPDATE\<close> with guards) and miss otherwise. \<open>versioned_store\<close> adds a stamp that
  every committed write increases: two writes prepared from the same state never both commit,
  whatever happens in between. \<open>dedup_table\<close>: a table filled by
  \<open>INSERT ... ON CONFLICT DO NOTHING\<close>. \<open>lifecycle\<close>: a status machine with terminal states.\<close>

section \<open>Compare and swap\<close>

locale cas_store =
  fixes get :: "'s \<Rightarrow> 'k \<Rightarrow> 'r option"
    and cas :: "'i \<Rightarrow> 's \<Rightarrow> 's option"
    and target :: "'i \<Rightarrow> 'k"
    and expects :: "'i \<Rightarrow> 'r \<Rightarrow> bool"
    and effect :: "'i \<Rightarrow> 'r \<Rightarrow> 'r"
  assumes cas_hit: "get s (target i) = Some r \<Longrightarrow> expects i r \<Longrightarrow>
                      \<exists>s'. cas i s = Some s' \<and> get s' (target i) = Some (effect i r)"
    and cas_absent: "get s (target i) = None \<Longrightarrow> cas i s = None"
    and cas_refused: "get s (target i) = Some r \<Longrightarrow> \<not> expects i r \<Longrightarrow> cas i s = None"
    and cas_frame: "cas i s = Some s' \<Longrightarrow> k \<noteq> target i \<Longrightarrow> get s' k = get s k"
begin

lemma cas_SomeD:
  assumes "cas i s = Some s'"
  obtains r where "get s (target i) = Some r" "expects i r" "get s' (target i) = Some (effect i r)"
proof -
  obtain r where r: "get s (target i) = Some r"
    using assms cas_absent by (cases "get s (target i)") auto
  moreover have "expects i r"
    using assms cas_refused [OF r] by auto
  moreover have "get s' (target i) = Some (effect i r)"
    using cas_hit [OF r \<open>expects i r\<close>] assms by auto
  ultimately show thesis by (rule that)
qed

lemma cas_commits_iff:
  "(\<exists>s'. cas i s = Some s') \<longleftrightarrow> (\<exists>r. get s (target i) = Some r \<and> expects i r)"
  using cas_hit by (blast elim: cas_SomeD)

text \<open>A write that misses leaves the store alone; a run of writes applies those that hit.\<close>

definition attempt :: "'i \<Rightarrow> 's \<Rightarrow> 's" where
  "attempt i s = (case cas i s of None \<Rightarrow> s | Some s' \<Rightarrow> s')"

definition run :: "'i list \<Rightarrow> 's \<Rightarrow> 's" where
  "run is s = fold attempt is s"

lemma attempt_other: "k \<noteq> target i \<Longrightarrow> get (attempt i s) k = get s k"
  by (auto simp: attempt_def cas_frame split: option.split)

lemma run_Nil [simp]: "run [] s = s"
  by (simp add: run_def)

lemma run_Cons [simp]: "run (i # is) s = run is (attempt i s)"
  by (simp add: run_def)

end

locale versioned_store = cas_store get cas target expects effect
  for get :: "'s \<Rightarrow> 'k \<Rightarrow> 'r option"
    and cas :: "'i \<Rightarrow> 's \<Rightarrow> 's option"
    and target :: "'i \<Rightarrow> 'k"
    and expects :: "'i \<Rightarrow> 'r \<Rightarrow> bool"
    and effect :: "'i \<Rightarrow> 'r \<Rightarrow> 'r" +
  fixes stamp :: "'r \<Rightarrow> int"
    and expected_stamp :: "'i \<Rightarrow> int"
    and allowed :: "'i \<Rightarrow> bool"
  assumes expects_stamp: "expects i r \<Longrightarrow> stamp r = expected_stamp i"
    and effect_stamp: "allowed i \<Longrightarrow> expects i r \<Longrightarrow> stamp r < stamp (effect i r)"
begin

lemma attempt_stamp:
  assumes "get s k = Some r" and "allowed i"
  shows "\<exists>r'. get (attempt i s) k = Some r' \<and> stamp r \<le> stamp r'"
proof (cases "k = target i")
  case False
  then show ?thesis
    using assms by (simp add: attempt_other)
next
  case True
  show ?thesis
  proof (cases "cas i s")
    case None
    then show ?thesis using assms by (simp add: attempt_def)
  next
    case (Some s')
    obtain r0 where "get s (target i) = Some r0" "expects i r0"
        "get s' (target i) = Some (effect i r0)"
      using Some by (rule cas_SomeD)
    then show ?thesis
      using assms True Some effect_stamp [of i r0] by (auto simp: attempt_def)
  qed
qed

lemma run_stamp:
  assumes "get s k = Some r" and "\<forall>i \<in> set is. allowed i"
  shows "\<exists>r'. get (run is s) k = Some r' \<and> stamp r \<le> stamp r'"
  using assms
proof (induction "is" arbitrary: s r)
  case (Cons i "is")
  obtain r1 where r1: "get (attempt i s) k = Some r1" "stamp r \<le> stamp r1"
    using attempt_stamp [OF Cons.prems(1)] Cons.prems(2) by auto
  obtain r2 where "get (run is (attempt i s)) k = Some r2" "stamp r1 \<le> stamp r2"
    using Cons.IH [OF r1(1)] Cons.prems(2) by auto
  then show ?case
    using r1(2) by (intro exI [of _ r2]) auto
qed auto

text \<open>The guarantee the services build on: once a write has committed, every write prepared
  from the same stamp of the same row misses, after any number of other writes.\<close>

lemma no_double_commit:
  assumes "cas i s = Some s'" and "allowed i" and "\<forall>j \<in> set js. allowed j"
    and "target j = target i" and "expected_stamp j = expected_stamp i"
  shows "cas j (run js s') = None"
proof -
  obtain r where r: "get s (target i) = Some r" "expects i r"
      "get s' (target i) = Some (effect i r)"
    using assms(1) by (rule cas_SomeD)
  obtain r' where r': "get (run js s') (target i) = Some r'" "stamp (effect i r) \<le> stamp r'"
    using run_stamp [OF r(3) assms(3)] by auto
  have "expected_stamp j < stamp r'"
    using expects_stamp [OF r(2)] effect_stamp [OF assms(2) r(2)] r'(2) assms(5) by simp
  then have "\<not> expects j r'"
    using expects_stamp [of j r'] by auto
  then show ?thesis
    using cas_refused [of "run js s'" j r'] r'(1) assms(4) by simp
qed

end

section \<open>Insert if absent\<close>

text \<open>\<open>keys\<close> are the values of the unique key in the table; an insert of a key that is there
  changes nothing.\<close>

locale dedup_table =
  fixes keys :: "'s \<Rightarrow> 'k set"
    and put :: "'r \<Rightarrow> 's \<Rightarrow> 's"
    and key_of :: "'r \<Rightarrow> 'k"
  assumes put_new: "key_of r \<notin> keys s \<Longrightarrow> keys (put r s) = insert (key_of r) (keys s)"
    and put_old: "key_of r \<in> keys s \<Longrightarrow> put r s = s"
begin

definition put_all :: "'r list \<Rightarrow> 's \<Rightarrow> 's" where
  "put_all rs s = fold put rs s"

lemma put_all_Nil [simp]: "put_all [] s = s"
  by (simp add: put_all_def)

lemma put_all_Cons [simp]: "put_all (r # rs) s = put_all rs (put r s)"
  by (simp add: put_all_def)

lemma keys_put [simp]: "keys (put r s) = insert (key_of r) (keys s)"
  by (cases "key_of r \<in> keys s") (auto simp: put_new put_old)

lemma keys_put_all [simp]: "keys (put_all rs s) = key_of ` set rs \<union> keys s"
  by (induction rs arbitrary: s) auto

lemma put_all_absorb: "key_of ` set rs \<subseteq> keys s \<Longrightarrow> put_all rs s = s"
  by (induction rs) (auto simp: put_old)

text \<open>Re-dispatching a batch whose keys were all inserted is a no-op, whatever the rest of
  the rows (fresh ids, timestamps) contain.\<close>

lemma put_all_again:
  "key_of ` set rs' \<subseteq> key_of ` set rs \<Longrightarrow> put_all rs' (put_all rs s) = put_all rs s"
  by (rule put_all_absorb) auto

end

section \<open>Status machines\<close>

locale lifecycle =
  fixes step :: "'st \<Rightarrow> 'st \<Rightarrow> bool"
    and terminal :: "'st \<Rightarrow> bool"
  assumes terminal_stuck: "terminal x \<Longrightarrow> \<not> step x y"
begin

lemma terminal_forever: "step\<^sup>*\<^sup>* x y \<Longrightarrow> terminal x \<Longrightarrow> y = x"
  by (induction rule: rtranclp_induct) (auto simp: terminal_stuck)

end

locale ranked_lifecycle = lifecycle step terminal
  for step :: "'st \<Rightarrow> 'st \<Rightarrow> bool" and terminal :: "'st \<Rightarrow> bool" +
  fixes rank :: "'st \<Rightarrow> nat" and top :: nat
  assumes step_rank: "step x y \<Longrightarrow> rank x < rank y"
    and rank_bound: "rank x \<le> top"
begin

text \<open>No status is ever entered twice, and a history has at most \<open>top\<close> steps.\<close>

lemma never_back: "step\<^sup>+\<^sup>+ x y \<Longrightarrow> rank x < rank y"
  by (induction rule: tranclp_induct) (auto dest: step_rank)

lemma acyclic_steps: "\<not> step\<^sup>+\<^sup>+ x x"
  using never_back by blast

lemma steps_bounded: "(step ^^ n) x y \<Longrightarrow> n + rank x \<le> rank y"
proof (induction n arbitrary: y)
  case (Suc n)
  then obtain z where "(step ^^ n) x z" "step z y" by auto
  then show ?case using Suc.IH [of z] step_rank [of z y] by linarith
qed simp

lemma history_bounded: "(step ^^ n) x y \<Longrightarrow> n \<le> top"
  using steps_bounded [of n x y] rank_bound [of y] by linarith

end

end
