(* ===== verification/Activities_Repository.thy ===== *)
theory Activities_Repository
  imports Bonds Outbox Activity_Policy Interfaces
begin

text \<open>The repository of activities (\<open>activities/repositories/activities.repository.ts\<close>): the
  live reads, the listing and sweep queries, and the two writes of the status column: the
  compare-and-swap \<open>applyTransition\<close> and the insert of a new activity, each with its outbox
  row in the same transaction. The rows of \<open>activity_child\<close> are written by
  \<open>activity-child.repository.ts\<close>.\<close>

section \<open>Reads\<close>

definition is_live :: "activity_row \<Rightarrow> bool" where
  "is_live a \<longleftrightarrow> act_deletedAt a = None"

definition findByIdIncludingDeleted :: "db \<Rightarrow> uuid \<Rightarrow> activity_row option" where
  "findByIdIncludingDeleted d i = lookup_by act_id i (db_activities d)"

definition findById :: "db \<Rightarrow> uuid \<Rightarrow> activity_row option" where
  "findById d i = find (\<lambda>a. act_id a = i \<and> is_live a) (db_activities d)"

text \<open>The projection \<open>array_agg(child_id ORDER BY created_at)\<close>, empty when there is none.\<close>

definition childrenIdsOf :: "db \<Rightarrow> uuid \<Rightarrow> uuid list" where
  "childrenIdsOf d i =
     map ac_childId (sort_key ac_createdAt
       (filter (\<lambda>c. ac_activityId c = i) (db_activity_children d)))"

definition findByIdWithChildren :: "db \<Rightarrow> uuid \<Rightarrow> (activity_row \<times> uuid list) option" where
  "findByIdWithChildren d i = map_option (\<lambda>a. (a, childrenIdsOf d i)) (findById d i)"

definition list_order :: "activity_row \<Rightarrow> bool \<times> instant nulls_last \<times> bool \<times> instant nulls_last \<times> instant" where
  "list_order a =
     (act_scheduledStart a = None, null_key (act_scheduledStart a),
      act_deadline a = None, null_key (act_deadline a), act_createdAt a)"

definition findByBondIdOrdered :: "db \<Rightarrow> uuid \<Rightarrow> (activity_row \<times> uuid list) list" where
  "findByBondIdOrdered d bondId =
     map (\<lambda>a. (a, childrenIdsOf d (act_id a)))
       (sort_key list_order (filter (\<lambda>a. act_bondId a = bondId \<and> is_live a) (db_activities d)))"

text \<open>\<open>COUNT(*)\<close> and \<open>COUNT(*) FILTER (WHERE status = done)\<close> by assignee, the bounds of the
  month inclusive as written.\<close>

definition in_range :: "instant \<Rightarrow> instant \<Rightarrow> instant option \<Rightarrow> bool" where
  "in_range lo hi t = (case t of None \<Rightarrow> False | Some x \<Rightarrow> lo \<le> x \<and> x \<le> hi)"

definition countActivitiesByAssignee ::
  "db \<Rightarrow> uuid \<Rightarrow> instant \<Rightarrow> instant \<Rightarrow> (uuid \<times> nat \<times> nat) list" where
  "countActivitiesByAssignee d bondId startOfMonth endOfMonth =
     (let rows = filter (\<lambda>a. act_bondId a = bondId \<and>
                    in_range startOfMonth endOfMonth (act_scheduledStart a) \<and>
                    act_assignedTo a \<noteq> None \<and> is_live a) (db_activities d);
          mine = (\<lambda>u. filter (\<lambda>a. act_assignedTo a = Some u) rows) in
      map (\<lambda>u. (u, length (mine u), length (filter (\<lambda>a. act_status a = DONE) (mine u))))
        (remdups (map (\<lambda>a. the (act_assignedTo a)) rows)))"

text \<open>The \<open>WHERE\<close> of the sweep: the five swept states, each with its own anchor.\<close>

definition is_due_sql :: "instant \<Rightarrow> activity_row \<Rightarrow> bool" where
  "is_due_sql now a \<longleftrightarrow> is_live a \<and>
     ((act_status a = CREATED \<and> is_reached (act_deadline a) now) \<or>
      (act_status a = ASSIGNED \<and> is_reached (act_deadline a) now) \<or>
      (act_status a = ASSISTING \<and> is_reached (act_scheduledStart a) now) \<or>
      (act_status a = IN_PROGRESS \<and>
         is_reached (coalesce (act_scheduledEnd a) (act_scheduledStart a)) now) \<or>
      (act_status a = VERIFY \<and> is_reached (act_deadline a) now))"

definition due_order :: "activity_row \<Rightarrow> instant nulls_last \<times> instant nulls_last \<times> instant nulls_last" where
  "due_order a =
     (null_key (act_deadline a), null_key (act_scheduledStart a), null_key (act_scheduledEnd a))"

definition findDueForTransition :: "instant \<Rightarrow> nat \<Rightarrow> db \<Rightarrow> activity_row list" where
  "findDueForTransition now limit d =
     take limit (sort_key due_order (filter (is_due_sql now) (db_activities d)))"

section \<open>Writes\<close>

record apply_transition_fields =
  fld_assignedTo :: "uuid option patch"
  fld_confirmedAt :: "instant option patch"
  fld_cancelledAt :: "instant option patch"
  fld_cancelledBy :: "uuid option patch"
  fld_declinedAt :: "instant option patch"
  fld_declinedReason :: "utf16 option patch"
  fld_completedAt :: "instant option patch"
  fld_deadline :: "instant option patch"
  fld_deletedAt :: "instant option patch"
  fld_verifyAt :: "instant option patch"

definition no_fields :: apply_transition_fields where
  "no_fields = \<lparr>fld_assignedTo = Keep, fld_confirmedAt = Keep, fld_cancelledAt = Keep,
     fld_cancelledBy = Keep, fld_declinedAt = Keep, fld_declinedReason = Keep,
     fld_completedAt = Keep, fld_deadline = Keep, fld_deletedAt = Keep, fld_verifyAt = Keep\<rparr>"

text \<open>\<open>Object.assign(row, fields)\<close>.\<close>

definition assign_fields :: "apply_transition_fields \<Rightarrow> activity_row \<Rightarrow> activity_row" where
  "assign_fields f a = a\<lparr>
     act_assignedTo := patched (fld_assignedTo f) (act_assignedTo a),
     act_confirmedAt := patched (fld_confirmedAt f) (act_confirmedAt a),
     act_cancelledAt := patched (fld_cancelledAt f) (act_cancelledAt a),
     act_cancelledBy := patched (fld_cancelledBy f) (act_cancelledBy a),
     act_declinedAt := patched (fld_declinedAt f) (act_declinedAt a),
     act_declinedReason := patched (fld_declinedReason f) (act_declinedReason a),
     act_completedAt := patched (fld_completedAt f) (act_completedAt a),
     act_deadline := patched (fld_deadline f) (act_deadline a),
     act_deletedAt := patched (fld_deletedAt f) (act_deletedAt a),
     act_verifyAt := patched (fld_verifyAt f) (act_verifyAt a)\<rparr>"

record apply_transition_input =
  ati_id :: uuid
  ati_expectedFrom :: activity_status
  ati_expectedVersion :: int
  ati_nextStatus :: activity_status
  ati_fields :: apply_transition_fields
  ati_bondId :: uuid
  ati_eventType :: string
  ati_payload :: json_obj

text \<open>The row after the write: status, version, fields, and the update timestamp TypeORM sets.\<close>

definition transitioned :: "instant \<Rightarrow> apply_transition_input \<Rightarrow> activity_row \<Rightarrow> activity_row" where
  "transitioned at input a =
     (assign_fields (ati_fields input)
        (a\<lparr>act_status := ati_nextStatus input, act_version := act_version a + 1\<rparr>))
       \<lparr>act_updatedAt := at\<rparr>"

definition guards_hold :: "apply_transition_input \<Rightarrow> activity_row \<Rightarrow> bool" where
  "guards_hold input a \<longleftrightarrow> act_deletedAt a = None \<and> act_status a = ati_expectedFrom input \<and>
     act_version a = ati_expectedVersion input"

definition applyTransition ::
  "uuid \<Rightarrow> instant \<Rightarrow> apply_transition_input \<Rightarrow> db \<Rightarrow> (activity_row \<times> db) option" where
  "applyTransition outboxId at input d =
     (case findByIdIncludingDeleted d (ati_id input) of
        None \<Rightarrow> None
      | Some row \<Rightarrow>
          if \<not> guards_hold input row then None
          else
            (let saved = transitioned at input row;
                 d1 = d\<lparr>db_activities :=
                        update_by act_id (ati_id input) (transitioned at input) (db_activities d)\<rparr>;
                 d2 = outbox_insert outboxId at
                        \<lparr>in_aggregateType = Agg_activity,
                         in_aggregateId = ati_id input,
                         in_bondId = ati_bondId input,
                         in_eventType = ati_eventType input,
                         in_aggregateVersion = act_version row + 1,
                         in_payload = ati_payload input\<rparr> d1
             in Some (saved, d2)))"

record activity_draft =
  dr_bondId :: uuid
  dr_categoryId :: uuid
  dr_type :: activity_type
  dr_criticality :: criticality
  dr_title :: utf16
  dr_description :: utf16
  dr_createdBy :: uuid
  dr_assignedTo :: "uuid option"
  dr_scheduledStart :: "instant option"
  dr_scheduledEnd :: "instant option"
  dr_deadline :: "instant option"
  dr_notifBefore :: "string option"
  dr_notifAfter :: "string option"

definition new_activity :: "uuid \<Rightarrow> instant \<Rightarrow> activity_draft \<Rightarrow> initial_transition \<Rightarrow> activity_row" where
  "new_activity newId at row initial =
     \<lparr>act_id = newId, act_bondId = dr_bondId row, act_categoryId = dr_categoryId row,
      act_type = dr_type row, act_status = init_status initial, act_version = 1,
      act_criticality = dr_criticality row, act_title = dr_title row,
      act_description = dr_description row, act_createdBy = dr_createdBy row,
      act_assignedTo = dr_assignedTo row, act_scheduledStart = dr_scheduledStart row,
      act_scheduledEnd = dr_scheduledEnd row, act_deadline = dr_deadline row,
      act_notifBefore = dr_notifBefore row, act_notifAfter = dr_notifAfter row,
      act_confirmedAt = None, act_cancelledAt = None, act_cancelledBy = None,
      act_deletedAt = None, act_declinedAt = None, act_declinedReason = None,
      act_completedAt = None, act_verifyAt = None, act_resolvedStatus = None,
      act_createdAt = at, act_updatedAt = at\<rparr>"

definition insertWithInitialTransition ::
  "uuid \<Rightarrow> uuid \<Rightarrow> instant \<Rightarrow> activity_draft \<Rightarrow> initial_transition \<Rightarrow> json_obj \<Rightarrow> db \<Rightarrow>
   activity_row \<times> db" where
  "insertWithInitialTransition newId outboxId at row initial payload d =
     (let saved = new_activity newId at row initial;
          d1 = d\<lparr>db_activities := db_activities d @ [saved]\<rparr>
      in (saved, outbox_insert outboxId at
            \<lparr>in_aggregateType = Agg_activity, in_aggregateId = act_id saved,
             in_bondId = act_bondId saved, in_eventType = ACTIVITY_EVENT (init_event initial),
             in_aggregateVersion = 1, in_payload = payload\<rparr> d1))"

definition saveChildrenFor :: "(nat \<Rightarrow> uuid) \<Rightarrow> instant \<Rightarrow> uuid \<Rightarrow> uuid list \<Rightarrow> db \<Rightarrow> db" where
  "saveChildrenFor newIds at activityId childIds d =
     d\<lparr>db_activity_children := db_activity_children d @
        map (\<lambda>(n, c). \<lparr>ac_id = newIds n, ac_activityId = activityId, ac_childId = c,
                       ac_createdAt = at\<rparr>) (enumerate 0 childIds)\<rparr>"

section \<open>Facts\<close>

lemma assign_fields_simps [simp]:
  "act_id (assign_fields f a) = act_id a"
  "act_bondId (assign_fields f a) = act_bondId a"
  "act_createdBy (assign_fields f a) = act_createdBy a"
  "act_scheduledStart (assign_fields f a) = act_scheduledStart a"
  "act_scheduledEnd (assign_fields f a) = act_scheduledEnd a"
  "act_status (assign_fields f a) = act_status a"
  "act_version (assign_fields f a) = act_version a"
  "act_assignedTo (assign_fields f a) = patched (fld_assignedTo f) (act_assignedTo a)"
  "act_confirmedAt (assign_fields f a) = patched (fld_confirmedAt f) (act_confirmedAt a)"
  "act_cancelledAt (assign_fields f a) = patched (fld_cancelledAt f) (act_cancelledAt a)"
  "act_cancelledBy (assign_fields f a) = patched (fld_cancelledBy f) (act_cancelledBy a)"
  "act_declinedAt (assign_fields f a) = patched (fld_declinedAt f) (act_declinedAt a)"
  "act_declinedReason (assign_fields f a) = patched (fld_declinedReason f) (act_declinedReason a)"
  "act_completedAt (assign_fields f a) = patched (fld_completedAt f) (act_completedAt a)"
  "act_deadline (assign_fields f a) = patched (fld_deadline f) (act_deadline a)"
  "act_deletedAt (assign_fields f a) = patched (fld_deletedAt f) (act_deletedAt a)"
  "act_verifyAt (assign_fields f a) = patched (fld_verifyAt f) (act_verifyAt a)"
  by (simp_all add: assign_fields_def)

lemma transitioned_simps [simp]:
  "act_id (transitioned at i a) = act_id a"
  "act_bondId (transitioned at i a) = act_bondId a"
  "act_createdBy (transitioned at i a) = act_createdBy a"
  "act_scheduledStart (transitioned at i a) = act_scheduledStart a"
  "act_scheduledEnd (transitioned at i a) = act_scheduledEnd a"
  "act_status (transitioned at i a) = ati_nextStatus i"
  "act_version (transitioned at i a) = act_version a + 1"
  "act_assignedTo (transitioned at i a) = patched (fld_assignedTo (ati_fields i)) (act_assignedTo a)"
  "act_confirmedAt (transitioned at i a) = patched (fld_confirmedAt (ati_fields i)) (act_confirmedAt a)"
  "act_cancelledAt (transitioned at i a) = patched (fld_cancelledAt (ati_fields i)) (act_cancelledAt a)"
  "act_cancelledBy (transitioned at i a) = patched (fld_cancelledBy (ati_fields i)) (act_cancelledBy a)"
  "act_declinedAt (transitioned at i a) = patched (fld_declinedAt (ati_fields i)) (act_declinedAt a)"
  "act_declinedReason (transitioned at i a) =
     patched (fld_declinedReason (ati_fields i)) (act_declinedReason a)"
  "act_completedAt (transitioned at i a) = patched (fld_completedAt (ati_fields i)) (act_completedAt a)"
  "act_deadline (transitioned at i a) = patched (fld_deadline (ati_fields i)) (act_deadline a)"
  "act_deletedAt (transitioned at i a) = patched (fld_deletedAt (ati_fields i)) (act_deletedAt a)"
  "act_verifyAt (transitioned at i a) = patched (fld_verifyAt (ati_fields i)) (act_verifyAt a)"
  by (simp_all add: transitioned_def)

lemma no_fields_simps [simp]:
  "fld_assignedTo no_fields = Keep" "fld_confirmedAt no_fields = Keep"
  "fld_cancelledAt no_fields = Keep" "fld_cancelledBy no_fields = Keep"
  "fld_declinedAt no_fields = Keep" "fld_declinedReason no_fields = Keep"
  "fld_completedAt no_fields = Keep" "fld_deadline no_fields = Keep"
  "fld_deletedAt no_fields = Keep" "fld_verifyAt no_fields = Keep"
  by (simp_all add: no_fields_def)

lemma new_activity_simps [simp]:
  "act_id (new_activity i at r init) = i"
  "act_bondId (new_activity i at r init) = dr_bondId r"
  "act_createdBy (new_activity i at r init) = dr_createdBy r"
  "act_assignedTo (new_activity i at r init) = dr_assignedTo r"
  "act_status (new_activity i at r init) = init_status init"
  "act_version (new_activity i at r init) = 1"
  "act_scheduledStart (new_activity i at r init) = dr_scheduledStart r"
  "act_scheduledEnd (new_activity i at r init) = dr_scheduledEnd r"
  "act_deadline (new_activity i at r init) = dr_deadline r"
  "act_deletedAt (new_activity i at r init) = None"
  "act_confirmedAt (new_activity i at r init) = None"
  "act_cancelledAt (new_activity i at r init) = None"
  "act_cancelledBy (new_activity i at r init) = None"
  "act_declinedAt (new_activity i at r init) = None"
  "act_declinedReason (new_activity i at r init) = None"
  "act_completedAt (new_activity i at r init) = None"
  "act_verifyAt (new_activity i at r init) = None"
  by (simp_all add: new_activity_def)

lemma findById_SomeD:
  "findById d i = Some a \<Longrightarrow> a \<in> set (db_activities d) \<and> act_id a = i \<and> act_deletedAt a = None"
  by (auto simp: findById_def is_live_def find_Some_iff)

lemma findById_lookup:
  assumes "distinct (map act_id (db_activities d))"
  shows "findById d i = Some a \<longleftrightarrow>
           findByIdIncludingDeleted d i = Some a \<and> act_deletedAt a = None"
proof
  assume a: "findById d i = Some a"
  then have "a \<in> set (db_activities d)" "act_id a = i" "act_deletedAt a = None"
    by (simp_all add: findById_SomeD)
  then show "findByIdIncludingDeleted d i = Some a \<and> act_deletedAt a = None"
    using lookup_by_distinct [OF assms] by (auto simp: findByIdIncludingDeleted_def)
next
  assume a: "findByIdIncludingDeleted d i = Some a \<and> act_deletedAt a = None"
  have "find (\<lambda>a. act_id a = i \<and> is_live a) rows = Some a"
    if "lookup_by act_id i rows = Some a" for rows
    using that a by (induction rows) (auto simp: is_live_def split: if_splits)
  then show "findById d i = Some a"
    using a by (simp add: findById_def findByIdIncludingDeleted_def)
qed

lemma applyTransition_SomeD:
  assumes "applyTransition ob at input d = Some (saved, d')"
  obtains row where
    "findByIdIncludingDeleted d (ati_id input) = Some row"
    "guards_hold input row"
    "saved = transitioned at input row"
    "db_activities d' = update_by act_id (ati_id input) (transitioned at input) (db_activities d)"
  using assms
  by (auto simp: applyTransition_def Let_def split: option.splits if_splits)

lemma applyTransition_None_iff:
  "applyTransition ob at input d = None \<longleftrightarrow>
     (\<forall>row. findByIdIncludingDeleted d (ati_id input) = Some row \<longrightarrow> \<not> guards_hold input row)"
  by (auto simp: applyTransition_def Let_def split: option.splits)

lemma applyTransition_frame:
  assumes "applyTransition ob at input d = Some (saved, d')"
  shows "db_bonds d' = db_bonds d" and "db_members d' = db_members d"
    and "db_activity_children d' = db_activity_children d" and "db_expenses d' = db_expenses d"
    and "db_audit d' = db_audit d"
  using assms by (auto simp: applyTransition_def Let_def split: option.splits if_splits)

lemma applyTransition_outbox:
  assumes "applyTransition ob at input d = Some (saved, d')"
  obtains r where
    "db_outbox d' = db_outbox d @ [r]" "ob_id r = ob" "ob_aggregateType r = Agg_activity"
    "ob_aggregateId r = ati_id input" "ob_bondId r = ati_bondId input"
    "ob_eventType r = ati_eventType input" "ob_aggregateVersion r = act_version saved"
    "ob_payload r = ati_payload input" "ob_dispatchedAt r = None"
  using assms
  by (auto simp: applyTransition_def outbox_insert_def Let_def split: option.splits if_splits)

section \<open>The compare-and-swap contract\<close>

type_synonym cas_request = "uuid \<times> instant \<times> apply_transition_input"

definition activity_cas :: "cas_request \<Rightarrow> db \<Rightarrow> db option" where
  "activity_cas q d = (case q of (ob, at, input) \<Rightarrow> map_option snd (applyTransition ob at input d))"

definition cas_input :: "cas_request \<Rightarrow> apply_transition_input" where
  "cas_input q = snd (snd q)"

lemma lookup_after_applyTransition:
  assumes "applyTransition ob at input d = Some (saved, d')"
  shows "findByIdIncludingDeleted d' k =
     (if k = ati_id input then Some saved else findByIdIncludingDeleted d k)"
proof -
  obtain row where row: "findByIdIncludingDeleted d (ati_id input) = Some row"
      "saved = transitioned at input row"
      "db_activities d' = update_by act_id (ati_id input) (transitioned at input) (db_activities d)"
    using assms by (rule applyTransition_SomeD)
  then show ?thesis
    by (simp add: findByIdIncludingDeleted_def lookup_by_update_same lookup_by_update_other)
qed

interpretation acts: versioned_store findByIdIncludingDeleted activity_cas
  "\<lambda>q. ati_id (cas_input q)" "\<lambda>q. guards_hold (cas_input q)"
  "\<lambda>q. transitioned (fst (snd q)) (cas_input q)"
  act_version "\<lambda>q. ati_expectedVersion (cas_input q)" "\<lambda>q. True"
proof unfold_locales
  fix d :: db and q :: cas_request and r :: activity_row
  obtain ob at input where q: "q = (ob, at, input)" by (cases q)
  show "guards_hold (cas_input q) r \<Longrightarrow> act_version r = ati_expectedVersion (cas_input q)"
    by (simp add: guards_hold_def)
  show "act_version r < act_version (transitioned (fst (snd q)) (cas_input q) r)"
    by simp
  assume "findByIdIncludingDeleted d (ati_id (cas_input q)) = Some r"
  then have r: "findByIdIncludingDeleted d (ati_id input) = Some r"
    by (simp add: q cas_input_def)
  show "\<exists>s'. activity_cas q d = Some s' \<and>
      findByIdIncludingDeleted s' (ati_id (cas_input q)) =
        Some (transitioned (fst (snd q)) (cas_input q) r)"
    if g: "guards_hold (cas_input q) r"
  proof -
    obtain d' where d': "applyTransition ob at input d = Some (transitioned at input r, d')"
      using g r by (simp add: q cas_input_def applyTransition_def Let_def)
    then show ?thesis
      using lookup_after_applyTransition [OF d', of "ati_id input"]
      by (simp add: q activity_cas_def cas_input_def)
  qed
  show "activity_cas q d = None" if "\<not> guards_hold (cas_input q) r"
    using that r by (simp add: q activity_cas_def cas_input_def applyTransition_def)
next
  fix d :: db and q :: cas_request
  assume "findByIdIncludingDeleted d (ati_id (cas_input q)) = None"
  then show "activity_cas q d = None"
    by (cases q) (simp add: activity_cas_def cas_input_def applyTransition_def)
next
  fix d d' :: db and q :: cas_request and k
  assume "activity_cas q d = Some d'" and "k \<noteq> ati_id (cas_input q)"
  then show "findByIdIncludingDeleted d' k = findByIdIncludingDeleted d k"
    by (cases q) (auto simp: activity_cas_def cas_input_def lookup_after_applyTransition)
qed

end
