(* ===== verification/Activity_Timers_Ops.thy ===== *)
theory Activity_Timers_Ops
  imports Activity_Policy
begin

text \<open>The pure half of the timer engine and its producer (\<open>queues/activity-timers/\<close>: constants,
  job, ops, producer). The queue is Redis; what the producer asks of it is a list of commands,
  added or removed under a deterministic job id.\<close>

datatype timer_kind = RESPONSE_TIMEOUT | START | END | VERIFY_TIMEOUT | SWEEP

fun kind_string :: "timer_kind \<Rightarrow> string" where
  "kind_string RESPONSE_TIMEOUT = ''response-timeout''"
| "kind_string START = ''start''"
| "kind_string END = ''end''"
| "kind_string VERIFY_TIMEOUT = ''verify-timeout''"
| "kind_string SWEEP = ''sweep''"

record timer_job =
  tj_activityId :: uuid
  tj_version :: int
  tj_kind :: timer_kind

definition int_decimal :: "int \<Rightarrow> string" where
  "int_decimal v = (if v < 0 then ''-'' else []) @ decimal (nat \<bar>v\<bar>)"

definition buildTimerJobId :: "timer_kind \<Rightarrow> uuid \<Rightarrow> int \<Rightarrow> string" where
  "buildTimerJobId kind activityId version =
     kind_string kind @ ''--'' @ activityId @ ''--v'' @ int_decimal version"

definition computeDelayMs :: "instant \<Rightarrow> instant \<Rightarrow> int" where
  "computeDelayMs target now = max 0 (target - now)"

section \<open>Operations by landing state\<close>

datatype timer_op = Op_enqueue timer_kind | Op_cancel timer_kind

definition ALL_KINDS :: "timer_kind list" where
  "ALL_KINDS = [RESPONSE_TIMEOUT, START, END, VERIFY_TIMEOUT]"

definition cancelAll :: "timer_op list" where
  "cancelAll = map Op_cancel ALL_KINDS"

fun timerOpsForTransition :: "activity_status \<Rightarrow> timer_op list" where
  "timerOpsForTransition ASSIGNED = [Op_enqueue RESPONSE_TIMEOUT, Op_enqueue START, Op_enqueue END]"
| "timerOpsForTransition CREATED = [Op_enqueue RESPONSE_TIMEOUT]"
| "timerOpsForTransition ASSISTING =
     [Op_cancel RESPONSE_TIMEOUT, Op_enqueue START, Op_enqueue END]"
| "timerOpsForTransition IN_PROGRESS = [Op_enqueue END]"
| "timerOpsForTransition VERIFY = [Op_cancel END, Op_enqueue VERIFY_TIMEOUT]"
| "timerOpsForTransition OVERDUE = [Op_enqueue START, Op_enqueue END]"
| "timerOpsForTransition DONE = cancelAll"
| "timerOpsForTransition CANCELLED = cancelAll"
| "timerOpsForTransition NOT_ASSISTING = cancelAll"

section \<open>The producer\<close>

datatype queue_cmd =
    Queue_add timer_kind timer_job string int  \<comment> \<open>name, data, job id, delay\<close>
  | Queue_remove string

definition timer_enqueue :: "timer_kind \<Rightarrow> uuid \<Rightarrow> int \<Rightarrow> instant \<Rightarrow> instant \<Rightarrow> queue_cmd list" where
  "timer_enqueue kind activityId version target now =
     [Queue_add kind \<lparr>tj_activityId = activityId, tj_version = version, tj_kind = kind\<rparr>
        (buildTimerJobId kind activityId version) (computeDelayMs target now)]"

definition cancelById :: "string \<Rightarrow> queue_cmd list" where
  "cancelById jobId = [Queue_remove jobId]"

definition timer_cancel :: "timer_kind \<Rightarrow> uuid \<Rightarrow> int \<Rightarrow> queue_cmd list" where
  "timer_cancel kind activityId version = cancelById (buildTimerJobId kind activityId version)"

definition reschedule ::
  "timer_kind \<Rightarrow> uuid \<Rightarrow> int \<Rightarrow> int \<Rightarrow> instant \<Rightarrow> instant \<Rightarrow> queue_cmd list" where
  "reschedule kind activityId oldVersion newVersion target now =
     timer_cancel kind activityId oldVersion @ timer_enqueue kind activityId newVersion target now"

section \<open>Facts\<close>

lemma computeDelayMs_bounds: "0 \<le> computeDelayMs t now" "t \<le> now + computeDelayMs t now"
  by (auto simp: computeDelayMs_def)

lemma int_decimal_inject [simp]: "int_decimal v = int_decimal w \<longleftrightarrow> v = w"
proof
  have digits: "CHR ''-'' \<notin> set (decimal n)" for n
  proof
    assume "CHR ''-'' \<in> set (decimal n)"
    then obtain d where "d < 10" "CHR ''-'' = digit d"
      using decimal_digits by blast
    then have "(of_char (CHR ''-'') :: nat) = 48 + d"
      by simp
    then show False by simp
  qed
  assume "int_decimal v = int_decimal w"
  moreover have "decimal n \<noteq> CHR ''-'' # s" "CHR ''-'' # s \<noteq> decimal n" for n s
    using digits [of n] by (metis list.set_intros(1))+
  ultimately show "v = w"
    by (auto simp: int_decimal_def split: if_splits)
qed simp

lemma no_v_in_int_decimal: "CHR ''v'' \<notin> set (int_decimal v)"
proof
  assume "CHR ''v'' \<in> set (int_decimal v)"
  then obtain d where "d < 10" "CHR ''v'' = digit d"
    using decimal_digits by (auto simp: int_decimal_def split: if_splits)
  then have "(of_char (CHR ''v'') :: nat) = 48 + d"
    by simp
  then show False using \<open>d < 10\<close> by simp
qed

text \<open>The version is what follows the last \<open>v\<close>, so the id splits back.\<close>

lemma split_at_last:
  assumes "c \<notin> set xs" and "c \<notin> set ys" and "a @ c # xs = b @ c # ys"
  shows "xs = ys \<and> a = b"
proof -
  have last_part: "rev (takeWhile (\<lambda>x. x \<noteq> c) (rev (p @ c # q))) = q" if "c \<notin> set q" for p q
  proof -
    have "takeWhile (\<lambda>x. x \<noteq> c) (rev q @ c # rev p) = takeWhile (\<lambda>x. x \<noteq> c) (rev q)"
      by (simp add: takeWhile_tail)
    also have "\<dots> = rev q"
      using that by (auto simp: takeWhile_eq_all_conv)
    finally have "rev (takeWhile (\<lambda>x. x \<noteq> c) (rev q @ c # rev p)) = rev (rev q)"
      by (rule arg_cong)
    then show ?thesis by simp
  qed
  have "xs = ys"
    using last_part [OF assms(1), of a] last_part [OF assms(2), of b] assms(3) by simp
  then show ?thesis using assms(3) by simp
qed

lemma buildTimerJobId_inject:
  "buildTimerJobId k a v = buildTimerJobId k' a' v' \<longleftrightarrow> k = k' \<and> a = a' \<and> v = v'"
proof
  assume eq: "buildTimerJobId k a v = buildTimerJobId k' a' v'"
  then have "(kind_string k @ ''--'' @ a @ ''--'') @ CHR ''v'' # int_decimal v =
             (kind_string k' @ ''--'' @ a' @ ''--'') @ CHR ''v'' # int_decimal v'"
    by (simp add: buildTimerJobId_def)
  then have "int_decimal v = int_decimal v' \<and>
             kind_string k @ ''--'' @ a @ ''--'' = kind_string k' @ ''--'' @ a' @ ''--''"
    by (rule split_at_last [OF no_v_in_int_decimal no_v_in_int_decimal])
  then have "v = v'" and "kind_string k @ ''--'' @ a = kind_string k' @ ''--'' @ a'"
    by auto
  moreover have "k = k'"
    using \<open>kind_string k @ ''--'' @ a = kind_string k' @ ''--'' @ a'\<close>
    by (cases k; cases k') simp_all
  ultimately show "k = k' \<and> a = a' \<and> v = v'"
    by simp
qed simp

end
