(* ===== verification/Activities_Service.thy ===== *)
theory Activities_Service
  imports Activities_Repository Activity_Timers_Ops
begin

text \<open>The service of activities (\<open>activities/activities.service.ts\<close>): the single chokepoint
  \<open>transition\<close>, the system entries, and one definition per route. An operation returns the
  thrown error, or its answer with the new database and the timer commands it fires after the
  commit. The clock readings are taken from the environment in the order of the code; a call of
  \<open>transition\<close> inside an operation gets the readings that are left (\<open>tick\<close>).

  \<open>transition\<close> reads and decides (\<open>transition_plan\<close>) and then writes
  (\<open>transition_commit\<close>); the two halves are separate so that other requests may commit in
  between.\<close>

section \<open>Guards\<close>

definition assertActivityMember :: "db \<Rightarrow> activity_row \<Rightarrow> uuid \<Rightarrow> http_error + unit" where
  "assertActivityMember d activity userId =
     ensure (isActiveBondForMember d (act_bondId activity) userId) activityNotFound"

definition assertBondMember :: "db \<Rightarrow> uuid \<Rightarrow> uuid \<Rightarrow> http_error + unit" where
  "assertBondMember d bondId userId =
     ensure (isActiveBondForMember d bondId userId)
       (notFoundException ''Bond not found or you are not a member'')"

definition verifyChildrenBelongToBond :: "db \<Rightarrow> uuid \<Rightarrow> uuid list \<Rightarrow> http_error + unit" where
  "verifyChildrenBelongToBond d bondId childrenIds =
     ensure (length (findByIdsAndBond d childrenIds bondId) = length childrenIds)
       (badRequestException ''One or more children do not belong to this bond'')"

definition verifyCategoryActive :: "db \<Rightarrow> uuid \<Rightarrow> http_error + category_row" where
  "verifyCategoryActive d categoryId =
     some_or (findActiveCategoryById d categoryId)
       (badRequestException ''Category is unknown or inactive'')"

definition hours_ms :: "int \<Rightarrow> int" where
  "hours_ms h = h * 60 * 60 * 1000"

definition validateSchedules :: "instant \<Rightarrow> instant \<Rightarrow> instant option \<Rightarrow> http_error + unit" where
  "validateSchedules now start scheduledEnd =
     chain (ensure (\<not> start \<le> now) (badRequestException ''scheduledStart must be in the future''))
       (\<lambda>_. case scheduledEnd of
          None \<Rightarrow> Inr ()
        | Some end_ \<Rightarrow> ensure (\<not> end_ \<le> start)
            (badRequestException ''scheduledEnd must be strictly after scheduledStart''))"

definition min_lead_hours :: "env \<Rightarrow> int" where
  "min_lead_hours e = (case env_min_lead_time_hours e of Some h \<Rightarrow> h | None \<Rightarrow> 48)"

definition assertMinimumLeadTime :: "env \<Rightarrow> instant \<Rightarrow> instant \<Rightarrow> http_error + unit" where
  "assertMinimumLeadTime e now start =
     ensure (\<not> start < now + hours_ms (min_lead_hours e))
       (badRequestException (''La actividad debe programarse con al menos 48 horas de anticipaci''
          @ [CHR 0xF3] @ ''n''))"

definition loadForMember :: "db \<Rightarrow> uuid \<Rightarrow> uuid \<Rightarrow> bool \<Rightarrow> http_error + activity_row" where
  "loadForMember d i userId includeDeleted =
     chain (some_or (if includeDeleted then findByIdIncludingDeleted d i else findById d i)
              activityNotFound)
       (\<lambda>activity. chain (assertActivityMember d activity userId) (\<lambda>_. Inr activity))"

definition computeResponseDeadline :: "env \<Rightarrow> instant \<Rightarrow> instant" where
  "computeResponseDeadline e now =
     now + hours_ms (case env_response_timeout_hours e of Some h \<Rightarrow> h | None \<Rightarrow> 36)"

definition resolveActorRole :: "db \<Rightarrow> uuid \<Rightarrow> uuid \<Rightarrow> bond_member_role option" where
  "resolveActorRole d bondId userId = map_option mem_role (findOneByBondAndUser d bondId userId)"

section \<open>Transitions\<close>

datatype actor = User_actor uuid | System_actor

record transition_request =
  tr_activityId :: uuid
  tr_to :: activity_status
  tr_actor :: actor
  tr_reason :: "utf16 option"
  tr_fields :: apply_transition_fields
  tr_payloadExtra :: json_obj

definition stamp_effect :: "bool option \<Rightarrow> instant \<Rightarrow> instant option patch" where
  "stamp_effect eff now =
     (case eff of Some True \<Rightarrow> Put (Some now) | Some False \<Rightarrow> Put None | None \<Rightarrow> Keep)"

text \<open>\<open>buildTransitionFields\<close>. \<open>completedAt\<close> and \<open>cancelledAt\<close> are only ever stamped; the actor
  and the reason go with their timestamps.\<close>

definition buildTransitionFields ::
  "env \<Rightarrow> side_effects \<Rightarrow> instant \<Rightarrow> uuid option \<Rightarrow> utf16 option \<Rightarrow> apply_transition_fields" where
  "buildTransitionFields e effects now userId reason =
     no_fields\<lparr>
       fld_deadline := (case se_deadline effects of
           Some Deadline_clear \<Rightarrow> Put None
         | Some Deadline_set \<Rightarrow> Put (Some (computeResponseDeadline e now))
         | None \<Rightarrow> Keep),
       fld_confirmedAt := stamp_effect (se_confirmedAt effects) now,
       fld_completedAt := (if se_completedAt effects = Some True then Put (Some now) else Keep),
       fld_cancelledAt := (if se_cancelledAt effects = Some True then Put (Some now) else Keep),
       fld_cancelledBy := (if se_cancelledAt effects = Some True \<and> userId \<noteq> None
                           then Put userId else Keep),
       fld_declinedAt := stamp_effect (se_declinedAt effects) now,
       fld_declinedReason := (case se_declinedAt effects of
           Some True \<Rightarrow> (if reason \<noteq> None then Put reason else Keep)
         | Some False \<Rightarrow> Put None
         | None \<Rightarrow> Keep),
       fld_verifyAt := stamp_effect (se_verifyAt effects) now\<rparr>"

text \<open>\<open>Object.assign(fields, req.fields)\<close>: the keys of the request win.\<close>

definition merge_fields ::
  "apply_transition_fields \<Rightarrow> apply_transition_fields \<Rightarrow> apply_transition_fields" where
  "merge_fields f g =
     \<lparr>fld_assignedTo = patch_over (fld_assignedTo f) (fld_assignedTo g),
      fld_confirmedAt = patch_over (fld_confirmedAt f) (fld_confirmedAt g),
      fld_cancelledAt = patch_over (fld_cancelledAt f) (fld_cancelledAt g),
      fld_cancelledBy = patch_over (fld_cancelledBy f) (fld_cancelledBy g),
      fld_declinedAt = patch_over (fld_declinedAt f) (fld_declinedAt g),
      fld_declinedReason = patch_over (fld_declinedReason f) (fld_declinedReason g),
      fld_completedAt = patch_over (fld_completedAt f) (fld_completedAt g),
      fld_deadline = patch_over (fld_deadline f) (fld_deadline g),
      fld_deletedAt = patch_over (fld_deletedAt f) (fld_deletedAt g),
      fld_verifyAt = patch_over (fld_verifyAt f) (fld_verifyAt g)\<rparr>"

fun actor_user :: "actor \<Rightarrow> uuid option" where
  "actor_user (User_actor u) = Some u"
| "actor_user System_actor = None"

definition actor_json :: "db \<Rightarrow> uuid \<Rightarrow> actor \<Rightarrow> json" where
  "actor_json d bondId a =
     (case a of
        System_actor \<Rightarrow> JObj [(''type'', jstr ''system'')]
      | User_actor u \<Rightarrow> JObj [(''type'', jstr ''user''), (''id'', jstr u),
          (''role'', jnullable (\<lambda>r. jstr (role_string r)) (resolveActorRole d bondId u))])"

text \<open>The outcome of the read half: refuse with an error, a silent no-op of the system (with
  the value the promise resolves to), or a write to attempt.\<close>

datatype plan =
    Refuse http_error
  | No_op "activity_row option"
  | Commit activity_row apply_transition_input

definition transition_input ::
  "env \<Rightarrow> db \<Rightarrow> transition_request \<Rightarrow> activity_row \<Rightarrow> transition_rule \<Rightarrow> apply_transition_input" where
  "transition_input e d req activity rule =
     (let now = env_clock e 0 in
      \<lparr>ati_id = act_id activity,
       ati_expectedFrom = act_status activity,
       ati_expectedVersion = act_version activity,
       ati_nextStatus = tr_to req,
       ati_fields = merge_fields
         (buildTransitionFields e (rule_sideEffects rule) now (actor_user (tr_actor req))
            (tr_reason req)) (tr_fields req),
       ati_bondId = act_bondId activity,
       ati_eventType = ACTIVITY_EVENT (rule_event rule),
       ati_payload = obj_spread
         [(''activityId'', jstr (act_id activity)),
          (''from'', jstr (status_string (act_status activity))),
          (''to'', jstr (status_string (tr_to req))),
          (''actor'', actor_json d (act_bondId activity) (tr_actor req)),
          (''reason'', jnullable JStr (tr_reason req)),
          (''occurredAt'', jstr (toISOString now))] (tr_payloadExtra req)\<rparr>)"

definition transition_plan :: "env \<Rightarrow> db \<Rightarrow> transition_request \<Rightarrow> plan" where
  "transition_plan e d req =
     (let isSystem = (tr_actor req = System_actor); userId = actor_user (tr_actor req) in
      case findById d (tr_activityId req) of
        None \<Rightarrow> if isSystem then No_op None else Refuse activityNotFound
      | Some activity \<Rightarrow>
          (case (case userId of None \<Rightarrow> Inr () | Some u \<Rightarrow> assertActivityMember d activity u) of
             Inl err \<Rightarrow> Refuse err
           | Inr _ \<Rightarrow>
              (case resolveTransition (act_status activity) (tr_to req) of
                 None \<Rightarrow>
                   if isSystem then No_op (Some activity)
                   else Refuse (activityInvalidTransition (status_string (act_status activity))
                                  (status_string (tr_to req)) None)
               | Some rule \<Rightarrow>
                   if isSystem \<and> System \<notin> set (rule_actors rule) then No_op (Some activity)
                   else if \<not> isSystem \<and> Bond_member \<notin> set (rule_actors rule) \<and>
                           Assignee \<notin> set (rule_actors rule)
                   then Refuse (activityForbidden ''This transition is system-only'')
                   else if \<not> isSystem \<and> rule_requireAssignee rule \<and>
                           act_assignedTo activity \<noteq> userId
                   then Refuse (activityForbidden ''Only the assignee can perform this action'')
                   else if rule_id rule = T8 \<and>
                     overdueOrigin (act_assignedTo activity) (act_verifyAt activity) \<noteq> From_assigned
                   then Refuse (activityInvalidTransition
                          (status_string (act_status activity)) (status_string (tr_to req))
                          (Some ''Late response is only allowed when overdue originated from assigned''))
                   else Commit activity (transition_input e d req activity rule))))"

text \<open>Timers after the commit. \<open>previousVersion\<close> is null on create: there is nothing to cancel.\<close>

fun timerTarget :: "timer_kind \<Rightarrow> activity_row \<Rightarrow> instant option" where
  "timerTarget RESPONSE_TIMEOUT entity = act_deadline entity"
| "timerTarget START entity = act_scheduledStart entity"
| "timerTarget END entity = coalesce (act_scheduledEnd entity) (act_scheduledStart entity)"
| "timerTarget VERIFY_TIMEOUT entity = act_deadline entity"
| "timerTarget SWEEP entity = None"

fun wire_op :: "instant \<Rightarrow> activity_row \<Rightarrow> int option \<Rightarrow> timer_op \<Rightarrow> queue_cmd list" where
  "wire_op now entity previousVersion (Op_cancel kind) =
     (case previousVersion of None \<Rightarrow> []
      | Some v \<Rightarrow> timer_cancel kind (act_id entity) v)"
| "wire_op now entity previousVersion (Op_enqueue kind) =
     (case timerTarget kind entity of None \<Rightarrow> []
      | Some target \<Rightarrow>
          if kind = START \<and> target \<le> now then []
          else timer_enqueue kind (act_id entity) (act_version entity) target now)"

definition wireTimers :: "instant \<Rightarrow> activity_row \<Rightarrow> int option \<Rightarrow> queue_cmd list" where
  "wireTimers now entity previousVersion =
     concat (map (wire_op now entity previousVersion) (timerOpsForTransition (act_status entity)))"

type_synonym 'a outcome = "http_error + ('a \<times> db \<times> queue_cmd list)"

definition transition_commit ::
  "env \<Rightarrow> bool \<Rightarrow> activity_row \<Rightarrow> apply_transition_input \<Rightarrow> db \<Rightarrow> activity_row option outcome" where
  "transition_commit e isSystem activity input d =
     (case applyTransition (env_uuid e 0) (env_dbnow e) input d of
        None \<Rightarrow>
          if isSystem then Inr (None, d, [])
          else Inl (activityInvalidTransition (status_string (act_status activity))
                      (status_string (ati_nextStatus input)) None)
      | Some (updated, d') \<Rightarrow>
          Inr (Some updated, d', wireTimers (env_clock e 1) updated (Some (act_version activity))))"

definition transition :: "env \<Rightarrow> db \<Rightarrow> transition_request \<Rightarrow> activity_row option outcome" where
  "transition e d req =
     (case transition_plan e d req of
        Refuse err \<Rightarrow> Inl err
      | No_op r \<Rightarrow> Inr (r, d, [])
      | Commit activity input \<Rightarrow>
          transition_commit e (tr_actor req = System_actor) activity input d)"

definition system_request :: "uuid \<Rightarrow> activity_status \<Rightarrow> transition_request" where
  "system_request i to =
     \<lparr>tr_activityId = i, tr_to = to, tr_actor = System_actor, tr_reason = None,
      tr_fields = no_fields, tr_payloadExtra = []\<rparr>"

definition user_request ::
  "uuid \<Rightarrow> activity_status \<Rightarrow> uuid \<Rightarrow> utf16 option \<Rightarrow> apply_transition_fields \<Rightarrow> json_obj \<Rightarrow>
   transition_request" where
  "user_request i to u reason flds extra =
     \<lparr>tr_activityId = i, tr_to = to, tr_actor = User_actor u, tr_reason = reason,
      tr_fields = flds, tr_payloadExtra = extra\<rparr>"

definition markOverdue :: "env \<Rightarrow> db \<Rightarrow> uuid \<Rightarrow> activity_row option outcome" where
  "markOverdue e d i =
     (case findById d i of
        None \<Rightarrow> Inl (notFoundException ''Activity not found'')
      | Some _ \<Rightarrow> transition e d (system_request i OVERDUE))"

text \<open>A thrown error is logged and swallowed.\<close>

definition applySystemTransition ::
  "env \<Rightarrow> db \<Rightarrow> uuid \<Rightarrow> activity_status \<Rightarrow> db \<times> queue_cmd list" where
  "applySystemTransition e d i to =
     (case transition e d (system_request i to) of
        Inl _ \<Rightarrow> (d, [])
      | Inr (_, d', cmds) \<Rightarrow> (d', cmds))"

section \<open>Creation\<close>

record create_activity_dto =
  ca_title :: utf16
  ca_description :: "utf16 option"
  ca_type :: "activity_type option"
  ca_categoryId :: uuid
  ca_assignedTo :: "uuid option"
  ca_scheduledStart :: instant
  ca_scheduledEnd :: "instant option"
  ca_childrenIds :: "uuid list"

definition NOTIF_BEFORE :: string where "NOTIF_BEFORE = ''-3 days''"
definition NOTIF_AFTER :: string where "NOTIF_AFTER = ''1 day''"

definition create_draft ::
  "env \<Rightarrow> uuid \<Rightarrow> create_activity_dto \<Rightarrow> uuid \<Rightarrow> category_row \<Rightarrow> instant \<Rightarrow> activity_draft" where
  "create_draft e bondId dto userId category now =
     \<lparr>dr_bondId = bondId, dr_categoryId = ca_categoryId dto,
      dr_type = (case ca_type dto of Some t \<Rightarrow> t | None \<Rightarrow> EVENT),
      dr_criticality = cat_criticality category,
      dr_title = ca_title dto,
      dr_description = (case ca_description dto of Some t \<Rightarrow> t | None \<Rightarrow> []),
      dr_createdBy = userId,
      dr_assignedTo = ca_assignedTo dto,
      dr_scheduledStart = Some (ca_scheduledStart dto),
      dr_scheduledEnd = ca_scheduledEnd dto,
      dr_deadline = Some (computeResponseDeadline e now),
      dr_notifBefore = Some NOTIF_BEFORE,
      dr_notifAfter = Some NOTIF_AFTER\<rparr>"

text \<open>Clock readings: the two schedule checks, the row, the timers. Generated ids: 0 the
  activity, 1 the outbox row, then one per child.\<close>

definition create_activity ::
  "env \<Rightarrow> db \<Rightarrow> uuid \<Rightarrow> create_activity_dto \<Rightarrow> uuid \<Rightarrow> activity_row outcome" where
  "create_activity e d bondId dto userId =
     chain (validateSchedules (env_clock e 0) (ca_scheduledStart dto) (ca_scheduledEnd dto)) (\<lambda>_.
     chain (assertMinimumLeadTime e (env_clock e 1) (ca_scheduledStart dto)) (\<lambda>_.
     chain (assertBondMember d bondId userId) (\<lambda>_.
     let memberIds = (case ca_assignedTo dto of
             Some a \<Rightarrow> if a \<noteq> userId then [userId, a] else [userId] | None \<Rightarrow> [userId]) in
     chain (ensure (list_all (isActiveBondForMember d bondId) memberIds)
              (badRequestException ''One or more members do not belong to this bond'')) (\<lambda>_.
     chain (verifyCategoryActive d (ca_categoryId dto)) (\<lambda>category.
     chain (verifyChildrenBelongToBond d bondId (ca_childrenIds dto)) (\<lambda>_.
     let initial = resolveInitial (ca_assignedTo dto \<noteq> None);
         now = env_clock e 2;
         row = create_draft e bondId dto userId category now;
         payload = [(''from'', jstr ''new''),
                    (''to'', jstr (status_string (init_status initial))),
                    (''actor'', JObj [(''type'', jstr ''user''), (''id'', jstr userId)]),
                    (''occurredAt'', jstr (toISOString now))];
         (activity, d1) = insertWithInitialTransition (env_uuid e 0) (env_uuid e 1) (env_dbnow e)
                            row initial payload d;
         d2 = saveChildrenFor (\<lambda>n. env_uuid e (2 + n)) (env_dbnow e) (act_id activity)
                (ca_childrenIds dto) d1
     in Inr (activity, d2, wireTimers (env_clock e 3) activity None)))))))"

section \<open>Reads\<close>

record activity_summary =
  as_row :: activity_row
  as_childrenIds :: "uuid list"
  as_assignedConfirmed :: bool
  as_decision :: activity_policy_decision

definition assignedConfirmed :: "activity_row \<Rightarrow> bool" where
  "assignedConfirmed a \<longleftrightarrow> act_status a = ASSISTING \<and> act_confirmedAt a \<noteq> None"

definition summarize :: "uuid \<Rightarrow> instant \<Rightarrow> activity_row \<times> uuid list \<Rightarrow> activity_summary" where
  "summarize viewerId now p =
     (case p of (row, kids) \<Rightarrow>
        \<lparr>as_row = row, as_childrenIds = kids, as_assignedConfirmed = assignedConfirmed row,
         as_decision = evaluate (subject_of row) viewerId now\<rparr>)"

definition listByBond :: "env \<Rightarrow> db \<Rightarrow> uuid \<Rightarrow> uuid \<Rightarrow> http_error + activity_summary list" where
  "listByBond e d bondId viewerId =
     chain (assertBondMember d bondId viewerId) (\<lambda>_.
       Inr (map (summarize viewerId (env_clock e 0)) (findByBondIdOrdered d bondId)))"

definition getDetail :: "env \<Rightarrow> db \<Rightarrow> uuid \<Rightarrow> uuid \<Rightarrow> http_error + activity_summary" where
  "getDetail e d i userId =
     chain (some_or (findByIdWithChildren d i) activityNotFound) (\<lambda>p.
     chain (assertActivityMember d (fst p) userId) (\<lambda>_.
       Inr (summarize userId (env_clock e 0) p)))"

section \<open>Member operations\<close>

definition ACTIVITY_REASON_MIN :: nat where "ACTIVITY_REASON_MIN = 3"
definition ACTIVITY_REASON_MAX :: nat where "ACTIVITY_REASON_MAX = 200"

definition parseActivityReason :: "json \<Rightarrow> http_error + utf16" where
  "parseActivityReason raw =
     (let value = (case raw of JStr t \<Rightarrow> js_trim t | _ \<Rightarrow> []) in
      if length value < ACTIVITY_REASON_MIN \<or> ACTIVITY_REASON_MAX < length value
      then Inl (validationFailed (''reason must be a string of '' @ decimal ACTIVITY_REASON_MIN
                  @ ''-'' @ decimal ACTIVITY_REASON_MAX @ '' characters''))
      else Inr value)"

text \<open>\<open>if (!updated) throw activityInvalidTransition(...)\<close> and the mapping to the answer.\<close>

definition answer_updated ::
  "activity_row \<Rightarrow> activity_status \<Rightarrow> (activity_row \<Rightarrow> 'a) \<Rightarrow> activity_row option outcome \<Rightarrow>
   'a outcome" where
  "answer_updated activity to f r =
     chain r (\<lambda>(u, d', cmds). case u of
        None \<Rightarrow> Inl (activityInvalidTransition (status_string (act_status activity))
                       (status_string to) None)
      | Some updated \<Rightarrow> Inr (f updated, d', cmds))"

record complete_response =
  cr_id :: uuid
  cr_status :: activity_status
  cr_completedAt :: "string option"

definition complete_activity :: "env \<Rightarrow> db \<Rightarrow> uuid \<Rightarrow> uuid \<Rightarrow> complete_response outcome" where
  "complete_activity e d i userId =
     chain (some_or (findById d i) (notFoundException ''Activity not found'')) (\<lambda>activity.
     chain (assertActivityMember d activity userId) (\<lambda>_.
       answer_updated activity DONE
         (\<lambda>u. \<lparr>cr_id = act_id u, cr_status = act_status u,
               cr_completedAt = map_option toISOString (act_completedAt u)\<rparr>)
         (transition e d (user_request i DONE userId None no_fields []))))"

record confirm_response =
  cf_id :: uuid
  cf_assignedConfirmed :: bool
  cf_confirmedAt :: "string option"

definition confirmAssignment :: "env \<Rightarrow> db \<Rightarrow> uuid \<Rightarrow> uuid \<Rightarrow> confirm_response outcome" where
  "confirmAssignment e d i userId =
     chain (some_or (findById d i) (notFoundException ''Activity not found'')) (\<lambda>activity.
     chain (assertActivityMember d activity userId) (\<lambda>_.
     chain (ensure (act_assignedTo activity = Some userId)
              (forbiddenException ''Only the assignee can confirm this activity'')) (\<lambda>_.
     if act_status activity = ASSISTING then
       Inr (\<lparr>cf_id = i, cf_assignedConfirmed = (act_confirmedAt activity \<noteq> None),
             cf_confirmedAt = map_option toISOString (act_confirmedAt activity)\<rparr>, d, [])
     else
       answer_updated activity ASSISTING
         (\<lambda>u. \<lparr>cf_id = i,
               cf_assignedConfirmed = (act_status u = ASSISTING \<and> act_confirmedAt u \<noteq> None),
               cf_confirmedAt = map_option toISOString (act_confirmedAt u)\<rparr>)
         (transition e d (user_request i ASSISTING userId None no_fields [])))))"

definition stamp_or :: "instant option \<Rightarrow> instant \<Rightarrow> string" where
  "stamp_or t now = toISOString (case t of Some x \<Rightarrow> x | None \<Rightarrow> now)"

definition delete_activity :: "env \<Rightarrow> db \<Rightarrow> uuid \<Rightarrow> uuid \<Rightarrow> (uuid \<times> string) outcome" where
  "delete_activity e d i userId =
     chain (loadForMember d i userId False) (\<lambda>activity.
     let now = env_clock e 0 in
     chain (ensure (canDelete (evaluate (subject_of activity) userId now))
              (activityForbidden ''You are not allowed to delete this activity'')) (\<lambda>_.
       answer_updated activity CANCELLED (\<lambda>u. (i, stamp_or (act_deletedAt u) now))
         (transition (tick 1 e) d
            (user_request i CANCELLED userId None
               (no_fields\<lparr>fld_deletedAt := Put (Some now)\<rparr>) [(''deleted'', JBool True)]))))"

definition cancel_activity ::
  "env \<Rightarrow> db \<Rightarrow> uuid \<Rightarrow> uuid \<Rightarrow> json \<Rightarrow> (uuid \<times> activity_status \<times> string) outcome" where
  "cancel_activity e d i userId rawReason =
     chain (loadForMember d i userId False) (\<lambda>activity.
     let now = env_clock e 0 in
     chain (ensure (canCancel (evaluate (subject_of activity) userId now))
              (activityForbidden ''You are not allowed to cancel this activity'')) (\<lambda>_.
     chain (parseActivityReason rawReason) (\<lambda>reason.
       answer_updated activity CANCELLED (\<lambda>u. (i, CANCELLED, stamp_or (act_cancelledAt u) now))
         (transition (tick 1 e) d (user_request i CANCELLED userId (Some reason) no_fields [])))))"

definition declineAssignment ::
  "env \<Rightarrow> db \<Rightarrow> uuid \<Rightarrow> uuid \<Rightarrow> json \<Rightarrow> (uuid \<times> activity_status \<times> string) outcome" where
  "declineAssignment e d i userId rawReason =
     chain (loadForMember d i userId False) (\<lambda>activity.
     let now = env_clock e 0 in
     chain (ensure (canDecline (evaluate (subject_of activity) userId now))
              (activityForbidden ''You are not allowed to decline this activity'')) (\<lambda>_.
     chain (parseActivityReason rawReason) (\<lambda>reason.
       answer_updated activity NOT_ASSISTING
         (\<lambda>u. (i, NOT_ASSISTING, stamp_or (act_declinedAt u) now))
         (transition (tick 1 e) d
            (user_request i NOT_ASSISTING userId (Some reason) no_fields [])))))"

definition reassignInternal ::
  "env \<Rightarrow> db \<Rightarrow> uuid \<Rightarrow> uuid \<Rightarrow> uuid option \<Rightarrow> (uuid \<times> activity_status \<times> uuid option) outcome" where
  "reassignInternal e d i userId assignedTo =
     chain (loadForMember d i userId False) (\<lambda>activity.
     let targetId = (case assignedTo of Some a \<Rightarrow> a | None \<Rightarrow> userId) in
     chain (case assignedTo of None \<Rightarrow> Inr ()
            | Some _ \<Rightarrow> ensure (isActiveBondForMember d (act_bondId activity) targetId)
                          activityNotFound) (\<lambda>_.
       answer_updated activity ASSIGNED (\<lambda>u. (act_id u, act_status u, act_assignedTo u))
         (transition e d (user_request i ASSIGNED userId None
            (no_fields\<lparr>fld_assignedTo := Put (Some targetId)\<rparr>) []))))"

definition assign_activity ::
  "env \<Rightarrow> db \<Rightarrow> uuid \<Rightarrow> uuid \<Rightarrow> uuid option \<Rightarrow> (uuid \<times> activity_status \<times> uuid option) outcome" where
  "assign_activity e d i userId assignedTo = reassignInternal e d i userId assignedTo"

definition reassign_activity ::
  "env \<Rightarrow> db \<Rightarrow> uuid \<Rightarrow> uuid \<Rightarrow> uuid option \<Rightarrow> (uuid \<times> activity_status \<times> uuid option) outcome" where
  "reassign_activity e d i userId assignedTo = reassignInternal e d i userId assignedTo"

section \<open>Facts\<close>

lemma merge_fields_simps [simp]:
  "fld_assignedTo (merge_fields f g) = patch_over (fld_assignedTo f) (fld_assignedTo g)"
  "fld_confirmedAt (merge_fields f g) = patch_over (fld_confirmedAt f) (fld_confirmedAt g)"
  "fld_cancelledAt (merge_fields f g) = patch_over (fld_cancelledAt f) (fld_cancelledAt g)"
  "fld_cancelledBy (merge_fields f g) = patch_over (fld_cancelledBy f) (fld_cancelledBy g)"
  "fld_declinedAt (merge_fields f g) = patch_over (fld_declinedAt f) (fld_declinedAt g)"
  "fld_declinedReason (merge_fields f g) = patch_over (fld_declinedReason f) (fld_declinedReason g)"
  "fld_completedAt (merge_fields f g) = patch_over (fld_completedAt f) (fld_completedAt g)"
  "fld_deadline (merge_fields f g) = patch_over (fld_deadline f) (fld_deadline g)"
  "fld_deletedAt (merge_fields f g) = patch_over (fld_deletedAt f) (fld_deletedAt g)"
  "fld_verifyAt (merge_fields f g) = patch_over (fld_verifyAt f) (fld_verifyAt g)"
  by (simp_all add: merge_fields_def)

text \<open>Who may execute a rule on a row, as the guards of \<open>transition\<close> decide it.\<close>

definition permitted :: "actor \<Rightarrow> transition_rule \<Rightarrow> activity_row \<Rightarrow> bool" where
  "permitted a rule row \<longleftrightarrow>
     (case a of
        System_actor \<Rightarrow> System \<in> set (rule_actors rule)
      | User_actor u \<Rightarrow>
          (Bond_member \<in> set (rule_actors rule) \<or> Assignee \<in> set (rule_actors rule)) \<and>
          (rule_requireAssignee rule \<longrightarrow> act_assignedTo row = Some u)) \<and>
     (rule_id rule = T8 \<longrightarrow> overdueOrigin (act_assignedTo row) (act_verifyAt row) = From_assigned)"

definition member_ok :: "db \<Rightarrow> actor \<Rightarrow> activity_row \<Rightarrow> bool" where
  "member_ok d a row \<longleftrightarrow>
     (case a of System_actor \<Rightarrow> True
      | User_actor u \<Rightarrow> isActiveBondForMember d (act_bondId row) u)"

lemma transition_plan_None:
  "findById d (tr_activityId req) = None \<Longrightarrow>
     transition_plan e d req =
       (if tr_actor req = System_actor then No_op None else Refuse activityNotFound)"
  by (simp add: transition_plan_def Let_def)

lemma transition_plan_System:
  "findById d (tr_activityId req) = Some a \<Longrightarrow> tr_actor req = System_actor \<Longrightarrow>
     transition_plan e d req =
       (case resolveTransition (act_status a) (tr_to req) of
          None \<Rightarrow> No_op (Some a)
        | Some rule \<Rightarrow>
            if permitted System_actor rule a then Commit a (transition_input e d req a rule)
            else if System \<notin> set (rule_actors rule) then No_op (Some a)
            else Refuse (activityInvalidTransition (status_string (act_status a))
                   (status_string (tr_to req))
                   (Some ''Late response is only allowed when overdue originated from assigned'')))"
  by (cases "resolveTransition (act_status a) (tr_to req)")
    (simp_all add: transition_plan_def Let_def permitted_def)

lemma transition_plan_User:
  "findById d (tr_activityId req) = Some a \<Longrightarrow> tr_actor req = User_actor u \<Longrightarrow>
     transition_plan e d req =
       (if \<not> isActiveBondForMember d (act_bondId a) u then Refuse activityNotFound
        else case resolveTransition (act_status a) (tr_to req) of
          None \<Rightarrow> Refuse (activityInvalidTransition (status_string (act_status a))
                    (status_string (tr_to req)) None)
        | Some rule \<Rightarrow>
            if permitted (User_actor u) rule a then Commit a (transition_input e d req a rule)
            else if Bond_member \<notin> set (rule_actors rule) \<and> Assignee \<notin> set (rule_actors rule)
            then Refuse (activityForbidden ''This transition is system-only'')
            else if rule_requireAssignee rule \<and> act_assignedTo a \<noteq> Some u
            then Refuse (activityForbidden ''Only the assignee can perform this action'')
            else Refuse (activityInvalidTransition (status_string (act_status a))
                   (status_string (tr_to req))
                   (Some ''Late response is only allowed when overdue originated from assigned'')))"
  by (cases "resolveTransition (act_status a) (tr_to req)")
    (simp_all add: transition_plan_def Let_def permitted_def assertActivityMember_def ensure_def)

lemma transition_plan_Commit_iff:
  "transition_plan e d req = Commit a input \<longleftrightarrow>
     findById d (tr_activityId req) = Some a \<and> member_ok d (tr_actor req) a \<and>
     (\<exists>rule. resolveTransition (act_status a) (tr_to req) = Some rule \<and>
        permitted (tr_actor req) rule a \<and> input = transition_input e d req a rule)"
proof (cases "findById d (tr_activityId req)")
  case None
  then show ?thesis by (simp add: transition_plan_None)
next
  case (Some b)
  then show ?thesis
    by (cases "tr_actor req"; cases "resolveTransition (act_status b) (tr_to req)")
      (auto simp: transition_plan_System transition_plan_User member_ok_def)
qed

lemma system_rule_not_T8:
  "resolveTransition f t = Some rule \<Longrightarrow> System \<in> set (rule_actors rule) \<Longrightarrow> rule_id rule \<noteq> T8"
  by (erule rule_cases) simp_all

lemma plan_system_never_refuses:
  assumes "tr_actor req = System_actor"
  shows "transition_plan e d req \<noteq> Refuse err"
proof (cases "findById d (tr_activityId req)")
  case None
  then show ?thesis using assms by (simp add: transition_plan_None)
next
  case (Some a)
  then show ?thesis
    using assms system_rule_not_T8 [of "act_status a" "tr_to req"]
    by (auto simp: transition_plan_System permitted_def split: option.split)
qed

lemma transition_input_simps [simp]:
  "ati_id (transition_input e d req a rule) = act_id a"
  "ati_expectedFrom (transition_input e d req a rule) = act_status a"
  "ati_expectedVersion (transition_input e d req a rule) = act_version a"
  "ati_nextStatus (transition_input e d req a rule) = tr_to req"
  "ati_bondId (transition_input e d req a rule) = act_bondId a"
  "ati_eventType (transition_input e d req a rule) = ACTIVITY_EVENT (rule_event rule)"
  "ati_fields (transition_input e d req a rule) =
     merge_fields (buildTransitionFields e (rule_sideEffects rule) (env_clock e 0)
        (actor_user (tr_actor req)) (tr_reason req)) (tr_fields req)"
  by (simp_all add: transition_input_def Let_def)

lemma stamp_effect_simps [simp]:
  "stamp_effect None now = Keep"
  "stamp_effect (Some True) now = Put (Some now)"
  "stamp_effect (Some False) now = Put None"
  by (simp_all add: stamp_effect_def)

lemma transition_Inr_cases:
  assumes "transition e d req = Inr (r, d', cmds)"
  obtains
    (nothing) "d' = d" "cmds = []"
  | (moved) a input u where "transition_plan e d req = Commit a input"
      "applyTransition (env_uuid e 0) (env_dbnow e) input d = Some (u, d')" "r = Some u"
      "cmds = wireTimers (env_clock e 1) u (Some (act_version a))"
  using assms
  by (auto simp: transition_def transition_commit_def split: plan.splits option.splits if_splits)

lemma transition_commits:
  assumes "distinct (map act_id (db_activities d))"
    and "transition_plan e d req = Commit a input"
  shows "\<exists>d'. applyTransition (env_uuid e 0) (env_dbnow e) input d =
              Some (transitioned (env_dbnow e) input a, d')"
proof -
  have "findById d (tr_activityId req) = Some a" and guards: "guards_hold input a"
    and "ati_id input = act_id a"
    using assms(2) by (auto simp: transition_plan_Commit_iff guards_hold_def dest: findById_SomeD)
  then have "findByIdIncludingDeleted d (ati_id input) = Some a"
    using assms(1) findById_lookup findById_SomeD by metis
  then show ?thesis
    using guards by (simp add: applyTransition_def Let_def)
qed

lemma create_activity_InrD:
  assumes "create_activity e d b dto u = Inr (row, d', cmds)"
  obtains category r where
    "row = new_activity (env_uuid e 0) (env_dbnow e)
       (create_draft e b dto u category (env_clock e 2)) (resolveInitial (ca_assignedTo dto \<noteq> None))"
    "db_activities d' = db_activities d @ [row]"
    "db_outbox d' = db_outbox d @ [r]"
    "ob_aggregateType r = Agg_activity" "ob_aggregateId r = act_id row"
    "ob_aggregateVersion r = 1"
    "map_of (ob_payload r) ''to'' = Some (jstr (status_string (act_status row)))"
proof -
  from assms obtain category where row: "row = new_activity (env_uuid e 0) (env_dbnow e)
       (create_draft e b dto u category (env_clock e 2)) (resolveInitial (ca_assignedTo dto \<noteq> None))"
    and d': "d' = saveChildrenFor (\<lambda>n. env_uuid e (2 + n)) (env_dbnow e) (act_id row)
               (ca_childrenIds dto)
               (snd (insertWithInitialTransition (env_uuid e 0) (env_uuid e 1) (env_dbnow e)
                  (create_draft e b dto u category (env_clock e 2))
                  (resolveInitial (ca_assignedTo dto \<noteq> None))
                  [(''from'', jstr ''new''),
                    (''to'', jstr (status_string (init_status (resolveInitial (ca_assignedTo dto \<noteq> None))))),
                    (''actor'', JObj [(''type'', jstr ''user''), (''id'', jstr u)]),
                    (''occurredAt'', jstr (toISOString (env_clock e 2)))] d))"
    by (auto simp: create_activity_def chain_simps insertWithInitialTransition_def Let_def)
  then show thesis
    by (intro that) (auto simp: insertWithInitialTransition_def outbox_insert_def
        saveChildrenFor_def Let_def)
qed

lemma create_activity_guards:
  assumes "create_activity e d b dto u = Inr (row, d', cmds)"
  shows "env_clock e 0 < ca_scheduledStart dto"
    and "env_clock e 1 + hours_ms (min_lead_hours e) \<le> ca_scheduledStart dto"
    and "isActiveBondForMember d b u"
    and "\<forall>a. ca_assignedTo dto = Some a \<longrightarrow> isActiveBondForMember d b a"
    and "\<forall>t. ca_scheduledEnd dto = Some t \<longrightarrow> ca_scheduledStart dto < t"
    and "cmds = wireTimers (env_clock e 3) row None"
  using assms
  by (auto simp: create_activity_def chain_simps validateSchedules_def assertMinimumLeadTime_def
      assertBondMember_def insertWithInitialTransition_def Let_def split: option.splits if_splits)

lemma create_activity_frame:
  assumes "create_activity e d b dto u = Inr (row, d', cmds)"
  shows "db_bonds d' = db_bonds d" and "db_members d' = db_members d"
    and "db_expenses d' = db_expenses d"
  using assms
  by (auto simp: create_activity_def chain_simps insertWithInitialTransition_def
      saveChildrenFor_def Let_def)

end
