(* ===== verification/Activity_Machine.thy ===== *)
theory Activity_Machine
  imports Activities_Service
begin

text \<open>The activities component as a transition system with concurrent requests. A state is the
  database and the writes in flight: requests that have read a row and decided to write, but
  have not committed yet. A step starts a request, commits or drops one in flight, creates an
  activity, or changes what other components own (members, configuration, the dispatch marks of
  the outbox). The invariants below hold in every reachable state, so under every interleaving
  of requests, timers and sweeps.\<close>

section \<open>Requests of the service\<close>

text \<open>The requests the routes and the system entries hand to \<open>transition\<close>.\<close>

inductive service_request :: "transition_request \<Rightarrow> bool" where
  sr_system: "service_request (system_request i to)"
| sr_complete: "service_request (user_request i DONE u None no_fields [])"
| sr_confirm: "service_request (user_request i ASSISTING u None no_fields [])"
| sr_delete: "service_request (user_request i CANCELLED u None
                 (no_fields\<lparr>fld_deletedAt := Put (Some t)\<rparr>) [(''deleted'', JBool True)])"
| sr_cancel: "service_request (user_request i CANCELLED u (Some reason) no_fields [])"
| sr_decline: "service_request (user_request i NOT_ASSISTING u (Some reason) no_fields [])"
| sr_assign: "service_request (user_request i ASSIGNED u None
                 (no_fields\<lparr>fld_assignedTo := Put (Some target)\<rparr>) [])"

section \<open>States and steps\<close>

type_synonym in_flight = "transition_request \<times> activity_row \<times> apply_transition_input"

record act_sys =
  s_db :: db
  s_flight :: "in_flight list"

text \<open>The part of the outbox that describes activity \<open>i\<close>, without the dispatch marks.\<close>

record logged =
  lg_version :: int
  lg_event :: string
  lg_payload :: json_obj

definition log_entry :: "outbox_row \<Rightarrow> logged" where
  "log_entry r = \<lparr>lg_version = ob_aggregateVersion r, lg_event = ob_eventType r,
                  lg_payload = ob_payload r\<rparr>"

definition activity_log :: "db \<Rightarrow> uuid \<Rightarrow> logged list" where
  "activity_log d i = map log_entry
     (filter (\<lambda>r. ob_aggregateType r = Agg_activity \<and> ob_aggregateId r = i) (db_outbox d))"

inductive act_step :: "act_sys \<Rightarrow> act_sys \<Rightarrow> bool" where
  begin_request:
    "service_request req \<Longrightarrow> transition_plan e (s_db s) req = Commit a input \<Longrightarrow>
     act_step s (s\<lparr>s_flight := (req, a, input) # s_flight s\<rparr>)"
| commit:
    "(req, a, input) \<in> set (s_flight s) \<Longrightarrow>
     applyTransition ob at input (s_db s) = Some (u, d') \<Longrightarrow>
     act_step s (s\<lparr>s_db := d', s_flight := remove1 (req, a, input) (s_flight s)\<rparr>)"
| miss:
    "(req, a, input) \<in> set (s_flight s) \<Longrightarrow> applyTransition ob at input (s_db s) = None \<Longrightarrow>
     act_step s (s\<lparr>s_flight := remove1 (req, a, input) (s_flight s)\<rparr>)"
| create:
    "create_activity e (s_db s) b dto u = Inr (row, d', cmds) \<Longrightarrow>
     env_uuid e 0 \<notin> act_id ` set (db_activities (s_db s)) \<Longrightarrow>
     activity_log (s_db s) (env_uuid e 0) = [] \<Longrightarrow>
     act_step s (s\<lparr>s_db := d'\<rparr>)"
| elsewhere:
    "db_activities d' = db_activities (s_db s) \<Longrightarrow>
     (\<And>i. activity_log d' i = activity_log (s_db s) i) \<Longrightarrow>
     act_step s (s\<lparr>s_db := d'\<rparr>)"

inductive reachable :: "act_sys \<Rightarrow> bool" where
  reachable_init: "db_activities d = [] \<Longrightarrow> reachable \<lparr>s_db = d, s_flight = []\<rparr>"
| reachable_step: "reachable s \<Longrightarrow> act_step s s' \<Longrightarrow> reachable s'"

inductive_cases act_step_cases: "act_step s s'"

section \<open>The row invariant\<close>

text \<open>Which columns a row has in which state.\<close>

definition open_columns :: "activity_row \<Rightarrow> bool" where
  "open_columns a \<longleftrightarrow> act_deletedAt a = None \<and> act_cancelledAt a = None \<and>
     act_cancelledBy a = None \<and> act_completedAt a = None"

definition columns_wf :: "activity_status \<Rightarrow> activity_row \<Rightarrow> bool" where
  "columns_wf st a =
     (case st of
        CREATED \<Rightarrow> open_columns a \<and> act_assignedTo a = None \<and> act_confirmedAt a = None \<and>
          act_declinedAt a = None \<and> act_verifyAt a = None \<and> act_deadline a \<noteq> None
      | ASSIGNED \<Rightarrow> open_columns a \<and> act_assignedTo a \<noteq> None \<and> act_confirmedAt a = None \<and>
          act_declinedAt a = None \<and> act_verifyAt a = None \<and> act_deadline a \<noteq> None
      | ASSISTING \<Rightarrow> open_columns a \<and> act_assignedTo a \<noteq> None \<and> act_confirmedAt a \<noteq> None \<and>
          act_declinedAt a = None \<and> act_verifyAt a = None \<and> act_deadline a = None
      | IN_PROGRESS \<Rightarrow> open_columns a \<and> act_assignedTo a \<noteq> None \<and> act_confirmedAt a \<noteq> None \<and>
          act_declinedAt a = None \<and> act_verifyAt a = None \<and> act_deadline a = None
      | VERIFY \<Rightarrow> open_columns a \<and> act_assignedTo a \<noteq> None \<and> act_confirmedAt a \<noteq> None \<and>
          act_declinedAt a = None \<and> act_verifyAt a \<noteq> None \<and> act_deadline a \<noteq> None
      | DONE \<Rightarrow> act_deletedAt a = None \<and> act_cancelledAt a = None \<and> act_cancelledBy a = None \<and>
          act_completedAt a \<noteq> None \<and> act_assignedTo a \<noteq> None \<and> act_confirmedAt a \<noteq> None \<and>
          act_declinedAt a = None \<and> act_verifyAt a = None \<and> act_deadline a = None
      | OVERDUE \<Rightarrow> open_columns a \<and> act_declinedAt a = None \<and>
          (act_assignedTo a = None \<longrightarrow> act_verifyAt a = None) \<and>
          (act_confirmedAt a = None \<longleftrightarrow> act_verifyAt a = None)
      | NOT_ASSISTING \<Rightarrow> open_columns a \<and> act_assignedTo a \<noteq> None \<and> act_confirmedAt a = None \<and>
          act_declinedAt a \<noteq> None \<and> act_verifyAt a = None
      | CANCELLED \<Rightarrow> act_cancelledAt a \<noteq> None \<and> act_cancelledBy a \<noteq> None \<and>
          act_completedAt a = None \<and> act_verifyAt a = None \<and> act_deadline a = None)"

definition row_wf :: "activity_row \<Rightarrow> bool" where
  "row_wf a \<longleftrightarrow> 1 \<le> act_version a \<and> act_scheduledStart a \<noteq> None \<and>
     columns_wf (act_status a) a"

lemma service_request_fields:
  assumes "service_request req"
  shows "fld_confirmedAt (tr_fields req) = Keep" "fld_cancelledAt (tr_fields req) = Keep"
    "fld_cancelledBy (tr_fields req) = Keep" "fld_declinedAt (tr_fields req) = Keep"
    "fld_completedAt (tr_fields req) = Keep" "fld_deadline (tr_fields req) = Keep"
    "fld_verifyAt (tr_fields req) = Keep" "fld_declinedReason (tr_fields req) = Keep"
  using assms by (cases; simp add: system_request_def user_request_def)+

lemma service_request_assignee:
  assumes "service_request req"
  shows "if tr_to req = ASSIGNED \<and> tr_actor req \<noteq> System_actor
         then \<exists>t. fld_assignedTo (tr_fields req) = Put (Some t)
         else fld_assignedTo (tr_fields req) = Keep"
  using assms by (cases; simp add: system_request_def user_request_def)

lemma service_request_deletedAt:
  assumes "service_request req"
  shows "fld_deletedAt (tr_fields req) = Keep \<or>
         (tr_to req = CANCELLED \<and> (\<exists>t. fld_deletedAt (tr_fields req) = Put (Some t)))"
  using assms by (cases; simp add: system_request_def user_request_def)

lemma buildTransitionFields_simps [simp]:
  "fld_assignedTo (buildTransitionFields e se now u r) = Keep"
  "fld_deletedAt (buildTransitionFields e se now u r) = Keep"
  "fld_confirmedAt (buildTransitionFields e se now u r) = stamp_effect (se_confirmedAt se) now"
  "fld_verifyAt (buildTransitionFields e se now u r) = stamp_effect (se_verifyAt se) now"
  "fld_declinedAt (buildTransitionFields e se now u r) = stamp_effect (se_declinedAt se) now"
  "fld_completedAt (buildTransitionFields e se now u r) =
     (if se_completedAt se = Some True then Put (Some now) else Keep)"
  "fld_cancelledAt (buildTransitionFields e se now u r) =
     (if se_cancelledAt se = Some True then Put (Some now) else Keep)"
  "fld_cancelledBy (buildTransitionFields e se now u r) =
     (if se_cancelledAt se = Some True \<and> u \<noteq> None then Put u else Keep)"
  "fld_deadline (buildTransitionFields e se now u r) =
     (case se_deadline se of Some Deadline_clear \<Rightarrow> Put None
      | Some Deadline_set \<Rightarrow> Put (Some (computeResponseDeadline e now)) | None \<Rightarrow> Keep)"
  by (simp_all add: buildTransitionFields_def)

lemma CANCEL_EFFECTS_simps [simp]:
  "se_deadline CANCEL_EFFECTS = Some Deadline_clear"
  "se_confirmedAt CANCEL_EFFECTS = None"
  "se_cancelledAt CANCEL_EFFECTS = Some True"
  "se_declinedAt CANCEL_EFFECTS = None"
  "se_completedAt CANCEL_EFFECTS = None"
  "se_verifyAt CANCEL_EFFECTS = Some False"
  by (simp_all add: CANCEL_EFFECTS_def)

text \<open>A permitted transition of a well-formed row leads to a well-formed row.\<close>

lemma transitioned_wf:
  assumes wf: "row_wf a" and sr: "service_request req"
    and rule: "resolveTransition (act_status a) (tr_to req) = Some rule"
    and ok: "permitted (tr_actor req) rule a"
  shows "row_wf (transitioned at (transition_input e d req a rule) a)"
proof -
  note flds = service_request_fields [OF sr]
  note asg = service_request_assignee [OF sr]
  note del = service_request_deletedAt [OF sr]
  note defs = row_wf_def columns_wf_def open_columns_def
  have v: "1 \<le> act_version a" "act_scheduledStart a \<noteq> None" and cols: "columns_wf (act_status a) a"
    using wf by (simp_all add: row_wf_def)
  have not_done: "act_completedAt a = None"
    using rule cols
    by (cases "act_status a")
      (auto simp: columns_wf_def open_columns_def terminal_no_rule TERMINAL_ACTIVITY_STATUSES_def)
  show ?thesis
    using v cols ok asg del not_done
    by (cases rule: rule_cases [OF rule]; cases "tr_actor req")
      (auto simp: defs flds permitted_def overdueOrigin_assigned_iff)
qed

section \<open>Reachable states\<close>

text \<open>The log of a row: versions 1 to the current one without gaps, each entry starting in the
  state the previous one reached, the last one reaching the current state; and an overdue row
  carries the event of the rule that made it overdue.\<close>

definition payload_end :: "string \<Rightarrow> logged \<Rightarrow> json option" where
  "payload_end k l = map_of (lg_payload l) k"

definition overdue_event :: "activity_row \<Rightarrow> activity_event" where
  "overdue_event a =
     (case overdueOrigin (act_assignedTo a) (act_verifyAt a) of
        From_created \<Rightarrow> EV_CREATED_OVERDUE | From_verify \<Rightarrow> EV_VERIFY_EXPIRED
      | From_assigned \<Rightarrow> EV_OVERDUE)"

definition log_ok :: "activity_row \<Rightarrow> logged list \<Rightarrow> bool" where
  "log_ok a lg \<longleftrightarrow> lg \<noteq> [] \<and>
     map lg_version lg = [1..act_version a] \<and>
     successively (\<lambda>x y. payload_end ''from'' y = payload_end ''to'' x) lg \<and>
     payload_end ''to'' (last lg) = Some (jstr (status_string (act_status a))) \<and>
     (act_status a = OVERDUE \<longrightarrow> lg_event (last lg) = ACTIVITY_EVENT (overdue_event a))"

text \<open>A write in flight was decided on a live row \<open>a\<close>; the row has only moved on since, and
  if its version is still that of \<open>a\<close> it is \<open>a\<close> itself.\<close>

definition flight_ok :: "db \<Rightarrow> in_flight \<Rightarrow> bool" where
  "flight_ok d f =
     (case f of (req, a, input) \<Rightarrow>
        service_request req \<and> row_wf a \<and> act_deletedAt a = None \<and>
        (\<exists>e d0 rule. resolveTransition (act_status a) (tr_to req) = Some rule \<and>
           permitted (tr_actor req) rule a \<and> input = transition_input e d0 req a rule) \<and>
        (\<exists>r. findByIdIncludingDeleted d (act_id a) = Some r \<and> act_version a \<le> act_version r \<and>
           (act_version r = act_version a \<longrightarrow> r = a)))"

definition sys_inv :: "act_sys \<Rightarrow> bool" where
  "sys_inv s \<longleftrightarrow>
     distinct (map act_id (db_activities (s_db s))) \<and>
     (\<forall>a \<in> set (db_activities (s_db s)).
        row_wf a \<and> log_ok a (activity_log (s_db s) (act_id a))) \<and>
     (\<forall>f \<in> set (s_flight s). flight_ok (s_db s) f)"

lemma transition_payload:
  assumes "service_request req"
  shows "map_of (ati_payload (transition_input e d req a rule)) ''to'' =
           Some (jstr (status_string (tr_to req)))"
    and "map_of (ati_payload (transition_input e d req a rule)) ''from'' =
           Some (jstr (status_string (act_status a)))"
  using assms
  by (cases; simp add: transition_input_def system_request_def user_request_def Let_def
      map_of_obj_spread)+

text \<open>The event of the rule that leads to \<open>overdue\<close> is the one the origin of the row names.\<close>

lemma overdue_event_of_rule:
  assumes wf: "row_wf a" and sr: "service_request req"
    and rule: "resolveTransition (act_status a) (tr_to req) = Some rule"
    and to: "tr_to req = OVERDUE"
  shows "rule_event rule =
           overdue_event (transitioned at (transition_input e d req a rule) a)"
proof -
  note flds = service_request_fields [OF sr]
  have asg: "fld_assignedTo (tr_fields req) = Keep"
    using service_request_assignee [OF sr] to by simp
  show ?thesis
    using wf to
    by (cases rule: rule_cases [OF rule])
      (auto simp: overdue_event_def overdueOrigin_def flds asg row_wf_def columns_wf_def)
qed

lemma log_ok_extend:
  assumes lg: "log_ok a lg" and wf: "row_wf a"
    and entry: "lg_version l = act_version a + 1"
      "payload_end ''from'' l = Some (jstr (status_string (act_status a)))"
      "payload_end ''to'' l = Some (jstr (status_string (act_status b)))"
    and b: "act_version b = act_version a + 1"
      "act_status b = OVERDUE \<Longrightarrow> lg_event l = ACTIVITY_EVENT (overdue_event b)"
  shows "log_ok b (lg @ [l])"
proof -
  have "1 \<le> act_version a"
    using wf by (simp add: row_wf_def)
  then have "[1..act_version a + 1] = [1..act_version a] @ [act_version a + 1]"
    by (simp add: upto_rec2)
  then show ?thesis
    using lg entry b by (auto simp: log_ok_def successively_append_iff)
qed

lemma log_after_applyTransition:
  assumes "applyTransition ob at input d = Some (u, d')"
  shows "activity_log d' i =
     (if i = ati_id input
      then activity_log d i @ [\<lparr>lg_version = act_version u, lg_event = ati_eventType input,
                                 lg_payload = ati_payload input\<rparr>]
      else activity_log d i)"
proof -
  obtain r where "db_outbox d' = db_outbox d @ [r]" "ob_aggregateType r = Agg_activity"
      "ob_aggregateId r = ati_id input" "ob_eventType r = ati_eventType input"
      "ob_aggregateVersion r = act_version u" "ob_payload r = ati_payload input"
    using assms by (rule applyTransition_outbox) simp
  then show ?thesis
    by (simp add: activity_log_def log_entry_def)
qed

text \<open>What a write in flight finds when it commits: the very row it was decided on.\<close>

lemma commit_finds_its_row:
  assumes "flight_ok d (req, a, input)"
    and "applyTransition ob at input d = Some (u, d')"
  obtains e d0 rule where
    "findByIdIncludingDeleted d (act_id a) = Some a"
    "u = transitioned at input a"
    "db_activities d' = update_by act_id (act_id a) (transitioned at input) (db_activities d)"
    "resolveTransition (act_status a) (tr_to req) = Some rule"
    "permitted (tr_actor req) rule a"
    "input = transition_input e d0 req a rule"
proof -
  obtain e d0 rule r where in_rule: "resolveTransition (act_status a) (tr_to req) = Some rule"
      "permitted (tr_actor req) rule a" "input = transition_input e d0 req a rule"
    and r: "findByIdIncludingDeleted d (act_id a) = Some r"
      "act_version r = act_version a \<longrightarrow> r = a"
    using assms(1) by (auto simp: flight_ok_def)
  obtain row where row: "findByIdIncludingDeleted d (ati_id input) = Some row"
      "guards_hold input row" "u = transitioned at input row"
      "db_activities d' = update_by act_id (ati_id input) (transitioned at input) (db_activities d)"
    using assms(2) by (rule applyTransition_SomeD)
  have "row = a"
    using row r in_rule by (auto simp: guards_hold_def)
  then show thesis
    using row r in_rule that by simp
qed

lemma flight_ok_after_commit:
  assumes f: "flight_ok d f" and inv: "flight_ok d (req, a, input)"
    and upd: "applyTransition ob at input d = Some (u, d')"
  shows "flight_ok d' f"
proof -
  obtain req' a' input' where f_eq: "f = (req', a', input')"
    by (cases f)
  obtain r where r: "findByIdIncludingDeleted d (act_id a') = Some r"
      "act_version a' \<le> act_version r" "act_version r = act_version a' \<longrightarrow> r = a'"
    using f by (auto simp: flight_ok_def f_eq)
  obtain e d0 rule where c: "findByIdIncludingDeleted d (act_id a) = Some a"
      "u = transitioned at input a" "input = transition_input e d0 req a rule"
    using inv upd by (rule commit_finds_its_row)
  have "\<exists>r. findByIdIncludingDeleted d' (act_id a') = Some r \<and> act_version a' \<le> act_version r \<and>
            (act_version r = act_version a' \<longrightarrow> r = a')"
    using r c by (cases "act_id a' = act_id a") (auto simp: lookup_after_applyTransition [OF upd])
  then show ?thesis
    using f by (simp add: flight_ok_def f_eq)
qed

lemma sys_inv_commit:
  assumes inv: "sys_inv s" and f: "(req, a, input) \<in> set (s_flight s)"
    and upd: "applyTransition ob at input (s_db s) = Some (u, d')"
  shows "sys_inv (s\<lparr>s_db := d', s_flight := remove1 (req, a, input) (s_flight s)\<rparr>)"
proof -
  let ?d = "s_db s"
  have fok: "flight_ok ?d (req, a, input)"
    using inv f by (auto simp: sys_inv_def)
  then have sr: "service_request req" and wf_a: "row_wf a"
    by (simp_all add: flight_ok_def)
  obtain e d0 rule where c: "findByIdIncludingDeleted ?d (act_id a) = Some a"
      "u = transitioned at input a"
      "db_activities d' = update_by act_id (act_id a) (transitioned at input) (db_activities ?d)"
      "resolveTransition (act_status a) (tr_to req) = Some rule"
      "permitted (tr_actor req) rule a"
      "input = transition_input e d0 req a rule"
    using fok upd by (rule commit_finds_its_row)
  have wf_u: "row_wf u"
    unfolding c(2) c(6) using wf_a sr c(4,5) by (rule transitioned_wf)
  have dist: "distinct (map act_id (db_activities ?d))"
    using inv by (simp add: sys_inv_def)
  have a_in: "a \<in> set (db_activities ?d)"
    using c(1) by (auto simp: findByIdIncludingDeleted_def dest: lookup_by_SomeD)
  then have log_a: "log_ok a (activity_log ?d (act_id a))"
    using inv by (simp add: sys_inv_def)
  have log_u: "log_ok u (activity_log d' (act_id u))"
  proof -
    have ev: "act_status u = OVERDUE \<Longrightarrow> rule_event rule = overdue_event u"
      unfolding c(2) c(6) by (rule overdue_event_of_rule [OF wf_a sr c(4)]) (simp add: c(6))
    have "log_ok u (activity_log ?d (act_id a) @ [\<lparr>lg_version = act_version u,
            lg_event = ati_eventType input, lg_payload = ati_payload input\<rparr>])"
      by (rule log_ok_extend [OF log_a wf_a])
        (use ev in \<open>auto simp: c(2) c(6) payload_end_def transition_payload [OF sr]\<close>)
    then show ?thesis
      by (simp add: log_after_applyTransition [OF upd] c(2)) (simp add: c(6))
  qed
  have rows: "row_wf b \<and> log_ok b (activity_log d' (act_id b))" if "b \<in> set (db_activities d')" for b
  proof -
    from that consider b0 where "b0 \<in> set (db_activities ?d)" "act_id b0 = act_id a"
        "b = transitioned at input b0"
      | "b \<in> set (db_activities ?d)" "act_id b \<noteq> act_id a"
      unfolding c(3) by (auto dest: set_update_by_cases)
    then show ?thesis
    proof cases
      case 1
      then have "b0 = a"
        using dist a_in by (auto simp: distinct_map inj_on_def)
      then show ?thesis using 1 wf_u log_u c(2) by simp
    next
      case 2
      then have "activity_log d' (act_id b) = activity_log ?d (act_id b)"
        by (simp add: log_after_applyTransition [OF upd]) (simp add: c(6))
      then show ?thesis using 2 inv by (simp add: sys_inv_def)
    qed
  qed
  have "distinct (map act_id (db_activities d'))"
    unfolding c(3) using dist by simp
  moreover have "flight_ok d' f" if "f \<in> set (remove1 (req, a, input) (s_flight s))" for f
  proof -
    have "f \<in> set (s_flight s)"
      using that set_remove1_subset by fast
    then have "flight_ok ?d f"
      using inv by (simp add: sys_inv_def)
    then show ?thesis
      using fok upd by (rule flight_ok_after_commit)
  qed
  ultimately show ?thesis
    using rows by (simp add: sys_inv_def)
qed

lemma sys_inv_begin:
  assumes inv: "sys_inv s" and sr: "service_request req"
    and plan: "transition_plan e (s_db s) req = Commit a input"
  shows "sys_inv (s\<lparr>s_flight := (req, a, input) # s_flight s\<rparr>)"
proof -
  have a: "findById (s_db s) (tr_activityId req) = Some a"
    and "\<exists>rule. resolveTransition (act_status a) (tr_to req) = Some rule \<and>
           permitted (tr_actor req) rule a \<and> input = transition_input e (s_db s) req a rule"
    using plan by (simp_all add: transition_plan_Commit_iff)
  moreover have "findByIdIncludingDeleted (s_db s) (act_id a) = Some a" "act_deletedAt a = None"
    "a \<in> set (db_activities (s_db s))"
    using a inv findById_lookup [of "s_db s"] findById_SomeD [OF a] by (auto simp: sys_inv_def)
  ultimately have "flight_ok (s_db s) (req, a, input)"
    using sr inv by (auto simp: flight_ok_def sys_inv_def)
  then show ?thesis
    using inv by (simp add: sys_inv_def)
qed

lemma sys_inv_create:
  assumes inv: "sys_inv s" and new: "create_activity e (s_db s) b dto u = Inr (row, d', cmds)"
    and fresh: "env_uuid e 0 \<notin> act_id ` set (db_activities (s_db s))"
    and no_log: "activity_log (s_db s) (env_uuid e 0) = []"
  shows "sys_inv (s\<lparr>s_db := d'\<rparr>)"
proof -
  let ?d = "s_db s"
  obtain category r where c:
      "row = new_activity (env_uuid e 0) (env_dbnow e)
         (create_draft e b dto u category (env_clock e 2)) (resolveInitial (ca_assignedTo dto \<noteq> None))"
      "db_activities d' = db_activities ?d @ [row]"
      "db_outbox d' = db_outbox ?d @ [r]"
    and r: "ob_aggregateType r = Agg_activity" "ob_aggregateId r = act_id row"
      "ob_aggregateVersion r = 1"
      "map_of (ob_payload r) ''to'' = Some (jstr (status_string (act_status row)))"
    using new by (rule create_activity_InrD)
  have log: "activity_log d' i = (if i = act_id row then activity_log ?d i @ [log_entry r]
                                  else activity_log ?d i)" for i
    by (simp add: activity_log_def c(3) r)
  have id: "act_id row = env_uuid e 0"
    by (simp add: c(1))
  have "row_wf row"
    by (auto simp: row_wf_def columns_wf_def open_columns_def c(1) resolveInitial_def create_draft_def)
  moreover have "log_ok row (activity_log d' (act_id row))"
    using no_log r
    by (auto simp: log id log_ok_def log_entry_def payload_end_def c(1) resolveInitial_def)
  moreover have "log_ok a (activity_log d' (act_id a))" if "a \<in> set (db_activities ?d)" for a
  proof -
    have "act_id a \<noteq> env_uuid e 0"
      using that fresh by (metis image_eqI)
    then show ?thesis
      using that inv by (simp add: log id sys_inv_def)
  qed
  moreover have "flight_ok d' f" if "flight_ok ?d f" for f
    using that fresh
    by (cases f)
      (auto simp: flight_ok_def c(2) findByIdIncludingDeleted_def lookup_by_append split: option.splits)
  ultimately show ?thesis
    using inv fresh by (auto simp: sys_inv_def c(2) id)
qed

lemma reachable_inv: "reachable s \<Longrightarrow> sys_inv s"
proof (induction rule: reachable.induct)
  case (reachable_init d)
  then show ?case by (simp add: sys_inv_def)
next
  case (reachable_step s s')
  from reachable_step.hyps(2) show ?case
  proof (cases rule: act_step.cases)
    case (begin_request req e a input)
    then show ?thesis using reachable_step.IH sys_inv_begin by simp
  next
    case (commit req a input ob at u d')
    then show ?thesis using reachable_step.IH sys_inv_commit by simp
  next
    case (miss req a input ob at)
    then show ?thesis
      using reachable_step.IH set_remove1_subset [of "(req, a, input)" "s_flight s"]
      by (auto simp: sys_inv_def)
  next
    case (create e b dto u row d' cmds)
    then show ?thesis using reachable_step.IH sys_inv_create by simp
  next
    case (elsewhere d')
    then show ?thesis
      using reachable_step.IH
      by (auto simp: sys_inv_def flight_ok_def findByIdIncludingDeleted_def)
  qed
qed

section \<open>How a row moves\<close>

text \<open>In one step a row keeps its id, never loses a version, is the same row while its version
  is the same, and does not move at all in a terminal state.\<close>

definition row_moves :: "activity_row \<Rightarrow> activity_row \<Rightarrow> bool" where
  "row_moves r r' \<longleftrightarrow> act_id r' = act_id r \<and> act_version r \<le> act_version r' \<and>
     (act_version r' = act_version r \<longrightarrow> r' = r) \<and>
     (act_status r \<in> set TERMINAL_ACTIVITY_STATUSES \<longrightarrow> r' = r)"

lemma row_moves_refl [simp]: "row_moves r r"
  by (simp add: row_moves_def)

lemma row_moves_trans: "row_moves r r1 \<Longrightarrow> row_moves r1 r2 \<Longrightarrow> row_moves r r2"
  by (auto simp: row_moves_def)

lemma step_row_moves:
  assumes inv: "sys_inv s" and "act_step s s'" and r: "r \<in> set (db_activities (s_db s))"
  shows "\<exists>r' \<in> set (db_activities (s_db s')). row_moves r r'"
  using assms(2)
proof (cases rule: act_step.cases)
  case (commit req a input ob at u d')
  have fok: "flight_ok (s_db s) (req, a, input)"
    using inv commit(2) by (auto simp: sys_inv_def)
  obtain e d0 rule where c: "findByIdIncludingDeleted (s_db s) (act_id a) = Some a"
      "db_activities d' = update_by act_id (act_id a) (transitioned at input) (db_activities (s_db s))"
      "resolveTransition (act_status a) (tr_to req) = Some rule"
    using fok commit(3) by (rule commit_finds_its_row)
  show ?thesis
  proof (cases "act_id r = act_id a")
    case True
    have "a \<in> set (db_activities (s_db s))"
      using c(1) by (auto simp: findByIdIncludingDeleted_def dest: lookup_by_SomeD)
    then have "r = a"
      using True r inv by (auto simp: sys_inv_def distinct_map inj_on_def)
    moreover have "act_status a \<notin> set TERMINAL_ACTIVITY_STATUSES"
      using c(3) terminal_no_rule by auto
    ultimately have "row_moves r (transitioned at input r)"
      by (simp add: row_moves_def)
    moreover have "transitioned at input r \<in> set (db_activities d')"
      using r True by (force simp: c(2) update_by_def)
    ultimately show ?thesis
      using commit(1) by auto
  next
    case False
    then have "r \<in> set (db_activities d')"
      using r by (force simp: c(2) update_by_def)
    then show ?thesis
      using commit(1) by (auto intro: bexI [of _ r])
  qed
next
  case (create e b dto u row d' cmds)
  then show ?thesis
    using r by (elim create_activity_InrD) (auto intro!: bexI [of _ r])
qed (use r in \<open>auto intro!: bexI [of _ r]\<close>)

lemma steps_row_moves:
  assumes "act_step\<^sup>*\<^sup>* s s'" and "reachable s" and "r \<in> set (db_activities (s_db s))"
  shows "\<exists>r' \<in> set (db_activities (s_db s')). row_moves r r'"
  using assms
proof (induction rule: rtranclp_induct)
  case (step s1 s2)
  have "reachable s1"
    using step.hyps(1) step.prems(1) by (induction rule: rtranclp_induct) (auto intro: reachable_step)
  moreover obtain r1 where "r1 \<in> set (db_activities (s_db s1))" "row_moves r r1"
    using step.IH step.prems by blast
  ultimately show ?case
    using step_row_moves [OF reachable_inv step.hyps(2)] row_moves_trans by blast
qed (use row_moves_refl in blast)

lemma reachable_steps: "act_step\<^sup>*\<^sup>* s s' \<Longrightarrow> reachable s \<Longrightarrow> reachable s'"
  by (induction rule: rtranclp_induct) (auto intro: reachable_step)

lemma reachable_unique_row:
  assumes "reachable s" "r \<in> set (db_activities (s_db s))" "r' \<in> set (db_activities (s_db s))"
    "act_id r = act_id r'"
  shows "r = r'"
  using reachable_inv [OF assms(1)] assms(2-4) by (auto simp: sys_inv_def distinct_map inj_on_def)

section \<open>The operations are runs of the machine\<close>

lemma transition_is_steps:
  assumes "service_request req" and "transition e (s_db s) req = Inr (r, d', cmds)"
  shows "act_step\<^sup>*\<^sup>* s (s\<lparr>s_db := d'\<rparr>)"
  using assms(2)
proof (cases rule: transition_Inr_cases)
  case nothing
  then show ?thesis by simp
next
  case (moved a input u)
  let ?s1 = "s\<lparr>s_flight := (req, a, input) # s_flight s\<rparr>"
  have "act_step s ?s1"
    using assms(1) moved(1) by (rule begin_request)
  moreover have "act_step ?s1 (?s1\<lparr>s_db := d', s_flight := remove1 (req, a, input) (s_flight ?s1)\<rparr>)"
    by (rule commit [of req a input _ "env_uuid e 0" "env_dbnow e" u]) (simp_all add: moved)
  ultimately show ?thesis by simp
qed

lemma answer_updated_steps:
  assumes "answer_updated a to f (transition e (s_db s) req) = Inr (x, d', cmds)"
    and "service_request req"
  shows "act_step\<^sup>*\<^sup>* s (s\<lparr>s_db := d'\<rparr>)"
  using assms transition_is_steps
  by (auto simp: answer_updated_def chain_simps split: option.splits)

lemma operations_are_steps:
  "complete_activity e (s_db s) i u = Inr (x1, d', cmds) \<Longrightarrow> act_step\<^sup>*\<^sup>* s (s\<lparr>s_db := d'\<rparr>)"
  "confirmAssignment e (s_db s) i u = Inr (x2, d', cmds) \<Longrightarrow> act_step\<^sup>*\<^sup>* s (s\<lparr>s_db := d'\<rparr>)"
  "delete_activity e (s_db s) i u = Inr (x3, d', cmds) \<Longrightarrow> act_step\<^sup>*\<^sup>* s (s\<lparr>s_db := d'\<rparr>)"
  "cancel_activity e (s_db s) i u raw = Inr (x4, d', cmds) \<Longrightarrow> act_step\<^sup>*\<^sup>* s (s\<lparr>s_db := d'\<rparr>)"
  "declineAssignment e (s_db s) i u raw = Inr (x5, d', cmds) \<Longrightarrow> act_step\<^sup>*\<^sup>* s (s\<lparr>s_db := d'\<rparr>)"
  "reassignInternal e (s_db s) i u target = Inr (x6, d', cmds) \<Longrightarrow> act_step\<^sup>*\<^sup>* s (s\<lparr>s_db := d'\<rparr>)"
  unfolding complete_activity_def confirmAssignment_def delete_activity_def cancel_activity_def
    declineAssignment_def reassignInternal_def Let_def
  by (auto simp: chain_simps split: if_splits option.splits
      elim!: answer_updated_steps intro: service_request.intros)

lemma applySystemTransition_is_steps:
  "act_step\<^sup>*\<^sup>* s (s\<lparr>s_db := fst (applySystemTransition e (s_db s) i to)\<rparr>)"
  using transition_is_steps [OF sr_system]
  by (auto simp: applySystemTransition_def split: sum.split)

end
