(* ===== verification/Activity_Timers.thy ===== *)
theory Activity_Timers
  imports Activity_Machine
begin

text \<open>The consuming half of the timer engine (\<open>queues/activity-timers/\<close>: processor and sweep).
  A timer job is checked against the current row and applies a system transition; the sweep
  queries the rows whose timer should have fired and applies the same transition. Neither
  throws. The i-th row of a sweep is handled in its own environment.\<close>

section \<open>The processor\<close>

fun expectedSourceFor :: "timer_kind \<Rightarrow> activity_status list option" where
  "expectedSourceFor RESPONSE_TIMEOUT = Some [CREATED, ASSIGNED]"
| "expectedSourceFor START = Some [ASSISTING]"
| "expectedSourceFor END = Some [IN_PROGRESS]"
| "expectedSourceFor VERIFY_TIMEOUT = Some [VERIFY]"
| "expectedSourceFor SWEEP = None"

fun targetStatusFor :: "timer_kind \<Rightarrow> activity_status option" where
  "targetStatusFor RESPONSE_TIMEOUT = Some OVERDUE"
| "targetStatusFor START = Some IN_PROGRESS"
| "targetStatusFor END = Some VERIFY"
| "targetStatusFor VERIFY_TIMEOUT = Some OVERDUE"
| "targetStatusFor SWEEP = None"

definition handleTimer :: "env \<Rightarrow> timer_job \<Rightarrow> db \<Rightarrow> db \<times> queue_cmd list" where
  "handleTimer e data d =
     (case findById d (tj_activityId data) of
        None \<Rightarrow> (d, [])
      | Some activity \<Rightarrow>
          if act_version activity \<noteq> tj_version data then (d, [])
          else if (case expectedSourceFor (tj_kind data) of
                     None \<Rightarrow> False | Some expected \<Rightarrow> act_status activity \<notin> set expected)
          then (d, [])
          else (case targetStatusFor (tj_kind data) of
                  None \<Rightarrow> (d, [])
                | Some to \<Rightarrow> applySystemTransition e d (act_id activity) to))"

section \<open>The sweep\<close>

definition SWEEP_INTERVAL_MS :: int where
  "SWEEP_INTERVAL_MS = 15 * 60 * 1000"

definition SWEEP_LIMIT :: nat where
  "SWEEP_LIMIT = 100"

definition dueTargetFor :: "activity_row \<Rightarrow> instant \<Rightarrow> activity_status option" where
  "dueTargetFor activity now =
     (if (act_status activity = CREATED \<or> act_status activity = ASSIGNED) \<and>
         is_reached (act_deadline activity) now then Some OVERDUE
      else if act_status activity = ASSISTING \<and> is_reached (act_scheduledStart activity) now
      then Some IN_PROGRESS
      else if act_status activity = IN_PROGRESS \<and>
              is_reached (coalesce (act_scheduledEnd activity) (act_scheduledStart activity)) now
      then Some VERIFY
      else if act_status activity = VERIFY \<and> is_reached (act_deadline activity) now
      then Some OVERDUE
      else None)"

fun sweep_rows ::
  "(nat \<Rightarrow> env) \<Rightarrow> instant \<Rightarrow> activity_row list \<Rightarrow> db \<Rightarrow> db \<times> queue_cmd list" where
  "sweep_rows es now [] d = (d, [])"
| "sweep_rows es now (activity # due) d =
     (case dueTargetFor activity now of
        None \<Rightarrow> sweep_rows (\<lambda>n. es (Suc n)) now due d
      | Some to \<Rightarrow>
          (let (d1, cmds1) = applySystemTransition (es 0) d (act_id activity) to;
               (d2, cmds2) = sweep_rows (\<lambda>n. es (Suc n)) now due d1
           in (d2, cmds1 @ cmds2)))"

definition runSweep :: "(nat \<Rightarrow> env) \<Rightarrow> instant \<Rightarrow> db \<Rightarrow> db \<times> queue_cmd list" where
  "runSweep es now d = sweep_rows es now (findDueForTransition now SWEEP_LIMIT d) d"

text \<open>\<open>process\<close>: a job named \<open>sweep\<close> runs the sweep, any other job is a timer.\<close>

definition process_timer_job ::
  "(nat \<Rightarrow> env) \<Rightarrow> instant \<Rightarrow> timer_kind \<Rightarrow> timer_job \<Rightarrow> db \<Rightarrow> db \<times> queue_cmd list" where
  "process_timer_job es now name data d =
     (if name = SWEEP then runSweep es now d else handleTimer (es 0) data d)"

section \<open>Facts\<close>

lemma dueTargetFor_iff_due:
  "is_live a \<Longrightarrow> (\<exists>to. dueTargetFor a now = Some to) \<longleftrightarrow> is_due_sql now a"
  by (auto simp: dueTargetFor_def is_due_sql_def)

lemma dueTargetFor_cases:
  assumes "dueTargetFor a now = Some to"
  obtains "act_status a = CREATED" "to = OVERDUE" | "act_status a = ASSIGNED" "to = OVERDUE"
    | "act_status a = ASSISTING" "to = IN_PROGRESS" | "act_status a = IN_PROGRESS" "to = VERIFY"
    | "act_status a = VERIFY" "to = OVERDUE"
  using assms by (auto simp: dueTargetFor_def split: if_splits)

lemma dueTargetFor_has_rule:
  assumes "dueTargetFor a now = Some to"
  obtains rule where "resolveTransition (act_status a) to = Some rule"
    "permitted System_actor rule a"
  using assms
  by (cases rule: dueTargetFor_cases) (auto simp: system_rules permitted_def)

lemma applySystemTransition_plan:
  assumes dist: "distinct (map act_id (db_activities d))"
    and a: "findById d i = Some a"
    and rule: "resolveTransition (act_status a) to = Some rule" "permitted System_actor rule a"
  shows "db_activities (fst (applySystemTransition e d i to)) =
     update_by act_id i
       (transitioned (env_dbnow e) (transition_input e d (system_request i to) a rule))
       (db_activities d)"
proof -
  let ?q = "system_request i to"
  let ?in = "transition_input e d ?q a rule"
  have plan: "transition_plan e d ?q = Commit a ?in"
    using a rule by (simp add: transition_plan_Commit_iff member_ok_def system_request_def)
  obtain d' where d': "applyTransition (env_uuid e 0) (env_dbnow e) ?in d =
      Some (transitioned (env_dbnow e) ?in a, d')"
    using transition_commits [OF dist plan] by blast
  then have "db_activities d' =
      update_by act_id (ati_id ?in) (transitioned (env_dbnow e) ?in) (db_activities d)"
    by (rule applyTransition_SomeD) simp
  then show ?thesis
    using plan d' findById_SomeD [OF a]
    by (simp add: applySystemTransition_def transition_def transition_commit_def system_request_def)
qed

lemma handleTimer_is_steps: "act_step\<^sup>*\<^sup>* s (s\<lparr>s_db := fst (handleTimer e data (s_db s))\<rparr>)"
  using applySystemTransition_is_steps
  by (auto simp: handleTimer_def split: option.split)

lemma sweep_rows_is_steps: "act_step\<^sup>*\<^sup>* s (s\<lparr>s_db := fst (sweep_rows es now due (s_db s))\<rparr>)"
proof (induction due arbitrary: s es)
  case (Cons a due)
  show ?case
  proof (cases "dueTargetFor a now")
    case (Some to)
    let ?s1 = "s\<lparr>s_db := fst (applySystemTransition (es 0) (s_db s) (act_id a) to)\<rparr>"
    have "act_step\<^sup>*\<^sup>* s ?s1"
      by (rule applySystemTransition_is_steps)
    also have "act_step\<^sup>*\<^sup>* ?s1 (?s1\<lparr>s_db := fst (sweep_rows (\<lambda>n. es (Suc n)) now due (s_db ?s1))\<rparr>)"
      by (rule Cons.IH)
    finally show ?thesis
      using Some by (simp add: case_prod_beta)
  qed (use Cons.IH in simp)
qed simp

lemma process_timer_job_is_steps:
  "act_step\<^sup>*\<^sup>* s (s\<lparr>s_db := fst (process_timer_job es now name data (s_db s))\<rparr>)"
  by (simp add: process_timer_job_def handleTimer_is_steps runSweep_def sweep_rows_is_steps)

section \<open>Progress of the sweep\<close>

lemma applySystemTransition_keys:
  "map act_id (db_activities (fst (applySystemTransition e d i to))) = map act_id (db_activities d)"
proof (cases "transition e d (system_request i to)")
  case (Inr p)
  then obtain r d' cmds where p: "transition e d (system_request i to) = Inr (r, d', cmds)"
    by (cases p) auto
  then have "map act_id (db_activities d') = map act_id (db_activities d)"
    by (cases rule: transition_Inr_cases) (auto elim: applyTransition_SomeD)
  then show ?thesis
    by (simp add: applySystemTransition_def p)
qed (simp add: applySystemTransition_def)

lemma applySystemTransition_other:
  assumes "distinct (map act_id (db_activities d))" and "k \<noteq> i"
  shows "findById (fst (applySystemTransition e d i to)) k = findById d k"
proof -
  let ?d' = "fst (applySystemTransition e d i to)"
  have "findByIdIncludingDeleted ?d' k = findByIdIncludingDeleted d k"
  proof (cases "transition e d (system_request i to)")
    case (Inr p)
    then obtain r d' cmds where p: "transition e d (system_request i to) = Inr (r, d', cmds)"
      by (cases p) auto
    have "findByIdIncludingDeleted d' k = findByIdIncludingDeleted d k"
      using p
    proof (cases rule: transition_Inr_cases)
      case (moved a input u)
      then have "ati_id input = i"
        by (auto simp: transition_plan_Commit_iff system_request_def dest: findById_SomeD)
      then show ?thesis
        using moved(2) assms(2) by (simp add: lookup_after_applyTransition)
    qed simp
    then show ?thesis
      by (simp add: applySystemTransition_def p)
  qed (simp add: applySystemTransition_def)
  moreover have "distinct (map act_id (db_activities ?d'))"
    using assms(1) by (simp add: applySystemTransition_keys)
  ultimately show ?thesis
    using assms(1) by (metis findById_lookup not_Some_eq)
qed

lemma sweep_rows_keys:
  "map act_id (db_activities (fst (sweep_rows es now due d))) = map act_id (db_activities d)"
  by (induction due arbitrary: d es)
    (simp_all add: applySystemTransition_keys case_prod_beta split: option.split)

lemma sweep_rows_other:
  assumes "distinct (map act_id (db_activities d))" and "k \<notin> act_id ` set due"
  shows "findById (fst (sweep_rows es now due d)) k = findById d k"
  using assms
  by (induction due arbitrary: d es)
    (simp_all add: applySystemTransition_keys applySystemTransition_other case_prod_beta
      split: option.split)

text \<open>The row a system transition moved, as the next read finds it.\<close>

lemma applySystemTransition_moves:
  assumes dist: "distinct (map act_id (db_activities d))"
    and a: "findById d (act_id a) = Some a" and due: "dueTargetFor a now = Some to"
  shows "\<exists>a'. findById (fst (applySystemTransition e d (act_id a) to)) (act_id a) = Some a' \<and>
     act_status a' = to \<and> act_version a' = act_version a + 1"
proof -
  obtain rule where rule: "resolveTransition (act_status a) to = Some rule"
      "permitted System_actor rule a"
    using due by (rule dueTargetFor_has_rule)
  let ?in = "transition_input e d (system_request (act_id a) to) a rule"
  let ?d' = "fst (applySystemTransition e d (act_id a) to)"
  have acts: "db_activities ?d' =
      update_by act_id (act_id a) (transitioned (env_dbnow e) ?in) (db_activities d)"
    by (rule applySystemTransition_plan [OF dist a rule])
  have "findByIdIncludingDeleted d (act_id a) = Some a" and live: "act_deletedAt a = None"
    using a findById_lookup [OF dist] by auto
  then have "findByIdIncludingDeleted ?d' (act_id a) = Some (transitioned (env_dbnow e) ?in a)"
    by (simp add: findByIdIncludingDeleted_def acts lookup_by_update_same)
  moreover have "act_deletedAt (transitioned (env_dbnow e) ?in a) = None"
    using live by (simp add: system_request_def)
  moreover have "distinct (map act_id (db_activities ?d'))"
    using dist by (simp add: applySystemTransition_keys)
  ultimately show ?thesis
    by (auto simp: findById_lookup system_request_def)
qed

lemma sweep_rows_moves:
  assumes "distinct (map act_id (db_activities d))" and "distinct (map act_id due)"
    and "\<forall>a \<in> set due. findById d (act_id a) = Some a \<and> dueTargetFor a now \<noteq> None"
    and "b \<in> set due"
  shows "\<exists>b'. findById (fst (sweep_rows es now due d)) (act_id b) = Some b' \<and>
     dueTargetFor b now = Some (act_status b') \<and> act_version b' = act_version b + 1"
  using assms
proof (induction due arbitrary: d es)
  case (Cons a due)
  obtain to where to: "dueTargetFor a now = Some to"
    using Cons.prems(3) by auto
  let ?d1 = "fst (applySystemTransition (es 0) d (act_id a) to)"
  have run: "fst (sweep_rows es now (a # due) d) = fst (sweep_rows (\<lambda>n. es (Suc n)) now due ?d1)"
    by (simp add: to case_prod_beta)
  have dist1: "distinct (map act_id (db_activities ?d1))"
    using Cons.prems(1) by (simp add: applySystemTransition_keys)
  show ?case
  proof (cases "b = a")
    case True
    have "findById (fst (sweep_rows (\<lambda>n. es (Suc n)) now due ?d1)) (act_id a) = findById ?d1 (act_id a)"
      by (rule sweep_rows_other [OF dist1]) (use Cons.prems(2) in auto)
    then show ?thesis
      using applySystemTransition_moves [OF Cons.prems(1) _ to, of "es 0"] Cons.prems(3) True to run
      by auto
  next
    case False
    have "findById ?d1 (act_id c) = findById d (act_id c)" if "c \<in> set due" for c
      using Cons.prems(2) that
      by (intro applySystemTransition_other [OF Cons.prems(1)]) (auto simp: image_iff)
    then show ?thesis
      unfolding run using Cons.prems False by (intro Cons.IH [OF dist1]) auto
  qed
qed simp

lemma findDue_rows:
  assumes "distinct (map act_id (db_activities d))"
  shows "distinct (map act_id (findDueForTransition now limit d))"
    and "a \<in> set (findDueForTransition now limit d) \<Longrightarrow>
           findById d (act_id a) = Some a \<and> dueTargetFor a now \<noteq> None"
proof -
  have "distinct (map act_id (sort_key due_order (filter (is_due_sql now) (db_activities d))))"
    using assms by (auto simp: distinct_map inj_on_def)
  then show "distinct (map act_id (findDueForTransition now limit d))"
    by (simp add: findDueForTransition_def take_map [symmetric] distinct_take)
  assume "a \<in> set (findDueForTransition now limit d)"
  then have a: "a \<in> set (db_activities d)" "is_due_sql now a"
    by (auto simp: findDueForTransition_def dest: in_set_takeD)
  then have "findById d (act_id a) = Some a"
    using lookup_by_distinct [OF assms a(1)]
    by (simp add: findById_lookup [OF assms] findByIdIncludingDeleted_def is_due_sql_def is_live_def)
  then show "findById d (act_id a) = Some a \<and> dueTargetFor a now \<noteq> None"
    using a dueTargetFor_iff_due [of a now] by (auto simp: is_due_sql_def)
qed

end
