(* ===== verification/Examples.thy ===== *)
theory Examples
  imports Activity_Timers
begin

text \<open>A small concrete instance the witnesses evaluate: one bond with two active members, a
  category, a child, an environment, and states of the activity machine reached from it.\<close>

definition ex_bond :: bond_row where
  "ex_bond = \<lparr>bond_id = ''b'', bond_title = [], bond_agreementType = FORMAL,
     bond_courtCaseRef = None, bond_startDate = None, bond_endDate = None,
     bond_isActive = True, bond_createdAt = 0, bond_updatedAt = 0\<rparr>"

definition ex_member :: "uuid \<Rightarrow> uuid \<Rightarrow> bond_member_role \<Rightarrow> member_row" where
  "ex_member i u r = \<lparr>mem_id = i, mem_bondId = ''b'', mem_userId = u, mem_role = r,
     mem_joinedAt = None, mem_leftAt = None, mem_createdAt = 0\<rparr>"

definition ex_category :: category_row where
  "ex_category = \<lparr>cat_id = ''c'', cat_name = [], cat_description = None, cat_color = None,
     cat_icon = None, cat_criticality = MEDIUM, cat_isActive = True, cat_createdAt = 0,
     cat_updatedAt = 0\<rparr>"

definition ex_child :: child_row where
  "ex_child = \<lparr>child_id = ''k'', child_bondId = ''b'', child_firstName = [], child_lastName = [],
     child_dateOfBirth = None, child_createdAt = 0, child_updatedAt = 0\<rparr>"

definition ex_db0 :: db where
  "ex_db0 = empty_db\<lparr>db_bonds := [ex_bond],
     db_members := [ex_member ''m1'' ''u1'' PROGENITOR, ex_member ''m2'' ''u2'' PROGENITOR],
     db_categories := [ex_category], db_children := [ex_child]\<rparr>"

definition ex_env :: env where
  "ex_env = \<lparr>env_clock = (\<lambda>n. int n), env_dbnow = 0, env_uuid = (\<lambda>n. replicate (Suc n) CHR ''x''),
     env_response_timeout_hours = None, env_min_lead_time_hours = None\<rparr>"

definition ex_dto :: "uuid option \<Rightarrow> create_activity_dto" where
  "ex_dto assignee = \<lparr>ca_title = js ''Visit'', ca_description = None, ca_type = None,
     ca_categoryId = ''c'', ca_assignedTo = assignee, ca_scheduledStart = hours_ms 100,
     ca_scheduledEnd = Some (hours_ms 101), ca_childrenIds = [''k'']\<rparr>"

definition ex_created :: "uuid option \<Rightarrow> activity_row" where
  "ex_created assignee = new_activity ''x'' 0
     (create_draft ex_env ''b'' (ex_dto assignee) ''u1'' ex_category 2)
     (resolveInitial (assignee \<noteq> None))"

definition ex_db1 :: "uuid option \<Rightarrow> db" where
  "ex_db1 assignee =
     (case create_activity ex_env ex_db0 ''b'' (ex_dto assignee) ''u1'' of
        Inl _ \<Rightarrow> ex_db0 | Inr (_, d', _) \<Rightarrow> d')"

lemmas ex_defs = ex_bond_def ex_member_def ex_category_def ex_child_def ex_db0_def ex_env_def
  ex_dto_def empty_db_def

lemma ex_member_of_bond [simp]:
  "isActiveBondForMember ex_db0 ''b'' u \<longleftrightarrow> u = ''u1'' \<or> u = ''u2''"
  by (auto simp: isActiveBondForMember_iff ex_defs)

lemma ex_create:
  assumes "assignee = None \<or> assignee = Some ''u2''"
  shows "\<exists>cmds. create_activity ex_env ex_db0 ''b'' (ex_dto assignee) ''u1'' =
     Inr (ex_created assignee, ex_db1 assignee, cmds)"
proof -
  have cat: "verifyCategoryActive ex_db0 ''c'' = Inr ex_category"
    by (simp add: verifyCategoryActive_def findActiveCategoryById_def ex_defs)
  have kids: "verifyChildrenBelongToBond ex_db0 ''b'' [''k''] = Inr ()"
    by (simp add: verifyChildrenBelongToBond_def findByIdsAndBond_def ex_defs)
  have "\<exists>d' cmds. create_activity ex_env ex_db0 ''b'' (ex_dto assignee) ''u1'' =
     Inr (ex_created assignee, d', cmds)"
    using assms cat kids
    by (auto simp: create_activity_def validateSchedules_def assertMinimumLeadTime_def
        assertBondMember_def insertWithInitialTransition_def ex_created_def ex_env_def ex_dto_def
        min_lead_hours_def hours_ms_def ensure_def Let_def)
  then show ?thesis
    by (auto simp: ex_db1_def)
qed

lemma ex_db1_activities:
  assumes "assignee = None \<or> assignee = Some ''u2''"
  shows "db_activities (ex_db1 assignee) = [ex_created assignee]"
    and "db_bonds (ex_db1 assignee) = db_bonds ex_db0"
    and "db_members (ex_db1 assignee) = db_members ex_db0"
proof -
  obtain cmds where c: "create_activity ex_env ex_db0 ''b'' (ex_dto assignee) ''u1'' =
     Inr (ex_created assignee, ex_db1 assignee, cmds)"
    using ex_create [OF assms] by blast
  then show "db_activities (ex_db1 assignee) = [ex_created assignee]"
    by (rule create_activity_InrD) (simp add: ex_defs)
  show "db_bonds (ex_db1 assignee) = db_bonds ex_db0" "db_members (ex_db1 assignee) = db_members ex_db0"
    by (rule create_activity_frame [OF c])+
qed

lemma ex_created_simps [simp]:
  "act_id (ex_created assignee) = ''x''"
  "act_version (ex_created assignee) = 1"
  "act_assignedTo (ex_created assignee) = assignee"
  "act_createdBy (ex_created assignee) = ''u1''"
  "act_bondId (ex_created assignee) = ''b''"
  "act_deletedAt (ex_created assignee) = None"
  "act_verifyAt (ex_created assignee) = None"
  "act_scheduledStart (ex_created assignee) = Some (hours_ms 100)"
  "act_scheduledEnd (ex_created assignee) = Some (hours_ms 101)"
  "act_deadline (ex_created assignee) = Some (2 + hours_ms 36)"
  "act_status (ex_created assignee) = (if assignee = None then CREATED else ASSIGNED)"
  by (auto simp: ex_created_def create_draft_def ex_dto_def resolveInitial_def
      computeResponseDeadline_def ex_env_def)

definition ex_sys1 :: "uuid option \<Rightarrow> act_sys" where
  "ex_sys1 assignee = \<lparr>s_db = ex_db1 assignee, s_flight = []\<rparr>"

lemma ex_reachable1:
  assumes "assignee = None \<or> assignee = Some ''u2''"
  shows "reachable (ex_sys1 assignee)"
proof -
  let ?s0 = "\<lparr>s_db = ex_db0, s_flight = []\<rparr>"
  have "reachable ?s0"
    by (rule reachable_init) (simp add: ex_defs)
  moreover obtain cmds where c: "create_activity ex_env ex_db0 ''b'' (ex_dto assignee) ''u1'' =
     Inr (ex_created assignee, ex_db1 assignee, cmds)"
    using ex_create [OF assms] by blast
  have "act_step ?s0 (?s0\<lparr>s_db := ex_db1 assignee\<rparr>)"
    by (rule create [of ex_env]) (use c in \<open>simp_all add: ex_defs activity_log_def\<close>)
  ultimately show ?thesis
    by (simp add: ex_sys1_def reachable_step)
qed

text \<open>The assigned activity, after the system made it overdue.\<close>

definition ex_overdue_sys :: act_sys where
  "ex_overdue_sys =
     \<lparr>s_db = fst (applySystemTransition ex_env (ex_db1 (Some ''u2'')) ''x'' OVERDUE),
      s_flight = []\<rparr>"

lemma ex_overdue_steps: "act_step\<^sup>*\<^sup>* (ex_sys1 (Some ''u2'')) ex_overdue_sys"
  using applySystemTransition_is_steps [of "ex_sys1 (Some ''u2'')" ex_env "''x''" OVERDUE]
  by (simp add: ex_sys1_def ex_overdue_sys_def)

lemma ex_reachable_overdue: "reachable ex_overdue_sys"
  by (rule reachable_steps [OF ex_overdue_steps ex_reachable1]) simp

lemma ex_findById: "assignee = None \<or> assignee = Some ''u2'' \<Longrightarrow>
    findById (ex_db1 assignee) ''x'' = Some (ex_created assignee)"
  by (simp add: findById_def ex_db1_activities is_live_def)

definition ex_overdue :: activity_row where
  "ex_overdue = transitioned (env_dbnow ex_env)
     (transition_input ex_env (ex_db1 (Some ''u2'')) (system_request ''x'' OVERDUE)
        (ex_created (Some ''u2'')) (mk_rule T7 ASSIGNED OVERDUE [System] False no_effects EV_OVERDUE))
     (ex_created (Some ''u2''))"

lemma ex_overdue_activities: "db_activities (s_db ex_overdue_sys) = [ex_overdue]"
proof -
  let ?d = "ex_db1 (Some ''u2'')"
  have "db_activities (fst (applySystemTransition ex_env ?d ''x'' OVERDUE)) =
      update_by act_id ''x'' (transitioned (env_dbnow ex_env)
        (transition_input ex_env ?d (system_request ''x'' OVERDUE) (ex_created (Some ''u2''))
          (mk_rule T7 ASSIGNED OVERDUE [System] False no_effects EV_OVERDUE))) (db_activities ?d)"
    by (rule applySystemTransition_plan)
      (simp_all add: ex_db1_activities ex_findById system_rules permitted_def)
  then show ?thesis
    by (simp add: ex_overdue_sys_def ex_overdue_def ex_db1_activities)
qed

lemma ex_overdue_simps [simp]:
  "act_id ex_overdue = ''x''"
  "act_status ex_overdue = OVERDUE"
  "act_version ex_overdue = 2"
  "act_assignedTo ex_overdue = Some ''u2''"
  "act_verifyAt ex_overdue = None"
  "act_deletedAt ex_overdue = None"
  "act_bondId ex_overdue = ''b''"
  "act_createdBy ex_overdue = ''u1''"
  "act_scheduledEnd ex_overdue = Some (hours_ms 101)"
  by (simp_all add: ex_overdue_def system_request_def)

end
