(* ===== verification/Activity_Properties.thy ===== *)
theory Activity_Properties
  imports Examples
begin

text \<open>The properties of the activities component: what a transition does on every branch, what
  holds in every reachable state of the concurrent system, the guarantees of the timers, and
  what the policy flags promise.\<close>

section \<open>One transition\<close>

text \<open>What a committed transition is: the rule of the map for the pair of states, an allowed
  actor, the row with the next version, and one outbox event carrying that version.\<close>

definition committed_transition ::
  "db \<Rightarrow> transition_request \<Rightarrow> activity_row option \<Rightarrow> db \<Rightarrow> bool" where
  "committed_transition d req r d' \<longleftrightarrow>
     (\<exists>a rule u ev.
        findById d (tr_activityId req) = Some a \<and> member_ok d (tr_actor req) a \<and>
        resolveTransition (act_status a) (tr_to req) = Some rule \<and>
        permitted (tr_actor req) rule a \<and>
        r = Some u \<and> act_id u = act_id a \<and> act_status u = tr_to req \<and>
        act_version u = act_version a + 1 \<and>
        findByIdIncludingDeleted d' (act_id a) = Some u \<and>
        (\<forall>k. k \<noteq> act_id a \<longrightarrow> findByIdIncludingDeleted d' k = findByIdIncludingDeleted d k) \<and>
        db_outbox d' = db_outbox d @ [ev] \<and> ob_aggregateType ev = Agg_activity \<and>
        ob_aggregateId ev = act_id a \<and> ob_eventType ev = ACTIVITY_EVENT (rule_event rule) \<and>
        ob_aggregateVersion ev = act_version u \<and> ob_dispatchedAt ev = None \<and>
        db_bonds d' = db_bonds d \<and> db_members d' = db_members d \<and>
        db_expenses d' = db_expenses d)"

lemma applied_is_committed:
  assumes plan: "transition_plan e d req = Commit a input"
    and upd: "applyTransition ob at input d = Some (u, d')"
  shows "committed_transition d req (Some u) d'"
proof -
  obtain rule where a: "findById d (tr_activityId req) = Some a" "member_ok d (tr_actor req) a"
      "resolveTransition (act_status a) (tr_to req) = Some rule"
      "permitted (tr_actor req) rule a" "input = transition_input e d req a rule"
    using plan by (auto simp: transition_plan_Commit_iff)
  obtain row where row: "findByIdIncludingDeleted d (ati_id input) = Some row"
      "guards_hold input row" "u = transitioned at input row"
    using upd by (rule applyTransition_SomeD)
  obtain ev where ev: "db_outbox d' = db_outbox d @ [ev]" "ob_aggregateType ev = Agg_activity"
      "ob_aggregateId ev = ati_id input" "ob_eventType ev = ati_eventType input"
      "ob_aggregateVersion ev = act_version u" "ob_dispatchedAt ev = None"
    using upd by (rule applyTransition_outbox)
  have id: "act_id row = act_id a"
    using row(1) a(5) by (auto simp: findByIdIncludingDeleted_def dest: lookup_by_SomeD)
  show ?thesis
    unfolding committed_transition_def
    using a row ev id lookup_after_applyTransition [OF upd] applyTransition_frame [OF upd]
    by (intro exI [of _ a] exI [of _ rule] exI [of _ u] exI [of _ ev]) (auto simp: guards_hold_def)
qed

lemma refusal_status:
  assumes "transition_plan e d req = Refuse err"
  shows "tr_actor req \<noteq> System_actor \<and> err_status err \<in> {403, 404, 409}"
proof -
  obtain u where u: "tr_actor req = User_actor u"
    using assms plan_system_never_refuses by (cases "tr_actor req") auto
  show ?thesis
    using assms u
    by (cases "findById d (tr_activityId req)")
      (auto simp: transition_plan_None transition_plan_User exception_defs
        split: if_splits option.splits)
qed

lemma no_op_is_system:
  assumes "transition_plan e d req = No_op r"
  shows "tr_actor req = System_actor"
proof (cases "tr_actor req")
  case (User_actor u)
  then show ?thesis
    using assms
    by (cases "findById d (tr_activityId req)")
      (auto simp: transition_plan_None transition_plan_User split: if_splits option.splits)
qed simp

text \<open>C1. Every call of \<open>transition\<close> ends in one of three ways: an error of status 403, 404 or
  409, for a user only; nothing at all, for the system only; or a committed transition: the
  rule of the closed map for the pair of states, by an actor the rule admits, the version one
  higher, exactly one outbox event with that version, and no other row changed.\<close>

theorem transition_outcome:
  "case transition e d req of
     Inl err \<Rightarrow> tr_actor req \<noteq> System_actor \<and> err_status err \<in> {403, 404, 409}
   | Inr (r, d', cmds) \<Rightarrow>
       (tr_actor req = System_actor \<and> d' = d \<and> cmds = []) \<or> committed_transition d req r d'"
proof (cases "transition_plan e d req")
  case (Refuse err)
  then show ?thesis
    using refusal_status [OF Refuse] by (simp add: transition_def)
next
  case (No_op r)
  then show ?thesis
    using no_op_is_system [OF No_op] by (simp add: transition_def)
next
  case (Commit a input)
  then show ?thesis
    using applied_is_committed [OF Commit]
    by (cases "applyTransition (env_uuid e 0) (env_dbnow e) input d")
      (auto simp: transition_def transition_commit_def exception_defs)
qed

text \<open>The system never sees an error: whatever the activity, the target and the state of the
  database (also when another request won the race), a system transition returns.\<close>

lemma system_transition_never_throws:
  "\<exists>r d' cmds. transition e d (system_request i to) = Inr (r, d', cmds)"
proof (cases "transition_plan e d (system_request i to)")
  case (Refuse err)
  then show ?thesis
    using plan_system_never_refuses [of "system_request i to"] by (simp add: system_request_def)
next
  case (Commit a input)
  then show ?thesis
    by (cases "applyTransition (env_uuid e 0) (env_dbnow e) input d")
      (auto simp: transition_def transition_commit_def system_request_def)
qed (simp add: transition_def)

text \<open>The map is closed and deterministic: \<open>resolveTransition\<close> (the \<open>Map\<close> keyed by the
  string \<open>from->to\<close>) returns exactly the rule of the table with those two ends, no rule leaves
  a terminal state or returns to \<open>created\<close>, and every non-terminal state can be cancelled.\<close>

lemma transition_map_closed:
  "(resolveTransition f t = Some r \<longleftrightarrow> r \<in> set RULES \<and> rule_from r = f \<and> rule_to r = t) \<and>
   (f \<in> set TERMINAL_ACTIVITY_STATUSES \<longleftrightarrow> (\<forall>to. resolveTransition f to = None)) \<and>
   resolveTransition f CREATED = None \<and>
   (f \<notin> set TERMINAL_ACTIVITY_STATUSES \<longleftrightarrow> resolveTransition f CANCELLED \<noteq> None)"
proof -
  have cancel: "resolveTransition f CANCELLED \<noteq> None" if "f \<notin> set TERMINAL_ACTIVITY_STATUSES"
  proof -
    have "f \<in> set CANCEL_SOURCES"
      using that by (cases f) (simp_all add: TERMINAL_ACTIVITY_STATUSES_def CANCEL_SOURCES_def)
    then have "resolveTransition f CANCELLED =
        Some (mk_rule T15 f CANCELLED [Bond_member] False CANCEL_EFFECTS EV_CANCELLED)"
      by (simp add: resolveTransition_Some_iff RULES_def)
    then show ?thesis by simp
  qed
  have "f \<in> set TERMINAL_ACTIVITY_STATUSES \<longleftrightarrow> (\<forall>to. resolveTransition f to = None)"
    using cancel terminal_no_rule [of f] by metis
  moreover have "f \<notin> set TERMINAL_ACTIVITY_STATUSES \<longleftrightarrow> resolveTransition f CANCELLED \<noteq> None"
    using cancel terminal_no_rule [of f CANCELLED] by metis
  ultimately show ?thesis
    by (intro conjI resolveTransition_Some_iff resolve_to_CREATED)
qed

section \<open>Reachable states\<close>

text \<open>C2. In every reachable state, under every interleaving, the rows are well formed: ids are
  unique, a \<open>created\<close> row has no assignee and every later live state up to \<open>done\<close> has one,
  \<open>verify_at\<close> marks exactly the rows in or overdue from the verification window, only a
  cancelled row is soft-deleted, \<open>completed_at\<close> means \<open>done\<close>, \<open>cancelled_at\<close> means
  \<open>cancelled\<close>, and the states the sweep watches by deadline have a deadline.\<close>

theorem reachable_rows_well_formed:
  assumes "reachable s"
  shows "distinct (map act_id (db_activities (s_db s))) \<and>
     (\<forall>a \<in> set (db_activities (s_db s)). row_wf a)"
  using reachable_inv [OF assms] by (simp add: sys_inv_def)

theorem reachable_rows_well_formed_witness:
  "distinct (map act_id (db_activities (s_db ex_overdue_sys))) \<and> row_wf ex_overdue"
  using reachable_rows_well_formed [OF ex_reachable_overdue] by (simp add: ex_overdue_activities)





text \<open>C3. No write is decided on stale facts: when a write in flight commits, the row it hits is
  the very row the request had read, so the rule, the assignee check and the origin guard that
  were evaluated before the race still hold at the commit.\<close>

theorem guards_hold_at_commit:
  assumes "reachable s" and "(req, a, input) \<in> set (s_flight s)"
    and "applyTransition ob at input (s_db s) = Some (u, d')"
  shows "findByIdIncludingDeleted (s_db s) (act_id a) = Some a \<and> act_deletedAt a = None \<and>
     (\<exists>rule. resolveTransition (act_status a) (act_status u) = Some rule \<and>
        permitted (tr_actor req) rule a \<and> act_version u = act_version a + 1)"
proof -
  have fok: "flight_ok (s_db s) (req, a, input)"
    using reachable_inv [OF assms(1)] assms(2) by (auto simp: sys_inv_def)
  obtain e d0 rule where "findByIdIncludingDeleted (s_db s) (act_id a) = Some a"
      "u = transitioned at input a" "resolveTransition (act_status a) (tr_to req) = Some rule"
      "permitted (tr_actor req) rule a" "input = transition_input e d0 req a rule"
    using fok assms(3) by (rule commit_finds_its_row)
  then show ?thesis
    using fok by (auto simp: flight_ok_def)
qed

text \<open>The witness state: the assigned activity with a confirmation of \<open>u2\<close> in flight.\<close>

definition ex_confirm :: transition_request where
  "ex_confirm = user_request ''x'' ASSISTING ''u2'' None no_fields []"

definition ex_confirm_input :: apply_transition_input where
  "ex_confirm_input = transition_input ex_env (ex_db1 (Some ''u2'')) ex_confirm
     (ex_created (Some ''u2''))
     (mk_rule T5 ASSIGNED ASSISTING [Assignee] True
       (no_effects\<lparr>se_deadline := Some Deadline_clear, se_confirmedAt := Some True\<rparr>)
       EV_ASSISTING)"

lemma ex_confirm_plan:
  "transition_plan ex_env (ex_db1 (Some ''u2'')) ex_confirm =
     Commit (ex_created (Some ''u2'')) ex_confirm_input"
proof -
  have "resolveTransition ASSIGNED ASSISTING = Some (mk_rule T5 ASSIGNED ASSISTING [Assignee] True
       (no_effects\<lparr>se_deadline := Some Deadline_clear, se_confirmedAt := Some True\<rparr>)
       EV_ASSISTING)"
    by (simp add: resolveTransition_Some_iff RULES_def)
  moreover have "isActiveBondForMember (ex_db1 (Some ''u2'')) ''b'' ''u2''"
    using membership_frame(1) [OF ex_db1_activities(2,3) [of "Some ''u2''"]] by simp
  ultimately show ?thesis
    by (simp add: transition_plan_Commit_iff ex_confirm_def ex_confirm_input_def user_request_def
        ex_findById member_ok_def permitted_def)
qed

definition ex_flight_sys :: act_sys where
  "ex_flight_sys = \<lparr>s_db = ex_db1 (Some ''u2''),
     s_flight = [(ex_confirm, ex_created (Some ''u2''), ex_confirm_input)]\<rparr>"

lemma ex_flight_reachable: "reachable ex_flight_sys"
proof -
  have "act_step (ex_sys1 (Some ''u2'')) ((ex_sys1 (Some ''u2''))
      \<lparr>s_flight := (ex_confirm, ex_created (Some ''u2''), ex_confirm_input) #
         s_flight (ex_sys1 (Some ''u2''))\<rparr>)"
    by (rule begin_request [of _ ex_env])
      (simp_all add: ex_sys1_def ex_confirm_plan, simp add: ex_confirm_def sr_confirm)
  then have "act_step (ex_sys1 (Some ''u2'')) ex_flight_sys"
    by (simp add: ex_sys1_def ex_flight_sys_def)
  then show ?thesis
    using ex_reachable1 reachable_step by blast
qed

lemma ex_flight_commits:
  "\<exists>u d'. applyTransition ''o'' 5 ex_confirm_input (s_db ex_flight_sys) = Some (u, d')"
  by (simp add: applyTransition_def findByIdIncludingDeleted_def ex_flight_sys_def
      ex_db1_activities ex_confirm_input_def guards_hold_def Let_def)

theorem guards_hold_at_commit_witness:
  "\<exists>u d'. applyTransition ''o'' 5 ex_confirm_input (s_db ex_flight_sys) = Some (u, d') \<and>
     act_version u = 2"
proof -
  obtain u d' where upd: "applyTransition ''o'' 5 ex_confirm_input (s_db ex_flight_sys) = Some (u, d')"
    using ex_flight_commits by blast
  then show ?thesis
    using guards_hold_at_commit [OF ex_flight_reachable _ upd, of ex_confirm "ex_created (Some ''u2'')"]
    by (auto simp: ex_flight_sys_def)
qed

text \<open>Two requests prepared from the same version of the same activity never both commit:
  after one has, the other misses, whatever other writes commit in between.\<close>

theorem activity_commits_once:
  assumes "activity_cas q d = Some d1" and "ati_id (cas_input q') = ati_id (cas_input q)"
    and "ati_expectedVersion (cas_input q') = ati_expectedVersion (cas_input q)"
  shows "activity_cas q' (acts.run qs d1) = None"
  using assms by (intro acts.no_double_commit [of q d]) auto

theorem activity_commits_once_witness:
  "\<exists>d1. activity_cas (''o'', 5, ex_confirm_input) (s_db ex_flight_sys) = Some d1 \<and>
     activity_cas (''p'', 6, ex_confirm_input) d1 = None"
proof -
  obtain u d1 where upd: "applyTransition ''o'' 5 ex_confirm_input (s_db ex_flight_sys) = Some (u, d1)"
    using ex_flight_commits by blast
  then have "activity_cas (''o'', 5, ex_confirm_input) (s_db ex_flight_sys) = Some d1"
    by (simp add: activity_cas_def cas_input_def)
  then show ?thesis
    using activity_commits_once [of "(''o'', 5, ex_confirm_input)" _ d1 "(''p'', 6, ex_confirm_input)" "[]"]
    by (simp add: cas_input_def)
qed

text \<open>C6. Terminal is forever: a \<open>done\<close> or \<open>cancelled\<close> activity of a reachable state is the very
  same row, column by column, in every later state.\<close>

theorem terminal_rows_never_change:
  assumes "reachable s" and "act_step\<^sup>*\<^sup>* s s'" and "a \<in> set (db_activities (s_db s))"
    and "act_status a \<in> {DONE, CANCELLED}"
  shows "a \<in> set (db_activities (s_db s'))"
  using steps_row_moves [OF assms(2,1,3)] assms(4)
  by (auto simp: row_moves_def TERMINAL_ACTIVITY_STATUSES_def)

text \<open>The witness: the activity \<open>u1\<close> created and deleted.\<close>

definition ex_delete :: transition_request where
  "ex_delete = user_request ''x'' CANCELLED ''u1'' None
     (no_fields\<lparr>fld_deletedAt := Put (Some 7)\<rparr>) [(''deleted'', JBool True)]"

lemma ex_delete_plan:
  "\<exists>input. transition_plan ex_env (ex_db1 None) ex_delete = Commit (ex_created None) input \<and>
     ati_nextStatus input = CANCELLED"
proof -
  have "resolveTransition CREATED CANCELLED =
      Some (mk_rule T15 CREATED CANCELLED [Bond_member] False CANCEL_EFFECTS EV_CANCELLED)"
    by (simp add: resolveTransition_Some_iff RULES_def CANCEL_SOURCES_def)
  moreover have "isActiveBondForMember (ex_db1 None) ''b'' ''u1''"
    using membership_frame(1) [OF ex_db1_activities(2,3) [of None]] by simp
  ultimately show ?thesis
    by (simp add: transition_plan_Commit_iff ex_delete_def user_request_def ex_findById
        member_ok_def permitted_def)
qed

lemma ex_deleted_reachable:
  "\<exists>s a. act_step\<^sup>*\<^sup>* (ex_sys1 None) s \<and> reachable s \<and> a \<in> set (db_activities (s_db s)) \<and>
     act_status a = CANCELLED \<and> act_deletedAt a \<noteq> None"
proof -
  obtain input where plan: "transition_plan ex_env (ex_db1 None) ex_delete = Commit (ex_created None) input"
      and next_: "ati_nextStatus input = CANCELLED"
    using ex_delete_plan by blast
  obtain rule where input: "input = transition_input ex_env (ex_db1 None) ex_delete (ex_created None) rule"
    using plan by (auto simp: transition_plan_Commit_iff)
  obtain d' where upd: "applyTransition (env_uuid ex_env 0) (env_dbnow ex_env) input (ex_db1 None) =
      Some (transitioned (env_dbnow ex_env) input (ex_created None), d')"
    using transition_commits [OF _ plan] by (auto simp: ex_db1_activities)
  have "\<exists>cmds. transition ex_env (s_db (ex_sys1 None)) ex_delete =
      Inr (Some (transitioned (env_dbnow ex_env) input (ex_created None)), d', cmds)"
    using plan upd by (simp add: transition_def transition_commit_def ex_sys1_def)
  then obtain r cmds where tr: "transition ex_env (s_db (ex_sys1 None)) ex_delete = Inr (r, d', cmds)"
    by blast
  have "service_request ex_delete"
    unfolding ex_delete_def by (rule sr_delete)
  then have steps: "act_step\<^sup>*\<^sup>* (ex_sys1 None) ((ex_sys1 None)\<lparr>s_db := d'\<rparr>)"
    using tr by (rule transition_is_steps)
  have "db_activities d' = [transitioned (env_dbnow ex_env) input (ex_created None)]"
    using upd by (rule applyTransition_SomeD) (simp add: ex_db1_activities input)
  moreover have "act_deletedAt (transitioned (env_dbnow ex_env) input (ex_created None)) \<noteq> None"
    by (simp add: input ex_delete_def user_request_def)
  ultimately show ?thesis
    using steps reachable_steps [OF steps ex_reachable1] next_ by (intro exI conjI) auto
qed

theorem terminal_rows_never_change_witness:
  "\<exists>s a. reachable s \<and> act_status a = CANCELLED \<and> a \<in> set (db_activities (s_db s))"
proof -
  obtain s a where "reachable s" "a \<in> set (db_activities (s_db s))" "act_status a = CANCELLED"
    using ex_deleted_reachable by blast
  then show ?thesis
    using terminal_rows_never_change [of s s a] by auto
qed

section \<open>Operations and timers\<close>

definition outcome_is_run :: "act_sys \<Rightarrow> 'a outcome \<Rightarrow> bool" where
  "outcome_is_run s r =
     (case r of Inl _ \<Rightarrow> True | Inr (_, d', _) \<Rightarrow> act_step\<^sup>*\<^sup>* s (s\<lparr>s_db := d'\<rparr>))"

text \<open>C8. The operations of the service refine the machine: whatever a route, a system entry, a
  timer job or a sweep does to the database is a run of steps, so every invariant of reachable
  states holds after any sequence of them; an operation that throws changes nothing.\<close>

theorem operations_refine_the_machine:
  "outcome_is_run s (complete_activity e (s_db s) i u) \<and>
   outcome_is_run s (confirmAssignment e (s_db s) i u) \<and>
   outcome_is_run s (delete_activity e (s_db s) i u) \<and>
   outcome_is_run s (cancel_activity e (s_db s) i u raw) \<and>
   outcome_is_run s (declineAssignment e (s_db s) i u raw) \<and>
   outcome_is_run s (assign_activity e (s_db s) i u target) \<and>
   outcome_is_run s (reassign_activity e (s_db s) i u target) \<and>
   outcome_is_run s (markOverdue e (s_db s) i) \<and>
   act_step\<^sup>*\<^sup>* s (s\<lparr>s_db := fst (process_timer_job es now name data (s_db s))\<rparr>)"
proof -
  have mark: "outcome_is_run s (markOverdue e (s_db s) i)"
    using transition_is_steps [OF sr_system]
    by (auto simp: outcome_is_run_def markOverdue_def split: sum.split option.splits)
  show ?thesis
    by (intro conjI mark process_timer_job_is_steps)
      (auto simp: outcome_is_run_def assign_activity_def reassign_activity_def
        intro: operations_are_steps split: sum.split)
qed

text \<open>A timer job is harmless whatever it contains (stale, duplicated, for an unknown
  activity, of any kind): the database stays as it is, or the live activity it names, at the
  version it names, takes one system transition from a state the kind expects.\<close>

theorem timer_job_is_safe:
  "fst (handleTimer e data d) = d \<or>
   (\<exists>a sources to r. findById d (tj_activityId data) = Some a \<and>
      act_version a = tj_version data \<and>
      expectedSourceFor (tj_kind data) = Some sources \<and> act_status a \<in> set sources \<and>
      targetStatusFor (tj_kind data) = Some to \<and>
      committed_transition d (system_request (tj_activityId data) to) r (fst (handleTimer e data d)))"
proof (cases "fst (handleTimer e data d) = d")
  case False
  then obtain a to where a: "findById d (tj_activityId data) = Some a"
      "act_version a = tj_version data" "targetStatusFor (tj_kind data) = Some to"
      "case expectedSourceFor (tj_kind data) of None \<Rightarrow> True | Some ex \<Rightarrow> act_status a \<in> set ex"
      "handleTimer e data d = applySystemTransition e d (act_id a) to"
    by (auto simp: handleTimer_def split: option.splits if_splits)
  obtain sources where sources: "expectedSourceFor (tj_kind data) = Some sources"
    using a(3) by (cases "tj_kind data") auto
  have id: "act_id a = tj_activityId data"
    using a(1) findById_SomeD by blast
  obtain r d' cmds where tr: "transition e d (system_request (act_id a) to) = Inr (r, d', cmds)"
      "fst (handleTimer e data d) = d'"
    using False a(5) by (auto simp: applySystemTransition_def split: sum.splits)
  have "committed_transition d (system_request (act_id a) to) r d'"
    using tr(1)
  proof (cases rule: transition_Inr_cases)
    case nothing
    then show ?thesis using False tr(2) by simp
  next
    case (moved b input u)
    then show ?thesis using applied_is_committed [OF moved(1,2)] by simp
  qed
  then show ?thesis
    using a sources id tr(2) by auto
qed simp

text \<open>The sweep query and the pure decision agree: a live row satisfies the \<open>WHERE\<close> of
  \<open>findDueForTransition\<close> exactly when \<open>dueTargetFor\<close> names a target, and that target is the
  end of a system rule of the map.\<close>

lemma sweep_query_matches_decision:
  "(is_due_sql now a \<longleftrightarrow> is_live a \<and> dueTargetFor a now \<noteq> None) \<and>
   (case dueTargetFor a now of None \<Rightarrow> True
    | Some to \<Rightarrow> (\<exists>rule. resolveTransition (act_status a) to = Some rule \<and>
                    rule_actors rule = [System]))"
proof -
  have "is_due_sql now a \<longleftrightarrow> is_live a \<and> dueTargetFor a now \<noteq> None"
    using dueTargetFor_iff_due [of a now] by (auto simp: is_due_sql_def)
  moreover have "\<exists>rule. resolveTransition (act_status a) to = Some rule \<and> rule_actors rule = [System]"
    if "dueTargetFor a now = Some to" for to
    using that by (cases rule: dueTargetFor_cases) (auto simp: system_rules)
  ultimately show ?thesis
    by (auto split: option.split)
qed

text \<open>C9. The safety net makes progress: one sweep moves every row its query returned, each to
  the state \<open>dueTargetFor\<close> decided and to the next version, whatever happens to the others.\<close>

theorem sweep_moves_every_due_row:
  assumes "distinct (map act_id (db_activities d))"
    and "a \<in> set (findDueForTransition now SWEEP_LIMIT d)"
  shows "\<exists>a'. findById (fst (runSweep es now d)) (act_id a) = Some a' \<and>
     dueTargetFor a now = Some (act_status a') \<and> act_version a' = act_version a + 1"
  unfolding runSweep_def
  using findDue_rows [OF assms(1)] assms by (intro sweep_rows_moves) auto

theorem sweep_moves_every_due_row_witness:
  "\<exists>a'. findById (fst (runSweep (\<lambda>_. ex_env) (hours_ms 40) (ex_db1 None))) ''x'' = Some a' \<and>
     act_status a' = OVERDUE"
proof -
  have "ex_created None \<in> set (findDueForTransition (hours_ms 40) SWEEP_LIMIT (ex_db1 None))"
    by (simp add: findDueForTransition_def SWEEP_LIMIT_def ex_db1_activities is_due_sql_def
        is_live_def hours_ms_def)
  then show ?thesis
    using sweep_moves_every_due_row [of "ex_db1 None" "ex_created None" "hours_ms 40" "\<lambda>_. ex_env"]
    by (auto simp: ex_db1_activities dueTargetFor_def split: if_splits)
qed

section \<open>Policy and service\<close>








lemma isl_chain [simp]: "isl (chain r k) \<longleftrightarrow> (\<forall>x. r = Inr x \<longrightarrow> isl (k x))"
  by (cases r) auto

lemma no_rule_refused:
  assumes "findById d i = Some a" and "resolveTransition (act_status a) st = None"
  shows "isl (answer_updated a0 st f (transition e d (user_request i st u rs fl ex)))"
  using assms transition_plan_User [of d "user_request i st u rs fl ex" a u e]
  by (simp add: answer_updated_def transition_def user_request_def)

lemma overdue_rules:
  "st \<notin> {NOT_ASSISTING, CANCELLED} \<Longrightarrow> resolveTransition OVERDUE st = None"
  "resolveTransition OVERDUE st = Some r \<Longrightarrow> System \<notin> set (rule_actors r)"
  by (cases "resolveTransition OVERDUE st"; auto elim: rule_cases)+

text \<open>C10. The dead end: an overdue activity whose time has passed admits no operation of any
  user. Deleting, cancelling, declining, confirming, completing, assigning and reassigning all
  fail for everyone, and no system transition moves the row, so it stays overdue.\<close>

theorem overdue_past_is_a_dead_end:
  assumes "findById d i = Some a" and "act_status a = OVERDUE"
    and "isPast (subject_of a) (env_clock e 0)"
  shows "isl (delete_activity e d i u) \<and> isl (cancel_activity e d i u raw) \<and>
     isl (declineAssignment e d i u raw) \<and> isl (confirmAssignment e d i u) \<and>
     isl (complete_activity e d i u) \<and> isl (assign_activity e d i u target) \<and>
     isl (reassign_activity e d i u target) \<and>
     fst (applySystemTransition e d i to) = d"
proof -
  have stuck: "fst (applySystemTransition e d i to) = d"
    using assms transition_plan_System [of d "system_request i to" a e] overdue_rules(2) [of to]
    by (auto simp: applySystemTransition_def transition_def system_request_def permitted_def
        split: option.splits)
  have loaded: "x = a" if "loadForMember d i u False = Inr x" for x
    using that assms(1) by (simp add: loadForMember_def chain_simps)
  note refused = no_rule_refused [OF assms(1)]
  show ?thesis
    using assms stuck
    by (auto simp: delete_activity_def cancel_activity_def declineAssignment_def
        confirmAssignment_def complete_activity_def assign_activity_def reassign_activity_def
        reassignInternal_def Let_def overdue_rules(1) intro: refused dest!: loaded)
qed

theorem overdue_past_is_a_dead_end_witness:
  "isl (cancel_activity (tick 400000000 ex_env) (s_db ex_overdue_sys) ''x'' ''u1'' (jstr ''late'')) \<and>
   isl (delete_activity (tick 400000000 ex_env) (s_db ex_overdue_sys) ''x'' ''u1'')"
proof -
  have "findById (s_db ex_overdue_sys) ''x'' = Some ex_overdue"
    by (simp add: findById_def ex_overdue_activities is_live_def)
  moreover have "isPast (subject_of ex_overdue) (env_clock (tick 400000000 ex_env) 0)"
    by (simp add: isPast_def hours_ms_def ex_env_def)
  ultimately show ?thesis
    using overdue_past_is_a_dead_end [of "s_db ex_overdue_sys" "''x''" ex_overdue
        "tick 400000000 ex_env" "''u1''" "jstr ''late''" None DONE] by simp
qed

text \<open>Timers armed too early never fire: the start and end timers enqueued when an activity
  lands in \<open>assigned\<close> or \<open>overdue\<close> do nothing whenever they run, because the version they
  carry belongs to a state their kind does not expect.\<close>

theorem early_timers_never_fire:
  assumes "reachable s" and "a \<in> set (db_activities (s_db s))"
    and "act_status a \<in> {ASSIGNED, OVERDUE}"
    and "Queue_add kind job jobId delay \<in> set (wireTimers now a previousVersion)"
    and "kind \<in> {START, END}" and "act_step\<^sup>*\<^sup>* s s'"
  shows "handleTimer e job (s_db s') = (s_db s', [])"
proof -
  have job: "tj_activityId job = act_id a" "tj_version job = act_version a" "tj_kind job = kind"
    using assms(3,4) by (auto simp: wireTimers_def timer_enqueue_def split: option.splits if_splits)
  obtain r where r: "r \<in> set (db_activities (s_db s'))" "row_moves a r"
    using steps_row_moves [OF assms(6,1,2)] by blast
  have "b = a" if "findById (s_db s') (act_id a) = Some b" "act_version b = act_version a" for b
  proof -
    have "b = r"
      using that(1) r findById_SomeD [OF that(1)]
      by (intro reachable_unique_row [OF reachable_steps [OF assms(6,1)]]) (auto simp: row_moves_def)
    then show ?thesis
      using r(2) that(2) by (simp add: row_moves_def)
  qed
  then show ?thesis
    using assms(3,5) job by (auto simp: handleTimer_def split: option.split)
qed

theorem early_timers_never_fire_witness:
  "\<exists>job jobId delay.
     Queue_add START job jobId delay \<in> set (wireTimers 3 (ex_created (Some ''u2'')) None) \<and>
     handleTimer ex_env job (s_db ex_overdue_sys) = (s_db ex_overdue_sys, [])"
proof -
  let ?a = "ex_created (Some ''u2'')"
  let ?job = "\<lparr>tj_activityId = ''x'', tj_version = 1, tj_kind = START\<rparr>"
  have cmd: "Queue_add START ?job (buildTimerJobId START ''x'' 1) (computeDelayMs (hours_ms 100) 3)
      \<in> set (wireTimers 3 ?a None)"
    by (simp add: wireTimers_def timer_enqueue_def hours_ms_def)
  moreover have "handleTimer ex_env ?job (s_db ex_overdue_sys) = (s_db ex_overdue_sys, [])"
    by (rule early_timers_never_fire [OF ex_reachable1 _ _ cmd _ ex_overdue_steps])
      (simp_all add: ex_sys1_def ex_db1_activities)
  ultimately show ?thesis by blast
qed

text \<open>The job id of a timer identifies it: two timers have the same deterministic id exactly
  when kind, activity and version are the same, for any activity id.\<close>

lemma timer_job_id_identifies:
  "buildTimerJobId k a v = buildTimerJobId k' a' v' \<longleftrightarrow> (k, a, v) = (k', a', v')"
  by (simp add: buildTimerJobId_inject)

section \<open>Visibility and validation\<close>



text \<open>Complete and confirm do reveal existence: to a non-member, an activity of another bond
  answers a 404 body with the code \<open>ACTIVITY_NOT_FOUND\<close>, a missing one a 404 body without a
  code.\<close>

theorem complete_and_confirm_reveal_existence:
  assumes "findById d i = Some a" and "\<not> isActiveBondForMember d (act_bondId a) u"
    and "findById d j = None"
  shows "\<exists>err err'. complete_activity e d i u = Inl err \<and> confirmAssignment e d i u = Inl err \<and>
     complete_activity e d j u = Inl err' \<and> confirmAssignment e d j u = Inl err' \<and>
     err_status err = 404 \<and> err_status err' = 404 \<and>
     json_field ''code'' (error_body err now path) \<noteq> None \<and>
     json_field ''code'' (error_body err' now path) = None"
  using assms
  by (simp add: complete_activity_def confirmAssignment_def assertActivityMember_def ensure_def
      error_body_code exception_defs)

theorem complete_and_confirm_reveal_existence_witness:
  "\<exists>err err'. complete_activity ex_env (ex_db1 None) ''x'' ''intruder'' = Inl err \<and>
     complete_activity ex_env (ex_db1 None) ''missing'' ''intruder'' = Inl err' \<and>
     json_field ''code'' (error_body err 0 ''/'') \<noteq> json_field ''code'' (error_body err' 0 ''/'')"
proof -
  have "\<not> isActiveBondForMember (ex_db1 None) ''b'' ''intruder''"
    using membership_frame(1) [OF ex_db1_activities(2,3) [of None]] by simp
  moreover have "findById (ex_db1 None) ''missing'' = None"
    by (simp add: findById_def ex_db1_activities)
  ultimately show ?thesis
    using complete_and_confirm_reveal_existence [of "ex_db1 None" "''x''" "ex_created None"
        "''intruder''" "''missing''" ex_env 0 "''/''"]
    by (auto simp: ex_findById)
qed

text \<open>A reason is accepted exactly when it is a string that has between 3 and 200 code units
  after trimming, the stored value is the trimmed one (trimming again changes nothing), and
  every other value is a 422.\<close>

lemma reason_is_trimmed_and_bounded:
  "(\<forall>t. parseActivityReason raw = Inr t \<longleftrightarrow>
      (\<exists>s. raw = JStr s \<and> t = js_trim s \<and> 3 \<le> length t \<and> length t \<le> 200)) \<and>
   (case parseActivityReason raw of
      Inl err \<Rightarrow> err_status err = 422 \<and> err_code err = Some VALIDATION_FAILED
    | Inr t \<Rightarrow> js_trim t = t)"
  by (cases raw)
    (auto simp: parseActivityReason_def ACTIVITY_REASON_MIN_def ACTIVITY_REASON_MAX_def
      validationFailed_def codedException_def Let_def)

text \<open>Creation: an accepted request starts in the future and at least the lead time ahead, ends
  after it starts, and its creator and assignee are active members; the new row is version 1,
  \<open>assigned\<close> when there is an assignee and \<open>created\<close> otherwise, with the response deadline
  open, and it comes with one child link per child and one outbox event of version 1. A refused
  request is a 400 or a 404.\<close>

theorem create_activity_outcome:
  "case create_activity e d b dto u of
     Inl err \<Rightarrow> err_status err \<in> {400, 404}
   | Inr (row, d', cmds) \<Rightarrow>
       env_clock e 0 < ca_scheduledStart dto \<and>
       env_clock e 1 + hours_ms (min_lead_hours e) \<le> ca_scheduledStart dto \<and>
       (case ca_scheduledEnd dto of None \<Rightarrow> True | Some t \<Rightarrow> ca_scheduledStart dto < t) \<and>
       isActiveBondForMember d b u \<and>
       (case ca_assignedTo dto of None \<Rightarrow> True | Some v \<Rightarrow> isActiveBondForMember d b v) \<and>
       act_version row = 1 \<and> act_assignedTo row = ca_assignedTo dto \<and>
       act_status row = (if ca_assignedTo dto = None then CREATED else ASSIGNED) \<and>
       act_deadline row = Some (computeResponseDeadline e (env_clock e 2)) \<and>
       act_createdBy row = u \<and> act_deletedAt row = None \<and>
       db_activities d' = db_activities d @ [row] \<and>
       map ac_childId (drop (length (db_activity_children d)) (db_activity_children d')) =
         ca_childrenIds dto \<and>
       (\<exists>ev. db_outbox d' = db_outbox d @ [ev] \<and> ob_aggregateId ev = act_id row \<and>
          ob_aggregateVersion ev = 1 \<and>
          ob_eventType ev = (if ca_assignedTo dto = None then ''activity.created''
                             else ''activity.assigned''))"
proof (cases "create_activity e d b dto u")
  case (Inl err)
  then have "err_status err \<in> {400, 404}"
    by (auto simp: create_activity_def chain_simps validateSchedules_def assertMinimumLeadTime_def
        assertBondMember_def verifyCategoryActive_def verifyChildrenBelongToBond_def
        insertWithInitialTransition_def exception_defs ensure_def Let_def
        split: option.splits if_splits)
  then show ?thesis using Inl by simp
next
  case (Inr p)
  then obtain row d' cmds where c: "create_activity e d b dto u = Inr (row, d', cmds)"
    by (cases p) auto
  have kids: "map ac_childId (map (\<lambda>(n, c). \<lparr>ac_id = f n, ac_activityId = i, ac_childId = c,
      ac_createdAt = t\<rparr>) (enumerate m cs)) = cs" for f i t m and cs :: "uuid list"
    by (induction cs arbitrary: m) simp_all
  note guards = create_activity_guards [OF c]
  have effects: "\<exists>category. row = new_activity (env_uuid e 0) (env_dbnow e)
       (create_draft e b dto u category (env_clock e 2)) (resolveInitial (ca_assignedTo dto \<noteq> None))"
    "db_activities d' = db_activities d @ [row]"
    "map ac_childId (drop (length (db_activity_children d)) (db_activity_children d')) =
       ca_childrenIds dto"
    "\<exists>ev. db_outbox d' = db_outbox d @ [ev] \<and> ob_aggregateId ev = act_id row \<and>
       ob_aggregateVersion ev = 1 \<and> ob_eventType ev =
         ACTIVITY_EVENT (init_event (resolveInitial (ca_assignedTo dto \<noteq> None)))"
    using c kids
    by (auto simp: create_activity_def chain_simps insertWithInitialTransition_def
        saveChildrenFor_def outbox_insert_def Let_def)
  show ?thesis
    using c guards effects
    by (auto simp: create_draft_def resolveInitial_def split: option.splits)
qed

end
