(* ===== verification/Expense_Policy.thy ===== *)
theory Expense_Policy
  imports Entities Interfaces
begin

text \<open>The pure rules of expenses: who may do what (\<open>expenses/expense-policy.service.ts\<close>), the
  counterpart of a requester (\<open>expense-counterpart.ts\<close>), the catalogue of events and the
  ordinal version of a status (\<open>expense-events.ts\<close>). The life cycle pending, approved or
  rejected, paid is an instance of the ranked status machine.\<close>

record expense_policy_subject =
  es_status :: expense_status
  es_requestedBy :: uuid
  es_counterpartId :: "uuid option"

record expense_policy_decision =
  canApprove :: bool
  canReject :: bool
  canMarkPaid :: bool
  canEdit :: bool
  canCancelExpense :: bool
  isTerminalExpense :: bool

definition isTerminal :: "expense_status \<Rightarrow> bool" where
  "isTerminal status \<longleftrightarrow> status \<in> {PAID, REJECTED}"

definition evaluate_expense :: "expense_policy_subject \<Rightarrow> uuid \<Rightarrow> expense_policy_decision" where
  "evaluate_expense expense viewerId =
     (let isPending = (es_status expense = PENDING);
          isApproved = (es_status expense = APPROVED);
          isRequester = (es_requestedBy expense = viewerId);
          isCounterpart = (es_counterpartId expense = Some viewerId);
          isParty = (isRequester \<or> isCounterpart) in
      \<lparr>canApprove = isCounterpart \<and> isPending,
       canReject = isCounterpart \<and> isPending,
       canMarkPaid = isParty \<and> isApproved,
       canEdit = isRequester \<and> isPending,
       canCancelExpense = isRequester \<and> isPending,
       isTerminalExpense = isTerminal (es_status expense)\<rparr>)"

definition selectCounterpartId :: "uuid list \<Rightarrow> uuid \<Rightarrow> uuid option" where
  "selectCounterpartId memberIds requesterId = find (\<lambda>m. m \<noteq> requesterId) memberIds"

datatype expense_event = EX_CREATED | EX_APPROVED | EX_REJECTED | EX_PAID | EX_STALE

fun EXPENSE_EVENT :: "expense_event \<Rightarrow> string" where
  "EXPENSE_EVENT EX_CREATED = ''expense.created''"
| "EXPENSE_EVENT EX_APPROVED = ''expense.approved''"
| "EXPENSE_EVENT EX_REJECTED = ''expense.rejected''"
| "EXPENSE_EVENT EX_PAID = ''expense.paid''"
| "EXPENSE_EVENT EX_STALE = ''expense.stale''"

text \<open>A record without the key \<open>pending\<close>: an expense is born pending.\<close>

fun EXPENSE_STATUS_EVENT :: "expense_status \<Rightarrow> expense_event option" where
  "EXPENSE_STATUS_EVENT APPROVED = Some EX_APPROVED"
| "EXPENSE_STATUS_EVENT REJECTED = Some EX_REJECTED"
| "EXPENSE_STATUS_EVENT PAID = Some EX_PAID"
| "EXPENSE_STATUS_EVENT PENDING = None"

fun expenseAggregateVersion :: "expense_status \<Rightarrow> int" where
  "expenseAggregateVersion PENDING = 1"
| "expenseAggregateVersion APPROVED = 2"
| "expenseAggregateVersion REJECTED = 2"
| "expenseAggregateVersion PAID = 3"

section \<open>Facts\<close>

lemma evaluate_expense_simps [simp]:
  "canApprove (evaluate_expense s v) \<longleftrightarrow> es_counterpartId s = Some v \<and> es_status s = PENDING"
  "canReject (evaluate_expense s v) \<longleftrightarrow> es_counterpartId s = Some v \<and> es_status s = PENDING"
  "canMarkPaid (evaluate_expense s v) \<longleftrightarrow>
     (es_requestedBy s = v \<or> es_counterpartId s = Some v) \<and> es_status s = APPROVED"
  "canEdit (evaluate_expense s v) \<longleftrightarrow> es_requestedBy s = v \<and> es_status s = PENDING"
  "canCancelExpense (evaluate_expense s v) \<longleftrightarrow> es_requestedBy s = v \<and> es_status s = PENDING"
  "isTerminalExpense (evaluate_expense s v) \<longleftrightarrow> isTerminal (es_status s)"
  by (auto simp: evaluate_expense_def Let_def)

lemma selectCounterpartId_SomeD:
  "selectCounterpartId ms r = Some c \<Longrightarrow> c \<in> set ms \<and> c \<noteq> r"
  by (auto simp: selectCounterpartId_def find_Some_iff)

lemma selectCounterpartId_None_iff: "selectCounterpartId ms r = None \<longleftrightarrow> set ms \<subseteq> {r}"
  by (auto simp: selectCounterpartId_def find_None_iff)

text \<open>The transitions the service performs: the status each of the three operations expects and
  writes.\<close>

inductive expense_moves :: "expense_status \<Rightarrow> expense_status \<Rightarrow> bool" where
  "expense_moves PENDING APPROVED"
| "expense_moves PENDING REJECTED"
| "expense_moves APPROVED PAID"

inductive_simps expense_moves_simps [simp]:
  "expense_moves x y"

interpretation expense_cycle: ranked_lifecycle expense_moves isTerminal
  "\<lambda>s. nat (expenseAggregateVersion s)" 3
proof unfold_locales
  fix x y
  show "isTerminal x \<Longrightarrow> \<not> expense_moves x y"
    by (cases x) (auto simp: isTerminal_def)
  show "expense_moves x y \<Longrightarrow> nat (expenseAggregateVersion x) < nat (expenseAggregateVersion y)"
    by auto
  show "nat (expenseAggregateVersion x) \<le> 3"
    by (cases x) auto
qed

end
