(* ===== verification/Expenses_Repository.thy ===== *)
theory Expenses_Repository
  imports Bonds Outbox Expense_Policy
begin

text \<open>The repository of expenses (\<open>expenses/repositories/expenses.repository.ts\<close>) and of their
  audit trail (\<open>expenses-audit.repository.ts\<close>). Every write is a compare-and-swap on the
  status; nothing deleted is read. Amounts and ratios are integers of hundredths, so the
  numeric arithmetic of the summary is exact and rounded once, half away from zero.\<close>

section \<open>Reads\<close>

definition is_alive :: "expense_row \<Rightarrow> bool" where
  "is_alive x \<longleftrightarrow> exp_deletedAt x = None"

definition hasDocument :: "db \<Rightarrow> uuid \<Rightarrow> bool" where
  "hasDocument d i = list_ex (\<lambda>a. ea_expenseId a = i) (db_expense_attachments d)"

definition findAliveById :: "db \<Rightarrow> uuid \<Rightarrow> (expense_row \<times> bool) option" where
  "findAliveById d i =
     map_option (\<lambda>x. (x, hasDocument d i))
       (find (\<lambda>x. exp_id x = i \<and> is_alive x) (db_expenses d))"

record list_expenses_options =
  lo_limit :: nat
  lo_offset :: nat
  lo_status :: "expense_status option"
  lo_categoryId :: "uuid option"
  lo_from :: "string option"
  lo_to :: "string option"

definition expense_filter :: "uuid \<Rightarrow> list_expenses_options \<Rightarrow> expense_row \<Rightarrow> bool" where
  "expense_filter bondId opts x \<longleftrightarrow> exp_bondId x = bondId \<and> is_alive x \<and>
     (case lo_status opts of None \<Rightarrow> True | Some s \<Rightarrow> exp_status x = s) \<and>
     (case lo_categoryId opts of None \<Rightarrow> True | Some c \<Rightarrow> exp_categoryId x = Some c) \<and>
     (case lo_from opts of None \<Rightarrow> True | Some f \<Rightarrow> f \<le> exp_expenseDate x) \<and>
     (case lo_to opts of None \<Rightarrow> True | Some t \<Rightarrow> exp_expenseDate x \<le> t)"

text \<open>\<open>ORDER BY created_at DESC, id DESC\<close>.\<close>

definition newest_first :: "expense_row list \<Rightarrow> expense_row list" where
  "newest_first rows = rev (sort_key (\<lambda>x. (exp_createdAt x, exp_id x)) rows)"

definition attachHasDocument :: "db \<Rightarrow> expense_row list \<Rightarrow> (expense_row \<times> bool) list" where
  "attachHasDocument d items =
     (let documented = set (map ea_expenseId
            (filter (\<lambda>a. ea_expenseId a \<in> set (map exp_id items)) (db_expense_attachments d)))
      in map (\<lambda>item. (item, exp_id item \<in> documented)) items)"

definition listForBond ::
  "db \<Rightarrow> uuid \<Rightarrow> list_expenses_options \<Rightarrow> (expense_row \<times> bool) list \<times> nat" where
  "listForBond d bondId opts =
     (let rows = filter (expense_filter bondId opts) (db_expenses d);
          items = take (lo_limit opts) (drop (lo_offset opts) (newest_first rows))
      in (attachHasDocument d items, length rows))"

text \<open>\<open>ROUND(n / 10000)\<close> of a numeric: half away from zero.\<close>

definition round_half_away :: "int \<Rightarrow> int" where
  "round_half_away n =
     (if 0 \<le> n then (n + 5000) div 10000 else - ((- n + 5000) div 10000))"

definition settled :: "expense_row \<Rightarrow> bool" where
  "settled x \<longleftrightarrow> exp_status x \<in> {APPROVED, PAID}"

text \<open>The \<open>CASE\<close> of the sum, in hundredths of a cent of a percent.\<close>

definition saldo_term :: "uuid \<Rightarrow> expense_row \<Rightarrow> int" where
  "saldo_term viewerId x =
     (if exp_requestedBy x = viewerId \<and> settled x
      then exp_amount x * exp_splitRatioPayer x - exp_amount x * exp_splitRatioOther x
      else if exp_requestedBy x \<noteq> viewerId \<and> settled x
      then exp_amount x * exp_splitRatioOther x - exp_amount x * exp_splitRatioPayer x
      else 0)"

record expense_summary =
  sm_saldo :: int
  sm_porPagar :: int
  sm_porCobrar :: int
  sm_pendientes :: nat
  sm_aprobados :: nat
  sm_pagados :: nat
  sm_rechazados :: nat

definition summary_rows :: "db \<Rightarrow> uuid \<Rightarrow> expense_row list" where
  "summary_rows d bondId = filter (\<lambda>x. exp_bondId x = bondId \<and> is_alive x) (db_expenses d)"

definition summaryForBond :: "db \<Rightarrow> uuid \<Rightarrow> uuid \<Rightarrow> expense_summary" where
  "summaryForBond d bondId viewerId =
     (let rows = summary_rows d bondId;
          saldo = round_half_away (sum_list (map (saldo_term viewerId) rows));
          count = (\<lambda>s. length (filter (\<lambda>x. exp_status x = s) rows)) in
      \<lparr>sm_saldo = saldo, sm_porPagar = \<bar>min saldo 0\<bar>, sm_porCobrar = \<bar>max saldo 0\<bar>,
       sm_pendientes = count PENDING, sm_aprobados = count APPROVED, sm_pagados = count PAID,
       sm_rechazados = count REJECTED\<rparr>)"

section \<open>Writes\<close>

record expense_patch =
  xp_concept :: "utf16 patch"
  xp_description :: "utf16 option patch"
  xp_amount :: "int patch"
  xp_categoryId :: "uuid patch"
  xp_expenseDate :: "string patch"
  xp_splitRatioPayer :: "int patch"
  xp_splitRatioOther :: "int patch"

definition edit_fields :: "expense_patch \<Rightarrow> expense_row \<Rightarrow> expense_row" where
  "edit_fields p x = x\<lparr>
     exp_concept := patched (xp_concept p) (exp_concept x),
     exp_description := patched (xp_description p) (exp_description x),
     exp_amount := patched (xp_amount p) (exp_amount x),
     exp_categoryId := (case xp_categoryId p of Keep \<Rightarrow> exp_categoryId x | Put c \<Rightarrow> Some c),
     exp_expenseDate := patched (xp_expenseDate p) (exp_expenseDate x),
     exp_splitRatioPayer := patched (xp_splitRatioPayer p) (exp_splitRatioPayer x),
     exp_splitRatioOther := patched (xp_splitRatioOther p) (exp_splitRatioOther x)\<rparr>"

record expense_transition_fields =
  xf_approvedBy :: "uuid option patch"
  xf_approvedAt :: "instant option patch"
  xf_paidAt :: "instant option patch"

definition move_status :: "expense_status \<Rightarrow> expense_transition_fields \<Rightarrow> expense_row \<Rightarrow> expense_row" where
  "move_status nextStatus f x = x\<lparr>
     exp_status := nextStatus,
     exp_approvedBy := patched (xf_approvedBy f) (exp_approvedBy x),
     exp_approvedAt := patched (xf_approvedAt f) (exp_approvedAt x),
     exp_paidAt := patched (xf_paidAt f) (exp_paidAt x)\<rparr>"

text \<open>\<open>UPDATE expense SET ... WHERE id = ? AND status = ? AND deleted_at IS NULL\<close> by primary
  key; the answer is whether the row was affected. The update timestamp is the database's.\<close>

definition cas_matches :: "expense_status \<Rightarrow> expense_row \<Rightarrow> bool" where
  "cas_matches expected x \<longleftrightarrow> exp_status x = expected \<and> exp_deletedAt x = None"

definition updateGuarded ::
  "instant \<Rightarrow> uuid \<Rightarrow> expense_status \<Rightarrow> (expense_row \<Rightarrow> expense_row) \<Rightarrow> db \<Rightarrow> bool \<times> db" where
  "updateGuarded at i expected patch d =
     (case lookup_by exp_id i (db_expenses d) of
        None \<Rightarrow> (False, d)
      | Some x \<Rightarrow>
          if cas_matches expected x
          then (True, d\<lparr>db_expenses :=
                  update_by exp_id i (\<lambda>r. (patch r)\<lparr>exp_updatedAt := at\<rparr>) (db_expenses d)\<rparr>)
          else (False, d))"

definition transitionStatus ::
  "instant \<Rightarrow> uuid \<Rightarrow> expense_status \<Rightarrow> expense_status \<Rightarrow> expense_transition_fields \<Rightarrow> db \<Rightarrow> bool \<times> db" where
  "transitionStatus at i expectedFrom nextStatus f d =
     updateGuarded at i expectedFrom (move_status nextStatus f) d"

definition editFields :: "instant \<Rightarrow> uuid \<Rightarrow> expense_status \<Rightarrow> expense_patch \<Rightarrow> db \<Rightarrow> bool \<times> db" where
  "editFields at i expectedStatus p d = updateGuarded at i expectedStatus (edit_fields p) d"

definition markDeleted :: "instant \<Rightarrow> uuid \<Rightarrow> expense_status \<Rightarrow> instant \<Rightarrow> db \<Rightarrow> bool \<times> db" where
  "markDeleted at i expectedStatus deletedAt d =
     updateGuarded at i expectedStatus (\<lambda>x. x\<lparr>exp_deletedAt := Some deletedAt\<rparr>) d"

definition insertExpense :: "expense_row \<Rightarrow> db \<Rightarrow> db" where
  "insertExpense row d = d\<lparr>db_expenses := db_expenses d @ [row]\<rparr>"

definition updateActivityId :: "instant \<Rightarrow> uuid \<Rightarrow> uuid \<Rightarrow> db \<Rightarrow> bool \<times> db" where
  "updateActivityId at i activityId d =
     (case lookup_by exp_id i (db_expenses d) of
        None \<Rightarrow> (False, d)
      | Some x \<Rightarrow>
          if is_alive x
          then (True, d\<lparr>db_expenses := update_by exp_id i
                  (\<lambda>r. r\<lparr>exp_activityId := Some activityId, exp_updatedAt := at\<rparr>) (db_expenses d)\<rparr>)
          else (False, d))"

section \<open>Audit\<close>

datatype expense_audit_action =
    AU_CREATE | AU_UPDATE | AU_STATUS_CHANGE | AU_APPROVE | AU_REJECT | AU_PAY | AU_DELETE

fun audit_action_string :: "expense_audit_action \<Rightarrow> string" where
  "audit_action_string AU_CREATE = ''expense_create''"
| "audit_action_string AU_UPDATE = ''expense_update''"
| "audit_action_string AU_STATUS_CHANGE = ''expense_status_change''"
| "audit_action_string AU_APPROVE = ''expense_approve''"
| "audit_action_string AU_REJECT = ''expense_reject''"
| "audit_action_string AU_PAY = ''expense_pay''"
| "audit_action_string AU_DELETE = ''expense_delete''"

definition audit_record ::
  "instant \<Rightarrow> uuid \<Rightarrow> uuid \<Rightarrow> uuid \<Rightarrow> expense_audit_action \<Rightarrow> json_obj option \<Rightarrow> json_obj option \<Rightarrow>
   utf16 option \<Rightarrow> db \<Rightarrow> db" where
  "audit_record at bondId userId expenseId action oldValue newValue detail d =
     d\<lparr>db_audit := db_audit d @
        [\<lparr>au_bondId = Some bondId, au_userId = userId, au_entityType = ''expense'',
          au_entityId = Some expenseId, au_action = audit_action_string action,
          au_oldValue = oldValue, au_newValue = newValue, au_detail = detail,
          au_ipAddress = None, au_userAgent = None, au_createdAt = at\<rparr>]\<rparr>"

definition TRANSITION_ACTIONS :: "expense_status \<Rightarrow> expense_status \<Rightarrow> expense_audit_action option" where
  "TRANSITION_ACTIONS from to =
     map_of [(''pending:approved'', AU_APPROVE), (''pending:rejected'', AU_REJECT),
             (''approved:paid'', AU_PAY)]
       (expense_status_string from @ '':'' @ expense_status_string to)"

definition recordStatusChange ::
  "instant \<Rightarrow> uuid \<Rightarrow> uuid \<Rightarrow> uuid \<Rightarrow> expense_status \<Rightarrow> expense_status \<Rightarrow> utf16 option \<Rightarrow> db \<Rightarrow> db" where
  "recordStatusChange at bondId userId expenseId from to detail d =
     audit_record at bondId userId expenseId
       (case TRANSITION_ACTIONS from to of Some a \<Rightarrow> a | None \<Rightarrow> AU_STATUS_CHANGE)
       (Some [(''status'', jstr (expense_status_string from))])
       (Some [(''status'', jstr (expense_status_string to))]) detail d"

section \<open>Facts\<close>

lemma move_status_simps [simp]:
  "exp_id (move_status n f x) = exp_id x"
  "exp_bondId (move_status n f x) = exp_bondId x"
  "exp_requestedBy (move_status n f x) = exp_requestedBy x"
  "exp_amount (move_status n f x) = exp_amount x"
  "exp_splitRatioPayer (move_status n f x) = exp_splitRatioPayer x"
  "exp_splitRatioOther (move_status n f x) = exp_splitRatioOther x"
  "exp_status (move_status n f x) = n"
  "exp_deletedAt (move_status n f x) = exp_deletedAt x"
  "exp_approvedBy (move_status n f x) = patched (xf_approvedBy f) (exp_approvedBy x)"
  "exp_approvedAt (move_status n f x) = patched (xf_approvedAt f) (exp_approvedAt x)"
  "exp_paidAt (move_status n f x) = patched (xf_paidAt f) (exp_paidAt x)"
  by (simp_all add: move_status_def)

lemma edit_fields_simps [simp]:
  "exp_id (edit_fields p x) = exp_id x"
  "exp_bondId (edit_fields p x) = exp_bondId x"
  "exp_requestedBy (edit_fields p x) = exp_requestedBy x"
  "exp_status (edit_fields p x) = exp_status x"
  "exp_deletedAt (edit_fields p x) = exp_deletedAt x"
  "exp_approvedBy (edit_fields p x) = exp_approvedBy x"
  "exp_approvedAt (edit_fields p x) = exp_approvedAt x"
  "exp_paidAt (edit_fields p x) = exp_paidAt x"
  "exp_amount (edit_fields p x) = patched (xp_amount p) (exp_amount x)"
  "exp_splitRatioPayer (edit_fields p x) = patched (xp_splitRatioPayer p) (exp_splitRatioPayer x)"
  "exp_splitRatioOther (edit_fields p x) = patched (xp_splitRatioOther p) (exp_splitRatioOther x)"
  by (simp_all add: edit_fields_def)

lemma findAliveById_lookup:
  assumes "distinct (map exp_id (db_expenses d))"
  shows "findAliveById d i = Some (x, h) \<longleftrightarrow>
    lookup_by exp_id i (db_expenses d) = Some x \<and> exp_deletedAt x = None \<and> h = hasDocument d i"
proof -
  have "find (\<lambda>x. exp_id x = i \<and> is_alive x) rows = Some x \<longleftrightarrow>
      lookup_by exp_id i rows = Some x \<and> exp_deletedAt x = None"
    if "distinct (map exp_id rows)" for rows
    using that
  proof (induction rows)
    case (Cons r rows)
    have "find (\<lambda>x. exp_id x = i \<and> is_alive x) rows = None" if "exp_id r = i"
      using Cons.prems that by (auto simp: find_None_iff) (metis image_eqI)
    then show ?case
      using Cons by (auto simp: is_alive_def)
  qed simp
  then show ?thesis
    using assms by (auto simp: findAliveById_def)
qed

lemma updateGuarded_hit:
  "lookup_by exp_id i (db_expenses d) = Some x \<Longrightarrow> cas_matches expected x \<Longrightarrow>
     updateGuarded at i expected patch d =
       (True, d\<lparr>db_expenses :=
          update_by exp_id i (\<lambda>r. (patch r)\<lparr>exp_updatedAt := at\<rparr>) (db_expenses d)\<rparr>)"
  by (simp add: updateGuarded_def)

lemma updateGuarded_miss:
  "\<not> fst (updateGuarded at i expected patch d) \<Longrightarrow> snd (updateGuarded at i expected patch d) = d"
  by (auto simp: updateGuarded_def split: option.splits)

lemma updateGuarded_True_cases:
  assumes "updateGuarded at i expected patch d = (True, d')"
  obtains x where "lookup_by exp_id i (db_expenses d) = Some x" "exp_status x = expected"
    "exp_deletedAt x = None"
    "d' = d\<lparr>db_expenses := update_by exp_id i (\<lambda>r. (patch r)\<lparr>exp_updatedAt := at\<rparr>) (db_expenses d)\<rparr>"
  using assms by (auto simp: updateGuarded_def cas_matches_def split: option.splits if_splits)

section \<open>The compare-and-swap contract\<close>

text \<open>A transition request: when, which expense, from, to, with which columns.\<close>

type_synonym expense_cas_request =
  "instant \<times> uuid \<times> expense_status \<times> expense_status \<times> expense_transition_fields"

fun expense_cas :: "expense_cas_request \<Rightarrow> db \<Rightarrow> db option" where
  "expense_cas (at, i, from, to, f) d =
     (case transitionStatus at i from to f d of (ok, d') \<Rightarrow> if ok then Some d' else None)"

fun expense_target :: "expense_cas_request \<Rightarrow> uuid" where
  "expense_target (at, i, from, to, f) = i"

fun expense_from :: "expense_cas_request \<Rightarrow> expense_status" where
  "expense_from (at, i, from, to, f) = from"

fun expense_result :: "expense_cas_request \<Rightarrow> expense_row \<Rightarrow> expense_row" where
  "expense_result (at, i, from, to, f) x = (move_status to f x)\<lparr>exp_updatedAt := at\<rparr>"

fun expense_legal :: "expense_cas_request \<Rightarrow> bool" where
  "expense_legal (at, i, from, to, f) = expense_moves from to"

interpretation exps: versioned_store
  "\<lambda>d i. lookup_by exp_id i (db_expenses d)" expense_cas expense_target
  "\<lambda>q. cas_matches (expense_from q)" expense_result
  "\<lambda>x. expenseAggregateVersion (exp_status x)" "\<lambda>q. expenseAggregateVersion (expense_from q)"
  expense_legal
proof unfold_locales
  fix d d' :: db and q :: expense_cas_request and x :: expense_row and k
  obtain at i frm nxt f where q: "q = (at, i, frm, nxt, f)" by (cases q)
  show "cas_matches (expense_from q) x \<Longrightarrow>
      expenseAggregateVersion (exp_status x) = expenseAggregateVersion (expense_from q)"
    by (simp add: cas_matches_def)
  show "expense_legal q \<Longrightarrow> cas_matches (expense_from q) x \<Longrightarrow>
      expenseAggregateVersion (exp_status x) < expenseAggregateVersion (exp_status (expense_result q x))"
    by (auto simp: q cas_matches_def)
  show "lookup_by exp_id (expense_target q) (db_expenses d) = Some x \<Longrightarrow>
      cas_matches (expense_from q) x \<Longrightarrow>
      \<exists>s'. expense_cas q d = Some s' \<and>
        lookup_by exp_id (expense_target q) (db_expenses s') = Some (expense_result q x)"
    by (simp add: q transitionStatus_def updateGuarded_hit lookup_by_update_same)
  show "lookup_by exp_id (expense_target q) (db_expenses d) = None \<Longrightarrow> expense_cas q d = None"
    by (simp add: q transitionStatus_def updateGuarded_def)
  show "lookup_by exp_id (expense_target q) (db_expenses d) = Some x \<Longrightarrow>
      \<not> cas_matches (expense_from q) x \<Longrightarrow> expense_cas q d = None"
    by (simp add: q transitionStatus_def updateGuarded_def)
  show "expense_cas q d = Some d' \<Longrightarrow> k \<noteq> expense_target q \<Longrightarrow>
      lookup_by exp_id k (db_expenses d') = lookup_by exp_id k (db_expenses d)"
    by (auto simp: q transitionStatus_def updateGuarded_def lookup_by_update_other
        split: option.splits if_splits)
qed

end
