(* ===== verification/Expenses_Service.thy ===== *)
theory Expenses_Service
  imports Expenses_Repository
begin

text \<open>The service of expenses (\<open>expenses/expenses.service.ts\<close>): one definition per route. A
  write loads the expense for the viewer, asks the policy, and runs one transaction: the
  guarded update, the audit row and the outbox event together or not at all. The load and the
  transaction may see different databases, so the writes take both: \<open>d0\<close>, what the request
  read, and \<open>d\<close>, what the transaction finds.\<close>

section \<open>Helpers\<close>

definition DEFAULT_SPLIT_PAYER :: int where
  "DEFAULT_SPLIT_PAYER = 5000"

definition splitRatios :: "int option \<Rightarrow> int \<times> int" where
  "splitRatios payer =
     (let ratio = (case payer of Some p \<Rightarrow> p | None \<Rightarrow> DEFAULT_SPLIT_PAYER)
      in (ratio, 10000 - ratio))"

definition parseExpenseDate :: "string \<Rightarrow> http_error + string" where
  "parseExpenseDate value =
     (let bad = Inl (badRequestException ''expenseDate is not a real calendar date'') in
      case js_parse_day value of
        None \<Rightarrow> bad
      | Some z \<Rightarrow> if take 10 (toISOString (z * ms_per_day)) \<noteq> value then bad else Inr value)"

definition normalizeReason :: "utf16 option \<Rightarrow> utf16 option" where
  "normalizeReason rawReason =
     (let value = (case rawReason of Some r \<Rightarrow> js_trim r | None \<Rightarrow> []) in
      if 0 < length value then Some value else None)"

definition assertExpenseBondMember :: "db \<Rightarrow> uuid \<Rightarrow> uuid \<Rightarrow> http_error + unit" where
  "assertExpenseBondMember d bondId viewerId =
     ensure (isActiveBondForMember d bondId viewerId)
       (notFoundException ''Bond not found or you are not a member'')"

definition counterpartOf :: "db \<Rightarrow> uuid \<Rightarrow> uuid \<Rightarrow> uuid option" where
  "counterpartOf d bondId requesterId = selectCounterpartId (findActiveMemberIds d bondId) requesterId"

definition verifyExpenseCategoryActive :: "db \<Rightarrow> uuid \<Rightarrow> http_error + category_row" where
  "verifyExpenseCategoryActive d categoryId =
     some_or (findActiveCategoryById d categoryId)
       (badRequestException ''Category is unknown or inactive'')"

record loaded_expense =
  le_expense :: expense_row
  le_hasDocument :: bool
  le_counterpartId :: "uuid option"
  le_decision :: expense_policy_decision
  le_names :: "uuid \<Rightarrow> utf16 option"

definition loadForViewer :: "db \<Rightarrow> uuid \<Rightarrow> uuid \<Rightarrow> http_error + loaded_expense" where
  "loadForViewer d i viewerId =
     chain (some_or (findAliveById d i) (notFoundException ''Expense not found'')) (\<lambda>(expense, doc).
     chain (ensure (isActiveBondForMember d (exp_bondId expense) viewerId)
              (notFoundException ''Expense not found'')) (\<lambda>_.
     let counterpartId = counterpartOf d (exp_bondId expense) (exp_requestedBy expense) in
     Inr \<lparr>le_expense = expense, le_hasDocument = doc, le_counterpartId = counterpartId,
          le_decision = evaluate_expense
            \<lparr>es_status = exp_status expense, es_requestedBy = exp_requestedBy expense,
             es_counterpartId = counterpartId\<rparr> viewerId,
          le_names = findMemberNames d (exp_bondId expense)\<rparr>))"

section \<open>Responses\<close>

record expense_response =
  xr_id :: uuid
  xr_bondId :: uuid
  xr_categoryId :: "uuid option"
  xr_categoryName :: "utf16 option"
  xr_concept :: utf16
  xr_description :: "utf16 option"
  xr_amount :: int
  xr_expenseDate :: string
  xr_splitRatioPayer :: int
  xr_splitRatioOther :: int
  xr_status :: expense_status
  xr_requestedBy :: uuid
  xr_requestedByName :: "utf16 option"
  xr_counterpartId :: "uuid option"
  xr_counterpartName :: "utf16 option"
  xr_approvedBy :: "uuid option"
  xr_approvedByName :: "utf16 option"
  xr_approvedAt :: "string option"
  xr_paidAt :: "string option"
  xr_createdAt :: string
  xr_updatedAt :: string
  xr_canEdit :: bool
  xr_canCancel :: bool
  xr_canApprove :: bool
  xr_canReject :: bool
  xr_canMarkPaid :: bool
  xr_isTerminal :: bool
  xr_hasDocument :: bool

definition category_name_of :: "db \<Rightarrow> expense_row \<Rightarrow> utf16 option" where
  "category_name_of d x =
     (case exp_categoryId x of None \<Rightarrow> None
      | Some c \<Rightarrow> map_option cat_name (lookup_by cat_id c (db_categories d)))"

definition toResponse ::
  "db \<Rightarrow> expense_row \<Rightarrow> bool \<Rightarrow> expense_policy_decision \<Rightarrow> uuid option \<Rightarrow> (uuid \<Rightarrow> utf16 option) \<Rightarrow>
   utf16 option \<Rightarrow> expense_response" where
  "toResponse d expense doc decision counterpartId names categoryName =
     \<lparr>xr_id = exp_id expense, xr_bondId = exp_bondId expense,
      xr_categoryId = exp_categoryId expense,
      xr_categoryName = coalesce categoryName (category_name_of d expense),
      xr_concept = exp_concept expense, xr_description = exp_description expense,
      xr_amount = exp_amount expense, xr_expenseDate = exp_expenseDate expense,
      xr_splitRatioPayer = exp_splitRatioPayer expense,
      xr_splitRatioOther = exp_splitRatioOther expense,
      xr_status = exp_status expense, xr_requestedBy = exp_requestedBy expense,
      xr_requestedByName = names (exp_requestedBy expense),
      xr_counterpartId = counterpartId,
      xr_counterpartName = (case counterpartId of None \<Rightarrow> None | Some c \<Rightarrow> names c),
      xr_approvedBy = exp_approvedBy expense,
      xr_approvedByName = (case exp_approvedBy expense of None \<Rightarrow> None | Some a \<Rightarrow> names a),
      xr_approvedAt = map_option toISOString (exp_approvedAt expense),
      xr_paidAt = map_option toISOString (exp_paidAt expense),
      xr_createdAt = toISOString (exp_createdAt expense),
      xr_updatedAt = toISOString (exp_updatedAt expense),
      xr_canEdit = canEdit decision, xr_canCancel = canCancelExpense decision,
      xr_canApprove = canApprove decision, xr_canReject = canReject decision,
      xr_canMarkPaid = canMarkPaid decision, xr_isTerminal = isTerminalExpense decision,
      xr_hasDocument = doc\<rparr>"

definition getExpenseDetail :: "db \<Rightarrow> uuid \<Rightarrow> uuid \<Rightarrow> http_error + expense_response" where
  "getExpenseDetail d i viewerId =
     chain (loadForViewer d i viewerId) (\<lambda>l.
       Inr (toResponse d (le_expense l) (le_hasDocument l) (le_decision l) (le_counterpartId l)
              (le_names l) None))"

definition listExpensesForBond ::
  "db \<Rightarrow> uuid \<Rightarrow> uuid \<Rightarrow> list_expenses_options \<Rightarrow> http_error + (expense_response list \<times> nat \<times> nat \<times> nat)" where
  "listExpensesForBond d bondId viewerId query =
     chain (assertExpenseBondMember d bondId viewerId) (\<lambda>_.
     let (items, total) = listForBond d bondId query;
         memberIds = findActiveMemberIds d bondId;
         names = findMemberNames d bondId;
         mapped = map (\<lambda>(expense, doc).
           let counterpartId = selectCounterpartId memberIds (exp_requestedBy expense);
               decision = evaluate_expense
                 \<lparr>es_status = exp_status expense, es_requestedBy = exp_requestedBy expense,
                  es_counterpartId = counterpartId\<rparr> viewerId
           in toResponse d expense doc decision counterpartId names None) items
     in Inr (mapped, total, lo_limit query, lo_offset query))"

definition getExpenseSummary :: "db \<Rightarrow> uuid \<Rightarrow> uuid \<Rightarrow> http_error + expense_summary" where
  "getExpenseSummary d bondId viewerId =
     chain (assertExpenseBondMember d bondId viewerId) (\<lambda>_. Inr (summaryForBond d bondId viewerId))"

section \<open>Creation\<close>

definition emitExpenseEvent ::
  "uuid \<Rightarrow> instant \<Rightarrow> expense_event \<Rightarrow> expense_row \<Rightarrow> expense_status \<Rightarrow> uuid \<Rightarrow> db \<Rightarrow> db" where
  "emitExpenseEvent newId at ev expense status actorId d =
     outbox_insert newId at
       \<lparr>in_aggregateType = Agg_expense, in_aggregateId = exp_id expense,
        in_bondId = exp_bondId expense, in_eventType = EXPENSE_EVENT ev,
        in_aggregateVersion = expenseAggregateVersion status,
        in_payload = [(''actor'', JObj [(''type'', jstr ''user''), (''id'', jstr actorId)]),
                      (''status'', jstr (expense_status_string status))]\<rparr> d"

record create_expense_dto =
  ce_concept :: utf16
  ce_description :: "utf16 option"
  ce_amount :: int
  ce_categoryId :: uuid
  ce_expenseDate :: string
  ce_splitRatioPayer :: "int option"

definition new_expense ::
  "uuid \<Rightarrow> instant \<Rightarrow> uuid \<Rightarrow> create_expense_dto \<Rightarrow> uuid \<Rightarrow> string \<Rightarrow> int \<Rightarrow> int \<Rightarrow> expense_row" where
  "new_expense newId at bondId dto viewerId expenseDate payer other =
     \<lparr>exp_id = newId, exp_bondId = bondId, exp_childId = None,
      exp_categoryId = Some (ce_categoryId dto), exp_activityId = None,
      exp_concept = ce_concept dto, exp_description = ce_description dto,
      exp_amount = ce_amount dto, exp_expenseDate = expenseDate,
      exp_splitRatioPayer = payer, exp_splitRatioOther = other, exp_status = PENDING,
      exp_requestedBy = viewerId, exp_approvedBy = None, exp_approvedAt = None,
      exp_paidAt = None, exp_deletedAt = None, exp_createdAt = at, exp_updatedAt = at\<rparr>"

definition create_expense ::
  "env \<Rightarrow> db \<Rightarrow> uuid \<Rightarrow> create_expense_dto \<Rightarrow> uuid \<Rightarrow> http_error + (expense_response \<times> db)" where
  "create_expense e d bondId dto viewerId =
     chain (assertExpenseBondMember d bondId viewerId) (\<lambda>_.
     chain (verifyExpenseCategoryActive d (ce_categoryId dto)) (\<lambda>category.
     chain (parseExpenseDate (ce_expenseDate dto)) (\<lambda>expenseDate.
     let (payer, other) = splitRatios (ce_splitRatioPayer dto);
         at = env_dbnow e;
         row = new_expense (env_uuid e 0) at bondId dto viewerId expenseDate payer other;
         d1 = insertExpense row d;
         d2 = audit_record at bondId viewerId (exp_id row) AU_CREATE None
                (Some [(''status'', jstr (expense_status_string PENDING))]) None d1;
         d3 = emitExpenseEvent (env_uuid e 1) at EX_CREATED row PENDING viewerId d2;
         counterpartId = counterpartOf d3 bondId (exp_requestedBy row);
         decision = evaluate_expense
           \<lparr>es_status = exp_status row, es_requestedBy = exp_requestedBy row,
            es_counterpartId = counterpartId\<rparr> viewerId;
         names = findMemberNames d3 bondId
     in Inr (toResponse d3 row False decision counterpartId names (Some (cat_name category)), d3))))"

section \<open>Edition, cancellation and transitions\<close>

definition CONFLICT :: http_error where
  "CONFLICT = conflictException ''The expense changed before your action could be applied''"

record update_expense_dto =
  ue_concept :: "utf16 patch"
  ue_description :: "utf16 option patch"
  ue_amount :: "int patch"
  ue_categoryId :: "uuid patch"
  ue_expenseDate :: "string patch"
  ue_splitRatioPayer :: "int option patch"

definition buildPatch :: "update_expense_dto \<Rightarrow> expense_patch" where
  "buildPatch dto =
     \<lparr>xp_concept = ue_concept dto, xp_description = ue_description dto,
      xp_amount = ue_amount dto, xp_categoryId = ue_categoryId dto,
      xp_expenseDate = ue_expenseDate dto,
      xp_splitRatioPayer = (case ue_splitRatioPayer dto of Keep \<Rightarrow> Keep
                            | Put p \<Rightarrow> Put (fst (splitRatios p))),
      xp_splitRatioOther = (case ue_splitRatioPayer dto of Keep \<Rightarrow> Keep
                            | Put p \<Rightarrow> Put (snd (splitRatios p)))\<rparr>"

definition empty_patch :: "expense_patch \<Rightarrow> bool" where
  "empty_patch p \<longleftrightarrow> xp_concept p = Keep \<and> xp_description p = Keep \<and> xp_amount p = Keep \<and>
     xp_categoryId p = Keep \<and> xp_expenseDate p = Keep \<and> xp_splitRatioPayer p = Keep \<and>
     xp_splitRatioOther p = Keep"

fun patch_entry :: "string \<Rightarrow> ('a \<Rightarrow> json) \<Rightarrow> 'a patch \<Rightarrow> json_obj" where
  "patch_entry k f Keep = []"
| "patch_entry k f (Put v) = [(k, f v)]"

definition patch_json :: "expense_patch \<Rightarrow> json_obj" where
  "patch_json p =
     patch_entry ''concept'' JStr (xp_concept p) @
     patch_entry ''description'' (jnullable JStr) (xp_description p) @
     patch_entry ''amount'' JNum (xp_amount p) @
     patch_entry ''categoryId'' jstr (xp_categoryId p) @
     patch_entry ''expenseDate'' jstr (xp_expenseDate p) @
     patch_entry ''splitRatioPayer'' JNum (xp_splitRatioPayer p) @
     patch_entry ''splitRatioOther'' JNum (xp_splitRatioOther p)"

fun if_put :: "'a patch \<Rightarrow> ('a \<Rightarrow> http_error + 'b) \<Rightarrow> http_error + unit" where
  "if_put Keep f = Inr ()"
| "if_put (Put v) f = chain (f v) (\<lambda>_. Inr ())"

definition answer_detail :: "uuid \<Rightarrow> uuid \<Rightarrow> db \<Rightarrow> expense_response served" where
  "answer_detail i viewerId d' = (getExpenseDetail d' i viewerId, d')"

definition update_expense ::
  "env \<Rightarrow> db \<Rightarrow> uuid \<Rightarrow> update_expense_dto \<Rightarrow> uuid \<Rightarrow> db \<Rightarrow> expense_response served" where
  "update_expense e d0 i dto viewerId d =
     (case chain (loadForViewer d0 i viewerId) (\<lambda>l.
           chain (ensure (canEdit (le_decision l))
                    (forbiddenException ''You are not allowed to edit this expense'')) (\<lambda>_.
           let p = buildPatch dto in
           chain (ensure (\<not> empty_patch p) (badRequestException ''Nothing to update'')) (\<lambda>_.
           chain (if_put (xp_categoryId p) (verifyExpenseCategoryActive d0)) (\<lambda>_.
           chain (if_put (xp_expenseDate p) parseExpenseDate) (\<lambda>_. Inr (le_expense l, p)))))) of
        Inl err \<Rightarrow> (Inl err, d)
      | Inr (expense, p) \<Rightarrow>
          (case editFields (env_dbnow e) i (exp_status expense) p d of
             (False, _) \<Rightarrow> (Inl CONFLICT, d)
           | (True, d1) \<Rightarrow>
               answer_detail i viewerId
                 (audit_record (env_dbnow e) (exp_bondId expense) viewerId i AU_UPDATE
                    (Some [(''concept'', JStr (exp_concept expense)),
                           (''amount'', JNum (exp_amount expense)),
                           (''categoryId'', jnullable jstr (exp_categoryId expense)),
                           (''expenseDate'', jstr (exp_expenseDate expense))])
                    (Some (patch_json p)) None d1)))"

definition cancel_expense :: "env \<Rightarrow> db \<Rightarrow> uuid \<Rightarrow> uuid \<Rightarrow> db \<Rightarrow> (uuid \<times> string) served" where
  "cancel_expense e d0 i viewerId d =
     (case chain (loadForViewer d0 i viewerId) (\<lambda>l.
           chain (ensure (canCancelExpense (le_decision l))
                    (forbiddenException ''You are not allowed to cancel this expense'')) (\<lambda>_.
           Inr (le_expense l))) of
        Inl err \<Rightarrow> (Inl err, d)
      | Inr expense \<Rightarrow>
          (let at = env_clock e 0 in
           case markDeleted (env_dbnow e) i (exp_status expense) at d of
             (False, _) \<Rightarrow> (Inl CONFLICT, d)
           | (True, d1) \<Rightarrow>
               (Inr (i, toISOString at),
                audit_record (env_dbnow e) (exp_bondId expense) viewerId i AU_DELETE
                  (Some [(''status'', jstr (expense_status_string (exp_status expense)))])
                  (Some [(''deletedAt'', jstr (toISOString at))]) None d1)))"

text \<open>The single path of the three transitions.\<close>

record expense_transition =
  xt_allowed :: "expense_policy_decision \<Rightarrow> bool"
  xt_denial :: string
  xt_nextStatus :: expense_status
  xt_fields :: expense_transition_fields
  xt_detail :: "utf16 option"

definition expense_transition_step ::
  "env \<Rightarrow> db \<Rightarrow> uuid \<Rightarrow> uuid \<Rightarrow> expense_transition \<Rightarrow> db \<Rightarrow> expense_response served" where
  "expense_transition_step e d0 i viewerId t d =
     (case chain (loadForViewer d0 i viewerId) (\<lambda>l.
           chain (ensure (xt_allowed t (le_decision l)) (forbiddenException (xt_denial t))) (\<lambda>_.
           Inr (le_expense l))) of
        Inl err \<Rightarrow> (Inl err, d)
      | Inr expense \<Rightarrow>
          (case transitionStatus (env_dbnow e) i (exp_status expense) (xt_nextStatus t)
                  (xt_fields t) d of
             (False, _) \<Rightarrow> (Inl CONFLICT, d)
           | (True, d1) \<Rightarrow>
               (let d2 = recordStatusChange (env_dbnow e) (exp_bondId expense) viewerId i
                           (exp_status expense) (xt_nextStatus t) (xt_detail t) d1;
                    d3 = (case EXPENSE_STATUS_EVENT (xt_nextStatus t) of
                            None \<Rightarrow> d2
                          | Some ev \<Rightarrow> emitExpenseEvent (env_uuid e 0) (env_dbnow e) ev expense
                                         (xt_nextStatus t) viewerId d2)
                in answer_detail i viewerId d3)))"

definition approval :: "env \<Rightarrow> uuid \<Rightarrow> expense_transition" where
  "approval e viewerId =
     \<lparr>xt_allowed = canApprove, xt_denial = ''You are not allowed to approve this expense'',
      xt_nextStatus = APPROVED,
      xt_fields = \<lparr>xf_approvedBy = Put (Some viewerId), xf_approvedAt = Put (Some (env_clock e 0)),
                   xf_paidAt = Keep\<rparr>,
      xt_detail = None\<rparr>"

definition rejection :: "utf16 option \<Rightarrow> expense_transition" where
  "rejection rawReason =
     \<lparr>xt_allowed = canReject, xt_denial = ''You are not allowed to reject this expense'',
      xt_nextStatus = REJECTED,
      xt_fields = \<lparr>xf_approvedBy = Keep, xf_approvedAt = Keep, xf_paidAt = Keep\<rparr>,
      xt_detail = normalizeReason rawReason\<rparr>"

definition payment :: "env \<Rightarrow> expense_transition" where
  "payment e =
     \<lparr>xt_allowed = canMarkPaid, xt_denial = ''You are not allowed to mark this expense as paid'',
      xt_nextStatus = PAID,
      xt_fields = \<lparr>xf_approvedBy = Keep, xf_approvedAt = Keep, xf_paidAt = Put (Some (env_clock e 0))\<rparr>,
      xt_detail = None\<rparr>"

definition approve :: "env \<Rightarrow> db \<Rightarrow> uuid \<Rightarrow> uuid \<Rightarrow> db \<Rightarrow> expense_response served" where
  "approve e d0 i viewerId d = expense_transition_step e d0 i viewerId (approval e viewerId) d"

definition reject :: "env \<Rightarrow> db \<Rightarrow> uuid \<Rightarrow> uuid \<Rightarrow> utf16 option \<Rightarrow> db \<Rightarrow> expense_response served" where
  "reject e d0 i viewerId rawReason d =
     expense_transition_step e d0 i viewerId (rejection rawReason) d"

definition pay :: "env \<Rightarrow> db \<Rightarrow> uuid \<Rightarrow> uuid \<Rightarrow> db \<Rightarrow> expense_response served" where
  "pay e d0 i viewerId d = expense_transition_step e d0 i viewerId (payment e) d"

section \<open>The reminder of stale expenses\<close>

text \<open>\<open>emitStaleEvents\<close> (\<open>expenses/stale-reminder/expense-stale-reminder.repository.ts\<close>): the
  pending live expenses dated at least seven days before \<open>today\<close> that have no reminder yet,
  less those another worker has locked (\<open>SKIP LOCKED\<close>).\<close>

definition STALE_DAYS :: int where
  "STALE_DAYS = 7"

definition has_stale_event :: "db \<Rightarrow> uuid \<Rightarrow> bool" where
  "has_stale_event d i =
     list_ex (\<lambda>r. ob_aggregateType r = Agg_expense \<and> ob_aggregateId r = i \<and>
                  ob_eventType r = EXPENSE_EVENT EX_STALE) (db_outbox d)"

definition is_stale :: "db \<Rightarrow> int \<Rightarrow> expense_row \<Rightarrow> bool" where
  "is_stale d today x \<longleftrightarrow> exp_status x = PENDING \<and> exp_deletedAt x = None \<and>
     exp_expenseDate x \<le> day_string (today - STALE_DAYS) \<and> \<not> has_stale_event d (exp_id x)"

definition emit_stale :: "env \<Rightarrow> nat \<Rightarrow> expense_row \<Rightarrow> db \<Rightarrow> db" where
  "emit_stale e n x d =
     outbox_insert (env_uuid e n) (env_dbnow e)
       \<lparr>in_aggregateType = Agg_expense, in_aggregateId = exp_id x, in_bondId = exp_bondId x,
        in_eventType = EXPENSE_EVENT EX_STALE,
        in_aggregateVersion = expenseAggregateVersion PENDING,
        in_payload = [(''actor'', JObj [(''type'', jstr ''system'')]),
                      (''status'', jstr (expense_status_string PENDING))]\<rparr> d"

definition emitStaleEvents :: "env \<Rightarrow> int \<Rightarrow> uuid list \<Rightarrow> db \<Rightarrow> nat \<times> db" where
  "emitStaleEvents e today locked d =
     (let stale = filter (\<lambda>x. is_stale d today x \<and> exp_id x \<notin> set locked) (db_expenses d)
      in (length stale, fold (\<lambda>(n, x). emit_stale e n x) (enumerate 0 stale) d))"

end
