(* ===== verification/Expense_Machine.thy ===== *)
theory Expense_Machine
  imports Expenses_Service
begin

text \<open>The expenses component under concurrency. A run is the list of the databases it went
  through, newest first; a request reads any state of the run (\<open>d0\<close>) and its transaction acts
  on the newest. The invariants of every run: what a row looks like in each status, that ids,
  owners and bonds of rows never change, and that the columns about money are fixed once the
  expense has left \<open>pending\<close>.\<close>

inductive exp_run :: "db list \<Rightarrow> bool" where
  run_init: "db_expenses d = [] \<Longrightarrow> exp_run [d]"
| run_create: "exp_run (d # hs) \<Longrightarrow> create_expense e d b dto v = Inr (r, d') \<Longrightarrow>
     env_uuid e 0 \<notin> exp_id ` set (db_expenses d) \<Longrightarrow> exp_run (d' # d # hs)"
| run_update: "exp_run (d # hs) \<Longrightarrow> d0 \<in> set (d # hs) \<Longrightarrow>
     exp_run (snd (update_expense e d0 i udto v d) # d # hs)"
| run_cancel: "exp_run (d # hs) \<Longrightarrow> d0 \<in> set (d # hs) \<Longrightarrow>
     exp_run (snd (cancel_expense e d0 i v d) # d # hs)"
| run_approve: "exp_run (d # hs) \<Longrightarrow> d0 \<in> set (d # hs) \<Longrightarrow>
     exp_run (snd (approve e d0 i v d) # d # hs)"
| run_reject: "exp_run (d # hs) \<Longrightarrow> d0 \<in> set (d # hs) \<Longrightarrow>
     exp_run (snd (reject e d0 i v reason d) # d # hs)"
| run_pay: "exp_run (d # hs) \<Longrightarrow> d0 \<in> set (d # hs) \<Longrightarrow>
     exp_run (snd (pay e d0 i v d) # d # hs)"
| run_convert: "exp_run (d # hs) \<Longrightarrow> exp_run (snd (updateActivityId at i a d) # d # hs)"
| run_elsewhere: "exp_run (d # hs) \<Longrightarrow> db_expenses d' = db_expenses d \<Longrightarrow> exp_run (d' # d # hs)"

section \<open>The effect of each operation on the rows\<close>

text \<open>Every operation is, on the expense rows, nothing or one guarded write.\<close>

datatype expense_write =
    W_none
  | W_edit instant uuid expense_status expense_patch
  | W_delete instant uuid expense_status instant
  | W_move instant uuid expense_status expense_status expense_transition_fields

fun write_rows :: "expense_write \<Rightarrow> db \<Rightarrow> expense_row list" where
  "write_rows W_none d = db_expenses d"
| "write_rows (W_edit at i s p) d = db_expenses (snd (editFields at i s p d))"
| "write_rows (W_delete at i s t) d = db_expenses (snd (markDeleted at i s t d))"
| "write_rows (W_move at i s n f) d = db_expenses (snd (transitionStatus at i s n f d))"

lemma emit_frame [simp]:
  "db_expenses (emitExpenseEvent i t ev x s u d) = db_expenses d"
  "db_expenses (audit_record t b u i a old new dt d) = db_expenses d"
  "db_expenses (recordStatusChange t b u i f n dt d) = db_expenses d"
  by (simp_all add: emitExpenseEvent_def audit_record_def recordStatusChange_def)

lemma loadForViewer_InrD:
  assumes "loadForViewer d i v = Inr l"
  shows "findAliveById d i = Some (le_expense l, le_hasDocument l)"
    and "isActiveBondForMember d (exp_bondId (le_expense l)) v"
    and "le_counterpartId l = counterpartOf d (exp_bondId (le_expense l)) (exp_requestedBy (le_expense l))"
    and "le_decision l = evaluate_expense
           \<lparr>es_status = exp_status (le_expense l), es_requestedBy = exp_requestedBy (le_expense l),
            es_counterpartId = le_counterpartId l\<rparr> v"
  using assms by (auto simp: loadForViewer_def chain_simps Let_def)

text \<open>A transition either changes nothing at all or is the committed move.\<close>

lemma transition_step_cases:
  assumes "expense_transition_step e d0 i v t d = (r, d')"
  obtains (refused) err where "r = Inl err" "d' = d"
      "err \<in> {notFoundException ''Expense not found'', forbiddenException (xt_denial t), CONFLICT}"
  | (moved) l d1 where "loadForViewer d0 i v = Inr l" "xt_allowed t (le_decision l)"
      "transitionStatus (env_dbnow e) i (exp_status (le_expense l)) (xt_nextStatus t) (xt_fields t) d
         = (True, d1)"
      "r = getExpenseDetail d' i v"
      "d' = (let x = le_expense l;
                 d2 = recordStatusChange (env_dbnow e) (exp_bondId x) v i (exp_status x)
                        (xt_nextStatus t) (xt_detail t) d1
             in case EXPENSE_STATUS_EVENT (xt_nextStatus t) of None \<Rightarrow> d2
                | Some ev \<Rightarrow> emitExpenseEvent (env_uuid e 0) (env_dbnow e) ev x (xt_nextStatus t) v d2)"
proof (cases "loadForViewer d0 i v")
  case (Inl err)
  then have "err = notFoundException ''Expense not found''"
    by (auto simp: loadForViewer_def chain_simps Let_def)
  then show thesis
    using assms Inl by (intro refused) (auto simp: expense_transition_step_def)
next
  case (Inr l)
  show thesis
  proof (cases "xt_allowed t (le_decision l)")
    case False
    then show thesis
      using assms Inr by (intro refused) (auto simp: expense_transition_step_def ensure_def)
  next
    case True
    show thesis
      using assms Inr True
      by (cases "transitionStatus (env_dbnow e) i (exp_status (le_expense l)) (xt_nextStatus t)
            (xt_fields t) d")
        (auto simp: expense_transition_step_def ensure_def answer_detail_def Let_def
          split: bool.splits intro: refused moved)
  qed
qed

lemma transition_step_write:
  "\<exists>w. db_expenses (snd (expense_transition_step e d0 i v t d)) = write_rows w d \<and>
     (w = W_none \<or> (\<exists>l. loadForViewer d0 i v = Inr l \<and> xt_allowed t (le_decision l) \<and>
        w = W_move (env_dbnow e) i (exp_status (le_expense l)) (xt_nextStatus t) (xt_fields t)))"
proof (cases "expense_transition_step e d0 i v t d")
  case (Pair r d')
  from Pair show ?thesis
  proof (cases rule: transition_step_cases)
    case (refused err)
    then show ?thesis using Pair by (intro exI [of _ W_none]) simp
  next
    case (moved l d1)
    have "db_expenses d' = db_expenses d1"
      unfolding moved(5) by (simp add: Let_def split: option.split)
    then show ?thesis
      using moved(1-3) Pair
      by (intro exI [of _ "W_move (env_dbnow e) i (exp_status (le_expense l)) (xt_nextStatus t)
            (xt_fields t)"]) auto
  qed
qed

lemma update_expense_write:
  "\<exists>w. db_expenses (snd (update_expense e d0 i dto v d)) = write_rows w d \<and>
     (w = W_none \<or> (\<exists>l. loadForViewer d0 i v = Inr l \<and> canEdit (le_decision l) \<and>
        w = W_edit (env_dbnow e) i (exp_status (le_expense l)) (buildPatch dto)))"
proof (cases "loadForViewer d0 i v")
  case (Inl err)
  then show ?thesis by (intro exI [of _ W_none]) (simp add: update_expense_def)
next
  case (Inr l)
  let ?w = "W_edit (env_dbnow e) i (exp_status (le_expense l)) (buildPatch dto)"
  have "db_expenses (snd (update_expense e d0 i dto v d)) = db_expenses d \<or>
      canEdit (le_decision l) \<and> db_expenses (snd (update_expense e d0 i dto v d)) = write_rows ?w d"
    using Inr
    by (auto simp: update_expense_def chain_simps answer_detail_def Let_def
        split: sum.split prod.split bool.split)
  then show ?thesis
    using Inr by (metis write_rows.simps(1))
qed

lemma cancel_expense_write:
  "\<exists>w. db_expenses (snd (cancel_expense e d0 i v d)) = write_rows w d \<and>
     (w = W_none \<or> (\<exists>l. loadForViewer d0 i v = Inr l \<and> canCancelExpense (le_decision l) \<and>
        w = W_delete (env_dbnow e) i (exp_status (le_expense l)) (env_clock e 0)))"
proof (cases "loadForViewer d0 i v")
  case (Inl err)
  then show ?thesis by (intro exI [of _ W_none]) (simp add: cancel_expense_def)
next
  case (Inr l)
  let ?w = "W_delete (env_dbnow e) i (exp_status (le_expense l)) (env_clock e 0)"
  have "db_expenses (snd (cancel_expense e d0 i v d)) = db_expenses d \<or>
      canCancelExpense (le_decision l) \<and> db_expenses (snd (cancel_expense e d0 i v d)) = write_rows ?w d"
    using Inr
    by (auto simp: cancel_expense_def chain_simps Let_def split: sum.split prod.split bool.split)
  then show ?thesis
    using Inr by (metis write_rows.simps(1))
qed

section \<open>The invariant\<close>

definition exp_wf :: "expense_row \<Rightarrow> bool" where
  "exp_wf x \<longleftrightarrow> exp_splitRatioPayer x + exp_splitRatioOther x = 10000 \<and>
     (case exp_status x of
        PENDING \<Rightarrow> exp_approvedBy x = None \<and> exp_approvedAt x = None \<and> exp_paidAt x = None
      | APPROVED \<Rightarrow> (\<exists>a. exp_approvedBy x = Some a \<and> a \<noteq> exp_requestedBy x) \<and>
          exp_approvedAt x \<noteq> None \<and> exp_paidAt x = None \<and> exp_deletedAt x = None
      | REJECTED \<Rightarrow> exp_approvedBy x = None \<and> exp_approvedAt x = None \<and> exp_paidAt x = None \<and>
          exp_deletedAt x = None
      | PAID \<Rightarrow> (\<exists>a. exp_approvedBy x = Some a \<and> a \<noteq> exp_requestedBy x) \<and>
          exp_approvedAt x \<noteq> None \<and> exp_paidAt x \<noteq> None \<and> exp_deletedAt x = None)"

text \<open>\<open>x'\<close> is a later state of the row \<open>x\<close>.\<close>

definition exp_follows :: "expense_row \<Rightarrow> expense_row \<Rightarrow> bool" where
  "exp_follows x x' \<longleftrightarrow>
     exp_id x' = exp_id x \<and> exp_bondId x' = exp_bondId x \<and> exp_requestedBy x' = exp_requestedBy x \<and>
     expense_moves\<^sup>*\<^sup>* (exp_status x) (exp_status x') \<and>
     (exp_deletedAt x \<noteq> None \<longrightarrow> exp_status x' = exp_status x \<and> exp_deletedAt x' = exp_deletedAt x) \<and>
     (exp_status x \<noteq> PENDING \<or> exp_deletedAt x \<noteq> None \<longrightarrow>
        exp_concept x' = exp_concept x \<and> exp_amount x' = exp_amount x \<and>
        exp_expenseDate x' = exp_expenseDate x \<and> exp_categoryId x' = exp_categoryId x \<and>
        exp_splitRatioPayer x' = exp_splitRatioPayer x \<and>
        exp_splitRatioOther x' = exp_splitRatioOther x)"

lemma exp_follows_refl [simp]: "exp_follows x x"
  by (simp add: exp_follows_def)

lemma moves_from_PENDING: "expense_moves\<^sup>*\<^sup>* s t \<Longrightarrow> s \<noteq> PENDING \<Longrightarrow> t \<noteq> PENDING"
  by (induction rule: rtranclp_induct) auto

lemma exp_follows_trans: "exp_follows x y \<Longrightarrow> exp_follows y z \<Longrightarrow> exp_follows x z"
  using moves_from_PENDING [of "exp_status x" "exp_status y"]
  unfolding exp_follows_def by (elim conjE) (intro conjI impI; auto)

definition legal_write :: "db \<Rightarrow> expense_write \<Rightarrow> bool" where
  "legal_write d w =
     (case w of
        W_none \<Rightarrow> True
      | W_edit at i s p \<Rightarrow> s = PENDING \<and> (\<exists>dto. p = buildPatch dto)
      | W_delete at i s t \<Rightarrow> s = PENDING
      | W_move at i s n f \<Rightarrow>
          (s = PENDING \<and> n = APPROVED \<and> xf_paidAt f = Keep \<and>
           (\<exists>a t. xf_approvedBy f = Put (Some a) \<and> xf_approvedAt f = Put (Some t) \<and>
              (\<forall>x \<in> set (db_expenses d). exp_id x = i \<longrightarrow> a \<noteq> exp_requestedBy x))) \<or>
          (s = PENDING \<and> n = REJECTED \<and> xf_approvedBy f = Keep \<and> xf_approvedAt f = Keep \<and>
           xf_paidAt f = Keep) \<or>
          (s = APPROVED \<and> n = PAID \<and> xf_approvedBy f = Keep \<and> xf_approvedAt f = Keep \<and>
           (\<exists>t. xf_paidAt f = Put (Some t))))"

definition rows_step :: "expense_row list \<Rightarrow> expense_row list \<Rightarrow> bool" where
  "rows_step rows rows' \<longleftrightarrow> map exp_id rows' = map exp_id rows \<and>
     (list_all exp_wf rows \<longrightarrow> list_all exp_wf rows') \<and>
     (\<forall>x \<in> set rows. \<exists>x' \<in> set rows'. exp_follows x x')"

lemma rows_step_refl [simp]: "rows_step rows rows"
  by (auto simp: rows_step_def intro: exp_follows_refl)

lemma rows_step_update:
  assumes "\<And>r. exp_id (g r) = exp_id r"
    and "\<And>x. x \<in> set rows \<Longrightarrow> exp_id x = i \<Longrightarrow> exp_wf x \<Longrightarrow> exp_wf (g x)"
    and "\<And>x. x \<in> set rows \<Longrightarrow> exp_id x = i \<Longrightarrow> exp_follows x (g x)"
  shows "rows_step rows (update_by exp_id i g rows)"
  unfolding rows_step_def
proof (intro conjI impI ballI)
  show "map exp_id (update_by exp_id i g rows) = map exp_id rows"
    using assms(1) by simp
  show "list_all exp_wf rows \<Longrightarrow> list_all exp_wf (update_by exp_id i g rows)"
    using assms(2) by (auto simp: list_all_iff dest!: set_update_by_cases)
  show "\<exists>x' \<in> set (update_by exp_id i g rows). exp_follows x x'" if "x \<in> set rows" for x
    using that assms(3) [OF that] by (cases "exp_id x = i") (force simp: update_by_def)+
qed

lemma exp_wf_updatedAt [simp]: "exp_wf (x\<lparr>exp_updatedAt := t\<rparr>) \<longleftrightarrow> exp_wf x"
  by (cases "exp_status x") (simp_all add: exp_wf_def)

lemma buildPatch_split [simp]:
  "a + b = 10000 \<Longrightarrow>
     patched (xp_splitRatioPayer (buildPatch dto)) a +
     patched (xp_splitRatioOther (buildPatch dto)) b = 10000"
  by (cases "ue_splitRatioPayer dto") (simp_all add: buildPatch_def splitRatios_def Let_def)

lemma guarded_rows_step:
  assumes dist: "distinct (map exp_id (db_expenses d))"
    and id: "\<And>r. exp_id (g r) = exp_id r"
    and wf: "\<And>x. x \<in> set (db_expenses d) \<Longrightarrow> exp_id x = i \<Longrightarrow> cas_matches s x \<Longrightarrow> exp_wf x \<Longrightarrow> exp_wf (g x)"
    and follows: "\<And>x. x \<in> set (db_expenses d) \<Longrightarrow> exp_id x = i \<Longrightarrow> cas_matches s x \<Longrightarrow>
                    exp_follows x ((g x)\<lparr>exp_updatedAt := at\<rparr>)"
  shows "rows_step (db_expenses d) (db_expenses (snd (updateGuarded at i s g d)))"
proof (cases "fst (updateGuarded at i s g d)")
  case False
  then show ?thesis
    by (simp add: updateGuarded_miss)
next
  case True
  then obtain d' where "updateGuarded at i s g d = (True, d')"
    by (cases "updateGuarded at i s g d") auto
  then obtain x where x: "lookup_by exp_id i (db_expenses d) = Some x" "cas_matches s x"
      "db_expenses (snd (updateGuarded at i s g d)) =
         update_by exp_id i (\<lambda>r. (g r)\<lparr>exp_updatedAt := at\<rparr>) (db_expenses d)"
    by (auto simp: cas_matches_def elim: updateGuarded_True_cases)
  have only: "y = x" if "y \<in> set (db_expenses d)" "exp_id y = i" for y
    using that x(1) lookup_by_distinct [OF dist that(1)] by simp
  show ?thesis
    unfolding x(3) using id wf follows only x(2) by (intro rows_step_update) auto
qed

lemma legal_write_step:
  assumes dist: "distinct (map exp_id (db_expenses d))" and legal: "legal_write d w"
  shows "rows_step (db_expenses d) (write_rows w d)"
proof (cases w)
  case (W_edit at i s p)
  then obtain dto where "s = PENDING" "p = buildPatch dto"
    using legal by (auto simp: legal_write_def)
  then show ?thesis
    unfolding W_edit write_rows.simps editFields_def
    by (intro guarded_rows_step [OF dist])
      (auto simp: exp_wf_def exp_follows_def cas_matches_def)
next
  case (W_delete at i s t)
  then have "s = PENDING"
    using legal by (simp add: legal_write_def)
  then show ?thesis
    unfolding W_delete write_rows.simps markDeleted_def
    by (intro guarded_rows_step [OF dist]) (auto simp: exp_wf_def exp_follows_def cas_matches_def)
next
  case (W_move at i s n f)
  have moves: "expense_moves s n"
    using legal W_move by (auto simp: legal_write_def)
  have follows: "exp_follows x ((move_status n f x)\<lparr>exp_updatedAt := at\<rparr>)" if "cas_matches s x" for x
    using that moves r_into_rtranclp [of expense_moves s n]
    by (auto simp: exp_follows_def cas_matches_def move_status_def)
  have wf: "exp_wf (move_status n f x)"
    if "x \<in> set (db_expenses d)" "exp_id x = i" "cas_matches s x" "exp_wf x" for x
    using that legal W_move by (auto simp: legal_write_def exp_wf_def cas_matches_def)
  show ?thesis
    unfolding W_move write_rows.simps transitionStatus_def
    using wf follows by (intro guarded_rows_step [OF dist]) auto
qed simp

section \<open>Every run\<close>

definition exp_inv :: "db list \<Rightarrow> bool" where
  "exp_inv hs \<longleftrightarrow> hs \<noteq> [] \<and> list_all exp_wf (db_expenses (hd hs)) \<and>
     (\<forall>h \<in> set hs. distinct (map exp_id (db_expenses h)) \<and>
        (\<forall>x \<in> set (db_expenses h). \<exists>x' \<in> set (db_expenses (hd hs)). exp_follows x x'))"

lemma exp_inv_rows:
  assumes "exp_inv (d # hs)"
  shows "distinct (map exp_id (db_expenses d))" and "list_all exp_wf (db_expenses d)"
  using assms by (auto simp: exp_inv_def)

lemma exp_inv_step:
  assumes "exp_inv (d # hs)" and "rows_step (db_expenses d) (db_expenses d')"
  shows "exp_inv (d' # d # hs)"
  unfolding exp_inv_def
proof (intro conjI ballI)
  fix h x
  assume h: "h \<in> set (d' # d # hs)"
  show "distinct (map exp_id (db_expenses h))"
    using h assms by (auto simp: exp_inv_def rows_step_def)
  assume x: "x \<in> set (db_expenses h)"
  show "\<exists>x' \<in> set (db_expenses (hd (d' # d # hs))). exp_follows x x'"
  proof (cases "h = d'")
    case False
    then have "h \<in> set (d # hs)"
      using h by simp
    then obtain y where "y \<in> set (db_expenses d)" "exp_follows x y"
      using x assms(1) unfolding exp_inv_def by (metis list.sel(1))
    then show ?thesis
      using assms(2) by (auto simp: rows_step_def intro: exp_follows_trans)
  qed (use x in \<open>auto intro: exp_follows_refl\<close>)
qed (use assms in \<open>auto simp: exp_inv_def rows_step_def\<close>)

text \<open>What was read in an earlier state is still true of the owner: whoever the read told apart
  from the requester is told apart from the requester of the row found later.\<close>

lemma read_requester:
  assumes "exp_inv (d # hs)" and "d0 \<in> set (d # hs)" and "loadForViewer d0 i v = Inr l"
    and "x \<in> set (db_expenses d)" and "exp_id x = i"
  shows "exp_requestedBy x = exp_requestedBy (le_expense l)" and "exp_follows (le_expense l) x"
proof -
  have "distinct (map exp_id (db_expenses d0))"
    using assms(1,2) by (auto simp: exp_inv_def)
  then have l: "lookup_by exp_id i (db_expenses d0) = Some (le_expense l)"
    using findAliveById_lookup loadForViewer_InrD(1) [OF assms(3)] by blast
  then obtain y where y: "y \<in> set (db_expenses d)" "exp_follows (le_expense l) y"
    using assms(1,2) by (fastforce simp: exp_inv_def dest: lookup_by_SomeD)
  have "exp_id y = i"
    using y(2) lookup_by_SomeD [OF l] by (simp add: exp_follows_def)
  then have "y = x"
    using lookup_by_distinct [OF exp_inv_rows(1) [OF assms(1)] y(1)]
      lookup_by_distinct [OF exp_inv_rows(1) [OF assms(1)] assms(4)] assms(5) by simp
  then show "exp_requestedBy x = exp_requestedBy (le_expense l)" "exp_follows (le_expense l) x"
    using y(2) by (simp_all add: exp_follows_def)
qed

lemma canApprove_not_requester:
  "loadForViewer d0 i v = Inr l \<Longrightarrow> canApprove (le_decision l) \<Longrightarrow> v \<noteq> exp_requestedBy (le_expense l)"
  using selectCounterpartId_SomeD
  by (auto simp: loadForViewer_InrD(3,4) counterpartOf_def dest!: loadForViewer_InrD(4))

lemma decision_status:
  assumes "loadForViewer d0 i v = Inr l"
  shows "canApprove (le_decision l) \<or> canReject (le_decision l) \<or> canEdit (le_decision l) \<or>
           canCancelExpense (le_decision l) \<Longrightarrow> exp_status (le_expense l) = PENDING"
    and "canMarkPaid (le_decision l) \<Longrightarrow> exp_status (le_expense l) = APPROVED"
  by (auto simp: loadForViewer_InrD(4) [OF assms])

lemma legal_step:
  assumes "exp_inv (d # hs)"
    and "\<exists>w. db_expenses d' = write_rows w d \<and> (w = W_none \<or> Q w)"
    and "\<And>w. Q w \<Longrightarrow> legal_write d w"
  shows "rows_step (db_expenses d) (db_expenses d')"
proof -
  obtain w where "db_expenses d' = write_rows w d" "w = W_none \<or> Q w"
    using assms(2) by blast
  moreover have "legal_write d W_none"
    by (simp add: legal_write_def)
  ultimately show ?thesis
    using legal_write_step [OF exp_inv_rows(1) [OF assms(1)]] assms(3) by metis
qed

lemma write_steps:
  assumes "exp_inv (d # hs)" and "d0 \<in> set (d # hs)"
  shows "rows_step (db_expenses d) (db_expenses (snd (approve e d0 i v d)))"
    and "rows_step (db_expenses d) (db_expenses (snd (reject e d0 i v reason d)))"
    and "rows_step (db_expenses d) (db_expenses (snd (pay e d0 i v d)))"
    and "rows_step (db_expenses d) (db_expenses (snd (update_expense e d0 i udto v d)))"
    and "rows_step (db_expenses d) (db_expenses (snd (cancel_expense e d0 i v d)))"
proof -
  have "v \<noteq> exp_requestedBy x"
    if "loadForViewer d0 i v = Inr l" "canApprove (le_decision l)"
      "x \<in> set (db_expenses d)" "exp_id x = i" for l x
    using read_requester(1) [OF assms that(1,3,4)] canApprove_not_requester [OF that(1,2)] by simp
  then show "rows_step (db_expenses d) (db_expenses (snd (approve e d0 i v d)))"
    unfolding approve_def
    by (intro legal_step [OF assms(1) transition_step_write])
      (auto simp: approval_def legal_write_def decision_status)
  show "rows_step (db_expenses d) (db_expenses (snd (reject e d0 i v reason d)))"
    unfolding reject_def
    by (rule legal_step [OF assms(1) transition_step_write])
      (auto simp: rejection_def legal_write_def decision_status)
  show "rows_step (db_expenses d) (db_expenses (snd (pay e d0 i v d)))"
    unfolding pay_def
    by (rule legal_step [OF assms(1) transition_step_write])
      (auto simp: payment_def legal_write_def decision_status)
  show "rows_step (db_expenses d) (db_expenses (snd (update_expense e d0 i udto v d)))"
    by (rule legal_step [OF assms(1) update_expense_write])
      (auto simp: legal_write_def decision_status)
  show "rows_step (db_expenses d) (db_expenses (snd (cancel_expense e d0 i v d)))"
    by (rule legal_step [OF assms(1) cancel_expense_write])
      (auto simp: legal_write_def decision_status)
qed

text \<open>Creation appends one well-formed pending row; the conversion of an expense to an activity
  only stores the id of the activity.\<close>

lemma create_expense_rows:
  assumes "create_expense e d b dto v = Inr (r, d')"
  shows "\<exists>day p. db_expenses d' = db_expenses d @
      [new_expense (env_uuid e 0) (env_dbnow e) b dto v day p (10000 - p)] \<and>
      parseExpenseDate (ce_expenseDate dto) = Inr day"
  using assms
  by (auto simp: create_expense_def chain_simps Let_def splitRatios_def insertExpense_def
      split: option.splits)

lemma create_expense_inv:
  assumes "exp_inv (d # hs)" and "create_expense e d b dto v = Inr (r, d')"
    and "env_uuid e 0 \<notin> exp_id ` set (db_expenses d)"
  shows "exp_inv (d' # d # hs)"
proof -
  obtain x where x: "db_expenses d' = db_expenses d @ [x]" "exp_id x = env_uuid e 0" "exp_wf x"
    using create_expense_rows [OF assms(2)] by (auto simp: new_expense_def exp_wf_def)
  have "\<exists>y \<in> set (db_expenses d'). exp_follows z y"
    if "h \<in> set (d' # d # hs)" "z \<in> set (db_expenses h)" for h z
    using that assms(1) x(1) exp_follows_refl [of z] by (auto simp: exp_inv_def)
  then show ?thesis
    using assms(1,3) x unfolding exp_inv_def by auto
qed

lemma updateActivityId_step:
  "rows_step (db_expenses d) (db_expenses (snd (updateActivityId at i a d)))"
proof (cases "fst (updateActivityId at i a d)")
  case False
  then show ?thesis
    by (auto simp: updateActivityId_def split: option.splits)
next
  case True
  then have "db_expenses (snd (updateActivityId at i a d)) = update_by exp_id i
      (\<lambda>r. r\<lparr>exp_activityId := Some a, exp_updatedAt := at\<rparr>) (db_expenses d)"
    by (auto simp: updateActivityId_def split: option.splits)
  moreover have "exp_wf (x\<lparr>exp_activityId := Some a, exp_updatedAt := at\<rparr>)" if "exp_wf x" for x
    using that by (cases "exp_status x") (simp_all add: exp_wf_def)
  ultimately show ?thesis
    by (auto intro!: rows_step_update simp: exp_follows_def)
qed

lemma exp_run_inv: "exp_run hs \<Longrightarrow> exp_inv hs"
proof (induction rule: exp_run.induct)
  case (run_init d)
  then show ?case by (simp add: exp_inv_def)
next
  case (run_create d hs e b dto v r d')
  then show ?case by (intro create_expense_inv)
next
  case (run_elsewhere d hs d')
  then show ?case by (intro exp_inv_step) simp_all
qed (auto intro!: exp_inv_step write_steps updateActivityId_step)

end
