(* ===== verification/Civil_Dates.thy ===== *)
theory Civil_Dates
  imports Js_Date
begin

text \<open>The calendar is right: the civil date of a day number inverts the day number of a civil
  date, so the round trip through \<open>Date\<close> and \<open>toISOString\<close> keeps exactly the days that
  exist.\<close>

section \<open>Years and months\<close>

lemma next_div:
  fixes y n :: int
  assumes "0 < n"
  shows "y div n - (y - 1) div n = (if y mod n = 0 then 1 else 0)"
proof (cases "y mod n = 0")
  case True
  then have "n * (y div n) = y"
    using mult_div_mod_eq [of n y] by simp
  then have "y - 1 = n * (y div n - 1) + (n - 1)"
    unfolding right_diff_distrib by simp
  then have "(y - 1) div n = y div n - 1"
    by (rule int_div_pos_eq) (use assms in simp_all)
  then show ?thesis using True by simp
next
  case False
  have "y - 1 = n * (y div n) + (y mod n - 1)"
    by simp
  then have "(y - 1) div n = y div n"
    by (rule int_div_pos_eq)
      (use False pos_mod_bound [OF assms, of y] pos_mod_sign [OF assms, of y] in linarith)+
  then show ?thesis using False by simp
qed

lemma multiples:
  fixes y :: int
  shows "y mod 100 = 0 \<Longrightarrow> y mod 4 = 0" and "y mod 400 = 0 \<Longrightarrow> y mod 100 = 0"
  by presburger+

lemma year_length:
  "days_before_year (y + 1) - days_before_year y = (if is_leap y then 366 else 365)"
proof -
  have "days_before_year (y + 1) - days_before_year y = 365 + (y div 4 - (y - 1) div 4)
      - (y div 100 - (y - 1) div 100) + (y div 400 - (y - 1) div 400)"
    by (simp add: days_before_year_def)
  also have "\<dots> = 365 + (if y mod 4 = 0 then 1 else 0) - (if y mod 100 = 0 then 1 else 0)
      + (if y mod 400 = 0 then 1 else 0)"
    by (simp add: next_div)
  also have "\<dots> = (if is_leap y then 366 else 365)"
    using multiples [of y]
    by (cases "y mod 4 = 0"; cases "y mod 100 = 0"; cases "y mod 400 = 0") (simp_all add: is_leap_def)
  finally show ?thesis .
qed

lemma months_12: "1 \<le> m \<Longrightarrow> m \<le> 12 \<Longrightarrow> m \<in> {1, 2, 3, 4, 5, 6, 7, 8, 9, 10, 11, 12 :: int}"
  by (simp, presburger)

lemma month_length:
  "1 \<le> m \<Longrightarrow> m < 12 \<Longrightarrow> days_before_month y (m + 1) = days_before_month y m + month_days y m"
  using months_12 [of m] by (auto simp: days_before_month_def month_days_def)

lemma month_bounds:
  assumes "valid_civil y m d"
  shows "0 \<le> days_before_month y m + (d - 1)"
    and "days_before_month y m + (d - 1) < (if is_leap y then 366 else 365)"
  using assms months_12 [of m]
  by (auto simp: valid_civil_def days_before_month_def month_days_def split: if_splits)

lemma month_of_day_valid:
  assumes "valid_civil y m d"
  shows "month_of_day y (days_before_month y m + (d - 1)) = m"
proof -
  have "1 \<le> d" "d \<le> month_days y m" and m: "m \<in> {1, 2, 3, 4, 5, 6, 7, 8, 9, 10, 11, 12}"
    using assms months_12 [of m] by (simp_all add: valid_civil_def)
  then show ?thesis
    by (cases "is_leap y"; elim insertE emptyE)
      (simp_all add: month_of_day_def days_before_month_def month_days_def)
qed

section \<open>The estimate of the year\<close>

lemma mean_year:
  "400 * days_before_year y = 146097 * (y - 1970) + 193 - 100 * ((y - 1) mod 4)
     + 4 * ((y - 1) mod 100) - (y - 1) mod 400"
proof -
  have gen: "400 * (365 * (y - 1970) + (p - 492) - (q - 19) + (r - 4)) =
      146097 * (y - 1970) + 193 - 100 * u + 4 * v - w"
    if "u = y - 1 - 4 * p" "v = y - 1 - 100 * q" "w = y - 1 - 400 * r" for p q r u v w
    by (simp add: that)
  show ?thesis
    unfolding days_before_year_def by (rule gen) (rule minus_mult_div_eq_mod [symmetric])+
qed

lemma mean_year_bounds:
  "146097 * (y - 1970) - 506 \<le> 400 * days_before_year y"
  "400 * days_before_year y \<le> 146097 * (y - 1970) + 589"
proof -
  have "0 \<le> (y - 1) mod 4" "(y - 1) mod 4 < 4" "0 \<le> (y - 1) mod 100" "(y - 1) mod 100 < 100"
    "0 \<le> (y - 1) mod 400" "(y - 1) mod 400 < 400"
    by simp_all
  then show "146097 * (y - 1970) - 506 \<le> 400 * days_before_year y"
    "400 * days_before_year y \<le> 146097 * (y - 1970) + 589"
    unfolding mean_year by linarith+
qed

lemma year_of_day_unique:
  assumes "days_before_year y \<le> z" and "z < days_before_year (y + 1)"
  shows "year_of_day z = y"
proof -
  have "146097 * (y - 1 - 1970) \<le> z * 400"
    using assms(1) mean_year_bounds(1) [of y] by simp
  moreover have "z * 400 < 146097 * (y + 2 - 1970)"
    using assms(2) mean_year_bounds(2) [of "y + 1"] by simp
  moreover have "p \<le> q \<and> q < t"
    if "146097 * p \<le> 146097 * q + r" "146097 * q + r < 146097 * t" "0 \<le> r" "r < 146097"
    for p q r t :: int
    using that by linarith
  ultimately have "y - 1 - 1970 \<le> (z * 400) div 146097 \<and> (z * 400) div 146097 < y + 2 - 1970"
    using mult_div_mod_eq [of 146097 "z * 400"] by (metis pos_mod_bound pos_mod_sign zero_less_numeral)
  then have "year_estimate z \<in> {y - 1, y, y + 1}"
    by (auto simp: year_estimate_def)
  then show ?thesis
    using assms year_length [of "y - 1"]
    by (auto simp: year_of_day_def Let_def split: if_splits)
qed

lemma civil_of_days_from_civil [simp]:
  assumes "valid_civil y m d"
  shows "civil_from_days (days_from_civil y m d) = (y, m, d)"
proof -
  have y: "year_of_day (days_from_civil y m d) = y"
    using month_bounds [OF assms] year_length [of y]
    by (intro year_of_day_unique) (auto simp: days_from_civil_def split: if_splits)
  have n: "days_from_civil y m d - days_before_year y = days_before_month y m + (d - 1)"
    by (simp add: days_from_civil_def)
  show ?thesis
    unfolding civil_from_days_def y Let_def n month_of_day_valid [OF assms] by simp
qed

text \<open>A day past the end of its month is a day of the next one.\<close>

lemma run_over:
  assumes "1 \<le> m" "m \<le> 12" "1 \<le> d" "d \<le> 31" and "\<not> valid_civil y m d"
  shows "m < 12" and "valid_civil y (m + 1) (d - month_days y m)"
    and "days_from_civil y m d = days_from_civil y (m + 1) (d - month_days y m)"
proof -
  show "m < 12"
    using assms by (cases "m = 12") (simp_all add: valid_civil_def month_days_def)
  then show "days_from_civil y m d = days_from_civil y (m + 1) (d - month_days y m)"
    using assms(1) month_length [of m y] by (simp add: days_from_civil_def)
  show "valid_civil y (m + 1) (d - month_days y m)"
    using assms months_12 [of m] by (auto simp: valid_civil_def month_days_def split: if_splits)
qed

text \<open>Every day number has a civil date.\<close>

lemma year_of_day_bounds:
  "days_before_year (year_of_day z) \<le> z \<and> z < days_before_year (year_of_day z + 1)"
proof -
  define k where "k = year_estimate z - 1970"
  have k: "146097 * k \<le> z * 400" "z * 400 < 146097 * (k + 1)"
  proof -
    have split: "146097 * q \<le> w \<and> w < 146097 * (q + 1)"
      if "w = 146097 * q + r" "0 \<le> r" "r < 146097" for q r w :: int
      using that by simp
    have "k = (z * 400) div 146097"
      by (simp add: k_def year_estimate_def)
    then show "146097 * k \<le> z * 400" "z * 400 < 146097 * (k + 1)"
      using split [of "z * 400" k "(z * 400) mod 146097"] mult_div_mod_eq [of 146097 "z * 400"]
      by simp_all
  qed
  define y0 where "y0 = year_estimate z"
  have "days_before_year y0 \<le> z + 1"
    using mean_year_bounds(2) [of y0] k by (simp add: k_def y0_def)
  moreover have "z < days_before_year (y0 + 1) + 2"
    using mean_year_bounds(1) [of "y0 + 1"] k by (simp add: k_def y0_def)
  moreover have "days_before_year (y0 - 1) + 365 \<le> days_before_year y0"
    "days_before_year (y0 + 1) + 365 \<le> days_before_year (y0 + 1 + 1)"
    using year_length [of "y0 - 1"] year_length [of "y0 + 1"] by (auto split: if_splits)
  ultimately show ?thesis
    unfolding year_of_day_def y0_def [symmetric] Let_def by simp
qed

lemma month_of_day_bounds:
  assumes "0 \<le> n" and "n < (if is_leap y then 366 else 365)"
  shows "valid_civil y (month_of_day y n) (n - days_before_month y (month_of_day y n) + 1)"
proof (cases "is_leap y")
  case True
  then show ?thesis
    using assms by (simp add: month_of_day_def valid_civil_def month_days_def days_before_month_def)
next
  case False
  then show ?thesis
    using assms by (simp add: month_of_day_def valid_civil_def month_days_def days_before_month_def)
qed

lemma civil_from_days_valid:
  "civil_from_days z = (y, m, d) \<Longrightarrow> valid_civil y m d \<and> days_from_civil y m d = z"
  using year_of_day_bounds [of z] year_length [of "year_of_day z"]
    month_of_day_bounds [of "z - days_before_year (year_of_day z)" "year_of_day z"]
  by (auto simp: civil_from_days_def days_from_civil_def Let_def)

section \<open>Digits\<close>

lemma undecimal_fold: "undecimal s = fold (\<lambda>c n. 10 * n + (of_char c - 48)) s 0"
  by (cases s) auto

lemma undecimal_snoc: "undecimal (s @ [c]) = 10 * undecimal s + (of_char c - 48)"
  by (simp add: undecimal_fold)

lemma digit_of_char: "is_digit c \<Longrightarrow> digit (of_char c - 48) = c"
  by (simp add: is_digit_def digit_def)

lemma is_digit_digit [simp]: "d < 10 \<Longrightarrow> is_digit (digit d)"
  by (simp add: is_digit_def)

lemma digit_0: "digit 0 = CHR ''0''"
proof -
  have "(of_char (digit 0) :: nat) = of_char (CHR ''0'')"
    by simp
  then show ?thesis
    by (simp only: of_char_eq_iff)
qed

lemma undecimal_bound: "list_all is_digit s \<Longrightarrow> undecimal s < 10 ^ length s"
proof (induction s rule: rev_induct)
  case (snoc c s)
  then have "undecimal s + 1 \<le> 10 ^ length s" "of_char c - (48 :: nat) \<le> 9"
    by (auto simp: is_digit_def)
  then show ?case
    unfolding undecimal_snoc by simp
qed simp

lemma pad_zero: "0 < w \<Longrightarrow> pad_start w (decimal 0) = replicate w (CHR ''0'')"
  by (cases w) (simp_all add: pad_start_def decimal.simps [of 0] digit_0 replicate_append_same)

text \<open>Padding to the width of a digit string rebuilds it.\<close>

lemma pad_undecimal:
  "list_all is_digit s \<Longrightarrow> s \<noteq> [] \<Longrightarrow> pad_start (length s) (decimal (undecimal s)) = s"
proof (induction s rule: rev_induct)
  case (snoc c s)
  let ?d = "of_char c - (48 :: nat)"
  have d: "?d < 10" "digit ?d = c"
    using snoc.prems by (auto simp: is_digit_def digit_of_char)
  show ?case
  proof (cases "undecimal s = 0")
    case True
    then have "s = replicate (length s) (CHR ''0'')"
      using snoc pad_zero [of "length s"] by (cases "s = []") auto
    moreover have "decimal (undecimal (s @ [c])) = [c]"
      using True d by (simp add: undecimal_snoc decimal.simps)
    ultimately show ?thesis
      by (simp add: pad_start_def)
  next
    case False
    then have "decimal (undecimal (s @ [c])) = decimal (undecimal s) @ [c]"
      using d by (subst decimal.simps) (simp add: undecimal_snoc)
    moreover have "s \<noteq> []"
      using False by auto
    ultimately show ?thesis
      using snoc by (simp add: pad_start_def)
  qed
qed simp

lemma length_pad_decimal [simp]:
  "n < 10 ^ w \<Longrightarrow> 0 < w \<Longrightarrow> length (pad_start w (decimal n)) = w"
  using length_decimal [of n w] by (simp add: pad_start_def)

lemma undecimal_pad [simp]: "undecimal (pad_start w (decimal n)) = n"
proof -
  have "fold (\<lambda>c n. 10 * n + (of_char c - 48)) (replicate k CHR ''0'') 0 = (0 :: nat)" for k
    by (induction k) auto
  then show ?thesis
    using undecimal_decimal [of n] by (simp add: pad_start_def undecimal_fold)
qed

lemma pad_decimal_digits [simp]: "list_all is_digit (pad_start w (decimal n))"
  using digit_0 is_digit_digit [of 0] decimal_digits
  by (fastforce simp: pad_start_def list_all_iff)

section \<open>The text of a day\<close>

definition day_text :: "int \<Rightarrow> int \<Rightarrow> int \<Rightarrow> string" where
  "day_text y m d = pad_start 4 (decimal (nat y)) @ ''-'' @ pad_start 2 (decimal (nat m)) @ ''-'' @
     pad_start 2 (decimal (nat d))"

lemma day_string_civil:
  "valid_civil y m d \<Longrightarrow> 0 \<le> y \<Longrightarrow> y \<le> 9999 \<Longrightarrow>
     day_string (days_from_civil y m d) = day_text y m d"
  by (simp add: day_string_def year_string_def day_text_def)

lemma toISOString_day:
  "length (day_string z) = 10 \<Longrightarrow> take 10 (toISOString (z * ms_per_day)) = day_string z"
  by (simp add: toISOString_def ms_per_day_def Let_def)

lemma valid_civil_bounds: "valid_civil y m d \<Longrightarrow> 1 \<le> m \<and> m \<le> 12 \<and> 1 \<le> d \<and> d \<le> 31"
  by (auto simp: valid_civil_def month_days_def split: if_splits)

lemma day_text_parts:
  assumes "0 \<le> y" "y \<le> 9999" "0 \<le> m" "m \<le> 99" "0 \<le> d" "d \<le> 99"
  shows "length (day_text y m d) = 10" "take 4 (day_text y m d) = pad_start 4 (decimal (nat y))"
    and "take 2 (drop 5 (day_text y m d)) = pad_start 2 (decimal (nat m))"
    and "drop 8 (day_text y m d) = pad_start 2 (decimal (nat d))"
    and "day_text y m d ! 4 = CHR ''-''" "day_text y m d ! 7 = CHR ''-''"
proof -
  have "nat y < 10 ^ 4" "nat m < 10 ^ 2" "nat d < 10 ^ 2"
    using assms by simp_all
  then have "length (pad_start 4 (decimal (nat y))) = 4" "length (pad_start 2 (decimal (nat m))) = 2"
    "length (pad_start 2 (decimal (nat d))) = 2"
    by (metis length_pad_decimal zero_less_numeral)+
  then show "length (day_text y m d) = 10" "take 4 (day_text y m d) = pad_start 4 (decimal (nat y))"
    "take 2 (drop 5 (day_text y m d)) = pad_start 2 (decimal (nat m))"
    "drop 8 (day_text y m d) = pad_start 2 (decimal (nat d))"
    "day_text y m d ! 4 = CHR ''-''" "day_text y m d ! 7 = CHR ''-''"
    by (simp_all add: day_text_def nth_append)
qed

lemma day_text_inject:
  assumes "0 \<le> y" "y \<le> 9999" "0 \<le> m" "m \<le> 99" "0 \<le> d" "d \<le> 99"
    and "0 \<le> y'" "y' \<le> 9999" "0 \<le> m'" "m' \<le> 99" "0 \<le> d'" "d' \<le> 99"
    and "day_text y m d = day_text y' m' d'"
  shows "y = y' \<and> m = m' \<and> d = d'"
proof -
  note p = day_text_parts [OF assms(1-6)] and p' = day_text_parts [OF assms(7-12)]
  have "nat y = nat y'" "nat m = nat m'" "nat d = nat d'"
    using p(2-4) p'(2-4) undecimal_pad assms(13) by metis+
  then show ?thesis
    using assms(1,3,5,7,9,11) by (metis eq_nat_nat_iff)
qed

text \<open>What the parser accepts, by the text of the day.\<close>

lemma js_parse_day_iff:
  "js_parse_day v = Some z \<longleftrightarrow>
     (\<exists>y m d. 0 \<le> y \<and> y \<le> 9999 \<and> 1 \<le> m \<and> m \<le> 12 \<and> 1 \<le> d \<and> d \<le> 31 \<and>
        v = day_text y m d \<and> z = days_from_civil y m d)" (is "_ \<longleftrightarrow> ?R")
proof
  assume a: "js_parse_day v = Some z"
  define y m d where "y = int (undecimal (take 4 v))" and "m = int (undecimal (take 2 (drop 5 v)))"
    and "d = int (undecimal (drop 8 v))"
  have v: "length v = 10" "v ! 4 = CHR ''-''" "v ! 7 = CHR ''-''" "list_all is_digit (take 4 v)"
    "list_all is_digit (take 2 (drop 5 v))" "list_all is_digit (drop 8 v)"
    "1 \<le> m" "m \<le> 12" "1 \<le> d" "d \<le> 31" "z = days_from_civil y m d"
    using a by (auto simp: js_parse_day_def Let_def y_def m_def d_def split: if_splits)
  have "v \<noteq> []"
    using v(1) by auto
  have "v = take 4 v @ [v ! 4] @ take 2 (drop 5 v) @ [v ! 7] @ drop 8 v"
    using v(1) by (auto simp: eval_nat_numeral length_Suc_conv)
  also have "\<dots> = day_text y m d"
    using pad_undecimal [OF v(4)] pad_undecimal [OF v(5)] pad_undecimal [OF v(6)] v(1-3) \<open>v \<noteq> []\<close>
    by (simp add: day_text_def y_def m_def d_def)
  finally have "v = day_text y m d" .
  moreover have "y \<le> 9999"
    using undecimal_bound [OF v(4)] v(1) by (simp add: y_def)
  ultimately show ?R
    using v by (intro exI [of _ y] exI [of _ m] exI [of _ d]) (simp add: y_def)
next
  assume ?R
  then obtain y m d where r: "0 \<le> y" "y \<le> 9999" "1 \<le> m" "m \<le> 12" "1 \<le> d" "d \<le> 31"
      "v = day_text y m d" "z = days_from_civil y m d"
    by blast
  then show "js_parse_day v = Some z"
    using day_text_parts [of y m d] by (simp add: js_parse_day_def Let_def)
qed

end
