(* ===== verification/Expense_Properties.thy ===== *)
theory Expense_Properties
  imports Expense_Machine Civil_Dates Examples
begin

text \<open>The properties of the expenses component: what each write does on every branch, who may
  do it, what holds in every run, the arithmetic of the balance, the reminders and the dates.\<close>

section \<open>Helpers\<close>

lemma find_id: "find P xs = Some x \<Longrightarrow> x \<in> set xs \<and> P x"
  by (auto simp: find_Some_iff)

lemma loaded_id:
  assumes "loadForViewer d0 i v = Inr l"
  shows "exp_id (le_expense l) = i"
  using loadForViewer_InrD(1) [OF assms] by (auto simp: findAliveById_def dest: find_id)

lemma parse_valid:
  assumes "valid_civil y m d" and "0 \<le> y" "y \<le> 9999"
  shows "parseExpenseDate (day_text y m d) = Inr (day_text y m d)"
proof -
  have b: "1 \<le> m" "m \<le> 12" "1 \<le> d" "d \<le> 31"
    using valid_civil_bounds [OF assms(1)] by simp_all
  then have "js_parse_day (day_text y m d) = Some (days_from_civil y m d)"
    using assms(2,3) by (auto simp: js_parse_day_iff)
  moreover have "length (day_text y m d) = 10"
    using b assms(2,3) by (intro day_text_parts) simp_all
  ultimately show ?thesis
    using toISOString_day [of "days_from_civil y m d"] day_string_civil [OF assms]
    by (simp add: parseExpenseDate_def)
qed

section \<open>An example run\<close>

definition ex_expense_dto :: create_expense_dto where
  "ex_expense_dto = \<lparr>ce_concept = js ''Shoes'', ce_description = None, ce_amount = 10001,
     ce_categoryId = ''c'', ce_expenseDate = day_text 2025 3 10, ce_splitRatioPayer = None\<rparr>"

definition ex_expense :: expense_row where
  "ex_expense = new_expense ''x'' 0 ''b'' ex_expense_dto ''u1'' (day_text 2025 3 10) 5000 5000"

definition ex_exp_db :: db where
  "ex_exp_db =
     (case create_expense ex_env ex_db0 ''b'' ex_expense_dto ''u1'' of Inl _ \<Rightarrow> ex_db0
      | Inr (_, d') \<Rightarrow> d')"

lemma ex_create_expense:
  "\<exists>r. create_expense ex_env ex_db0 ''b'' ex_expense_dto ''u1'' = Inr (r, ex_exp_db)"
  "ex_exp_db = emitExpenseEvent ''xx'' 0 EX_CREATED ex_expense PENDING ''u1''
     (audit_record 0 ''b'' ''u1'' ''x'' AU_CREATE None
        (Some [(''status'', jstr (expense_status_string PENDING))]) None
        (insertExpense ex_expense ex_db0))"
proof -
  have "parseExpenseDate (day_text 2025 3 10) = Inr (day_text 2025 3 10)"
    by (rule parse_valid) (simp_all add: valid_civil_def month_days_def)
  moreover have "verifyExpenseCategoryActive ex_db0 ''c'' = Inr ex_category"
    by (simp add: verifyExpenseCategoryActive_def findActiveCategoryById_def ex_defs)
  ultimately have "\<exists>r. create_expense ex_env ex_db0 ''b'' ex_expense_dto ''u1'' = Inr (r,
      emitExpenseEvent ''xx'' 0 EX_CREATED ex_expense PENDING ''u1''
       (audit_record 0 ''b'' ''u1'' ''x'' AU_CREATE None
          (Some [(''status'', jstr (expense_status_string PENDING))]) None
          (insertExpense ex_expense ex_db0)))"
    by (auto simp: create_expense_def assertExpenseBondMember_def ensure_def
        ex_expense_dto_def ex_expense_def new_expense_def splitRatios_def ex_env_def Let_def
        DEFAULT_SPLIT_PAYER_def)
  then show "\<exists>r. create_expense ex_env ex_db0 ''b'' ex_expense_dto ''u1'' = Inr (r, ex_exp_db)"
    "ex_exp_db = emitExpenseEvent ''xx'' 0 EX_CREATED ex_expense PENDING ''u1''
     (audit_record 0 ''b'' ''u1'' ''x'' AU_CREATE None
        (Some [(''status'', jstr (expense_status_string PENDING))]) None
        (insertExpense ex_expense ex_db0))"
    by (auto simp: ex_exp_db_def)
qed

lemma ex_exp_rows:
  "db_expenses ex_exp_db = [ex_expense]"
  "db_bonds ex_exp_db = db_bonds ex_db0" "db_members ex_exp_db = db_members ex_db0"
  by (simp_all add: ex_create_expense(2) insertExpense_def emitExpenseEvent_def outbox_insert_def
      audit_record_def ex_db0_def empty_db_def)

lemma ex_expense_simps [simp]:
  "exp_id ex_expense = ''x''" "exp_bondId ex_expense = ''b''"
  "exp_requestedBy ex_expense = ''u1''" "exp_status ex_expense = PENDING"
  "exp_deletedAt ex_expense = None" "exp_amount ex_expense = 10001"
  "exp_splitRatioPayer ex_expense = 5000" "exp_splitRatioOther ex_expense = 5000"
  "exp_approvedBy ex_expense = None" "exp_expenseDate ex_expense = day_text 2025 3 10"
  by (simp_all add: ex_expense_def new_expense_def ex_expense_dto_def)

lemma ex_exp_run: "exp_run [ex_exp_db, ex_db0]"
proof -
  have rows: "db_expenses ex_db0 = []"
    by (simp add: ex_defs)
  then have "exp_run [ex_db0]"
    by (rule run_init)
  then show ?thesis
    using ex_create_expense(1) rows by (auto intro: run_create)
qed

text \<open>The approval of that expense by the other member.\<close>

definition ex_approved_db :: db where
  "ex_approved_db = snd (approve ex_env ex_exp_db ''x'' ''u2'' ex_exp_db)"

lemma ex_load:
  "\<exists>l. loadForViewer ex_exp_db ''x'' ''u2'' = Inr l \<and> le_expense l = ex_expense \<and>
     canApprove (le_decision l)"
proof -
  have "isActiveBondForMember ex_exp_db ''b'' ''u2''"
    using membership_frame(1) [OF ex_exp_rows(2,3)] by simp
  moreover have "counterpartOf ex_exp_db ''b'' ''u1'' = Some ''u2''"
    by (simp add: counterpartOf_def selectCounterpartId_def findActiveMemberIds_def ex_exp_rows ex_defs)
  ultimately show ?thesis
    by (simp add: loadForViewer_def findAliveById_def ex_exp_rows is_alive_def ensure_def Let_def)
qed

lemma ex_approved_rows:
  "\<exists>x. db_expenses ex_approved_db = [x] \<and> exp_id x = ''x'' \<and> exp_status x = APPROVED \<and>
     exp_approvedBy x = Some ''u2'' \<and> exp_requestedBy x = ''u1''"
proof -
  obtain l where l: "loadForViewer ex_exp_db ''x'' ''u2'' = Inr l" "le_expense l = ex_expense"
      "canApprove (le_decision l)"
    using ex_load by blast
  show ?thesis
    using l by (simp add: ex_approved_db_def approve_def expense_transition_step_def approval_def
        ensure_def transitionStatus_def updateGuarded_def ex_exp_rows cas_matches_def
        answer_detail_def Let_def)
qed

lemma ex_approved_run: "exp_run [ex_approved_db, ex_exp_db, ex_db0]"
  unfolding ex_approved_db_def by (rule run_approve [OF ex_exp_run]) simp

section \<open>One transition\<close>

text \<open>What a committed transition is: the row moved with its money untouched, one audit entry of
  the acting user, one event whose version follows the one of the status left.\<close>

definition expense_moved :: "db \<Rightarrow> uuid \<Rightarrow> uuid \<Rightarrow> expense_status \<Rightarrow> expense_status \<Rightarrow> db \<Rightarrow> bool" where
  "expense_moved d i v s n d' \<longleftrightarrow>
     (\<exists>x x' au ev.
        lookup_by exp_id i (db_expenses d) = Some x \<and> exp_status x = s \<and> exp_deletedAt x = None \<and>
        lookup_by exp_id i (db_expenses d') = Some x' \<and> exp_status x' = n \<and>
        exp_deletedAt x' = None \<and> exp_amount x' = exp_amount x \<and>
        exp_requestedBy x' = exp_requestedBy x \<and>
        exp_splitRatioPayer x' = exp_splitRatioPayer x \<and>
        exp_splitRatioOther x' = exp_splitRatioOther x \<and>
        (\<forall>k. k \<noteq> i \<longrightarrow> lookup_by exp_id k (db_expenses d') = lookup_by exp_id k (db_expenses d)) \<and>
        db_audit d' = db_audit d @ [au] \<and> au_userId au = v \<and> au_entityId au = Some i \<and>
        au_newValue au = Some [(''status'', jstr (expense_status_string n))] \<and>
        db_outbox d' = db_outbox d @ [ev] \<and> ob_aggregateType ev = Agg_expense \<and>
        ob_aggregateId ev = i \<and> ob_eventType ev = ''expense.'' @ expense_status_string n \<and>
        ob_aggregateVersion ev = expenseAggregateVersion s + 1)"

definition expense_outcome ::
  "db \<Rightarrow> uuid \<Rightarrow> uuid \<Rightarrow> expense_status \<Rightarrow> expense_status \<Rightarrow> expense_response served \<Rightarrow> bool" where
  "expense_outcome d i v s n res \<longleftrightarrow>
     (\<exists>err. res = (Inl err, d) \<and> err_status err \<in> {403, 404, 409}) \<or> expense_moved d i v s n (snd res)"

lemma status_event_of_move:
  "expense_moves s n \<Longrightarrow> \<exists>ev. EXPENSE_STATUS_EVENT n = Some ev \<and>
     EXPENSE_EVENT ev = ''expense.'' @ expense_status_string n \<and>
     expenseAggregateVersion n = expenseAggregateVersion s + 1"
  by auto

lemma transition_step_outcome:
  assumes "\<And>l. loadForViewer d0 i v = Inr l \<Longrightarrow> xt_allowed t (le_decision l) \<Longrightarrow>
             exp_status (le_expense l) = s"
    and n: "n = xt_nextStatus t" "expense_moves s n"
  shows "expense_outcome d i v s n (expense_transition_step e d0 i v t d)"
proof (cases "expense_transition_step e d0 i v t d")
  case (Pair r d')
  from Pair show ?thesis
  proof (cases rule: transition_step_cases)
    case (refused err)
    then show ?thesis
      by (auto simp: expense_outcome_def Pair exception_defs CONFLICT_def)
  next
    case (moved l d1)
    have s: "exp_status (le_expense l) = s"
      using assms(1) moved(1,2) by blast
    obtain x where x: "lookup_by exp_id i (db_expenses d) = Some x" "exp_status x = s"
        "exp_deletedAt x = None" "d1 = d\<lparr>db_expenses := update_by exp_id i
            (\<lambda>r. (move_status n (xt_fields t) r)\<lparr>exp_updatedAt := env_dbnow e\<rparr>) (db_expenses d)\<rparr>"
      using moved(3) s n(1) unfolding transitionStatus_def by (auto elim: updateGuarded_True_cases)
    obtain ev where ev: "EXPENSE_STATUS_EVENT n = Some ev"
        "EXPENSE_EVENT ev = ''expense.'' @ expense_status_string n"
        "expenseAggregateVersion n = expenseAggregateVersion s + 1"
      using status_event_of_move [OF n(2)] by blast
    have "expense_moved d i v s n d'"
      unfolding expense_moved_def moved(5)
      using x ev n(1) loaded_id [OF moved(1)]
      by (simp add: Let_def emitExpenseEvent_def outbox_insert_def recordStatusChange_def
          audit_record_def table_simps)
    then show ?thesis
      by (simp add: expense_outcome_def Pair)
  qed
qed

text \<open>C12. Every call of \<open>approve\<close>, \<open>reject\<close> and \<open>pay\<close>, whatever other requests did between its
  read and its transaction, either changes nothing at all and answers 403, 404 or 409, or moves
  the live row out of exactly the expected status with its amount, split and owner untouched,
  together with exactly one audit entry of the acting user and exactly one outbox event, named
  after the new status and with the next version of the expense.\<close>

theorem expense_transition_outcome:
  "expense_outcome d i v PENDING APPROVED (approve e d0 i v d) \<and>
   expense_outcome d i v PENDING REJECTED (reject e d0 i v reason d) \<and>
   expense_outcome d i v APPROVED PAID (pay e d0 i v d)"
  unfolding approve_def reject_def pay_def
  by (intro conjI transition_step_outcome)
    (auto simp: approval_def rejection_def payment_def decision_status)

section \<open>Who may write\<close>

text \<open>What the reading of a request establishes about the expense and the viewer.\<close>

definition reads_expense :: "db \<Rightarrow> uuid \<Rightarrow> uuid \<Rightarrow> expense_status \<Rightarrow> expense_row \<Rightarrow> bool" where
  "reads_expense d0 i v s x \<longleftrightarrow> x \<in> set (db_expenses d0) \<and> exp_id x = i \<and> exp_deletedAt x = None \<and>
     exp_status x = s \<and> isActiveBondForMember d0 (exp_bondId x) v"

lemma loaded_reads:
  assumes "loadForViewer d0 i v = Inr l"
  shows "reads_expense d0 i v (exp_status (le_expense l)) (le_expense l)"
  using loadForViewer_InrD(1,2) [OF assms] loaded_id [OF assms]
  by (auto simp: reads_expense_def findAliveById_def is_alive_def dest: find_id)

lemma transition_changes:
  assumes "snd (expense_transition_step e d0 i v t d) \<noteq> d"
  shows "\<exists>l. loadForViewer d0 i v = Inr l \<and> xt_allowed t (le_decision l) \<and>
    reads_expense d0 i v (exp_status (le_expense l)) (le_expense l)"
proof (cases "expense_transition_step e d0 i v t d")
  case (Pair r d')
  from Pair show ?thesis
    by (cases rule: transition_step_cases) (use assms Pair loaded_reads in auto)
qed

lemma no_own_counterpart:
  assumes "loadForViewer d0 i v = Inr l" and "le_counterpartId l = Some c"
  shows "c \<noteq> exp_requestedBy (le_expense l)" "c \<in> set (findActiveMemberIds d0 (exp_bondId (le_expense l)))"
  using assms loadForViewer_InrD(3) [OF assms(1)] selectCounterpartId_SomeD
  by (fastforce simp: counterpartOf_def)+

text \<open>C13. Nobody decides on an expense of their own. An approval or a rejection that changes
  anything was asked by an active member of the bond who is not the requester of the expense,
  while it was pending; an edit or a cancellation that changes anything was asked by the
  requester, while it was pending.\<close>

theorem no_self_approval:
  "(snd (approve e d0 i v d) \<noteq> d \<or> snd (reject e d0 i v reason d) \<noteq> d \<longrightarrow>
     (\<exists>x. reads_expense d0 i v PENDING x \<and> exp_requestedBy x \<noteq> v)) \<and>
   (snd (update_expense e d0 i dto v d) \<noteq> d \<or> snd (cancel_expense e d0 i v d) \<noteq> d \<longrightarrow>
     (\<exists>x. reads_expense d0 i v PENDING x \<and> exp_requestedBy x = v)) \<and>
   (snd (pay e d0 i v d) \<noteq> d \<longrightarrow> (\<exists>x. reads_expense d0 i v APPROVED x))"
proof -
  have decide: "\<exists>x. reads_expense d0 i v PENDING x \<and> exp_requestedBy x \<noteq> v"
    if change: "snd (approve e d0 i v d) \<noteq> d \<or> snd (reject e d0 i v reason d) \<noteq> d"
  proof -
    obtain l where l: "loadForViewer d0 i v = Inr l"
        "canApprove (le_decision l) \<or> canReject (le_decision l)"
        "reads_expense d0 i v (exp_status (le_expense l)) (le_expense l)"
      using change transition_changes [of e d0 i v "approval e v" d]
        transition_changes [of e d0 i v "rejection reason" d]
      by (auto simp: approve_def reject_def approval_def rejection_def)
    have c: "le_counterpartId l = Some v" "exp_status (le_expense l) = PENDING"
      using l(2) unfolding loadForViewer_InrD(4) [OF l(1)] by auto
    show ?thesis
      using no_own_counterpart(1) [OF l(1) c(1)] l(3) c(2) by metis
  qed
  have own: "\<exists>x. reads_expense d0 i v PENDING x \<and> exp_requestedBy x = v"
    if l: "loadForViewer d0 i v = Inr l"
      "canEdit (le_decision l) \<or> canCancelExpense (le_decision l)" for l
  proof -
    have "exp_requestedBy (le_expense l) = v" "exp_status (le_expense l) = PENDING"
      using l(2) unfolding loadForViewer_InrD(4) [OF l(1)] by auto
    then show ?thesis
      using loaded_reads [OF l(1)] by metis
  qed
  have upd: "\<exists>l. loadForViewer d0 i v = Inr l \<and> canEdit (le_decision l)"
    if "snd (update_expense e d0 i dto v d) \<noteq> d"
    using that by (auto simp: update_expense_def chain_simps Let_def split: sum.splits)
  have can: "\<exists>l. loadForViewer d0 i v = Inr l \<and> canCancelExpense (le_decision l)"
    if "snd (cancel_expense e d0 i v d) \<noteq> d"
    using that by (auto simp: cancel_expense_def chain_simps Let_def split: sum.splits)
  have paid: "\<exists>x. reads_expense d0 i v APPROVED x" if "snd (pay e d0 i v d) \<noteq> d"
    using that transition_changes [of e d0 i v "payment e" d] decision_status(2)
    by (auto simp: pay_def payment_def)
  show ?thesis
    using decide own upd can paid by blast
qed

theorem no_self_approval_witness:
  "reads_expense ex_exp_db ''x'' ''u2'' PENDING ex_expense"
proof -
  have "ex_approved_db \<noteq> ex_exp_db"
    using ex_approved_rows ex_exp_rows(1) by (metis ex_expense_simps(4) expense_status.distinct(1) list.inject)
  then obtain x where "reads_expense ex_exp_db ''x'' ''u2'' PENDING x"
    using no_self_approval [of ex_env ex_exp_db "''x''" "''u2''" ex_exp_db]
    by (auto simp: ex_approved_db_def)
  then show ?thesis
    by (auto simp: reads_expense_def ex_exp_rows)
qed

section \<open>Every run\<close>

text \<open>C14. In every run of the component, under every interleaving of reads and transactions, ids
  are unique and every row is well formed: the two split ratios add up to 100 percent, a
  pending or rejected expense has no approver, an approved or paid one was approved by
  somebody other than its requester, only a paid one has a payment time, and only a pending
  one can be soft-deleted.\<close>

theorem expense_rows_well_formed:
  assumes "exp_run (d # hs)"
  shows "distinct (map exp_id (db_expenses d)) \<and> (\<forall>x \<in> set (db_expenses d). exp_wf x)"
  using exp_inv_rows [OF exp_run_inv [OF assms]] by (simp add: list_all_iff)

theorem expense_rows_well_formed_witness:
  "\<exists>x. db_expenses ex_approved_db = [x] \<and> exp_wf x"
proof -
  obtain x where "db_expenses ex_approved_db = [x]"
    using ex_approved_rows by blast
  then show ?thesis
    using expense_rows_well_formed [OF ex_approved_run] by simp
qed

text \<open>C15. The history of an expense only goes forward: from any earlier state of a run to the
  current one the row still exists with its id, bond and requester, its status has moved along
  the life cycle and stays where it is once rejected or paid, a deleted expense is frozen, and
  concept, amount, date, category and split are frozen once the expense has left
  \<open>pending\<close>.\<close>

theorem expense_history_goes_forward:
  assumes "exp_run (d # hs)" and "h \<in> set hs" and "x \<in> set (db_expenses h)"
  shows "\<exists>x' \<in> set (db_expenses d). exp_follows x x' \<and>
     (isTerminal (exp_status x) \<longrightarrow> exp_status x' = exp_status x)"
proof -
  obtain x' where "x' \<in> set (db_expenses d)" "exp_follows x x'"
    using exp_run_inv [OF assms(1)] assms(2,3) by (fastforce simp: exp_inv_def)
  then show ?thesis
    using expense_cycle.terminal_forever by (auto simp: exp_follows_def)
qed

theorem expense_history_goes_forward_witness:
  "\<exists>x' \<in> set (db_expenses ex_approved_db). exp_follows ex_expense x'"
  using expense_history_goes_forward [OF ex_approved_run, of ex_exp_db ex_expense]
  by (auto simp: ex_exp_rows)

text \<open>Of two transitions prepared from the same status of the same expense (an approval and
  a rejection sent at once, a double payment) at most one commits: after one has, the other
  misses whatever other transitions commit in between.\<close>

theorem expense_commits_once:
  assumes "transitionStatus at i s n f d = (True, d')" and "expense_moves s n"
    and "\<forall>q \<in> set qs. expense_legal q"
  shows "fst (transitionStatus at' i s n' f' (exps.run qs d')) = False"
proof -
  have "expense_cas (at', i, s, n', f') (exps.run qs d') = None"
    using exps.no_double_commit [of "(at, i, s, n, f)" d d' qs "(at', i, s, n', f')"] assms by simp
  then show ?thesis
    by (simp split: prod.splits if_splits)
qed

definition ex_fields :: expense_transition_fields where
  "ex_fields = \<lparr>xf_approvedBy = Keep, xf_approvedAt = Keep, xf_paidAt = Keep\<rparr>"

theorem expense_commits_once_witness:
  "fst (transitionStatus 1 ''x'' PENDING REJECTED ex_fields
     (snd (transitionStatus 0 ''x'' PENDING APPROVED ex_fields ex_exp_db))) = False"
proof -
  have "transitionStatus 0 ''x'' PENDING APPROVED ex_fields ex_exp_db =
      (True, snd (transitionStatus 0 ''x'' PENDING APPROVED ex_fields ex_exp_db))"
    by (simp add: transitionStatus_def updateGuarded_def ex_exp_rows cas_matches_def)
  then show ?thesis
    using expense_commits_once [of 0 "''x''" PENDING APPROVED ex_fields ex_exp_db _ "[]" 1 REJECTED ex_fields]
    by simp
qed

section \<open>The balance\<close>

lemma round_half_away_minus: "round_half_away (- n) = - round_half_away n"
  by (auto simp: round_half_away_def)

lemma round_half_away_near: "\<bar>round_half_away n * 10000 - n\<bar> \<le> 5000"
proof -
  have "(m + 5000) div 10000 * 10000 - m \<le> 5000 \<and> m - (m + 5000) div 10000 * 10000 \<le> 5000" for m :: int
    using div_mult_mod_eq [of "m + 5000" 10000] pos_mod_bound [of 10000 "m + 5000"]
      pos_mod_sign [of 10000 "m + 5000"] by auto
  from this [of n] this [of "- n"] show ?thesis
    by (auto simp: round_half_away_def)
qed

lemma saldo_terms_cancel:
  assumes "u \<noteq> w" and "\<forall>x \<in> set rows. exp_requestedBy x = u \<or> exp_requestedBy x = w"
  shows "sum_list (map (saldo_term u) rows) = - sum_list (map (saldo_term w) rows)"
  using assms by (induction rows) (auto simp: saldo_term_def)

text \<open>C16. The balance of a bond of two is zero-sum to the cent: what one side is shown to owe is
  exactly what the other is shown to be owed, with opposite balances; each side either owes or is
  owed; and the balance is within half a cent of the exact sum over the approved and paid
  expenses.\<close>

theorem balance_is_zero_sum:
  assumes "u \<noteq> w"
    and "\<forall>x \<in> set (summary_rows d b). exp_requestedBy x = u \<or> exp_requestedBy x = w"
  shows "let su = summaryForBond d b u; sw = summaryForBond d b w in
     sm_saldo su = - sm_saldo sw \<and> sm_porPagar su = sm_porCobrar sw \<and>
     sm_porCobrar su = sm_porPagar sw \<and> sm_porCobrar su - sm_porPagar su = sm_saldo su \<and>
     (sm_porCobrar su = 0 \<or> sm_porPagar su = 0) \<and>
     \<bar>sm_saldo su * 10000 - sum_list (map (saldo_term u) (summary_rows d b))\<bar> \<le> 5000"
proof -
  have "\<bar>sm_saldo (summaryForBond d b u) * 10000 -
      sum_list (map (saldo_term u) (summary_rows d b))\<bar> \<le> 5000"
    unfolding summaryForBond_def Let_def by (simp add: round_half_away_near)
  then show ?thesis
    using saldo_terms_cancel [OF assms] by (auto simp: summaryForBond_def Let_def round_half_away_minus)
qed

text \<open>An approved expense of 100.01 split 70 to 30.\<close>

definition ex_summary_db :: db where
  "ex_summary_db = empty_db\<lparr>db_expenses := [ex_expense\<lparr>exp_status := APPROVED,
     exp_splitRatioPayer := 7000, exp_splitRatioOther := 3000\<rparr>]\<rparr>"

theorem balance_is_zero_sum_witness:
  "sm_saldo (summaryForBond ex_summary_db ''b'' ''u1'') = 4000 \<and>
   sm_saldo (summaryForBond ex_summary_db ''b'' ''u2'') = - 4000"
proof -
  have rows: "summary_rows ex_summary_db ''b'' = db_expenses ex_summary_db"
    by (simp add: summary_rows_def ex_summary_db_def is_alive_def)
  have "sm_saldo (summaryForBond ex_summary_db ''b'' ''u1'') = 4000"
    by (simp add: summaryForBond_def rows Let_def, simp add: ex_summary_db_def saldo_term_def
        settled_def round_half_away_def)
  then show ?thesis
    using balance_is_zero_sum [of "''u1''" "''u2''" ex_summary_db "''b''"]
    by (simp add: rows Let_def, simp add: ex_summary_db_def)
qed

section \<open>The reminder\<close>

definition stale_events :: "db \<Rightarrow> uuid \<Rightarrow> outbox_row list" where
  "stale_events d i = filter (\<lambda>r. ob_aggregateType r = Agg_expense \<and> ob_aggregateId r = i \<and>
     ob_eventType r = EXPENSE_EVENT EX_STALE) (db_outbox d)"

lemma has_stale_event_iff: "has_stale_event d i \<longleftrightarrow> stale_events d i \<noteq> []"
  by (auto simp: has_stale_event_def stale_events_def list_ex_iff filter_empty_conv)

lemma emit_stale_events [simp]:
  "db_expenses (emit_stale e n x d) = db_expenses d"
  "length (db_outbox (emit_stale e n x d)) = Suc (length (db_outbox d))"
  "length (stale_events (emit_stale e n x d) i) =
     length (stale_events d i) + (if exp_id x = i then 1 else 0)"
  by (auto simp: emit_stale_def outbox_insert_def stale_events_def)

lemma emit_all:
  "db_expenses (fold (\<lambda>(n, x). emit_stale e n x) ps d) = db_expenses d"
  "length (db_outbox (fold (\<lambda>(n, x). emit_stale e n x) ps d)) = length (db_outbox d) + length ps"
  "length (stale_events (fold (\<lambda>(n, x). emit_stale e n x) ps d) i) =
     length (stale_events d i) + length (filter (\<lambda>p. exp_id (snd p) = i) ps)"
  by (induction ps arbitrary: d) (auto split: prod.splits)

lemma only_one:
  "distinct (map f xs) \<Longrightarrow> length (filter (\<lambda>x. f x = i) xs) = (if i \<in> f ` set xs then 1 else 0)"
  by (induction xs) (auto simp: image_iff)

text \<open>The reminder is sent once. A run of the job inserts as many events as it reports, does
  not touch the expenses, gives every stale expense that is not locked by another worker its
  one and only reminder and no other expense any; so a second run on the same day, by any
  worker that skips at least the same locked rows, sends nothing.\<close>

theorem stale_reminder_once:
  assumes "distinct (map exp_id (db_expenses d))" and "emitStaleEvents e today locked d = (n, d')"
  shows "db_expenses d' = db_expenses d \<and> length (db_outbox d') = length (db_outbox d) + n \<and>
    (\<forall>i. length (stale_events d' i) =
       (if \<exists>x \<in> set (db_expenses d). exp_id x = i \<and> is_stale d today x \<and> i \<notin> set locked
        then 1 else length (stale_events d i))) \<and>
    (\<forall>e' more. set locked \<subseteq> set more \<longrightarrow> emitStaleEvents e' today more d' = (0, d'))"
proof -
  let ?stale = "filter (\<lambda>x. is_stale d today x \<and> exp_id x \<notin> set locked) (db_expenses d)"
  have d': "d' = fold (\<lambda>(n, x). emit_stale e n x) (enumerate 0 ?stale) d" and n: "n = length ?stale"
    using assms(2) by (simp_all add: emitStaleEvents_def Let_def)
  have one: "length (filter (\<lambda>p. exp_id (snd p) = i) (enumerate 0 ?stale)) =
      (if i \<in> exp_id ` set ?stale then 1 else 0)" for i
    using only_one [of exp_id ?stale i] distinct_map_filter [OF assms(1)]
      arg_cong [OF filter_map [of "\<lambda>x. exp_id x = i" snd "enumerate 0 ?stale"], of length]
    by (simp add: comp_def)
  have count: "length (stale_events d' i) =
      (if \<exists>x \<in> set (db_expenses d). exp_id x = i \<and> is_stale d today x \<and> i \<notin> set locked
        then 1 else length (stale_events d i))" for i
    unfolding d' emit_all(3) one by (auto simp: is_stale_def has_stale_event_iff)
  have rows: "db_expenses d' = db_expenses d"
    by (simp add: d' emit_all)
  have "\<not> (is_stale d' today x \<and> exp_id x \<notin> set more)"
    if "set locked \<subseteq> set more" "x \<in> set (db_expenses d')" for more x
    using that count [of "exp_id x"] rows by (auto simp: is_stale_def has_stale_event_iff split: if_splits)
  then have "emitStaleEvents e' today more d' = (0, d')" if "set locked \<subseteq> set more" for e' more
    using that by (simp add: emitStaleEvents_def filter_False)
  then show ?thesis
    using count rows by (simp add: d' n emit_all)
qed

theorem stale_reminder_once_witness:
  "length (stale_events (snd (emitStaleEvents ex_env (days_from_civil 2025 3 17) [] ex_exp_db)) ''x'') = 1"
proof -
  have "valid_civil 2025 3 10"
    by (simp add: valid_civil_def month_days_def)
  then have "day_string (days_from_civil 2025 3 10) = day_text 2025 3 10"
    by (rule day_string_civil) simp_all
  moreover have "days_from_civil 2025 3 17 - STALE_DAYS = days_from_civil 2025 3 10"
    by (simp add: days_from_civil_def STALE_DAYS_def)
  moreover have "\<not> has_stale_event ex_exp_db ''x''"
    by (simp add: has_stale_event_def ex_create_expense(2) emitExpenseEvent_def outbox_insert_def
        audit_record_def insertExpense_def ex_defs)
  ultimately have "is_stale ex_exp_db (days_from_civil 2025 3 17) ex_expense"
    by (simp add: is_stale_def)
  moreover obtain n d' where r: "emitStaleEvents ex_env (days_from_civil 2025 3 17) [] ex_exp_db = (n, d')"
    by fastforce
  ultimately show ?thesis
    using stale_reminder_once [OF _ r] by (simp add: ex_exp_rows)
qed

section \<open>Dates\<close>

text \<open>An expense date is accepted exactly when it is the text \<open>YYYY-MM-DD\<close> of a day that
  exists in the calendar, and it is stored as written: the round trip through \<open>Date\<close> and
  \<open>toISOString\<close> rejects the 30th of February and the 29th of a common year, and nothing
  else.\<close>

theorem expense_date_is_a_real_day:
  "parseExpenseDate v = Inr w \<longleftrightarrow>
     w = v \<and> (\<exists>y m d. 0 \<le> y \<and> y \<le> 9999 \<and> valid_civil y m d \<and> v = day_text y m d)"
    (is "_ \<longleftrightarrow> ?R")
proof
  assume a: "parseExpenseDate v = Inr w"
  then obtain z where z: "js_parse_day v = Some z" "w = v" "take 10 (toISOString (z * ms_per_day)) = v"
    by (auto simp: parseExpenseDate_def Let_def split: option.splits if_splits)
  obtain y m d where r: "0 \<le> y" "y \<le> 9999" "1 \<le> m" "m \<le> 12" "1 \<le> d" "d \<le> 31"
      "v = day_text y m d" "z = days_from_civil y m d"
    using z(1) by (auto simp: js_parse_day_iff)
  have "valid_civil y m d"
  proof (rule ccontr)
    assume invalid: "\<not> valid_civil y m d"
    let ?d = "d - month_days y m"
    note over = run_over [OF r(3-6) invalid]
    have b: "1 \<le> ?d" "?d \<le> 31"
      using valid_civil_bounds [OF over(2)] by simp_all
    have s: "day_string z = day_text y (m + 1) ?d"
      using day_string_civil [OF over(2) r(1,2)] r(8) over(3) by simp
    then have "take 10 (toISOString (z * ms_per_day)) = day_text y (m + 1) ?d"
      using toISOString_day [of z] day_text_parts(1) [of y "m + 1" ?d] r(1-4) over(1) b by simp
    then have "day_text y (m + 1) ?d = day_text y m d"
      using z(3) r(7) by simp
    then show False
      using day_text_inject [of y "m + 1" ?d y m d] r(1-6) over(1) b by simp
  qed
  then show ?R
    using r z(2) by blast
next
  assume ?R
  then show "parseExpenseDate v = Inr w"
    using parse_valid by auto
qed

section \<open>Visibility and listings\<close>

text \<open>C17. An expense that is missing, deleted or of a bond the viewer is no active member of looks
  the same through every route: the same 404, and no write.\<close>

theorem invisible_expense_is_not_found:
  assumes "\<forall>x \<in> set (db_expenses d0). exp_id x = i \<longrightarrow> exp_deletedAt x = None \<longrightarrow>
             \<not> isActiveBondForMember d0 (exp_bondId x) v"
  shows "let gone = notFoundException ''Expense not found'' in
     err_status gone = 404 \<and> getExpenseDetail d0 i v = Inl gone \<and>
     update_expense e d0 i dto v d = (Inl gone, d) \<and> cancel_expense e d0 i v d = (Inl gone, d) \<and>
     approve e d0 i v d = (Inl gone, d) \<and> reject e d0 i v reason d = (Inl gone, d) \<and>
     pay e d0 i v d = (Inl gone, d)"
proof -
  have "loadForViewer d0 i v = Inl (notFoundException ''Expense not found'')"
  proof (cases "findAliveById d0 i")
    case (Some p)
    then have "fst p \<in> set (db_expenses d0) \<and> exp_id (fst p) = i \<and> exp_deletedAt (fst p) = None"
      by (auto simp: findAliveById_def is_alive_def dest: find_id)
    then have "\<not> isActiveBondForMember d0 (exp_bondId (fst p)) v"
      using assms by blast
    then show ?thesis
      by (cases p) (simp add: loadForViewer_def Some ensure_def)
  qed (simp add: loadForViewer_def)
  then show ?thesis
    by (simp add: Let_def exception_defs getExpenseDetail_def update_expense_def cancel_expense_def
        approve_def reject_def pay_def expense_transition_step_def)
qed

theorem invisible_expense_is_not_found_witness:
  "pay ex_env ex_exp_db ''x'' ''stranger'' ex_exp_db =
     (Inl (notFoundException ''Expense not found''), ex_exp_db)"
proof -
  have "\<not> isActiveBondForMember ex_exp_db ''b'' ''stranger''"
    using membership_frame(1) [OF ex_exp_rows(2,3)] by simp
  then show ?thesis
    using invisible_expense_is_not_found [of ex_exp_db "''x''" "''stranger''" ex_env]
    by (simp add: ex_exp_rows Let_def)
qed

lemma newest_first_set [simp]: "set (newest_first rows) = set rows" "length (newest_first rows) = length rows"
  by (simp_all add: newest_first_def)

lemma newest_first_sorted:
  "sorted_wrt (\<lambda>x y. (exp_createdAt y, exp_id y) \<le> (exp_createdAt x, exp_id x)) (newest_first rows)"
proof -
  have "sorted (map (\<lambda>x. (exp_createdAt x, exp_id x)) (sort_key (\<lambda>x. (exp_createdAt x, exp_id x)) rows))"
    by simp
  then show ?thesis
    unfolding newest_first_def sorted_wrt_rev sorted_map .
qed

lemma attachHasDocument_eq: "attachHasDocument d items = map (\<lambda>x. (x, hasDocument d (exp_id x))) items"
  by (auto simp: attachHasDocument_def Let_def hasDocument_def list_ex_iff image_iff)

definition list_entry :: "db \<Rightarrow> uuid \<Rightarrow> uuid \<Rightarrow> expense_row \<Rightarrow> expense_response" where
  "list_entry d b v x =
     (let c = counterpartOf d b (exp_requestedBy x) in
      toResponse d x (hasDocument d (exp_id x))
        (evaluate_expense \<lparr>es_status = exp_status x, es_requestedBy = exp_requestedBy x,
           es_counterpartId = c\<rparr> v) c (findMemberNames d b) None)"

lemma xr_id_list_entry [simp]: "xr_id (list_entry d b v x) = exp_id x"
  by (simp add: list_entry_def toResponse_def Let_def)

lemma listExpensesForBond_member:
  assumes "isActiveBondForMember d b v"
  shows "listExpensesForBond d b v q =
     Inr (map (list_entry d b v) (take (lo_limit q) (drop (lo_offset q)
            (newest_first (filter (expense_filter b q) (db_expenses d))))),
          length (filter (expense_filter b q) (db_expenses d)), lo_limit q, lo_offset q)"
  using assms
  by (simp add: listExpensesForBond_def assertExpenseBondMember_def ensure_def listForBond_def
      attachHasDocument_eq Let_def list_entry_def counterpartOf_def)

text \<open>C18. A page of the listing is right: only an active member gets one; it shows the window of
  the live expenses of the bond that match the filters, newest first, no more than the limit; the
  total counts all of them; and every entry is exactly what the detail route answers for that
  expense, permissions and document flag included.\<close>

theorem listing_agrees_with_detail:
  assumes "distinct (map exp_id (db_expenses d))"
    and "listExpensesForBond d b v q = Inr (items, n, lim, off)"
  shows "let matching = newest_first (filter (expense_filter b q) (db_expenses d)) in
     isActiveBondForMember d b v \<and> lim = lo_limit q \<and> off = lo_offset q \<and>
     n = length matching \<and> length items = min lim (n - off) \<and>
     map xr_id items = map exp_id (take lim (drop off matching)) \<and>
     sorted_wrt (\<lambda>x y. (exp_createdAt y, exp_id y) \<le> (exp_createdAt x, exp_id x)) matching \<and>
     (\<forall>r \<in> set items. getExpenseDetail d (xr_id r) v = Inr r)"
proof -
  let ?rows = "filter (expense_filter b q) (db_expenses d)"
  let ?page = "take (lo_limit q) (drop (lo_offset q) (newest_first ?rows))"
  have m: "isActiveBondForMember d b v"
    using assms(2) by (auto simp: listExpensesForBond_def chain_simps assertExpenseBondMember_def)
  have list: "lim = lo_limit q" "off = lo_offset q" "n = length ?rows"
      "items = map (list_entry d b v) ?page"
    using assms(2) unfolding listExpensesForBond_member [OF m] by auto
  have detail: "getExpenseDetail d (exp_id x) v = Inr (list_entry d b v x)" if "x \<in> set ?page" for x
  proof -
    have x: "x \<in> set (db_expenses d)" "exp_bondId x = b" "exp_deletedAt x = None"
      using that by (auto simp: expense_filter_def is_alive_def dest!: in_set_takeD in_set_dropD)
    then have "findAliveById d (exp_id x) = Some (x, hasDocument d (exp_id x))"
      using findAliveById_lookup [OF assms(1)] lookup_by_distinct [OF assms(1)] by simp
    then show ?thesis
      using x(2) m
      by (simp add: getExpenseDetail_def loadForViewer_def ensure_def Let_def list_entry_def)
  qed
  have "\<forall>r \<in> set items. getExpenseDetail d (xr_id r) v = Inr r"
    using detail by (simp add: list(4))
  moreover have "map xr_id items = map exp_id ?page"
    by (simp add: list(4))
  ultimately show ?thesis
    using m list newest_first_sorted [of ?rows] by (simp add: Let_def)
qed

definition ex_query :: list_expenses_options where
  "ex_query = \<lparr>lo_limit = 20, lo_offset = 0, lo_status = Some PENDING, lo_categoryId = None,
     lo_from = None, lo_to = None\<rparr>"

theorem listing_agrees_with_detail_witness:
  "\<exists>r. listExpensesForBond ex_exp_db ''b'' ''u1'' ex_query = Inr ([r], 1, 20, 0) \<and>
     getExpenseDetail ex_exp_db ''x'' ''u1'' = Inr r"
proof -
  have member: "isActiveBondForMember ex_exp_db ''b'' ''u1''"
    using membership_frame(1) [OF ex_exp_rows(2,3)] by simp
  have all: "expense_filter ''b'' ex_query ex_expense"
    by (simp add: expense_filter_def ex_query_def is_alive_def)
  have r: "listExpensesForBond ex_exp_db ''b'' ''u1'' ex_query =
      Inr ([list_entry ex_exp_db ''b'' ''u1'' ex_expense], 1, 20, 0)"
    unfolding listExpensesForBond_member [OF member]
    by (simp add: ex_exp_rows all newest_first_def) (simp add: ex_query_def)
  have "distinct (map exp_id (db_expenses ex_exp_db))"
    by (simp add: ex_exp_rows(1))
  then have "\<forall>r \<in> set [list_entry ex_exp_db ''b'' ''u1'' ex_expense].
      getExpenseDetail ex_exp_db (xr_id r) ''u1'' = Inr r"
    using listing_agrees_with_detail [OF _ r] unfolding Let_def by blast
  then have "getExpenseDetail ex_exp_db ''x'' ''u1'' = Inr (list_entry ex_exp_db ''b'' ''u1'' ex_expense)"
    by simp
  then show ?thesis
    using r by blast
qed

end
