(* ===== verification/Notification_Maps.thy ===== *)
theory Notification_Maps
  imports Activity_Transition_Map Expense_Policy Js_Date
begin

text \<open>The pure half of the notification fan-out: which event gives which notification, its texts
  and its recipients, for activities (\<open>notifications/fan-out/activity-notification.map.ts\<close>) and for
  expenses (\<open>expense-notification.map.ts\<close>). Texts are UTF-16; the accented letters, the ellipsis
  and the placeholders are written by code unit. The offset of the time zone of Buenos Aires is a
  parameter \<open>tz\<close> (milliseconds to add to an instant), data of the runtime.\<close>

section \<open>Templates\<close>

text \<open>\<open>String.replace\<close> with a string pattern: the first occurrence only.\<close>

fun replace_first :: "'a list \<Rightarrow> 'a list \<Rightarrow> 'a list \<Rightarrow> 'a list" where
  "replace_first pat rep [] = (if pat = [] then rep else [])"
| "replace_first pat rep (c # s) =
     (if take (length pat) (c # s) = pat then rep @ drop (length pat) (c # s)
      else c # replace_first pat rep s)"

definition TITLE_SLOT :: utf16 where
  "TITLE_SLOT = js ''{title}''"

definition CONCEPT_SLOT :: utf16 where
  "CONCEPT_SLOT = js ''{concept}''"

definition AMOUNT_SLOT :: utf16 where
  "AMOUNT_SLOT = js ''{amount}''"

definition QUOTE :: utf16 where
  "QUOTE = [34]"

definition O_ACUTE :: utf16 where
  "O_ACUTE = [0xF3]"

definition A_ACUTE :: utf16 where
  "A_ACUTE = [0xE1]"

definition ELLIPSIS :: utf16 where
  "ELLIPSIS = [0x2026]"

text \<open>The text to insert, cut with an ellipsis when it would make the whole longer than the
  limit.\<close>

definition fit :: "int \<Rightarrow> utf16 \<Rightarrow> utf16" where
  "fit room raw =
     (if room \<ge> int (length raw) then raw else take (nat (max 0 (room - 1))) raw @ ELLIPSIS)"

definition renderWithTitle :: "utf16 \<Rightarrow> utf16 \<Rightarrow> utf16" where
  "renderWithTitle template rawTitle =
     (let maxTitleLength = 100 - int (length (replace_first TITLE_SLOT [] template))
      in replace_first TITLE_SLOT (fit maxTitleLength rawTitle) template)"

definition formatActivityDateTime :: "(instant \<Rightarrow> int) \<Rightarrow> instant \<Rightarrow> utf16" where
  "formatActivityDateTime tz t =
     (let wall = t + tz t; (y, m, d) = civil_from_days (wall div ms_per_day);
          r = wall mod ms_per_day;
          two = (\<lambda>n. js (pad_start 2 (decimal (nat n)))) in
      two d @ js ''/'' @ two m @ js '' a las '' @ two (r div 3600000) @ js '':'' @
      two (r div 60000 mod 60))"

section \<open>Activities\<close>

datatype recipient_slot = Slot_assignee | Slot_creator | Slot_coordinator | Slot_members

record render_context =
  rn_activityTitle :: utf16
  rn_scheduledStart :: "instant option"

record notification_rule =
  nf_eventType :: activity_event
  nf_type :: string
  nf_title :: utf16
  nf_body :: "(instant \<Rightarrow> int) \<Rightarrow> render_context \<Rightarrow> utf16"
  nf_recipients :: "recipient_slot list"
  nf_excludeCoordinator :: bool
  nf_needsCoordinator :: bool
  nf_needsMembers :: bool

text \<open>The two shapes of a body: with the date when the activity has a start, or fixed. The
  quoted title is between \<open>before\<close> and \<open>after\<close>.\<close>

definition dated_body ::
  "utf16 \<Rightarrow> utf16 \<Rightarrow> (instant \<Rightarrow> int) \<Rightarrow> render_context \<Rightarrow> utf16" where
  "dated_body before on_date tz ctx =
     (case rn_scheduledStart ctx of
        Some t \<Rightarrow> renderWithTitle (before @ QUOTE @ TITLE_SLOT @ QUOTE @ on_date @
                    formatActivityDateTime tz t @ js ''.'') (rn_activityTitle ctx)
      | None \<Rightarrow> renderWithTitle (before @ QUOTE @ TITLE_SLOT @ QUOTE @ js ''.'')
                    (rn_activityTitle ctx))"

definition fixed_body ::
  "utf16 \<Rightarrow> utf16 \<Rightarrow> (instant \<Rightarrow> int) \<Rightarrow> render_context \<Rightarrow> utf16" where
  "fixed_body before after tz ctx =
     renderWithTitle (before @ QUOTE @ TITLE_SLOT @ QUOTE @ after) (rn_activityTitle ctx)"

definition mk_notification ::
  "activity_event \<Rightarrow> string \<Rightarrow> utf16 \<Rightarrow> ((instant \<Rightarrow> int) \<Rightarrow> render_context \<Rightarrow> utf16) \<Rightarrow>
   recipient_slot list \<Rightarrow> bool \<Rightarrow> bool \<Rightarrow> bool \<Rightarrow> notification_rule" where
  "mk_notification ev ty ti bo re ex nc nm =
     \<lparr>nf_eventType = ev, nf_type = ty, nf_title = ti, nf_body = bo, nf_recipients = re,
      nf_excludeCoordinator = ex, nf_needsCoordinator = nc, nf_needsMembers = nm\<rparr>"

definition NOTIFICATION_FAN_OUT_RULES :: "notification_rule list" where
  "NOTIFICATION_FAN_OUT_RULES =
    [mk_notification EV_CREATED ''activity_created'' (js ''Nueva actividad'')
       (dated_body (js ''Se cre'' @ O_ACUTE @ js '' '') (js '' para el ''))
       [Slot_members] True True True,
     mk_notification EV_ASSIGNED ''activity_assigned'' (js ''Nueva actividad asignada'')
       (dated_body (js ''Te asignaron '') (js '' para el ''))
       [Slot_assignee, Slot_creator] True True False,
     mk_notification EV_ASSISTING ''activity_assisting'' (js ''Actividad aceptada'')
       (dated_body (js ''Se confirm'' @ O_ACUTE @ js '' '') (js '' para el ''))
       [Slot_creator, Slot_coordinator] False True False,
     mk_notification EV_IN_PROGRESS ''activity_in_progress'' (js ''Actividad en curso'')
       (dated_body (js ''Comenz'' @ O_ACUTE @ js '' '') (js '' el ''))
       [Slot_assignee, Slot_creator] False False False,
     mk_notification EV_VERIFY ''activity_verify'' (js ''Actividad por verificar'')
       (fixed_body [] (js '' termin'' @ O_ACUTE @ js '' y espera tu confirmaci'' @ O_ACUTE @ js ''n.''))
       [Slot_assignee, Slot_creator] False False False,
     mk_notification EV_VERIFY_EXPIRED ''activity_verify_expired''
       (js ''La verificaci'' @ O_ACUTE @ js ''n venci'' @ O_ACUTE)
       (fixed_body [] (js '' qued'' @ O_ACUTE @ js '' sin confirmar y venci'' @ O_ACUTE @ js ''.''))
       [Slot_assignee, Slot_creator, Slot_coordinator] False True False,
     mk_notification EV_CREATED_OVERDUE ''activity_created_overdue'' (js ''Actividad sin asignar'')
       (fixed_body [] (js '' qued'' @ O_ACUTE @ js '' sin asignar y venci'' @ O_ACUTE @ js ''.''))
       [Slot_creator, Slot_coordinator] False True False,
     mk_notification EV_OVERDUE ''activity_overdue'' (js ''Actividad vencida'')
       (fixed_body [] (js '' venci'' @ O_ACUTE @ js ''. Reprogr'' @ A_ACUTE @ js ''mala o m'' @
          A_ACUTE @ js ''rcala como finalizada.''))
       [Slot_assignee, Slot_creator, Slot_coordinator] False True False,
     mk_notification EV_NOT_ASSISTING ''activity_not_assisting'' (js ''Actividad declinada'')
       (fixed_body (js ''El responsable declin'' @ O_ACUTE @ js '' '') (js ''.''))
       [Slot_creator, Slot_coordinator] False True False,
     mk_notification EV_DONE ''activity_done'' (js ''Actividad finalizada'')
       (fixed_body (js ''Se finaliz'' @ O_ACUTE @ js '' '') (js ''.''))
       [Slot_assignee, Slot_creator, Slot_coordinator] False True False,
     mk_notification EV_CANCELLED ''activity_cancelled'' (js ''Actividad cancelada'')
       (fixed_body (js ''Se cancel'' @ O_ACUTE @ js '' '') (js ''.''))
       [Slot_assignee, Slot_creator] False False False]"

definition resolveNotificationRule :: "string \<Rightarrow> notification_rule option" where
  "resolveNotificationRule eventType =
     find (\<lambda>rule. ACTIVITY_EVENT (nf_eventType rule) = eventType) NOTIFICATION_FAN_OUT_RULES"

record recipient_context =
  rc_assignedTo :: "uuid option"
  rc_createdBy :: "uuid option"
  rc_coordinatorId :: "uuid option"
  rc_memberIds :: "uuid list"
  rc_actorId :: "uuid option"

text \<open>A truthy id: present and not empty.\<close>

definition truthy :: "uuid option \<Rightarrow> bool" where
  "truthy x \<longleftrightarrow> x \<noteq> None \<and> x \<noteq> Some []"

fun slot_candidates :: "recipient_context \<Rightarrow> recipient_slot \<Rightarrow> uuid option list" where
  "slot_candidates ctx Slot_assignee = [rc_assignedTo ctx]"
| "slot_candidates ctx Slot_creator = [rc_createdBy ctx]"
| "slot_candidates ctx Slot_coordinator = [rc_coordinatorId ctx]"
| "slot_candidates ctx Slot_members = map Some (rc_memberIds ctx)"

text \<open>The loop over the candidates into a \<open>Set\<close> and its sorted contents.\<close>

definition collect_recipients :: "uuid option list \<Rightarrow> uuid list \<Rightarrow> uuid list" where
  "collect_recipients candidates excluded =
     sort (remdups (map the (filter (\<lambda>c. truthy c \<and> the c \<notin> set excluded) candidates)))"

definition buildRecipientIds :: "notification_rule \<Rightarrow> recipient_context \<Rightarrow> uuid list" where
  "buildRecipientIds rule ctx =
     (let candidates = concat (map (slot_candidates ctx) (nf_recipients rule));
          excluded = (if nf_excludeCoordinator rule \<and> truthy (rc_coordinatorId ctx)
                      then [the (rc_coordinatorId ctx)] else []) @
                     (if truthy (rc_actorId ctx) then [the (rc_actorId ctx)] else [])
      in collect_recipients candidates excluded)"

definition renderNotificationText ::
  "notification_rule \<Rightarrow> (instant \<Rightarrow> int) \<Rightarrow> render_context \<Rightarrow> utf16 \<times> utf16" where
  "renderNotificationText rule tz ctx = (nf_title rule, nf_body rule tz ctx)"

section \<open>Expenses\<close>

datatype expense_slot = Slot_requester | Slot_counterpart

record expense_render_context =
  en_concept :: utf16
  en_amount :: int

record expense_notification_rule =
  xn_eventType :: expense_event
  xn_type :: string
  xn_title :: utf16
  xn_body :: "expense_render_context \<Rightarrow> utf16"
  xn_recipients :: "expense_slot list"

text \<open>A dot before every group of three digits counted from the right.\<close>

fun group_thousands :: "string \<Rightarrow> string" where
  "group_thousands [] = []"
| "group_thousands (c # s) =
     (if s \<noteq> [] \<and> length s mod 3 = 0 then c # CHR ''.'' # group_thousands s
      else c # group_thousands s)"

text \<open>The amount is an integer of hundredths: \<open>toFixed(2)\<close> is exact.\<close>

definition formatExpenseAmount :: "int \<Rightarrow> utf16" where
  "formatExpenseAmount amount =
     (let n = nat \<bar>amount\<bar>; integerPart = decimal (n div 100);
          decimalPart = pad_start 2 (decimal (n mod 100)) in
      js ((if amount < 0 then ''-'' else '''') @ ''$'' @ group_thousands integerPart @ '','' @ decimalPart))"

definition renderWithConcept :: "utf16 \<Rightarrow> expense_render_context \<Rightarrow> utf16" where
  "renderWithConcept template ctx =
     (let amount = formatExpenseAmount (en_amount ctx);
          skeleton = replace_first AMOUNT_SLOT amount (replace_first CONCEPT_SLOT [] template);
          maxConceptLength = 100 - int (length skeleton);
          concept = fit maxConceptLength (en_concept ctx)
      in replace_first AMOUNT_SLOT amount (replace_first CONCEPT_SLOT concept template))"

definition concept_body :: "utf16 \<Rightarrow> utf16 \<Rightarrow> expense_render_context \<Rightarrow> utf16" where
  "concept_body before after =
     renderWithConcept (before @ QUOTE @ CONCEPT_SLOT @ QUOTE @ after)"

definition mk_expense_notification ::
  "expense_event \<Rightarrow> string \<Rightarrow> utf16 \<Rightarrow> (expense_render_context \<Rightarrow> utf16) \<Rightarrow> expense_slot list \<Rightarrow>
   expense_notification_rule" where
  "mk_expense_notification ev ty ti bo re =
     \<lparr>xn_eventType = ev, xn_type = ty, xn_title = ti, xn_body = bo, xn_recipients = re\<rparr>"

definition EXPENSE_NOTIFICATION_RULES :: "expense_notification_rule list" where
  "EXPENSE_NOTIFICATION_RULES =
    [mk_expense_notification EX_CREATED ''expense_created'' (js ''Nuevo gasto'')
       (concept_body [] (js '' por '' @ AMOUNT_SLOT @ js '' espera tu aprobaci'' @ O_ACUTE @ js ''n.''))
       [Slot_counterpart],
     mk_expense_notification EX_APPROVED ''expense_approved'' (js ''Gasto aprobado'')
       (concept_body (js ''Se aprob'' @ O_ACUTE @ js '' '') (js '' por '' @ AMOUNT_SLOT @ js ''.''))
       [Slot_requester],
     mk_expense_notification EX_REJECTED ''expense_rejected'' (js ''Gasto rechazado'')
       (concept_body (js ''Se rechaz'' @ O_ACUTE @ js '' '') (js '' por '' @ AMOUNT_SLOT @ js ''.''))
       [Slot_requester],
     mk_expense_notification EX_PAID ''expense_paid'' (js ''Gasto pagado'')
       (concept_body (js ''Se marc'' @ O_ACUTE @ js '' como pagado '')
          (js '' por '' @ AMOUNT_SLOT @ js ''.''))
       [Slot_requester],
     mk_expense_notification EX_STALE ''expense_stale'' (js ''Gasto sin aprobar'')
       (concept_body [] (js '' lleva m'' @ A_ACUTE @ js ''s de 7 d'' @ [0xED] @ js ''as pendiente.''))
       [Slot_counterpart]]"

definition resolveExpenseNotificationRule :: "string \<Rightarrow> expense_notification_rule option" where
  "resolveExpenseNotificationRule eventType =
     find (\<lambda>rule. EXPENSE_EVENT (xn_eventType rule) = eventType) EXPENSE_NOTIFICATION_RULES"

record expense_recipient_context =
  xc_requestedBy :: "uuid option"
  xc_counterpartId :: "uuid option"
  xc_actorId :: "uuid option"

fun expense_candidate :: "expense_recipient_context \<Rightarrow> expense_slot \<Rightarrow> uuid option" where
  "expense_candidate ctx Slot_requester = xc_requestedBy ctx"
| "expense_candidate ctx Slot_counterpart = xc_counterpartId ctx"

definition buildExpenseRecipientIds ::
  "expense_notification_rule \<Rightarrow> expense_recipient_context \<Rightarrow> uuid list" where
  "buildExpenseRecipientIds rule ctx =
     collect_recipients (map (expense_candidate ctx) (xn_recipients rule))
       (if truthy (xc_actorId ctx) then [the (xc_actorId ctx)] else [])"

definition renderExpenseNotificationText ::
  "expense_notification_rule \<Rightarrow> expense_render_context \<Rightarrow> utf16 \<times> utf16" where
  "renderExpenseNotificationText rule ctx = (xn_title rule, xn_body rule ctx)"

section \<open>Facts\<close>

lemma length_replace_first:
  "length (replace_first pat rep s) \<le> length (replace_first pat [] s) + length rep"
  by (induction s) auto

lemma length_replace_first_Nil: "length (replace_first pat [] s) \<le> length s"
  by (induction s) auto

lemma replace_first_skip [simp]:
  "pat \<noteq> [] \<Longrightarrow> c \<noteq> hd pat \<Longrightarrow> replace_first pat rep (c # s) = c # replace_first pat rep s"
  by (cases pat) auto

lemma length_fit: "0 < room \<Longrightarrow> int (length (fit room raw)) \<le> room"
  by (auto simp: fit_def ELLIPSIS_def min_def)

lemma length_renderWithTitle:
  assumes "length template < 100"
  shows "length (renderWithTitle template raw) \<le> 100"
proof -
  let ?k = "length (replace_first TITLE_SLOT [] template)"
  have "?k < 100"
    using length_replace_first_Nil [of TITLE_SLOT template] assms by linarith
  then have "int (length (fit (100 - int ?k) raw)) \<le> 100 - int ?k"
    by (intro length_fit) simp
  then have "?k + length (fit (100 - int ?k) raw) \<le> 100"
    by linarith
  then show ?thesis
    using length_replace_first [of TITLE_SLOT "fit (100 - int ?k) raw" template]
    by (simp add: renderWithTitle_def Let_def)
qed

lemma hd_renderWithTitle:
  "c \<noteq> 123 \<Longrightarrow> renderWithTitle (c # template) raw = e # s \<Longrightarrow> c = e"
  by (simp add: renderWithTitle_def TITLE_SLOT_def Let_def)

lemma set_collect_recipients [simp]:
  "set (collect_recipients cs ex) = {u. Some u \<in> set cs \<and> u \<noteq> [] \<and> u \<notin> set ex}"
  by (force simp: collect_recipients_def truthy_def image_iff)

lemma collect_recipients_sorted [simp]:
  "sorted (collect_recipients cs ex)" "distinct (collect_recipients cs ex)"
  by (simp_all add: collect_recipients_def)

lemma buildRecipientIds_facts [simp]:
  "sorted (buildRecipientIds rule ctx)" "distinct (buildRecipientIds rule ctx)"
  "[] \<notin> set (buildRecipientIds rule ctx)"
  "rc_actorId ctx = Some a \<Longrightarrow> a \<notin> set (buildRecipientIds rule ctx)"
  by (auto simp: buildRecipientIds_def Let_def truthy_def)

lemma buildExpenseRecipientIds_facts [simp]:
  "sorted (buildExpenseRecipientIds xrule xctx)" "distinct (buildExpenseRecipientIds xrule xctx)"
  "[] \<notin> set (buildExpenseRecipientIds xrule xctx)"
  "xc_actorId xctx = Some a \<Longrightarrow> a \<notin> set (buildExpenseRecipientIds xrule xctx)"
  by (auto simp: buildExpenseRecipientIds_def truthy_def)

lemma find_rule_member: "find P rs = Some r \<Longrightarrow> r \<in> set rs \<and> P r"
  by (auto simp: find_Some_iff)

text \<open>A pattern that occurs is replaced once; one whose first unit does not occur, never.\<close>

lemma replace_first_hit:
  "take (length pat) s = pat \<Longrightarrow> replace_first pat rep s = rep @ drop (length pat) s"
  by (cases s) auto

lemma replace_first_here [simp]: "replace_first pat rep (pat @ v) = rep @ v"
  by (simp add: replace_first_hit)

lemma length_replace_first_occurs:
  "length (replace_first pat rep (u @ pat @ v)) + length pat = length (u @ pat @ v) + length rep"
  by (induction u) auto

lemma replace_first_absent:
  assumes "pat \<noteq> []" and "hd pat \<notin> set s"
  shows "replace_first pat rep s = s"
proof -
  obtain c pat' where "pat = c # pat'"
    using assms(1) by (cases pat) auto
  then show ?thesis
    using assms(2) by (induction s) auto
qed

lemma replace_first_after:
  "pat \<noteq> [] \<Longrightarrow> hd pat \<notin> set u \<Longrightarrow> replace_first pat rep (u @ pat @ v) = u @ rep @ v"
proof (induction u)
  case (Cons c u)
  then have "take (length pat) ((c # u) @ pat @ v) \<noteq> pat"
    by (cases pat) auto
  then show ?case using Cons by simp
qed simp

lemma slots [simp]:
  "TITLE_SLOT \<noteq> []" "hd TITLE_SLOT = 123" "CONCEPT_SLOT \<noteq> []" "hd CONCEPT_SLOT = 123"
  "AMOUNT_SLOT \<noteq> []" "hd AMOUNT_SLOT = 123"
  by (simp_all add: TITLE_SLOT_def CONCEPT_SLOT_def AMOUNT_SLOT_def)

lemma concept_body_eq:
  assumes "123 \<notin> set before"
  shows "concept_body before after ctx =
     (let amount = formatExpenseAmount (en_amount ctx);
          room = 100 - int (length (replace_first AMOUNT_SLOT amount (before @ QUOTE @ QUOTE @ after)))
      in replace_first AMOUNT_SLOT amount
           (before @ QUOTE @ fit room (en_concept ctx) @ QUOTE @ after))"
proof -
  have "replace_first CONCEPT_SLOT c (before @ QUOTE @ CONCEPT_SLOT @ QUOTE @ after) =
      before @ QUOTE @ c @ QUOTE @ after" for c
    using replace_first_after [of CONCEPT_SLOT "before @ QUOTE" c "QUOTE @ after"] assms
    by (simp add: QUOTE_def)
  then show ?thesis
    by (simp add: concept_body_def renderWithConcept_def Let_def)
qed

lemma set_fit: "set (fit room raw) \<subseteq> set raw \<union> {0x2026}"
  by (auto simp: fit_def ELLIPSIS_def dest: in_set_takeD)

lemma length_group_thousands: "length (group_thousands s) \<le> 2 * length s"
  by (induction s rule: group_thousands.induct) auto

end
