(* ===== verification/Notifications.thy ===== *)
theory Notifications
  imports Notification_Maps Activities_Repository Expenses_Repository
begin

text \<open>Notifications: the repository (\<open>notifications/repositories/notification.repository.ts\<close>),
  the fan-out of one outbox event (\<open>notifications/fan-out/notification-fan-out.service.ts\<close>), the
  read routes (\<open>notifications/notifications.service.ts\<close>) and the retention purge
  (\<open>notifications/retention/notifications-retention.service.ts\<close>). The partial unique index on
  the user and the source event makes the insert of the fan-out a no-op the second time: the
  table is an instance of the insert-if-absent contract. Foreign-key violations, which make the
  whole dispatch transaction fail, are not modelled.\<close>

section \<open>Writes of the repository\<close>

record create_notification_input =
  ni_userId :: uuid
  ni_bondId :: uuid
  ni_type :: string
  ni_title :: utf16
  ni_body :: utf16
  ni_refEntityType :: string
  ni_refEntityId :: "uuid option"
  ni_sourceEventId :: "uuid option"

definition notification_of ::
  "uuid \<Rightarrow> instant \<Rightarrow> create_notification_input \<Rightarrow> notification_row" where
  "notification_of newId at input =
     \<lparr>nt_id = newId, nt_userId = ni_userId input, nt_bondId = Some (ni_bondId input),
      nt_type = ni_type input, nt_title = ni_title input, nt_body = ni_body input,
      nt_refEntityType = ni_refEntityType input, nt_refEntityId = ni_refEntityId input,
      nt_sourceEventId = ni_sourceEventId input, nt_isRead = False, nt_createdAt = at\<rparr>"

definition createNotification :: "uuid \<Rightarrow> instant \<Rightarrow> create_notification_input \<Rightarrow> db \<Rightarrow> notification_row \<times> db" where
  "createNotification newId at input d =
     (let row = notification_of newId at input
      in (row, d\<lparr>db_notifications := db_notifications d @ [row]\<rparr>))"

definition notification_exists :: "db \<Rightarrow> uuid \<Rightarrow> uuid option \<Rightarrow> bool" where
  "notification_exists d userId eventId =
     (eventId \<noteq> None \<and>
      list_ex (\<lambda>r. nt_userId r = userId \<and> nt_sourceEventId r = eventId) (db_notifications d))"

text \<open>\<open>INSERT ... ON CONFLICT DO NOTHING RETURNING id\<close>.\<close>

definition createFromEvent ::
  "uuid \<Rightarrow> instant \<Rightarrow> create_notification_input \<Rightarrow> db \<Rightarrow> notification_row option \<times> db" where
  "createFromEvent newId at input d =
     (if notification_exists d (ni_userId input) (ni_sourceEventId input) then (None, d)
      else (let row = notification_of newId at input
            in (Some row, d\<lparr>db_notifications := db_notifications d @ [row]\<rparr>)))"

section \<open>Reads and read marks\<close>

record list_notifications_options =
  ln_limit :: nat
  ln_offset :: nat
  ln_unreadOnly :: bool
  ln_bondId :: "uuid option"

definition in_bond :: "uuid option \<Rightarrow> notification_row \<Rightarrow> bool" where
  "in_bond bondId r \<longleftrightarrow> (if truthy bondId then nt_bondId r = bondId else True)"

definition scopedQuery :: "db \<Rightarrow> uuid \<Rightarrow> bool \<Rightarrow> uuid option \<Rightarrow> notification_row list" where
  "scopedQuery d userId unreadOnly bondId =
     filter (\<lambda>r. nt_userId r = userId \<and> (unreadOnly \<longrightarrow> \<not> nt_isRead r) \<and> in_bond bondId r)
       (db_notifications d)"

definition latest_first :: "notification_row list \<Rightarrow> notification_row list" where
  "latest_first rows = rev (sort_key (\<lambda>r. (nt_createdAt r, nt_id r)) rows)"

definition listForUser :: "db \<Rightarrow> uuid \<Rightarrow> list_notifications_options \<Rightarrow> notification_row list \<times> nat" where
  "listForUser d userId options =
     (let rows = scopedQuery d userId (ln_unreadOnly options) (ln_bondId options)
      in (take (ln_limit options) (drop (ln_offset options) (latest_first rows)), length rows))"

definition countUnread :: "db \<Rightarrow> uuid \<Rightarrow> uuid option \<Rightarrow> nat" where
  "countUnread d userId bondId =
     length (filter (\<lambda>r. nt_userId r = userId \<and> \<not> nt_isRead r \<and> in_bond bondId r)
       (db_notifications d))"

text \<open>\<open>UPDATE notification SET is_read = true WHERE ...\<close> and its count of affected rows.\<close>

definition set_read :: "(notification_row \<Rightarrow> bool) \<Rightarrow> db \<Rightarrow> nat \<times> db" where
  "set_read P d =
     (length (filter P (db_notifications d)),
      d\<lparr>db_notifications := map (\<lambda>r. if P r then r\<lparr>nt_isRead := True\<rparr> else r) (db_notifications d)\<rparr>)"

definition markReadRows :: "uuid \<Rightarrow> uuid \<Rightarrow> db \<Rightarrow> nat \<times> db" where
  "markReadRows i userId d = set_read (\<lambda>r. nt_userId r = userId \<and> nt_id r = i) d"

definition markAllReadRows :: "uuid \<Rightarrow> uuid option \<Rightarrow> db \<Rightarrow> nat \<times> db" where
  "markAllReadRows userId bondId d =
     set_read (\<lambda>r. nt_userId r = userId \<and> \<not> nt_isRead r \<and> in_bond bondId r) d"

definition purgeOlderThan :: "instant \<Rightarrow> bool \<Rightarrow> db \<Rightarrow> nat \<times> db" where
  "purgeOlderThan cutoff onlyRead d =
     (let gone = (\<lambda>r. nt_createdAt r < cutoff \<and> (onlyRead \<longrightarrow> nt_isRead r)) in
      (length (filter gone (db_notifications d)),
       d\<lparr>db_notifications := filter (\<lambda>r. \<not> gone r) (db_notifications d)\<rparr>))"

section \<open>The read service and the retention\<close>

definition NOTIFICATIONS_DEFAULT_LIMIT :: nat where
  "NOTIFICATIONS_DEFAULT_LIMIT = 20"

record notification_response =
  nr_id :: uuid
  nr_type :: string
  nr_title :: utf16
  nr_body :: utf16
  nr_refEntityType :: string
  nr_refEntityId :: "uuid option"
  nr_bondId :: "uuid option"
  nr_isRead :: bool
  nr_createdAt :: string

definition notification_response_of :: "notification_row \<Rightarrow> notification_response" where
  "notification_response_of row =
     \<lparr>nr_id = nt_id row, nr_type = nt_type row, nr_title = nt_title row, nr_body = nt_body row,
      nr_refEntityType = nt_refEntityType row, nr_refEntityId = nt_refEntityId row,
      nr_bondId = nt_bondId row, nr_isRead = nt_isRead row,
      nr_createdAt = toISOString (nt_createdAt row)\<rparr>"

record paginated_notifications =
  pn_items :: "notification_response list"
  pn_total :: nat
  pn_limit :: nat
  pn_offset :: nat
  pn_nextCursor :: "string option"

definition listNotifications ::
  "db \<Rightarrow> uuid \<Rightarrow> nat option \<Rightarrow> nat option \<Rightarrow> bool \<Rightarrow> uuid option \<Rightarrow> paginated_notifications" where
  "listNotifications d userId limitQ offsetQ unreadOnly bondId =
     (let lim = (case limitQ of Some n \<Rightarrow> n | None \<Rightarrow> NOTIFICATIONS_DEFAULT_LIMIT);
          off = (case offsetQ of Some n \<Rightarrow> n | None \<Rightarrow> 0);
          (items, total) = listForUser d userId
            \<lparr>ln_limit = lim, ln_offset = off, ln_unreadOnly = unreadOnly, ln_bondId = bondId\<rparr>
      in \<lparr>pn_items = map notification_response_of items, pn_total = total, pn_limit = lim,
          pn_offset = off, pn_nextCursor = None\<rparr>)"

definition unreadCount :: "db \<Rightarrow> uuid \<Rightarrow> uuid option \<Rightarrow> nat" where
  "unreadCount d userId bondId = countUnread d userId bondId"

definition markRead :: "uuid \<Rightarrow> uuid \<Rightarrow> db \<Rightarrow> http_error + (uuid \<times> db)" where
  "markRead userId i d =
     (case markReadRows i userId d of (affected, d') \<Rightarrow>
        if affected = 0
        then Inl (notFoundException (''Notification '' @ [CHR 34] @ i @ [CHR 34] @ '' not found''))
        else Inr (i, d'))"

definition markAllRead :: "uuid \<Rightarrow> uuid option \<Rightarrow> db \<Rightarrow> nat \<times> db" where
  "markAllRead userId bondId d = markAllReadRows userId bondId d"

definition DEFAULT_NOTIFICATIONS_RETENTION_DAYS :: int where
  "DEFAULT_NOTIFICATIONS_RETENTION_DAYS = 30"

definition runNotificationsRetention :: "int option \<Rightarrow> instant \<Rightarrow> db \<Rightarrow> nat \<times> instant \<times> int \<times> db" where
  "runNotificationsRetention config now d =
     (let days = (case config of Some n \<Rightarrow> n | None \<Rightarrow> DEFAULT_NOTIFICATIONS_RETENTION_DAYS);
          cutoff = now - days * ms_per_day;
          (purged, d') = purgeOlderThan cutoff False d
      in (purged, cutoff, days, d'))"

end
