(* ===== verification/Notification_Fan_Out.thy ===== *)
theory Notification_Fan_Out
  imports Notifications Interfaces
begin

text \<open>The fan-out of one outbox event into notifications
  (\<open>notifications/fan-out/notification-fan-out.service.ts\<close>): the switch by aggregate, the data of
  the activity or of the expense, the recipients, the texts and one insert per recipient. The
  result is the list of the rows really created and the new database.\<close>

section \<open>The switch\<close>

text \<open>The value of \<open>NOTIFICATIONS_FANOUT_ENABLED\<close>: unset, a boolean, a text or anything else.\<close>

datatype config_value = Cfg_unset | Cfg_bool bool | Cfg_text string | Cfg_other

fun isFanOutEnabled :: "config_value \<Rightarrow> bool" where
  "isFanOutEnabled Cfg_unset = True"
| "isFanOutEnabled (Cfg_bool b) = b"
| "isFanOutEnabled (Cfg_text s) = (to_lower s \<noteq> ''false'')"
| "isFanOutEnabled Cfg_other = True"

text \<open>The id of the actor is read out of a text of the payload: ids are ASCII.\<close>

definition ascii :: "utf16 \<Rightarrow> string" where
  "ascii t = map (\<lambda>u. char_of (unat u)) t"

definition actorIdOf :: "outbox_row \<Rightarrow> uuid option" where
  "actorIdOf event =
     (case map_of (ob_payload event) ''actor'' of
        Some actor \<Rightarrow>
          (if json_field ''type'' actor = Some (jstr ''user'')
           then (case json_field ''id'' actor of Some (JStr i) \<Rightarrow> Some (ascii i) | _ \<Rightarrow> None)
           else None)
      | None \<Rightarrow> None)"

section \<open>Persisting\<close>

record created_notification_ref =
  nref_id :: uuid
  nref_userId :: uuid
  nref_type :: string
  nref_refEntityType :: string
  nref_refEntityId :: "uuid option"

text \<open>What is common to the rows of one event.\<close>

record persist_input =
  pi_bondId :: uuid
  pi_type :: string
  pi_title :: utf16
  pi_body :: utf16
  pi_refEntityType :: string
  pi_refEntityId :: uuid
  pi_sourceEventId :: uuid

definition input_for :: "persist_input \<Rightarrow> uuid \<Rightarrow> create_notification_input" where
  "input_for p userId =
     \<lparr>ni_userId = userId, ni_bondId = pi_bondId p, ni_type = pi_type p, ni_title = pi_title p,
      ni_body = pi_body p, ni_refEntityType = pi_refEntityType p,
      ni_refEntityId = Some (pi_refEntityId p), ni_sourceEventId = Some (pi_sourceEventId p)\<rparr>"

fun persist :: "(nat \<Rightarrow> uuid) \<Rightarrow> instant \<Rightarrow> persist_input \<Rightarrow> uuid list \<Rightarrow> db \<Rightarrow>
    created_notification_ref list \<times> db" where
  "persist ids at p [] d = ([], d)"
| "persist ids at p (userId # rest) d =
     (case createFromEvent (ids 0) at (input_for p userId) d of
        (None, d1) \<Rightarrow> persist (\<lambda>n. ids (Suc n)) at p rest d1
      | (Some row, d1) \<Rightarrow>
          (case persist (\<lambda>n. ids (Suc n)) at p rest d1 of
             (created, d2) \<Rightarrow>
               (\<lparr>nref_id = nt_id row, nref_userId = nt_userId row, nref_type = nt_type row,
                 nref_refEntityType = nt_refEntityType row, nref_refEntityId = nt_refEntityId row\<rparr>
                # created, d2)))"

section \<open>Activities\<close>

definition loadActivity :: "db \<Rightarrow> uuid \<Rightarrow> activity_row option" where
  "loadActivity d i =
     (case findById d i of Some a \<Rightarrow> Some a | None \<Rightarrow> findByIdIncludingDeleted d i)"

definition buildRecipientContext :: "db \<Rightarrow> uuid \<Rightarrow> activity_row \<Rightarrow> uuid option \<Rightarrow> recipient_context" where
  "buildRecipientContext d bondId activity actorId =
     \<lparr>rc_assignedTo = act_assignedTo activity, rc_createdBy = Some (act_createdBy activity),
      rc_coordinatorId = map_option mem_userId (findCoordinator d bondId),
      rc_memberIds = findActiveMemberIds d bondId, rc_actorId = actorId\<rparr>"

definition activity_fan_out ::
  "(instant \<Rightarrow> int) \<Rightarrow> outbox_row \<Rightarrow> db \<Rightarrow> (persist_input \<times> uuid list) option" where
  "activity_fan_out tz event d =
     (case resolveNotificationRule (ob_eventType event) of
        None \<Rightarrow> None
      | Some rule \<Rightarrow>
          (case loadActivity d (ob_aggregateId event) of
             None \<Rightarrow> None
           | Some activity \<Rightarrow>
               if act_deletedAt activity \<noteq> None then None
               else
                 (let ctx = buildRecipientContext d (ob_bondId event) activity (actorIdOf event);
                      (title, body) = renderNotificationText rule tz
                         \<lparr>rn_activityTitle = act_title activity,
                          rn_scheduledStart = act_scheduledStart activity\<rparr>
                  in Some (\<lparr>pi_bondId = ob_bondId event, pi_type = nf_type rule, pi_title = title,
                            pi_body = body, pi_refEntityType = ''activity'',
                            pi_refEntityId = act_id activity, pi_sourceEventId = ob_id event\<rparr>,
                           buildRecipientIds rule ctx))))"

section \<open>Expenses\<close>

definition expense_fan_out :: "outbox_row \<Rightarrow> db \<Rightarrow> (persist_input \<times> uuid list) option" where
  "expense_fan_out event d =
     (case resolveExpenseNotificationRule (ob_eventType event) of
        None \<Rightarrow> None
      | Some rule \<Rightarrow>
          (case findAliveById d (ob_aggregateId event) of
             None \<Rightarrow> None
           | Some (expense, _) \<Rightarrow>
               (let memberIds = findActiveMemberIds d (ob_bondId event);
                    counterpartId = selectCounterpartId memberIds (exp_requestedBy expense);
                    recipientIds = buildExpenseRecipientIds rule
                      \<lparr>xc_requestedBy = Some (exp_requestedBy expense),
                       xc_counterpartId = counterpartId, xc_actorId = actorIdOf event\<rparr>;
                    (title, body) = renderExpenseNotificationText rule
                      \<lparr>en_concept = exp_concept expense, en_amount = exp_amount expense\<rparr>
                in Some (\<lparr>pi_bondId = ob_bondId event, pi_type = xn_type rule, pi_title = title,
                          pi_body = body, pi_refEntityType = ''expense'',
                          pi_refEntityId = exp_id expense, pi_sourceEventId = ob_id event\<rparr>,
                         recipientIds))))"

text \<open>An event without rule, aggregate or recipient creates nothing.\<close>

definition handle_fan_out ::
  "(nat \<Rightarrow> uuid) \<Rightarrow> instant \<Rightarrow> (persist_input \<times> uuid list) option \<Rightarrow> db \<Rightarrow>
   created_notification_ref list \<times> db" where
  "handle_fan_out ids at plan d =
     (case plan of None \<Rightarrow> ([], d)
      | Some (p, recipientIds) \<Rightarrow>
          if length recipientIds = 0 then ([], d) else persist ids at p recipientIds d)"

definition handleActivityEvent ::
  "env \<Rightarrow> (instant \<Rightarrow> int) \<Rightarrow> outbox_row \<Rightarrow> db \<Rightarrow> created_notification_ref list \<times> db" where
  "handleActivityEvent e tz event d =
     handle_fan_out (env_uuid e) (env_dbnow e) (activity_fan_out tz event d) d"

definition handleExpenseEvent :: "env \<Rightarrow> outbox_row \<Rightarrow> db \<Rightarrow> created_notification_ref list \<times> db" where
  "handleExpenseEvent e event d =
     handle_fan_out (env_uuid e) (env_dbnow e) (expense_fan_out event d) d"

definition handleOutboxEvent ::
  "config_value \<Rightarrow> env \<Rightarrow> (instant \<Rightarrow> int) \<Rightarrow> outbox_row \<Rightarrow> db \<Rightarrow>
   created_notification_ref list \<times> db" where
  "handleOutboxEvent flag e tz event d =
     (if \<not> isFanOutEnabled flag then ([], d)
      else (case ob_aggregateType event of
              Agg_activity \<Rightarrow> handleActivityEvent e tz event d
            | Agg_expense \<Rightarrow> handleExpenseEvent e event d))"

section \<open>The insert-if-absent contract\<close>

definition notification_keys :: "db \<Rightarrow> (uuid \<times> uuid) set" where
  "notification_keys d =
     {(u, ev). \<exists>r \<in> set (db_notifications d). nt_userId r = u \<and> nt_sourceEventId r = Some ev}"

text \<open>One insert of the fan-out: id and time of the row, what the event says, and the user.\<close>

type_synonym fan_out_insert = "uuid \<times> instant \<times> persist_input \<times> uuid"

fun insert_notification :: "fan_out_insert \<Rightarrow> db \<Rightarrow> db" where
  "insert_notification (newId, at, p, u) d = snd (createFromEvent newId at (input_for p u) d)"

fun fan_out_key :: "fan_out_insert \<Rightarrow> uuid \<times> uuid" where
  "fan_out_key (newId, at, p, u) = (u, pi_sourceEventId p)"

lemma notification_exists_iff:
  "notification_exists d u (Some ev) \<longleftrightarrow> (u, ev) \<in> notification_keys d"
  by (auto simp: notification_exists_def notification_keys_def list_ex_iff)

lemma input_for_simps [simp]:
  "ni_userId (input_for p u) = u" "ni_sourceEventId (input_for p u) = Some (pi_sourceEventId p)"
  by (simp_all add: input_for_def)

lemma notification_of_simps [simp]:
  "nt_id (notification_of i t inp) = i" "nt_userId (notification_of i t inp) = ni_userId inp"
  "nt_sourceEventId (notification_of i t inp) = ni_sourceEventId inp"
  "nt_type (notification_of i t inp) = ni_type inp"
  "nt_isRead (notification_of i t inp) = False" "nt_createdAt (notification_of i t inp) = t"
  by (simp_all add: notification_of_def)

interpretation inbox: dedup_table notification_keys insert_notification fan_out_key
proof unfold_locales
  fix r :: fan_out_insert and d :: db
  obtain i t p u where r: "r = (i, t, p, u)" by (cases r)
  show "fan_out_key r \<notin> notification_keys d \<Longrightarrow>
      notification_keys (insert_notification r d) = insert (fan_out_key r) (notification_keys d)"
    by (auto simp: r createFromEvent_def notification_exists_iff Let_def) (auto simp: notification_keys_def)
  show "fan_out_key r \<in> notification_keys d \<Longrightarrow> insert_notification r d = d"
    by (simp add: r createFromEvent_def notification_exists_iff)
qed

fun persist_items :: "(nat \<Rightarrow> uuid) \<Rightarrow> instant \<Rightarrow> persist_input \<Rightarrow> uuid list \<Rightarrow> fan_out_insert list" where
  "persist_items ids at p [] = []"
| "persist_items ids at p (u # us) = (ids 0, at, p, u) # persist_items (\<lambda>n. ids (Suc n)) at p us"

lemma persist_items_keys:
  "fan_out_key ` set (persist_items ids at p us) = (\<lambda>u. (u, pi_sourceEventId p)) ` set us"
  by (induction ids at p us rule: persist_items.induct) auto

lemma persist_is_put_all: "snd (persist ids at p us d) = inbox.put_all (persist_items ids at p us) d"
  by (induction ids at p us d rule: persist.induct) (auto split: prod.split option.split)

lemma persist_again:
  "persist ids' at' p us (snd (persist ids at p us d)) = ([], snd (persist ids at p us d))"
proof -
  have none: "persist ids' at' p us d' = ([], d')"
    if "(\<lambda>u. (u, pi_sourceEventId p)) ` set us \<subseteq> notification_keys d'" for d' ids'
    using that
    by (induction us arbitrary: ids') (auto simp: createFromEvent_def notification_exists_iff)
  show ?thesis
    by (rule none) (simp add: persist_is_put_all persist_items_keys)
qed

text \<open>What one run of the inserts does: it appends one row per recipient that has none for this
  event yet, in the order of the recipients, and touches nothing else.\<close>

lemma createFromEvent_rows:
  "snd (createFromEvent i t inp d) =
     d\<lparr>db_notifications := db_notifications d @
        (if notification_exists d (ni_userId inp) (ni_sourceEventId inp) then []
         else [notification_of i t inp])\<rparr>"
  by (simp add: createFromEvent_def Let_def)

lemma persist_rows:
  assumes "distinct us"
  shows "\<exists>rows. snd (persist ids at p us d) = d\<lparr>db_notifications := db_notifications d @ rows\<rparr> \<and>
     map nt_userId rows = filter (\<lambda>u. (u, pi_sourceEventId p) \<notin> notification_keys d) us \<and>
     (\<forall>r \<in> set rows. \<exists>i u. r = notification_of i at (input_for p u)) \<and>
     fst (persist ids at p us d) =
       map (\<lambda>r. \<lparr>nref_id = nt_id r, nref_userId = nt_userId r, nref_type = nt_type r,
                  nref_refEntityType = nt_refEntityType r, nref_refEntityId = nt_refEntityId r\<rparr>) rows"
  using assms
proof (induction us arbitrary: ids d)
  case (Cons u us)
  let ?d1 = "snd (createFromEvent (ids 0) at (input_for p u) d)"
  let ?ev = "pi_sourceEventId p"
  obtain rows where rows: "snd (persist (\<lambda>n. ids (Suc n)) at p us ?d1) =
        ?d1\<lparr>db_notifications := db_notifications ?d1 @ rows\<rparr>"
      "map nt_userId rows = filter (\<lambda>v. (v, ?ev) \<notin> notification_keys ?d1) us"
      "\<forall>r \<in> set rows. \<exists>i u. r = notification_of i at (input_for p u)"
      "fst (persist (\<lambda>n. ids (Suc n)) at p us ?d1) =
       map (\<lambda>r. \<lparr>nref_id = nt_id r, nref_userId = nt_userId r, nref_type = nt_type r,
                  nref_refEntityType = nt_refEntityType r, nref_refEntityId = nt_refEntityId r\<rparr>) rows"
    using Cons.IH [of "\<lambda>n. ids (Suc n)" ?d1] Cons.prems by auto
  have keys: "notification_keys ?d1 = insert (u, ?ev) (notification_keys d)"
    using inbox.keys_put [of "(ids 0, at, p, u)" d] by simp
  have us: "filter (\<lambda>v. (v, ?ev) \<notin> notification_keys ?d1) us =
      filter (\<lambda>v. (v, ?ev) \<notin> notification_keys d) us"
    using Cons.prems unfolding keys by (auto intro!: filter_cong)
  show ?case
  proof (cases "(u, ?ev) \<in> notification_keys d")
    case True
    then have "createFromEvent (ids 0) at (input_for p u) d = (None, d)"
      by (simp add: createFromEvent_def notification_exists_iff)
    then show ?thesis
      using True rows us by (intro exI [of _ rows]) simp
  next
    case False
    let ?row = "notification_of (ids 0) at (input_for p u)"
    have "createFromEvent (ids 0) at (input_for p u) d =
        (Some ?row, d\<lparr>db_notifications := db_notifications d @ [?row]\<rparr>)"
      using False by (simp add: createFromEvent_def notification_exists_iff Let_def)
    then show ?thesis
      using False rows us by (intro exI [of _ "?row # rows"]) (auto split: prod.split)
  qed
qed simp

end
