(* ===== verification/Notification_Properties.thy ===== *)
theory Notification_Properties
  imports Notification_Fan_Out Expense_Properties
begin

text \<open>The properties of notifications: who is notified and how often, the texts, and the
  isolation of the read routes.\<close>

section \<open>Helpers\<close>

lemma ascii_js [simp]: "ascii (js s) = s"
proof -
  have "unat (word_of_nat (of_char c) :: 16 word) = of_char c" for c :: char
  proof -
    have "(of_char c :: nat) < 2 ^ 16"
      by (rule less_trans [of _ 256]) auto
    then show ?thesis by (simp add: unat_of_nat)
  qed
  then show ?thesis
    by (simp add: ascii_def js_def comp_def)
qed


text \<open>The plan of an event does not depend on the notifications.\<close>

lemma fan_out_frame [simp]:
  "activity_fan_out tz ev (d\<lparr>db_notifications := ns\<rparr>) = activity_fan_out tz ev d"
  "expense_fan_out ev (d\<lparr>db_notifications := ns\<rparr>) = expense_fan_out ev d"
proof -
  let ?d = "d\<lparr>db_notifications := ns\<rparr>"
  note frame = membership_frame [of ?d d]
  have load: "loadActivity ?d i = loadActivity d i" for i
    by (simp add: loadActivity_def findById_def findByIdIncludingDeleted_def cong: option.case_cong)
  have ctx: "buildRecipientContext ?d b x u = buildRecipientContext d b x u" for b x u
    using frame by (simp add: buildRecipientContext_def)
  show "activity_fan_out tz ev ?d = activity_fan_out tz ev d"
    unfolding activity_fan_out_def load ctx by (rule refl)
  have alive: "findAliveById ?d i = findAliveById d i" for i
    by (simp add: findAliveById_def hasDocument_def)
  have members: "findActiveMemberIds ?d b = findActiveMemberIds d b" for b
    using frame by simp
  show "expense_fan_out ev ?d = expense_fan_out ev d"
    unfolding expense_fan_out_def alive members by (rule refl)
qed

definition fan_out_plan ::
  "config_value \<Rightarrow> (instant \<Rightarrow> int) \<Rightarrow> outbox_row \<Rightarrow> db \<Rightarrow> (persist_input \<times> uuid list) option" where
  "fan_out_plan flag tz ev d =
     (if \<not> isFanOutEnabled flag then None
      else case ob_aggregateType ev of
             Agg_activity \<Rightarrow> activity_fan_out tz ev d | Agg_expense \<Rightarrow> expense_fan_out ev d)"


lemma plan_frame [simp]:
  "fan_out_plan flag tz ev (d\<lparr>db_notifications := ns\<rparr>) = fan_out_plan flag tz ev d"
  by (simp add: fan_out_plan_def split: aggregate_type.split)


section \<open>Once, and never to the actor\<close>


section \<open>The approver is the one who is told\<close>

text \<open>The notice of a new expense goes to exactly the members who can approve it: for the
  event an expense is created with, a user is among the recipients if and only if the policy
  lets that user approve the pending expense.\<close>

theorem created_expense_notifies_its_approver:
  assumes "findAliveById d (ob_aggregateId ev) = Some (x, doc)" and "exp_status x = PENDING"
    and "ob_eventType ev = EXPENSE_EVENT EX_CREATED" and "ob_bondId ev = exp_bondId x"
    and "actorIdOf ev = Some (exp_requestedBy x)" and "u \<noteq> []"
  shows "\<exists>p us. expense_fan_out ev d = Some (p, us) \<and>
     (u \<in> set us \<longleftrightarrow>
        canApprove (evaluate_expense
          \<lparr>es_status = exp_status x, es_requestedBy = exp_requestedBy x,
           es_counterpartId = counterpartOf d (exp_bondId x) (exp_requestedBy x)\<rparr> u))"
proof -
  have rule: "resolveExpenseNotificationRule ''expense.created'' =
      Some (hd EXPENSE_NOTIFICATION_RULES)"
    by (simp add: resolveExpenseNotificationRule_def EXPENSE_NOTIFICATION_RULES_def
        mk_expense_notification_def)
  have slots: "xn_recipients (hd EXPENSE_NOTIFICATION_RULES) = [Slot_counterpart]"
    by (simp add: EXPENSE_NOTIFICATION_RULES_def mk_expense_notification_def)
  show ?thesis
    using assms selectCounterpartId_SomeD
    by (force simp: expense_fan_out_def rule Let_def slots buildExpenseRecipientIds_def
        counterpartOf_def truthy_def renderExpenseNotificationText_def)
qed

section \<open>Texts\<close>















text \<open>Why the brace matters: \<open>replace\<close> looks for \<open>{amount}\<close> in a text that already contains the
  concept. A concept with that placeholder makes the reminder too long, and makes the notice of a
  new expense print the amount inside the quotes and the placeholder where the amount belongs.\<close>

lemma stale_body_overflows:
  "length (xn_body (last EXPENSE_NOTIFICATION_RULES)
     \<lparr>en_concept = replicate 59 120 @ js ''{amount}'', en_amount = 999999999999\<rparr>) = 109"
proof -
  let ?amount = "formatExpenseAmount 999999999999"
  let ?nine = "digit 9"
  have "decimal 9999999999 = [?nine, ?nine, ?nine, ?nine, ?nine, ?nine, ?nine, ?nine, ?nine, ?nine]"
    "decimal 99 = [?nine, ?nine]"
    by (simp_all add: decimal.simps)
  then have len: "length ?amount = 17"
    by (simp add: formatExpenseAmount_def pad_start_def del: decimal.simps)
  let ?after = "js '' lleva m'' @ A_ACUTE @ js ''s de 7 d'' @ [0xED] @ js ''as pendiente.''"
  have "replace_first AMOUNT_SLOT ?amount (QUOTE @ QUOTE @ ?after) = QUOTE @ QUOTE @ ?after"
    by (rule replace_first_absent) (simp_all add: QUOTE_def A_ACUTE_def)
  moreover have "replace_first AMOUNT_SLOT ?amount
      ((QUOTE @ replicate 59 120) @ AMOUNT_SLOT @ (QUOTE @ ?after)) =
      (QUOTE @ replicate 59 120) @ ?amount @ (QUOTE @ ?after)"
    by (rule replace_first_after) (simp_all add: QUOTE_def)
  ultimately have "concept_body [] ?after
      \<lparr>en_concept = replicate 59 120 @ js ''{amount}'', en_amount = 999999999999\<rparr> =
      (QUOTE @ replicate 59 120) @ ?amount @ (QUOTE @ ?after)"
    by (simp add: concept_body_eq Let_def QUOTE_def fit_def A_ACUTE_def AMOUNT_SLOT_def)
  then show ?thesis
    using len by (simp add: EXPENSE_NOTIFICATION_RULES_def mk_expense_notification_def QUOTE_def A_ACUTE_def)
qed

lemma created_body_misplaces_the_amount:
  "xn_body (hd EXPENSE_NOTIFICATION_RULES) \<lparr>en_concept = js ''{amount}'', en_amount = 150\<rparr> =
     QUOTE @ js ''$1,50'' @ QUOTE @ js '' por {amount} espera tu aprobaci'' @ O_ACUTE @ js ''n.''"
proof -
  have "formatExpenseAmount 150 = js ''$1,50''"
    by (simp add: formatExpenseAmount_def decimal.simps digit_def pad_start_def)
  then show ?thesis
    by (simp add: EXPENSE_NOTIFICATION_RULES_def mk_expense_notification_def concept_body_eq
        Let_def QUOTE_def O_ACUTE_def AMOUNT_SLOT_def fit_def)
qed

section \<open>Witnesses of the fan-out\<close>

definition ex_created_event :: outbox_row where
  "ex_created_event = \<lparr>ob_id = ''xx'', ob_aggregateType = Agg_expense, ob_aggregateId = ''x'',
     ob_bondId = ''b'', ob_eventType = ''expense.created'', ob_aggregateVersion = 1,
     ob_payload = [(''actor'', JObj [(''type'', jstr ''user''), (''id'', jstr ''u1'')]),
                   (''status'', jstr ''pending'')],
     ob_createdAt = 0, ob_dispatchedAt = None\<rparr>"

lemma ex_created_event_is_the_outbox: "db_outbox ex_exp_db = [ex_created_event]"
  by (simp add: ex_create_expense(2) emitExpenseEvent_def outbox_insert_def audit_record_def
      insertExpense_def ex_created_event_def ex_defs)

lemma ex_created_actor: "actorIdOf ex_created_event = Some ''u1''"
  using ascii_js [of "''u1''"] by (simp add: actorIdOf_def ex_created_event_def)

theorem created_expense_notifies_its_approver_witness:
  "\<exists>p us. expense_fan_out ex_created_event ex_exp_db = Some (p, us) \<and> ''u2'' \<in> set us"
proof -
  have "counterpartOf ex_exp_db ''b'' ''u1'' = Some ''u2''"
    by (simp add: counterpartOf_def selectCounterpartId_def findActiveMemberIds_def ex_exp_rows ex_defs)
  then show ?thesis
    using created_expense_notifies_its_approver
      [of ex_exp_db ex_created_event ex_expense "hasDocument ex_exp_db ''x''" "''u2''"] ex_created_actor
    by (simp add: findAliveById_def ex_exp_rows is_alive_def ex_created_event_def)
qed


section \<open>The read routes\<close>


end
