(* ===== verification/Accounts.thy ===== *)
theory Accounts
  imports Bonds
begin

text \<open>Accounts (\<open>auth/auth.service.ts\<close>, the users of \<open>admin/admin.service.ts\<close>, the mapping of the
  token and the guard of roles). An address is an ASCII text; names and passwords are UTF-16
  texts. The hash of passwords (bcrypt) and the signature of tokens are parameters. An account is
  two rows written one after the other, without a transaction: the user, whose address is unique,
  and the personal data, whose names are \<open>varchar(100)\<close>. A request checks the address on \<open>d0\<close> and
  writes on \<open>d\<close>.\<close>

section \<open>Normalisation of the input\<close>

definition trim_text :: "string \<Rightarrow> string" where
  "trim_text s =
     (let space = (\<lambda>c. is_js_space (word_of_nat (of_char c))) in
      rev (dropWhile space (rev (dropWhile space s))))"

definition normalizedEmail :: "string \<Rightarrow> string" where
  "normalizedEmail value0 = to_lower (trim_text value0)"

definition trimmedPassword :: "utf16 \<Rightarrow> utf16" where
  "trimmedPassword value0 = js_trim value0"

record register_dto =
  rg_email :: string
  rg_password :: utf16
  rg_firstName :: utf16
  rg_lastName :: utf16

record login_dto =
  lg_email :: string
  lg_password :: utf16

text \<open>The transformations of \<open>auth.dto.ts\<close>, applied before the service sees the body.\<close>

definition transform_register :: "register_dto \<Rightarrow> register_dto" where
  "transform_register dto = dto\<lparr>rg_email := normalizedEmail (rg_email dto),
     rg_password := trimmedPassword (rg_password dto)\<rparr>"

definition transform_login :: "login_dto \<Rightarrow> login_dto" where
  "transform_login dto = dto\<lparr>lg_email := normalizedEmail (lg_email dto),
     lg_password := trimmedPassword (lg_password dto)\<rparr>"

section \<open>Rows\<close>

record passwords =
  pw_hash :: "utf16 \<Rightarrow> string"
  pw_compare :: "utf16 \<Rightarrow> string \<Rightarrow> bool"

text \<open>Postgres counts characters: a pair of surrogates is one.\<close>

fun characters :: "utf16 \<Rightarrow> nat" where
  "characters [] = 0"
| "characters [u] = 1"
| "characters (u # v # us) =
     (if high_surrogate u \<and> low_surrogate v then Suc (characters us) else Suc (characters (v # us)))"

definition fits_varchar :: "nat \<Rightarrow> utf16 \<Rightarrow> bool" where
  "fits_varchar n s \<longleftrightarrow> characters s \<le> n \<and> 0 \<notin> set s"

definition findOneByEmail :: "db \<Rightarrow> string \<Rightarrow> user_row option" where
  "findOneByEmail d email = lookup_by user_email email (db_users d)"

definition findOneByUserId :: "db \<Rightarrow> uuid \<Rightarrow> personal_data_row option" where
  "findOneByUserId d userId = lookup_by pd_userId userId (db_personal d)"

definition insert_user :: "env \<Rightarrow> string \<Rightarrow> string \<Rightarrow> db \<Rightarrow> (user_row \<times> db) option" where
  "insert_user e email passwordHash d =
     (if findOneByEmail d email \<noteq> None \<or> 255 < length email then None
      else (let row = \<lparr>user_id = env_uuid e 0, user_email = email, user_passwordHash = passwordHash,
                  user_systemRole = Role_user, user_isActive = True, user_createdAt = env_dbnow e,
                  user_updatedAt = env_dbnow e\<rparr>
            in Some (row, d\<lparr>db_users := db_users d @ [row]\<rparr>)))"

definition insert_personal :: "env \<Rightarrow> uuid \<Rightarrow> utf16 \<Rightarrow> utf16 \<Rightarrow> db \<Rightarrow> db option" where
  "insert_personal e userId firstName lastName d =
     (if fits_varchar 100 firstName \<and> fits_varchar 100 lastName \<and> findOneByUserId d userId = None
      then Some (d\<lparr>db_personal := db_personal d @
        [\<lparr>pd_id = env_uuid e 1, pd_userId = userId, pd_firstName = firstName, pd_lastName = lastName,
          pd_phone = None, pd_avatarUrl = None, pd_dateOfBirth = None, pd_createdAt = env_dbnow e,
          pd_updatedAt = env_dbnow e\<rparr>]\<rparr>)
      else None)"

definition save_account ::
  "passwords \<Rightarrow> env \<Rightarrow> string \<Rightarrow> utf16 \<Rightarrow> utf16 \<Rightarrow> utf16 \<Rightarrow> db \<Rightarrow> user_row served" where
  "save_account pw e email password firstName lastName d =
     (case insert_user e email (pw_hash pw password) d of
        None \<Rightarrow> (Inl internal_error, d)
      | Some (u, d1) \<Rightarrow>
          (case insert_personal e (user_id u) firstName lastName d1 of
             None \<Rightarrow> (Inl internal_error, d1)
           | Some d2 \<Rightarrow> (Inr u, d2)))"

section \<open>Registration and login\<close>

record auth_response =
  ar_token :: string
  ar_id :: uuid
  ar_email :: string
  ar_systemRole :: string
  ar_firstName :: "utf16 option"
  ar_lastName :: "utf16 option"

record jwt_payload =
  jp_sub :: uuid
  jp_email :: string
  jp_systemRole :: string

definition buildAuthResponse :: "(jwt_payload \<Rightarrow> string) \<Rightarrow> db \<Rightarrow> user_row \<Rightarrow> auth_response" where
  "buildAuthResponse sign_token d u =
     (let role = system_role_string (user_systemRole u); personal = findOneByUserId d (user_id u) in
      \<lparr>ar_token = sign_token \<lparr>jp_sub = user_id u, jp_email = user_email u, jp_systemRole = role\<rparr>,
       ar_id = user_id u, ar_email = user_email u, ar_systemRole = role,
       ar_firstName = map_option pd_firstName personal,
       ar_lastName = map_option pd_lastName personal\<rparr>)"

definition unauthorizedException :: "string \<Rightarrow> http_error" where
  "unauthorizedException = plain_exception 401 ''Unauthorized''"

definition register ::
  "passwords \<Rightarrow> (jwt_payload \<Rightarrow> string) \<Rightarrow> env \<Rightarrow> register_dto \<Rightarrow> db \<Rightarrow> db \<Rightarrow> auth_response served" where
  "register pw sign_token e dto d0 d =
     (if findOneByEmail d0 (rg_email dto) \<noteq> None
      then (Inl (badRequestException ''Email already registered''), d)
      else (case save_account pw e (rg_email dto) (rg_password dto) (rg_firstName dto) (rg_lastName dto) d of
              (Inl err, d') \<Rightarrow> (Inl err, d')
            | (Inr u, d') \<Rightarrow> (Inr (buildAuthResponse sign_token d' u), d')))"

definition login ::
  "passwords \<Rightarrow> (jwt_payload \<Rightarrow> string) \<Rightarrow> login_dto \<Rightarrow> db \<Rightarrow> http_error + auth_response" where
  "login pw sign_token dto d =
     chain (some_or (findOneByEmail d (lg_email dto)) (unauthorizedException ''Invalid credentials'')) (\<lambda>u.
     chain (ensure (user_isActive u) (unauthorizedException ''Account is deactivated'')) (\<lambda>_.
     chain (ensure (pw_compare pw (lg_password dto) (user_passwordHash u))
              (unauthorizedException ''Invalid credentials'')) (\<lambda>_.
       Inr (buildAuthResponse sign_token d u))))"

section \<open>The user of a request\<close>

record auth_user =
  usr_id :: uuid
  usr_email :: string
  usr_systemRole :: string

definition toAuthUser :: "jwt_payload \<Rightarrow> auth_user" where
  "toAuthUser payload = \<lparr>usr_id = jp_sub payload, usr_email = jp_email payload,
     usr_systemRole = jp_systemRole payload\<rparr>"

definition canActivate :: "string list option \<Rightarrow> auth_user option \<Rightarrow> http_error + unit" where
  "canActivate requiredRoles user =
     (case requiredRoles of
        None \<Rightarrow> Inr ()
      | Some roles \<Rightarrow>
          if roles = [] then Inr ()
          else (case user of
                  None \<Rightarrow> Inl (forbiddenException ''No role information in token'')
                | Some u \<Rightarrow>
                    if usr_systemRole u = [] then Inl (forbiddenException ''No role information in token'')
                    else if usr_systemRole u \<in> set roles then Inr ()
                    else Inl (forbiddenException (''Role \"'' @ usr_systemRole u @
                           ''\" is not authorized. Required: '' @
                           concat (case roles of [] \<Rightarrow> [] | r # rs \<Rightarrow> r # map (\<lambda>s. '', '' @ s) rs)))))"

section \<open>Users of the administrator\<close>

record create_user_dto =
  cu_email :: string
  cu_password :: utf16
  cu_firstName :: utf16
  cu_lastName :: utf16

record admin_user_view =
  uv_id :: uuid
  uv_email :: string
  uv_systemRole :: system_role
  uv_firstName :: "utf16 option"
  uv_lastName :: "utf16 option"
  uv_isActive :: bool
  uv_createdAt :: instant

definition toAdminUserView :: "db \<Rightarrow> user_row \<Rightarrow> admin_user_view" where
  "toAdminUserView d u =
     \<lparr>uv_id = user_id u, uv_email = user_email u, uv_systemRole = user_systemRole u,
      uv_firstName = map_option pd_firstName (findOneByUserId d (user_id u)),
      uv_lastName = map_option pd_lastName (findOneByUserId d (user_id u)),
      uv_isActive = user_isActive u, uv_createdAt = user_createdAt u\<rparr>"

text \<open>Its body, unlike those of registration and login, is not transformed.\<close>

definition createUser :: "passwords \<Rightarrow> env \<Rightarrow> create_user_dto \<Rightarrow> db \<Rightarrow> db \<Rightarrow> admin_user_view served" where
  "createUser pw e dto d0 d =
     (if findOneByEmail d0 (cu_email dto) \<noteq> None
      then (Inl (conflictException (''Email \"'' @ cu_email dto @ ''\" is already registered'')), d)
      else (case save_account pw e (cu_email dto) (cu_password dto) (cu_firstName dto) (cu_lastName dto) d of
              (Inl err, d') \<Rightarrow> (Inl err, d')
            | (Inr u, d') \<Rightarrow>
                (Inr \<lparr>uv_id = user_id u, uv_email = user_email u, uv_systemRole = user_systemRole u,
                      uv_firstName = Some (cu_firstName dto), uv_lastName = Some (cu_lastName dto),
                      uv_isActive = user_isActive u, uv_createdAt = user_createdAt u\<rparr>, d')))"

definition findAllWithPersonalData :: "db \<Rightarrow> user_row list" where
  "findAllWithPersonalData d = rev (sort_key user_createdAt (rev (db_users d)))"

definition listUsers :: "db \<Rightarrow> admin_user_view list" where
  "listUsers d = map (toAdminUserView d) (findAllWithPersonalData d)"

definition user_not_found :: "uuid \<Rightarrow> http_error" where
  "user_not_found userId = notFoundException (''User '' @ userId @ '' not found'')"

text \<open>\<open>save\<close> writes what changed, and the time when anything did.\<close>

definition save_user :: "instant \<Rightarrow> bool \<Rightarrow> user_row \<Rightarrow> user_row" where
  "save_user at0 active u =
     (if user_isActive u = active then u else u\<lparr>user_isActive := active, user_updatedAt := at0\<rparr>)"

definition setUserActive :: "env \<Rightarrow> uuid \<Rightarrow> bool \<Rightarrow> db \<Rightarrow> admin_user_view served" where
  "setUserActive e userId active d =
     (case lookup_by user_id userId (db_users d) of
        None \<Rightarrow> (Inl (user_not_found userId), d)
      | Some u \<Rightarrow>
          (let d' = d\<lparr>db_users := update_by user_id userId (save_user (env_dbnow e) active) (db_users d)\<rparr>
           in (Inr (toAdminUserView d' (save_user (env_dbnow e) active u)), d')))"

end
