(* ===== verification/Js_Text.thy ===== *)
theory Js_Text
  imports Js_Values
begin

text \<open>Strings and numbers of the runtime that the webhook code computes with: \<open>split\<close> and
  \<open>join\<close> at a literal, digits in base 10 and 16, the numbers that \<open>Number\<close> makes of digits
  (a double is exact up to \<open>2^53\<close> and becomes infinite at \<open>2^1024 - 2^970\<close>), bytes, and the two
  alphabets of base64 (\<open>Buffer.toString('base64')\<close> and \<open>Buffer.from(s, 'base64')\<close>).\<close>

section \<open>Splitting and joining\<close>

fun push_front :: "'a \<Rightarrow> 'a list list \<Rightarrow> 'a list list" where
  "push_front x [] = [[x]]"
| "push_front x (p # ps) = (x # p) # ps"

fun split_at :: "'a \<Rightarrow> 'a list \<Rightarrow> 'a list list" where
  "split_at c [] = [[]]"
| "split_at c (x # xs) = (if x = c then [] # split_at c xs else push_front x (split_at c xs))"

text \<open>\<open>s.split('::')\<close>, leftmost matches first.\<close>

fun split_double :: "'a \<Rightarrow> 'a list \<Rightarrow> 'a list list" where
  "split_double c [] = [[]]"
| "split_double c [x] = [[x]]"
| "split_double c (x # y # xs) =
     (if x = c \<and> y = c then [] # split_double c xs else push_front x (split_double c (y # xs)))"

fun join :: "'a list \<Rightarrow> 'a list list \<Rightarrow> 'a list" where
  "join sep [] = []"
| "join sep [p] = p"
| "join sep (p # q # ps) = p @ sep @ join sep (q # ps)"

lemma split_at_ne [simp]: "split_at c xs \<noteq> []"
  by (cases xs; cases "split_at c (tl xs)") auto

lemma push_front_ne [simp]: "push_front x ps \<noteq> []"
  by (cases ps) auto

lemma split_double_ne [simp]: "split_double c xs \<noteq> []"
  by (induction c xs rule: split_double.induct) auto

lemma split_at_plain: "c \<notin> set p \<Longrightarrow> split_at c p = [p]"
  by (induction p) auto

lemma split_at_append:
  "c \<notin> set p \<Longrightarrow> split_at c (p @ c # xs) = p # split_at c xs"
  by (induction p) auto

lemma push_front_append: "ps \<noteq> [] \<Longrightarrow> push_front x (ps @ qs) = push_front x ps @ qs"
  by (cases ps) auto

lemma split_at_cut: "split_at c (us @ c # vs) = split_at c us @ split_at c vs"
  by (induction us) (simp_all add: push_front_append)

lemma split_join: "ps \<noteq> [] \<Longrightarrow> \<forall>p \<in> set ps. c \<notin> set p \<Longrightarrow> split_at c (join [c] ps) = ps"
  by (induction "[c]" ps rule: join.induct) (auto simp: split_at_plain split_at_append)

lemma split_at_parts: "p \<in> set (split_at c xs) \<Longrightarrow> c \<notin> set p"
proof (induction xs arbitrary: p)
  case (Cons x xs)
  then show ?case
    by (cases "split_at c xs") (auto split: if_splits)
qed simp

lemma split_double_plain:
  assumes "\<And>us vs. xs \<noteq> us @ c # c # vs"
  shows "split_double c xs = [xs]"
  using assms
proof (induction c xs rule: split_double.induct)
  case (3 c x y xs)
  have "\<not> (x = c \<and> y = c)"
    using "3.prems" [of "[]" xs] by auto
  moreover have "split_double c (y # xs) = [y # xs]"
    by (rule "3.IH") (use calculation "3.prems" [of "x # us" vs for us vs] in auto)
  ultimately show ?case
    by auto
qed auto

text \<open>Cutting at the double separator: the part before must not hold it, nor end in half of it.\<close>

definition no_double :: "'a \<Rightarrow> 'a list \<Rightarrow> bool" where
  "no_double c p \<longleftrightarrow> [] \<notin> set (split_at c p)"

lemma no_double_cut: "no_double c p \<Longrightarrow> p \<noteq> us @ c # c # vs"
  by (auto simp: no_double_def split_at_cut)

lemma split_double_cut:
  "p = [] \<or> no_double c p \<Longrightarrow> split_double c (p @ c # c # v) = p # split_double c v"
proof (induction p rule: induct_list012)
  case (2 x)
  then show ?case by (auto simp: no_double_def)
next
  case (3 x y p)
  have "x \<noteq> c" and "[] \<notin> set (push_front x (split_at c (y # p)))"
    using 3 by (auto simp: no_double_def split: if_splits)
  then show ?case
  proof (cases "y = c")
    case False
    then have "no_double c (y # p)"
      using \<open>[] \<notin> set (push_front x (split_at c (y # p)))\<close>
      by (cases "split_at c p") (auto simp: no_double_def)
    then show ?thesis
      using 3 \<open>x \<noteq> c\<close> by simp
  next
    case True
    then have "no_double c p"
      using \<open>[] \<notin> set (push_front x (split_at c (y # p)))\<close> by (auto simp: no_double_def)
    then have "split_double c (p @ c # c # v) = p # split_double c v" and "p \<noteq> []"
      using 3 by (auto simp: no_double_def)
    moreover have "hd p \<noteq> c"
      using \<open>no_double c p\<close> \<open>p \<noteq> []\<close> by (cases p) (auto simp: no_double_def)
    ultimately show ?thesis
      using \<open>x \<noteq> c\<close> True by (cases p) auto
  qed
qed simp

lemma split_double_none: "p = [] \<or> no_double c p \<Longrightarrow> split_double c p = [p]"
  by (auto intro!: split_double_plain dest: no_double_cut)

definition dquoted :: "string \<Rightarrow> string" where
  "dquoted s = CHR 0x22 # s @ [CHR 0x22]"

section \<open>Digits\<close>

definition is_decimal :: "char \<Rightarrow> bool" where
  "is_decimal c = (let n = of_char c :: nat in 48 \<le> n \<and> n \<le> 57)"

definition all_digits :: "string \<Rightarrow> bool" where
  "all_digits s = (s \<noteq> [] \<and> list_all is_decimal s)"

definition hex_value :: "char \<Rightarrow> nat option" where
  "hex_value c =
     (let n = of_char c in
      if 48 \<le> n \<and> n \<le> 57 then Some (n - 48)
      else if 97 \<le> n \<and> n \<le> 102 then Some (n - 87)
      else if 65 \<le> n \<and> n \<le> 70 then Some (n - 55) else None)"

definition hex_digit :: "nat \<Rightarrow> char" where
  "hex_digit d = char_of (if d < 10 then 48 + d else 87 + d)"

definition parse_hex :: "string \<Rightarrow> nat" where
  "parse_hex s = fold (\<lambda>c n. 16 * n + the (hex_value c)) s 0"

text \<open>Decoding a digit needs only its number.\<close>

lemma hex_value_digit [simp]: "d < 16 \<Longrightarrow> hex_value (hex_digit d) = Some d"
  by (auto simp: hex_value_def hex_digit_def Let_def)

lemma of_char_hex_digit: "d < 16 \<Longrightarrow> of_char (hex_digit d) = (if d < 10 then 48 + d else 87 + d)"
  by (simp add: hex_digit_def)

section \<open>Numbers\<close>

datatype js_number = Finite int | Infinite

definition NUMBER_OVERFLOW :: int where
  "NUMBER_OVERFLOW = 2 ^ 1024 - 2 ^ 970"

definition js_number :: "int \<Rightarrow> js_number" where
  "js_number n = (if n < NUMBER_OVERFLOW then Finite n else Infinite)"

section \<open>Bytes and base64\<close>

type_synonym bytes = "8 word list"

text \<open>\<open>Buffer.from(s, 'utf8')\<close> of an ASCII string and its inverse.\<close>

definition bytes_of :: "string \<Rightarrow> bytes" where
  "bytes_of s = map (\<lambda>c. word_of_nat (of_char c)) s"

definition string_of :: "bytes \<Rightarrow> string" where
  "string_of bs = map (\<lambda>b. char_of (unat b)) bs"

definition base64_char :: "nat \<Rightarrow> char" where
  "base64_char d =
     char_of (if d < 26 then 65 + d else if d < 52 then 71 + d else if d < 62 then d - 4
              else if d = 62 then 43 else 47)"

definition base64_value :: "char \<Rightarrow> nat option" where
  "base64_value c =
     (let n = of_char c in
      if 65 \<le> n \<and> n \<le> 90 then Some (n - 65)
      else if 97 \<le> n \<and> n \<le> 122 then Some (n - 71)
      else if 48 \<le> n \<and> n \<le> 57 then Some (n + 4)
      else if n = 43 \<or> n = 45 then Some 62
      else if n = 47 \<or> n = 95 then Some 63 else None)"

fun base64 :: "bytes \<Rightarrow> string" where
  "base64 [] = []"
| "base64 [a] =
     (let n = unat a in [base64_char (n div 4), base64_char (n mod 4 * 16), CHR ''='', CHR ''=''])"
| "base64 [a, b] =
     (let m = unat a; n = unat b in
      [base64_char (m div 4), base64_char (m mod 4 * 16 + n div 16), base64_char (n mod 16 * 4),
       CHR ''=''])"
| "base64 (a # b # c # bs) =
     (let m = unat a; n = unat b; k = unat c in
      base64_char (m div 4) # base64_char (m mod 4 * 16 + n div 16)
      # base64_char (n mod 16 * 4 + k div 64) # base64_char (k mod 64) # base64 bs)"

fun sextets :: "nat list \<Rightarrow> bytes" where
  "sextets (p # q # r # s # ds) =
     word_of_nat (p * 4 + q div 16) # word_of_nat (q mod 16 * 16 + r div 4)
     # word_of_nat (r mod 4 * 64 + s) # sextets ds"
| "sextets [p, q, r] = [word_of_nat (p * 4 + q div 16), word_of_nat (q mod 16 * 16 + r div 4)]"
| "sextets [p, q] = [word_of_nat (p * 4 + q div 16)]"
| "sextets [p] = []"
| "sextets [] = []"

text \<open>The decoder skips what is not in the alphabet (padding and white space included).\<close>

definition from_base64 :: "string \<Rightarrow> bytes" where
  "from_base64 s = sextets (map the (filter (\<lambda>v. v \<noteq> None) (map base64_value s)))"

section \<open>Facts\<close>

lemma base64_value_char [simp]: "d < 64 \<Longrightarrow> base64_value (base64_char d) = Some d"
  by (auto simp: base64_value_def base64_char_def Let_def)

lemma base64_value_pad [simp]: "base64_value (CHR ''='') = None"
  by (simp add: base64_value_def)

lemma unat_byte: "unat (b :: 8 word) < 256"
  using unsigned_less [of b] by simp

lemma byte_parts [simp]:
  fixes b :: "8 word"
  shows "unat b div 4 < 64" "unat b mod 4 * 16 < 64" "unat b div 64 < 4"
    "unat b div 16 < 16" "unat b mod 16 * 4 < 64" "unat b mod 64 < 64"
  using unat_byte [of b] by (simp_all add: div_less_iff_less_mult)

text \<open>Two adjacent sextets of three bytes: in range, and together they hold the bytes.\<close>

lemma sextet_bounds [simp]:
  fixes a b :: "8 word"
  shows "unat a mod 4 * 16 + unat b div 16 < 64" "unat a mod 16 * 4 + unat b div 64 < 64"
proof -
  have "unat a mod 4 \<le> 3" "unat a mod 16 \<le> 15" "unat b div 16 < 16" "unat b div 64 < 4"
    using mod_less_divisor [of 4 "unat a"] mod_less_divisor [of 16 "unat a"] byte_parts [of b]
    by linarith+
  then show "unat a mod 4 * 16 + unat b div 16 < 64" "unat a mod 16 * 4 + unat b div 64 < 64"
    by linarith+
qed

lemma sextet_bytes [simp]:
  fixes a b c :: "8 word"
  shows "word_of_nat (unat a div 4 * 4 + (unat a mod 4 * 16 + unat b div 16) div 16) = a"
    "word_of_nat (unat a div 4 * 4 + (unat a mod 4 * 16) div 16) = a"
    "word_of_nat ((unat a mod 4 * 16 + unat b div 16) mod 16 * 16 +
       (unat b mod 16 * 4 + unat c div 64) div 4) = b"
    "word_of_nat ((unat a mod 4 * 16 + unat b div 16) mod 16 * 16 + (unat b mod 16 * 4) div 4) = b"
    "word_of_nat ((unat b mod 16 * 4 + unat c div 64) mod 4 * 64 + unat c mod 64) = c"
  by (simp_all add: mult.commute [of _ "16 :: nat"] mult.commute [of _ "4 :: nat"]
      mult.commute [of _ "64 :: nat"] div_mult_mod_eq)

lemma from_base64_base64 [simp]: "from_base64 (base64 bs) = bs"
proof (induction bs rule: base64.induct)
  case (4 a b c bs)
  then show ?case
    by (simp add: Let_def from_base64_def)
qed (simp_all add: Let_def from_base64_def)

end
