(* ===== verification/Webhook_Secrets.thy ===== *)
theory Webhook_Secrets
  imports Js_Text Entities
begin

text \<open>The signing secrets of the webhooks: their encryption at rest
  (\<open>webhooks/delivery/secret-cipher.service.ts\<close>), the signature headers
  (\<open>webhooks/delivery/signing.service.ts\<close>) and the secrets in force during a rotation
  (\<open>signingSecretsFor\<close> of \<open>delivery.service.ts\<close>). AES-256-GCM, HMAC-SHA256 and the random
  generator of \<open>node:crypto\<close> are the record \<open>crypto\<close>; what the code relies on of them is
  \<open>gcm_law\<close>. Secrets are ASCII.\<close>

record crypto =
  cy_encrypt :: "bytes \<Rightarrow> bytes \<Rightarrow> bytes \<Rightarrow> bytes \<times> bytes"
  cy_decrypt :: "bytes \<Rightarrow> bytes \<Rightarrow> bytes \<Rightarrow> bytes \<Rightarrow> bytes option"
  cy_hmac :: "bytes \<Rightarrow> bytes \<Rightarrow> bytes"
  cy_random :: "nat \<Rightarrow> nat \<Rightarrow> bytes"

text \<open>Decryption with the key, the nonce and the tag of an encryption gives the plain text back.\<close>

definition gcm_law :: "crypto \<Rightarrow> bool" where
  "gcm_law cy \<longleftrightarrow> (\<forall>key iv pt. case cy_encrypt cy key iv pt of
     (ct, tag) \<Rightarrow> cy_decrypt cy key iv tag ct = Some pt)"

definition WEBHOOK_SECRET_PREFIX :: string where
  "WEBHOOK_SECRET_PREFIX = ''whsec_''"

definition WEBHOOK_USER_AGENT :: string where
  "WEBHOOK_USER_AGENT = ''CoparentAgenda-Webhooks/1.0''"

section \<open>The cipher\<close>

definition FORMAT_VERSION :: string where
  "FORMAT_VERSION = ''v1''"

definition IV_BYTES :: nat where
  "IV_BYTES = 12"

definition KEY_BYTES :: nat where
  "KEY_BYTES = 32"

definition SECRET_BYTES :: nat where
  "SECRET_BYTES = 32"

text \<open>\<open>n\<close> numbers the calls of the random generator.\<close>

definition generateSecret :: "crypto \<Rightarrow> nat \<Rightarrow> string" where
  "generateSecret cy n = WEBHOOK_SECRET_PREFIX @ base64 (cy_random cy n SECRET_BYTES)"

definition NO_MASTER_KEY :: utf16 where
  "NO_MASTER_KEY = js ''WEBHOOK_SECRET_MASTER_KEY is not configured '' @ [0x2014] @
     js '' cannot encrypt/decrypt webhook secrets''"

definition getKey :: "string option \<Rightarrow> utf16 + bytes" where
  "getKey masterKey =
     (case masterKey of
        None \<Rightarrow> Inl NO_MASTER_KEY
      | Some m \<Rightarrow>
          if m = [] then Inl NO_MASTER_KEY
          else
            (let key = from_base64 m in
             if length key \<noteq> KEY_BYTES
             then Inl (js (''WEBHOOK_SECRET_MASTER_KEY must be base64-encoded 32 bytes (got ''
                    @ decimal (length key) @ '' bytes)''))
             else Inr key))"

definition encrypt :: "crypto \<Rightarrow> nat \<Rightarrow> string option \<Rightarrow> string \<Rightarrow> utf16 + string" where
  "encrypt cy n masterKey plaintext =
     chain (getKey masterKey) (\<lambda>key.
       (let iv = cy_random cy n IV_BYTES; (ciphertext, tag) = cy_encrypt cy key iv (bytes_of plaintext)
        in Inr (join '':'' [FORMAT_VERSION, base64 iv, base64 tag, base64 ciphertext])))"

definition decrypt :: "crypto \<Rightarrow> string option \<Rightarrow> string \<Rightarrow> utf16 + string" where
  "decrypt cy masterKey stored =
     chain (getKey masterKey) (\<lambda>key.
       (case split_at (CHR '':'') stored of
          [version, ivB64, tagB64, ciphertextB64] \<Rightarrow>
            if version \<noteq> FORMAT_VERSION
            then Inl (js (''Unsupported encrypted secret format version: '' @ dquoted version))
            else
              (case cy_decrypt cy key (from_base64 ivB64) (from_base64 tagB64)
                      (from_base64 ciphertextB64) of
                 None \<Rightarrow> Inl (js ''Unsupported state or unable to authenticate data'')
               | Some plaintext \<Rightarrow> Inr (string_of plaintext))
        | _ \<Rightarrow> Inl (js ''Malformed encrypted secret: expected 4 colon-separated parts'')))"

section \<open>Signatures\<close>

definition WEBHOOK_SIGNATURE_VERSION :: string where
  "WEBHOOK_SIGNATURE_VERSION = ''v1''"

definition starts_with :: "string \<Rightarrow> string \<Rightarrow> bool" where
  "starts_with p s = (take (length p) s = p)"

definition decodeSigningSecret :: "string \<Rightarrow> bytes" where
  "decodeSigningSecret secret =
     from_base64 (if starts_with WEBHOOK_SECRET_PREFIX secret
       then drop (length WEBHOOK_SECRET_PREFIX) secret else secret)"

definition int_text :: "int \<Rightarrow> string" where
  "int_text n = (if n < 0 then CHR ''-'' # decimal (nat (- n)) else decimal (nat n))"

definition signed_content :: "string \<Rightarrow> int \<Rightarrow> bytes \<Rightarrow> bytes" where
  "signed_content msgId timestamp rawBody =
     bytes_of (msgId @ ''.'' @ int_text timestamp @ ''.'') @ rawBody"

definition hmacBase64 :: "crypto \<Rightarrow> bytes \<Rightarrow> string \<Rightarrow> string" where
  "hmacBase64 cy signedContent secret =
     base64 (cy_hmac cy (decodeSigningSecret secret) signedContent)"

definition sign :: "crypto \<Rightarrow> string \<Rightarrow> int \<Rightarrow> bytes \<Rightarrow> string list \<Rightarrow> utf16 + string" where
  "sign cy msgId timestamp rawBody secrets =
     (if length secrets = 0 then Inl (js ''At least one signing secret is required'')
      else Inr (join '' '' (map (\<lambda>secret. WEBHOOK_SIGNATURE_VERSION @ '','' @
             hmacBase64 cy (signed_content msgId timestamp rawBody) secret) secrets)))"

definition buildSignatureHeaders ::
  "crypto \<Rightarrow> string \<Rightarrow> int \<Rightarrow> bytes \<Rightarrow> string list \<Rightarrow> utf16 + (string \<times> string) list" where
  "buildSignatureHeaders cy msgId timestamp rawBody secrets =
     chain (sign cy msgId timestamp rawBody secrets) (\<lambda>signature.
       Inr [(''webhook-id'', msgId), (''webhook-timestamp'', int_text timestamp),
            (''webhook-signature'', signature), (''user-agent'', WEBHOOK_USER_AGENT)])"

section \<open>Rotation\<close>

definition signingSecretsFor :: "subscription_row \<Rightarrow> instant \<Rightarrow> string list" where
  "signingSecretsFor s now =
     (case (sub_secretPrevEncrypted s, sub_secretPrevExpiresAt s) of
        (Some previous, Some expiresAt) \<Rightarrow> if expiresAt > now then [previous] else []
      | _ \<Rightarrow> []) @ [sub_secretEncrypted s]"

text \<open>\<open>secrets.map((secret) => cipher.decrypt(secret))\<close>: the first failure is the failure.\<close>

fun decrypt_all :: "crypto \<Rightarrow> string option \<Rightarrow> string list \<Rightarrow> utf16 + string list" where
  "decrypt_all cy masterKey [] = Inr []"
| "decrypt_all cy masterKey (s # ss) =
     chain (decrypt cy masterKey s) (\<lambda>p. chain (decrypt_all cy masterKey ss) (\<lambda>ps. Inr (p # ps)))"

section \<open>Facts\<close>

lemma string_of_bytes_of [simp]: "string_of (bytes_of s) = s"
proof -
  have "unat (word_of_nat (of_char c) :: 8 word) = of_char c" for c :: char
    by (simp add: unat_of_nat)
  then show ?thesis
    by (simp add: string_of_def bytes_of_def comp_def)
qed

text \<open>What base64 writes: letters, digits, plus, slash and the padding.\<close>

definition base64_alphabet :: "char \<Rightarrow> bool" where
  "base64_alphabet c \<longleftrightarrow> c = CHR ''='' \<or> base64_value c \<noteq> None"

lemma base64_alphabet_char: "d < 64 \<Longrightarrow> base64_alphabet (base64_char d)"
  by (simp add: base64_alphabet_def)

lemma base64_chars: "list_all base64_alphabet (base64 bs)"
proof (induction bs rule: base64.induct)
  case (4 a b c bs)
  then show ?case
    by (simp add: Let_def base64_alphabet_char)
qed (simp_all add: Let_def base64_alphabet_char, simp_all add: base64_alphabet_def)

lemma base64_no_separator:
  "CHR '':'' \<notin> set (base64 bs)" "CHR '' '' \<notin> set (base64 bs)" "CHR '','' \<notin> set (base64 bs)"
  using base64_chars [of bs] unfolding list_all_iff
  by (auto simp: base64_alphabet_def base64_value_def dest!: bspec)

lemma decrypt_encrypt:
  assumes "gcm_law cy" and "encrypt cy n masterKey plaintext = Inr stored"
  shows "decrypt cy masterKey stored = Inr plaintext"
proof -
  obtain key where key: "getKey masterKey = Inr key"
    using assms(2) by (auto simp: encrypt_def chain_simps)
  obtain ct tag where enc:
    "cy_encrypt cy key (cy_random cy n IV_BYTES) (bytes_of plaintext) = (ct, tag)"
    by (cases "cy_encrypt cy key (cy_random cy n IV_BYTES) (bytes_of plaintext)")
  have stored: "stored = join '':'' [FORMAT_VERSION, base64 (cy_random cy n IV_BYTES), base64 tag, base64 ct]"
    using assms(2) by (simp add: encrypt_def key enc)
  have "split_at (CHR '':'') stored =
      [FORMAT_VERSION, base64 (cy_random cy n IV_BYTES), base64 tag, base64 ct]"
    unfolding stored by (rule split_join) (auto simp: base64_no_separator FORMAT_VERSION_def)
  moreover have "cy_decrypt cy key (cy_random cy n IV_BYTES) tag ct = Some (bytes_of plaintext)"
    using assms(1) enc unfolding gcm_law_def by (auto split: prod.splits)
  ultimately show ?thesis
    by (simp add: decrypt_def key)
qed

lemma encrypt_defined: "getKey masterKey = Inr key \<Longrightarrow> \<exists>stored. encrypt cy n masterKey p = Inr stored"
  by (simp add: encrypt_def Let_def split: prod.split)

lemma decode_generated [simp]:
  "decodeSigningSecret (generateSecret cy n) = cy_random cy n SECRET_BYTES"
  by (simp add: decodeSigningSecret_def generateSecret_def starts_with_def)

text \<open>The signatures of the header are separated by spaces, one per secret and in their order.\<close>

lemma signature_parts:
  assumes "sign cy i t body secrets = Inr signature"
  shows "split_at (CHR '' '') signature =
    map (\<lambda>secret. ''v1,'' @ base64 (cy_hmac cy (decodeSigningSecret secret) (signed_content i t body)))
      secrets"
proof -
  let ?f = "\<lambda>secret. ''v1,'' @ base64 (cy_hmac cy (decodeSigningSecret secret) (signed_content i t body))"
  have "secrets \<noteq> []" "signature = join '' '' (map ?f secrets)"
    using assms by (auto simp: sign_def hmacBase64_def WEBHOOK_SIGNATURE_VERSION_def split: if_splits)
  then show ?thesis
    by (auto simp: base64_no_separator intro!: split_join)
qed

end
