(* ===== verification/Ssrf_Addresses.thy ===== *)
theory Ssrf_Addresses
  imports Js_Text
begin

unbundle bit_operations_syntax

text \<open>The address filter of the webhook client (\<open>webhooks/delivery/ssrf-http.client.ts\<close>):
  \<open>isBlockedIp\<close>, \<open>isBlockedIpv4\<close>, \<open>expandIpv6\<close>, and \<open>isIP\<close> of \<open>node:net\<close>, the grammar of
  textual addresses that decides which branch runs. The reference at the end is the list of
  CIDR blocks over 32 and 128 bit addresses; the filter is proved to be exactly that list.\<close>

section \<open>\<open>isIP\<close>\<close>

definition dec_octet :: "string \<Rightarrow> bool" where
  "dec_octet s \<longleftrightarrow> all_digits s \<and> (hd s = CHR ''0'' \<longrightarrow> length s = 1) \<and> length s \<le> 3 \<and>
     undecimal s \<le> 255"

definition is_ipv4 :: "string \<Rightarrow> bool" where
  "is_ipv4 s \<longleftrightarrow> length (split_at (CHR ''.'') s) = 4 \<and> list_all dec_octet (split_at (CHR ''.'') s)"

definition hex_group :: "string \<Rightarrow> bool" where
  "hex_group s \<longleftrightarrow> 1 \<le> length s \<and> length s \<le> 4 \<and> list_all (\<lambda>c. hex_value c \<noteq> None) s"

text \<open>The number of 16-bit groups a section of colon-separated groups stands for; a dotted quad
  counts for two and may only be the last group of the address.\<close>

fun group_count :: "bool \<Rightarrow> string list \<Rightarrow> nat option" where
  "group_count v4 [] = Some 0"
| "group_count v4 [g] = (if hex_group g then Some 1 else if v4 \<and> is_ipv4 g then Some 2 else None)"
| "group_count v4 (g # h # gs) =
     (if hex_group g then map_option Suc (group_count v4 (h # gs)) else None)"

definition section_count :: "bool \<Rightarrow> string \<Rightarrow> nat option" where
  "section_count v4 s = (if s = [] then Some 0 else group_count v4 (split_at (CHR '':'') s))"

definition zone_char :: "char \<Rightarrow> bool" where
  "zone_char c = (let n = of_char c :: nat in
     (48 \<le> n \<and> n \<le> 57) \<or> (65 \<le> n \<and> n \<le> 90) \<or> (97 \<le> n \<and> n \<le> 122) \<or> n = 45 \<or> n = 46 \<or> n = 58)"

definition without_zone :: "string \<Rightarrow> string" where
  "without_zone s = takeWhile (\<lambda>c. c \<noteq> CHR ''%'') s"

definition zone_ok :: "string \<Rightarrow> bool" where
  "zone_ok s = (case dropWhile (\<lambda>c. c \<noteq> CHR ''%'') s of
     [] \<Rightarrow> True | _ # zone \<Rightarrow> zone \<noteq> [] \<and> list_all zone_char zone)"

definition is_ipv6 :: "string \<Rightarrow> bool" where
  "is_ipv6 s \<longleftrightarrow> zone_ok s \<and>
     (case split_double (CHR '':'') (without_zone s) of
        [h] \<Rightarrow> section_count True h = Some 8
      | [h, t] \<Rightarrow> (case (section_count False h, section_count True t) of
          (Some m, Some n) \<Rightarrow> m + n \<le> 7 | _ \<Rightarrow> False)
      | _ \<Rightarrow> False)"

definition isIP :: "string \<Rightarrow> nat" where
  "isIP s = (if is_ipv4 s then 4 else if is_ipv6 s then 6 else 0)"

section \<open>The filter\<close>

fun isBlockedIpv4 :: "nat list \<Rightarrow> bool" where
  "isBlockedIpv4 (a # b # c # rest) =
     (if a = 0 then True
      else if a = 10 then True
      else if a = 100 \<and> b \<ge> 64 \<and> b \<le> 127 then True
      else if a = 127 then True
      else if a = 169 \<and> b = 254 then True
      else if a = 172 \<and> b \<ge> 16 \<and> b \<le> 31 then True
      else if a = 192 \<and> b = 0 \<and> c = 0 then True
      else if a = 192 \<and> b = 168 then True
      else if a = 198 \<and> (b = 18 \<or> b = 19) then True
      else if a \<ge> 224 then True
      else False)"
| "isBlockedIpv4 _ = False"

text \<open>\<open>Number(octet)\<close> is only reached for a dotted quad that \<open>isIP\<close> has accepted, so for digits.\<close>

definition octet_value :: "string \<Rightarrow> nat option" where
  "octet_value s = (if all_digits s \<and> undecimal s \<le> 255 then Some (undecimal s) else None)"

definition parse_group :: "string \<Rightarrow> 16 word list option" where
  "parse_group g =
     (if CHR ''.'' \<in> set g
      then (case map octet_value (split_at (CHR ''.'') g) of
              [Some a, Some b, Some c, Some d] \<Rightarrow>
                Some [push_bit 8 (word_of_nat a) OR word_of_nat b,
                      push_bit 8 (word_of_nat c) OR word_of_nat d]
            | _ \<Rightarrow> None)
      else if hex_group g then Some [word_of_nat (parse_hex g)] else None)"

fun parse_group_list :: "string list \<Rightarrow> 16 word list option" where
  "parse_group_list [] = Some []"
| "parse_group_list (g # gs) =
     (case parse_group g of None \<Rightarrow> None
      | Some ws \<Rightarrow> map_option (\<lambda>rest. ws @ rest) (parse_group_list gs))"

definition parseGroups :: "string \<Rightarrow> 16 word list option" where
  "parseGroups s = (if s = [] then Some [] else parse_group_list (split_at (CHR '':'') s))"

definition expandIpv6 :: "string \<Rightarrow> 16 word list option" where
  "expandIpv6 ip =
     (case split_double (CHR '':'') (without_zone ip) of
        [h] \<Rightarrow> (case parseGroups h of
            Some head \<Rightarrow> if length head = 8 then Some head else None | None \<Rightarrow> None)
      | [h, t] \<Rightarrow> (case (parseGroups h, parseGroups t) of
            (Some head, Some tail) \<Rightarrow>
              if length head + length tail \<le> 8
              then Some (head @ replicate (8 - length head - length tail) 0 @ tail) else None
          | _ \<Rightarrow> None)
      | _ \<Rightarrow> None)"

definition isBlockedGroups :: "16 word list \<Rightarrow> bool" where
  "isBlockedGroups groups =
     (if list_all (\<lambda>g. g = 0) (take 5 groups) \<and> groups ! 5 = 0xffff
      then isBlockedIpv4 [unat (drop_bit 8 (groups ! 6)), unat (groups ! 6 AND 0xff),
             unat (drop_bit 8 (groups ! 7)), unat (groups ! 7 AND 0xff)]
      else if list_all (\<lambda>g. g = 0) groups then True
      else if list_all (\<lambda>g. g = 0) (take 7 groups) \<and> groups ! 7 = 1 then True
      else if groups ! 0 AND 0xfe00 = 0xfc00 then True
      else if groups ! 0 AND 0xffc0 = 0xfe80 then True
      else False)"

definition isBlockedIp :: "string \<Rightarrow> bool" where
  "isBlockedIp ip =
     (if isIP ip = 4 then isBlockedIpv4 (map undecimal (split_at (CHR ''.'') ip))
      else if isIP ip = 6 then
        (case expandIpv6 ip of None \<Rightarrow> True | Some groups \<Rightarrow> isBlockedGroups groups)
      else True)"

section \<open>Reference: blocks of addresses\<close>

text \<open>An address is the number of its bits, most significant first; a block is the set of the
  addresses that share the first \<open>len\<close> bits of its base.\<close>

definition in_block :: "nat \<Rightarrow> nat \<times> nat \<Rightarrow> nat \<Rightarrow> bool" where
  "in_block width block n =
     (case block of (base, len) \<Rightarrow> n div 2 ^ (width - len) = base div 2 ^ (width - len))"

fun quad :: "nat list \<Rightarrow> nat" where
  "quad [a, b, c, d] = ((a * 256 + b) * 256 + c) * 256 + d"
| "quad _ = 0"

definition groups_number :: "16 word list \<Rightarrow> nat" where
  "groups_number gs = fold (\<lambda>g n. n * 65536 + unat g) gs 0"

definition BLOCKED_V4 :: "(nat \<times> nat) list" where
  "BLOCKED_V4 =
     [(quad [0, 0, 0, 0], 8), (quad [10, 0, 0, 0], 8), (quad [100, 64, 0, 0], 10),
      (quad [127, 0, 0, 0], 8), (quad [169, 254, 0, 0], 16), (quad [172, 16, 0, 0], 12),
      (quad [192, 0, 0, 0], 24), (quad [192, 168, 0, 0], 16), (quad [198, 18, 0, 0], 15),
      (quad [224, 0, 0, 0], 4), (quad [240, 0, 0, 0], 4)]"

definition BLOCKED_V6 :: "(nat \<times> nat) list" where
  "BLOCKED_V6 =
     [(0, 128), (1, 128), (groups_number [0xfc00, 0, 0, 0, 0, 0, 0, 0], 7),
      (groups_number [0xfe80, 0, 0, 0, 0, 0, 0, 0], 10)]"

definition MAPPED_V4 :: "nat \<times> nat" where
  "MAPPED_V4 = (groups_number [0, 0, 0, 0, 0, 0xffff, 0, 0], 96)"

definition private_v4 :: "nat \<Rightarrow> bool" where
  "private_v4 n \<longleftrightarrow> list_ex (\<lambda>b. in_block 32 b n) BLOCKED_V4"

definition private_v6 :: "nat \<Rightarrow> bool" where
  "private_v6 n \<longleftrightarrow> list_ex (\<lambda>b. in_block 128 b n) BLOCKED_V6 \<or>
     (in_block 128 MAPPED_V4 n \<and> private_v4 (n mod 2 ^ 32))"

section \<open>The IPv4 filter is its list of blocks\<close>

lemma quad_prefix:
  assumes "b < 256" and "c < 256" and "d < 256"
  shows "quad [a, b, c, d] div 16777216 = a" and "quad [a, b, c, d] div 65536 = a * 256 + b"
    and "quad [a, b, c, d] div 256 = (a * 256 + b) * 256 + c"
proof -
  have step: "(x * 256 + y) div 256 = x" if "y < 256" for x y :: nat
    using that by simp
  show l1: "quad [a, b, c, d] div 256 = (a * 256 + b) * 256 + c"
    using step [OF assms(3)] by simp
  have "quad [a, b, c, d] div 65536 = quad [a, b, c, d] div 256 div 256"
    unfolding div_mult2_eq [symmetric] by simp
  then show l2: "quad [a, b, c, d] div 65536 = a * 256 + b"
    unfolding l1 step [OF assms(2)] .
  have "quad [a, b, c, d] div 16777216 = quad [a, b, c, d] div 65536 div 256"
    unfolding div_mult2_eq [symmetric] by simp
  then show "quad [a, b, c, d] div 16777216 = a"
    unfolding l2 step [OF assms(1)] .
qed

lemma BLOCKED_V4_numbers:
  "BLOCKED_V4 =
     [(0, 8), (167772160, 8), (1681915904, 10), (2130706432, 8), (2851995648, 16),
      (2886729728, 12), (3221225472, 24), (3232235520, 16), (3323068416, 15), (3758096384, 4),
      (4026531840, 4)]"
  by (simp add: BLOCKED_V4_def)

text \<open>The blocks whose length is not a multiple of eight cut the second octet.\<close>

lemma div_eq_range: "0 < k \<Longrightarrow> b div k = j \<longleftrightarrow> j * k \<le> b \<and> b < j * k + k" for b k j :: nat
  by (metis add.commute div_nat_eqI div_times_less_eq_dividend dividend_less_div_times mult.commute
      mult_Suc)

lemma cut_octet:
  fixes a b k m v :: nat
  assumes "b < 256" and "k * m = 256"
  shows "(a * 256 + b) div k = v \<longleftrightarrow>
    a = v div m \<and> (v mod m) * k \<le> b \<and> b < (v mod m) * k + k"
proof -
  have k: "0 < k" and m: "0 < m"
    using assms(2) by (auto intro: Nat.gr0I)
  have "(a * 256 + b) div k = (b + k * (a * m)) div k"
    using assms(2) by (simp add: algebra_simps)
  also have "\<dots> = a * m + b div k"
    using k by simp
  finally have "(a * 256 + b) div k = v \<longleftrightarrow> a * m + b div k = v"
    by simp
  moreover have "b div k < m"
    using assms k by (simp add: less_mult_imp_div_less mult.commute)
  then have "a * m + b div k = v \<longleftrightarrow> a = v div m \<and> b div k = v mod m"
    using m by (auto simp: div_mult_mod_eq)
  ultimately show ?thesis
    using k by (simp add: div_eq_range)
qed

lemma blocked_v4_iff:
  assumes "a < 256" and "b < 256" and "c < 256" and "d < 256"
  shows "isBlockedIpv4 [a, b, c, d] \<longleftrightarrow> private_v4 (quad [a, b, c, d])"
proof -
  let ?n = "quad [a, b, c, d]"
  note top = quad_prefix [OF assms(2-4), of a]
  have p10: "?n div 4194304 = (a * 256 + b) div 64"
    using div_mult2_eq [of ?n 65536 64] top(2) by simp
  have p12: "?n div 1048576 = (a * 256 + b) div 16"
    using div_mult2_eq [of ?n 65536 16] top(2) by simp
  have p15: "?n div 131072 = (a * 256 + b) div 2"
    using div_mult2_eq [of ?n 65536 2] top(2) by simp
  have p4: "?n div 268435456 = a div 16"
    using div_mult2_eq [of ?n 16777216 16] top(1) by simp
  have "private_v4 ?n \<longleftrightarrow> a = 0 \<or> a = 10 \<or> (a * 256 + b) div 64 = 401 \<or> a = 127 \<or>
      a * 256 + b = 43518 \<or> (a * 256 + b) div 16 = 2753 \<or> (a * 256 + b) * 256 + c = 12582912 \<or>
      a * 256 + b = 49320 \<or> (a * 256 + b) div 2 = 25353 \<or> a div 16 = 14 \<or> a div 16 = 15"
    unfolding private_v4_def BLOCKED_V4_numbers
    by (simp add: in_block_def top p10 p12 p15 p4 del: quad.simps)
  moreover have "(a * 256 + b) div 64 = 401 \<longleftrightarrow> a = 100 \<and> 64 \<le> b \<and> b \<le> 127"
    using cut_octet [OF assms(2), of 64 4] by auto
  moreover have "(a * 256 + b) div 16 = 2753 \<longleftrightarrow> a = 172 \<and> 16 \<le> b \<and> b \<le> 31"
    using cut_octet [OF assms(2), of 16 16] by auto
  moreover have "(a * 256 + b) div 2 = 25353 \<longleftrightarrow> a = 198 \<and> (b = 18 \<or> b = 19)"
    using cut_octet [OF assms(2), of 2 128] by auto
  moreover have "a * 256 + b = 43518 \<longleftrightarrow> a = 169 \<and> b = 254"
    "a * 256 + b = 49320 \<longleftrightarrow> a = 192 \<and> b = 168"
    using cut_octet [OF assms(2), of 1 256] by auto
  moreover have "(a * 256 + b) * 256 + c = 12582912 \<longleftrightarrow> a = 192 \<and> b = 0 \<and> c = 0"
    using cut_octet [OF assms(3), of 1 256 "a * 256 + b"] cut_octet [OF assms(2), of 1 256 a] by auto
  moreover have "a div 16 = 14 \<or> a div 16 = 15 \<longleftrightarrow> a \<ge> 224"
    using assms(1) by (auto simp: div_eq_range)
  ultimately show ?thesis
    by auto
qed

section \<open>The IPv6 filter is its list of blocks\<close>

lemma unat_shift: "unat (drop_bit k g) = unat g div 2 ^ k" for g :: "16 word"
  by (simp only: unat_drop_bit_eq) (rule drop_bit_eq_div)

lemma unat_group: "unat g < 65536" for g :: "16 word"
  by (rule less_le_trans [OF unsigned_less]) simp

lemma unat_shift_8: "unat (drop_bit 8 g) = unat g div 256" for g :: "16 word"
  using unat_shift [of 8 g] by simp

lemma unat_low_byte: "unat (g AND 0xff) = unat g mod 256" for g :: "16 word"
proof -
  have "g mod 256 = g AND 0xff"
    using take_bit_eq_mask [of 8 g] by (simp add: mask_eq_exp_minus_1 take_bit_eq_mod)
  then have "unat (g AND 0xff) = unat (g mod 256)"
    by simp
  then show ?thesis
    by (simp add: unat_mod)
qed

lemma and_high_mask:
  fixes g :: "16 word"
  shows "g AND NOT (mask k) = h AND NOT (mask k) \<longleftrightarrow> unat g div 2 ^ k = unat h div 2 ^ k"
proof -
  have "g AND NOT (mask k) = push_bit k (drop_bit k g)" for g :: "16 word"
    by (rule bit_word_eqI) (auto simp: bit_simps)
  moreover have "drop_bit k (push_bit k (drop_bit k g)) = drop_bit k g" for g :: "16 word"
    by (rule bit_word_eqI) (auto simp: bit_simps dest: bit_imp_le_length)
  then have "push_bit k (drop_bit k g) = push_bit k (drop_bit k h) \<longleftrightarrow> drop_bit k g = drop_bit k h"
    for g h :: "16 word"
    by metis
  ultimately show ?thesis
    by (simp add: word_unat_eq_iff [of "drop_bit k g"] unat_shift)
qed

lemma ula_mask: "g AND 0xfe00 = 0xfc00 \<longleftrightarrow> unat g div 512 = 126" for g :: "16 word"
proof -
  have "(0xfe00 :: 16 word) = NOT (mask 9)" "(0xfc00 :: 16 word) = 0xfc00 AND NOT (mask 9)"
    by code_simp+
  then show ?thesis
    using and_high_mask [where g = g and k = 9 and h = "0xfc00"] by simp
qed

lemma link_local_mask: "g AND 0xffc0 = 0xfe80 \<longleftrightarrow> unat g div 64 = 1018" for g :: "16 word"
proof -
  have "(0xffc0 :: 16 word) = NOT (mask 6)" "(0xfe80 :: 16 word) = 0xfe80 AND NOT (mask 6)"
    by code_simp+
  then show ?thesis
    using and_high_mask [where g = g and k = 6 and h = "0xfe80"] by simp
qed

text \<open>Prefixes of the number of a list of groups.\<close>

lemma groups_number_snoc [simp]: "groups_number (gs @ [g]) = groups_number gs * 65536 + unat g"
  by (simp add: groups_number_def)

lemma groups_number_Nil [simp]: "groups_number [] = 0"
  by (simp add: groups_number_def)

lemma groups_number_append_div:
  "groups_number (gs @ hs) div 65536 ^ length hs = groups_number gs"
proof (induction hs rule: rev_induct)
  case (snoc h hs)
  have "unat h < 65536"
    using unsigned_less [of h] by simp
  then have "groups_number (gs @ hs @ [h]) div 65536 = groups_number (gs @ hs)"
    using groups_number_snoc [of "gs @ hs" h] by simp
  then show ?case
    using snoc by (simp add: div_mult2_eq)
qed simp

lemma groups_number_append_mod:
  "groups_number (gs @ hs) mod 65536 ^ length hs = groups_number hs"
proof -
  have "groups_number (gs @ hs) = groups_number gs * 65536 ^ length hs + groups_number hs"
    by (induction hs rule: rev_induct)
      (simp_all add: algebra_simps flip: append_assoc)
  moreover have "groups_number hs < 65536 ^ length hs"
  proof (induction hs rule: rev_induct)
    case (snoc h hs)
    have "unat h < 65536"
      using unsigned_less [of h] by simp
    moreover have "Suc (groups_number hs) * 65536 \<le> 65536 ^ length hs * 65536"
      using snoc by (intro mult_le_mono) auto
    ultimately show ?case
      by simp
  qed simp
  ultimately show ?thesis
    by simp
qed

lemma groups_number_0_iff: "groups_number gs = 0 \<longleftrightarrow> list_all (\<lambda>g. g = 0) gs"
  by (induction gs rule: rev_induct) (auto simp: unsigned_eq_0_iff)

lemma groups_number_last_iff:
  assumes "m < 65536"
  shows "groups_number (gs @ [g]) = m \<longleftrightarrow> list_all (\<lambda>g. g = 0) gs \<and> unat g = m"
  using assms unsigned_less [of g] by (auto simp: groups_number_0_iff [symmetric])

lemma groups_bound: "groups_number gs < 65536 ^ length gs"
  using groups_number_append_mod [of "[]" gs] by (metis append_Nil mod_less_divisor zero_less_power
      zero_less_numeral)

lemma BLOCKED_V6_numbers:
  "BLOCKED_V6 = [(0, 128), (1, 128), (0xfc00 * 2 ^ 112, 7), (0xfe80 * 2 ^ 112, 10)]"
  by (simp add: BLOCKED_V6_def groups_number_def)

lemma MAPPED_V4_number: "MAPPED_V4 = (0xffff * 2 ^ 32, 96)"
  by (simp add: MAPPED_V4_def groups_number_def)

lemma blocked_v6_iff:
  assumes "length gs = 8"
  shows "isBlockedGroups gs \<longleftrightarrow> private_v6 (groups_number gs)"
proof -
  obtain a b c d e f g h where gs: "gs = [a, b, c, d, e, f, g, h]"
    using assms by (auto simp: length_Suc_conv numeral_eq_Suc)
  let ?n = "groups_number gs"
  have "?n div 65536 ^ 7 = unat a"
    using groups_number_append_div [of "[a]" "[b, c, d, e, f, g, h]"] gs
    by (simp add: groups_number_def)
  then have top: "?n div 2 ^ 112 = unat a"
    by (simp add: power_mult [of 2 16, simplified, symmetric])
  have "?n div 65536 ^ 2 = groups_number [a, b, c, d, e, f]" "?n mod 65536 ^ 2 = groups_number [g, h]"
    using groups_number_append_div [of "[a, b, c, d, e, f]" "[g, h]"]
      groups_number_append_mod [of "[a, b, c, d, e, f]" "[g, h]"] gs by simp_all
  then have low: "?n div 2 ^ 32 = groups_number [a, b, c, d, e, f]" "?n mod 2 ^ 32 = groups_number [g, h]"
    by simp_all
  have ula: "in_block 128 (0xfc00 * 2 ^ 112, 7) ?n \<longleftrightarrow> a AND 0xfe00 = 0xfc00"
    using div_mult2_eq [of ?n "2 ^ 112" 512] top by (simp add: in_block_def ula_mask)
  have ll: "in_block 128 (0xfe80 * 2 ^ 112, 10) ?n \<longleftrightarrow> a AND 0xffc0 = 0xfe80"
    using div_mult2_eq [of ?n "2 ^ 112" 64] top by (simp add: in_block_def link_local_mask)
  have mapped: "in_block 128 MAPPED_V4 ?n \<longleftrightarrow> list_all (\<lambda>g. g = 0) [a, b, c, d, e] \<and> f = 0xffff"
    using groups_number_last_iff [of "0xffff" "[a, b, c, d, e]" f] low(1)
    by (simp add: in_block_def MAPPED_V4_number word_unat_eq_iff)
  have zero: "?n = 0 \<longleftrightarrow> list_all (\<lambda>g. g = 0) gs"
    by (rule groups_number_0_iff)
  have one: "?n = 1 \<longleftrightarrow> list_all (\<lambda>g. g = 0) [a, b, c, d, e, f, g] \<and> h = 1"
    using groups_number_last_iff [of 1 "[a, b, c, d, e, f, g]" h] gs by (simp add: word_unat_eq_iff)
  have quad: "quad [unat g div 256, unat g mod 256, unat h div 256, unat h mod 256] = ?n mod 2 ^ 32"
    unfolding low(2) by (simp add: groups_number_def)
  have bytes: "unat g div 256 < 256" "unat h div 256 < 256"
    using unat_group [of g] unat_group [of h] by (simp_all add: less_mult_imp_div_less)
  have v4: "isBlockedIpv4 [unat (drop_bit 8 g), unat (g AND 0xff), unat (drop_bit 8 h),
      unat (h AND 0xff)] \<longleftrightarrow> private_v4 (?n mod 2 ^ 32)"
    unfolding quad [symmetric] unat_low_byte unat_shift_8
    by (rule blocked_v4_iff) (simp_all add: bytes)
  show ?thesis
    unfolding private_v6_def BLOCKED_V6_numbers mapped v4 [symmetric]
    using zero one ula ll gs by (auto simp: isBlockedGroups_def in_block_def simp del: isBlockedIpv4.simps)
qed

section \<open>Every address \<open>isIP\<close> accepts expands to eight groups\<close>

lemma dec_octet_value: "dec_octet g \<Longrightarrow> octet_value g = Some (undecimal g) \<and> undecimal g < 256"
  by (auto simp: dec_octet_def octet_value_def)

lemma four_parts:
  assumes "is_ipv4 s"
  obtains p q r t where "split_at (CHR ''.'') s = [p, q, r, t]" "dec_octet p" "dec_octet q"
    "dec_octet r" "dec_octet t"
  using assms by (auto simp: is_ipv4_def length_Suc_conv numeral_eq_Suc)

lemma is_ipv4_dotted: "is_ipv4 s \<Longrightarrow> CHR ''.'' \<in> set s"
  by (rule ccontr) (auto simp: is_ipv4_def split_at_plain)

lemma hex_group_undotted: "hex_group g \<Longrightarrow> CHR ''.'' \<notin> set g"
  by (auto simp: hex_group_def list_all_iff hex_value_def dest: bspec [of _ _ "CHR ''.''"])

lemma parse_group_length:
  "hex_group g \<Longrightarrow> \<exists>w. parse_group g = Some [w]"
  "is_ipv4 g \<Longrightarrow> \<exists>w v. parse_group g = Some [w, v]"
  by (auto simp: parse_group_def hex_group_undotted is_ipv4_dotted dec_octet_value elim!: four_parts)

lemma group_count_parse:
  "group_count v4 gs = Some n \<Longrightarrow> \<exists>ws. parse_group_list gs = Some ws \<and> length ws = n"
proof (induction v4 gs arbitrary: n rule: group_count.induct)
  case (3 v4 g h gs)
  then obtain m where m: "hex_group g" "group_count v4 (h # gs) = Some m" "n = Suc m"
    by (auto split: if_splits)
  obtain ws where "parse_group_list (h # gs) = Some ws" "length ws = m"
    using "3.IH" [OF m(1,2)] by auto
  then show ?case
    using m(3) parse_group_length(1) [OF m(1)] by (auto simp del: parse_group_list.simps(2)
        simp: parse_group_list.simps(2) [of g])
qed (use parse_group_length in \<open>fastforce split: if_splits\<close>)+

lemma section_count_parse:
  "section_count v4 s = Some n \<Longrightarrow> \<exists>ws. parseGroups s = Some ws \<and> length ws = n"
  by (auto simp: section_count_def parseGroups_def group_count_parse split: if_splits)

lemma expandIpv6_total:
  assumes "is_ipv6 s"
  obtains gs where "expandIpv6 s = Some gs" "length gs = 8"
proof -
  consider h where "split_double (CHR '':'') (without_zone s) = [h]" "section_count True h = Some 8"
    | h t m n where "split_double (CHR '':'') (without_zone s) = [h, t]"
        "section_count False h = Some m" "section_count True t = Some n" "m + n \<le> 7"
    using assms by (auto simp: is_ipv6_def split: list.splits option.splits)
  then show thesis
  proof cases
    case 1
    then show thesis
      using section_count_parse [OF 1(2)] that by (auto simp: expandIpv6_def)
  next
    case 2
    obtain head tail where "parseGroups h = Some head" "length head = m"
        "parseGroups t = Some tail" "length tail = n"
      using section_count_parse [OF 2(2)] section_count_parse [OF 2(3)] by auto
    then show thesis
      using 2(1,4) that by (simp add: expandIpv6_def)
  qed
qed

text \<open>The number of a textual address with its width.\<close>

definition ip_number :: "string \<Rightarrow> (nat \<times> nat) option" where
  "ip_number s =
     (if is_ipv4 s then Some (32, quad (map undecimal (split_at (CHR ''.'') s)))
      else if is_ipv6 s then map_option (\<lambda>gs. (128, groups_number gs)) (expandIpv6 s)
      else None)"

definition private_address :: "string \<Rightarrow> bool" where
  "private_address s \<longleftrightarrow>
     (case ip_number s of None \<Rightarrow> True
      | Some (width, n) \<Rightarrow> if width = 32 then private_v4 n else private_v6 n)"

lemma isBlockedIp_is_private: "isBlockedIp s = private_address s"
proof (cases "is_ipv4 s")
  case True
  then obtain p q r t where parts: "split_at (CHR ''.'') s = [p, q, r, t]" "dec_octet p"
      "dec_octet q" "dec_octet r" "dec_octet t"
    by (rule four_parts)
  then show ?thesis
    using True blocked_v4_iff [of "undecimal p" "undecimal q" "undecimal r" "undecimal t"]
    by (simp add: isBlockedIp_def isIP_def private_address_def ip_number_def dec_octet_value
        del: isBlockedIpv4.simps quad.simps)
next
  case v4: False
  show ?thesis
  proof (cases "is_ipv6 s")
    case True
    then obtain gs where "expandIpv6 s = Some gs" "length gs = 8"
      by (rule expandIpv6_total)
    then show ?thesis
      using v4 True
      by (simp add: isBlockedIp_def isIP_def private_address_def ip_number_def blocked_v6_iff)
  next
    case False
    then show ?thesis
      using v4 by (simp add: isBlockedIp_def isIP_def private_address_def ip_number_def)
  qed
qed

section \<open>Written addresses\<close>

fun hex_text :: "nat \<Rightarrow> string" where
  "hex_text n = (if n < 16 then [hex_digit n] else hex_text (n div 16) @ [hex_digit (n mod 16)])"

declare hex_text.simps [simp del]

definition ipv4_text :: "nat list \<Rightarrow> string" where
  "ipv4_text os = join ''.'' (map decimal os)"

definition ipv6_section :: "16 word list \<Rightarrow> string" where
  "ipv6_section gs = join '':'' (map (\<lambda>g. hex_text (unat g)) gs)"

lemma parse_hex_snoc [simp]: "parse_hex (s @ [c]) = 16 * parse_hex s + the (hex_value c)"
  by (simp add: parse_hex_def)

lemma parse_hex_text [simp]: "parse_hex (hex_text n) = n"
proof (induction n rule: hex_text.induct)
  case (1 n)
  then show ?case
    by (subst hex_text.simps) (auto simp: parse_hex_def [of "[_]"])
qed

lemma hex_text_digits: "c \<in> set (hex_text n) \<Longrightarrow> \<exists>d<16. c = hex_digit d"
proof (induction n rule: hex_text.induct)
  case (1 n)
  have last: "\<exists>d<16. hex_digit (n mod 16) = hex_digit d"
    by (intro exI [of _ "n mod 16"]) simp
  show ?case
    using 1 last by (cases "n < 16") (auto simp: hex_text.simps [of n])
qed

lemma length_hex_text: "n < 16 ^ w \<Longrightarrow> 0 < w \<Longrightarrow> length (hex_text n) \<le> w"
proof (induction w arbitrary: n)
  case (Suc w)
  show ?case
  proof (cases "n < 16")
    case False
    then have "0 < w"
      using Suc.prems(1) by (cases w) auto
    moreover have "n div 16 < 16 ^ w"
      using Suc.prems(1) by (simp add: less_mult_imp_div_less mult.commute)
    ultimately show ?thesis
      using Suc.IH [of "n div 16"] False by (simp add: hex_text.simps [of n])
  qed (simp add: hex_text.simps [of n])
qed simp

lemma hex_text_ne [simp]: "hex_text n \<noteq> []"
  by (subst hex_text.simps) simp

lemma hex_text_chars:
  "CHR '':'' \<notin> set (hex_text n)" "CHR ''.'' \<notin> set (hex_text n)" "CHR ''%'' \<notin> set (hex_text n)"
  by (auto dest!: hex_text_digits arg_cong [of _ _ "of_char :: char \<Rightarrow> nat"]
      simp: of_char_hex_digit split: if_splits)

lemma hex_group_text [simp]: "hex_group (hex_text (unat g))" for g :: "16 word"
proof -
  have "length (hex_text (unat g)) \<le> 4"
    by (rule length_hex_text) (use unat_group [of g] in simp_all)
  moreover have "1 \<le> length (hex_text (unat g))"
    by (cases "hex_text (unat g)") (use hex_text_ne [of "unat g"] in auto)
  moreover have "list_all (\<lambda>c. hex_value c \<noteq> None) (hex_text (unat g))"
    by (auto simp: list_all_iff dest!: hex_text_digits)
  ultimately show ?thesis
    by (simp add: hex_group_def)
qed

lemma group_list_text:
  "parse_group_list (map (\<lambda>g. hex_text (unat g)) gs) = Some gs"
  "group_count v4 (map (\<lambda>g. hex_text (unat g)) gs) = Some (length gs)"
proof -
  have group: "parse_group (hex_text (unat g)) = Some [g]" for g :: "16 word"
    by (simp add: parse_group_def hex_text_chars)
  show "parse_group_list (map (\<lambda>g. hex_text (unat g)) gs) = Some gs"
    by (induction gs) (simp_all add: group)
  show "group_count v4 (map (\<lambda>g. hex_text (unat g)) gs) = Some (length gs)"
    by (induction gs rule: induct_list012) auto
qed

lemma section_text:
  "split_at (CHR '':'') (ipv6_section gs) =
     (if gs = [] then [[]] else map (\<lambda>g. hex_text (unat g)) gs)"
  by (auto simp: ipv6_section_def hex_text_chars intro!: split_join)

lemma section_text_Nil: "ipv6_section gs = [] \<longleftrightarrow> gs = []"
  by (induction gs rule: induct_list012) (simp_all add: ipv6_section_def)

lemma section_text_parse:
  "parseGroups (ipv6_section gs) = Some gs" "section_count v4 (ipv6_section gs) = Some (length gs)"
  by (simp_all add: parseGroups_def section_count_def section_text section_text_Nil group_list_text)

text \<open>A written address with a compressed run of zero groups, or with all eight groups.\<close>

lemma section_text_chars:
  "CHR ''%'' \<notin> set (ipv6_section gs)" "CHR ''.'' \<notin> set (ipv6_section gs)"
  unfolding ipv6_section_def
  by (induction gs rule: induct_list012) (auto simp: hex_text_chars)

lemma no_double_section: "ipv6_section gs = [] \<or> no_double (CHR '':'') (ipv6_section gs)"
  by (auto simp: no_double_def section_text section_text_Nil dest: sym)

lemma without_zone_plain: "CHR ''%'' \<notin> set s \<Longrightarrow> without_zone s = s \<and> zone_ok s"
proof -
  assume "CHR ''%'' \<notin> set s"
  then have all: "\<forall>c \<in> set s. c \<noteq> CHR ''%''"
    by auto
  then have eqs: "takeWhile (\<lambda>c. c \<noteq> CHR ''%'') s = s" "dropWhile (\<lambda>c. c \<noteq> CHR ''%'') s = []"
    by (simp_all only: takeWhile_eq_all_conv dropWhile_eq_Nil_conv)
  show ?thesis
    unfolding without_zone_def zone_ok_def eqs by simp
qed

definition ipv6_compressed :: "16 word list \<Rightarrow> 16 word list \<Rightarrow> string" where
  "ipv6_compressed pre post = ipv6_section pre @ ''::'' @ ipv6_section post"

lemma compressed_text:
  assumes "length pre + length post \<le> 7"
  shows "is_ipv6 (ipv6_compressed pre post)" and "\<not> is_ipv4 (ipv6_compressed pre post)"
    and "expandIpv6 (ipv6_compressed pre post) =
           Some (pre @ replicate (8 - length pre - length post) 0 @ post)"
proof -
  let ?s = "ipv6_compressed pre post"
  have parts: "split_double (CHR '':'') ?s = [ipv6_section pre, ipv6_section post]"
    using split_double_cut [OF no_double_section, of pre "ipv6_section post"]
      split_double_none [OF no_double_section, of post]
    by (simp add: ipv6_compressed_def)
  have plain: "without_zone ?s = ?s" "zone_ok ?s"
    using without_zone_plain [of ?s] by (auto simp: ipv6_compressed_def section_text_chars)
  show "is_ipv6 ?s"
    using assms by (simp add: is_ipv6_def plain parts section_text_parse)
  show "\<not> is_ipv4 ?s"
    using is_ipv4_dotted [of ?s] by (auto simp: ipv6_compressed_def section_text_chars)
  show "expandIpv6 ?s = Some (pre @ replicate (8 - length pre - length post) 0 @ post)"
    using assms by (simp add: expandIpv6_def plain parts section_text_parse)
qed

lemma full_text:
  assumes "length gs = 8"
  shows "is_ipv6 (ipv6_section gs)" and "\<not> is_ipv4 (ipv6_section gs)"
    and "expandIpv6 (ipv6_section gs) = Some gs"
proof -
  let ?s = "ipv6_section gs"
  have parts: "split_double (CHR '':'') ?s = [?s]"
    by (rule split_double_none [OF no_double_section])
  have plain: "without_zone ?s = ?s" "zone_ok ?s"
    using without_zone_plain [of ?s] by (auto simp: section_text_chars)
  show "is_ipv6 ?s" "expandIpv6 ?s = Some gs"
    using assms by (simp_all add: is_ipv6_def expandIpv6_def plain parts section_text_parse)
  show "\<not> is_ipv4 ?s"
    using is_ipv4_dotted [of ?s] by (auto simp: section_text_chars)
qed

lemma decimal_ne [simp]: "decimal n \<noteq> []"
  by (subst decimal.simps) simp

lemma hd_decimal: "0 < n \<Longrightarrow> (of_char (hd (decimal n)) :: nat) \<noteq> 48"
proof (induction n rule: decimal.induct)
  case (1 n)
  then show ?case
    by (cases "n < 10") (simp_all add: decimal.simps [of n])
qed

lemma dec_octet_decimal: "n < 256 \<Longrightarrow> dec_octet (decimal n)"
proof -
  assume n: "n < 256"
  have "list_all is_decimal (decimal n)"
    by (auto simp: list_all_iff is_decimal_def dest!: decimal_digits)
  moreover have "length (decimal n) \<le> 3"
    by (rule length_decimal) (use n in simp_all)
  moreover have "length (decimal n) = 1" if "hd (decimal n) = CHR ''0''"
  proof (cases "n = 0")
    case False
    then show ?thesis
      using hd_decimal [of n] that by simp
  qed (simp add: decimal.simps)
  ultimately show ?thesis
    using n by (simp add: dec_octet_def all_digits_def)
qed

lemma dotted_text:
  assumes "list_all (\<lambda>n. n < 256) [a, b, c, d]"
  shows "is_ipv4 (ipv4_text [a, b, c, d])"
    and "map undecimal (split_at (CHR ''.'') (ipv4_text [a, b, c, d])) = [a, b, c, d]"
proof -
  have "CHR ''.'' \<notin> set (decimal n)" for n
    by (auto dest!: decimal_digits arg_cong [of _ _ "of_char :: char \<Rightarrow> nat"])
  then have "split_at (CHR ''.'') (ipv4_text [a, b, c, d]) = map decimal [a, b, c, d]"
    unfolding ipv4_text_def by (intro split_join) auto
  then show "is_ipv4 (ipv4_text [a, b, c, d])"
    "map undecimal (split_at (CHR ''.'') (ipv4_text [a, b, c, d])) = [a, b, c, d]"
    using assms by (simp_all add: is_ipv4_def dec_octet_decimal)
qed

end
