(* ===== verification/Ssrf_Client.thy ===== *)
theory Ssrf_Client
  imports Ssrf_Addresses
begin

text \<open>The HTTP client of the webhooks (\<open>webhooks/delivery/ssrf-http.client.ts\<close>):
  \<open>parseRetryAfter\<close>, \<open>parseTarget\<close>, \<open>resolveAndValidate\<close>, \<open>readCappedBody\<close> and \<open>post\<close>. What the
  runtime and the network do is the record \<open>http_world\<close>: the URL parser, the DNS resolver, the
  answer of one request pinned to a set of addresses, UTF-8 decoding, \<open>Date.parse\<close> and the clock.
  \<open>post\<close> returns, beside its result, the addresses the request was pinned to, if one was sent.\<close>

record parsed_url =
  url_protocol :: string
  url_hostname :: string
  url_host :: string

record lookup_address =
  la_address :: string
  la_family :: nat

type_synonym headers = "(string \<times> string) list"

text \<open>A failure of the request says whether its abort signal had fired. A body is read in chunks,
  which a failure may end, or as a whole.\<close>

datatype request_failure = Failure bool utf16

datatype body_source =
  Reader "bytes list" "request_failure option" | No_reader "request_failure + utf16"

datatype network_reply = Reply int "string option" body_source | No_reply request_failure

record http_world =
  hw_parseUrl :: "string \<Rightarrow> parsed_url option"
  hw_resolve :: "string \<Rightarrow> utf16 + lookup_address list"
  hw_fetch :: "string \<Rightarrow> bytes \<Rightarrow> headers \<Rightarrow> lookup_address list \<Rightarrow> network_reply"
  hw_utf8 :: "bytes \<Rightarrow> utf16"
  hw_dateParse :: "string \<Rightarrow> instant option"
  hw_now :: instant

record ssrf_http_result =
  sr_status :: "int option"
  sr_body :: utf16
  sr_blocked :: bool
  sr_networkError :: bool
  sr_error :: "utf16 option"
  sr_retryAfterMs :: "js_number option"

definition MAX_SSRF_RESPONSE_BYTES :: nat where
  "MAX_SSRF_RESPONSE_BYTES = 64 * 1024"

section \<open>\<open>Retry-After\<close>\<close>

definition latin_space :: "char \<Rightarrow> bool" where
  "latin_space c = is_js_space (word_of_nat (of_char c))"

definition string_trim :: "string \<Rightarrow> string" where
  "string_trim s = rev (dropWhile latin_space (rev (dropWhile latin_space s)))"

definition parseRetryAfter ::
  "(string \<Rightarrow> instant option) \<Rightarrow> string option \<Rightarrow> instant \<Rightarrow> js_number option" where
  "parseRetryAfter date_parse value now =
     (case value of None \<Rightarrow> None
      | Some v \<Rightarrow>
          (let trimmed = string_trim v in
           if trimmed = [] then None
           else if all_digits trimmed then
             (case js_number (int (undecimal trimmed)) of
                Finite seconds \<Rightarrow> Some (js_number (seconds * 1000)) | Infinite \<Rightarrow> None)
           else
             (case date_parse trimmed of None \<Rightarrow> None
              | Some dateMs \<Rightarrow>
                  (let delta = dateMs - now in Some (Finite (if delta > 0 then delta else 0))))))"

section \<open>Results without a response\<close>

definition blockedResult :: "utf16 \<Rightarrow> ssrf_http_result" where
  "blockedResult err = \<lparr>sr_status = None, sr_body = [], sr_blocked = True,
     sr_networkError = False, sr_error = Some err, sr_retryAfterMs = None\<rparr>"

definition networkErrorResult :: "utf16 \<Rightarrow> ssrf_http_result" where
  "networkErrorResult err = \<lparr>sr_status = None, sr_body = [], sr_blocked = False,
     sr_networkError = True, sr_error = Some err, sr_retryAfterMs = None\<rparr>"

section \<open>The target\<close>

definition without_brackets :: "string \<Rightarrow> string" where
  "without_brackets h =
     (let h1 = (case h of c # cs \<Rightarrow> if c = CHR ''['' then cs else h | [] \<Rightarrow> []) in
      if h1 \<noteq> [] \<and> last h1 = CHR '']'' then butlast h1 else h1)"

definition parseTarget :: "http_world \<Rightarrow> string \<Rightarrow> utf16 + string" where
  "parseTarget w url =
     (case hw_parseUrl w url of
        None \<Rightarrow> Inl (js ''Invalid endpoint URL: '' @ js url)
      | Some parsed \<Rightarrow>
          if url_protocol parsed \<noteq> ''https:'' then Inl (js ''Only HTTPS endpoints are allowed'')
          else Inr (without_brackets (url_hostname parsed)))"

datatype resolution = Addresses "lookup_address list" | Blocked_reason utf16 | Network_error utf16

definition resolveAndValidate :: "http_world \<Rightarrow> string \<Rightarrow> resolution" where
  "resolveAndValidate w hostname =
     (let literalFamily = isIP hostname;
          resolved = (if literalFamily \<noteq> 0
             then Inr [\<lparr>la_address = hostname, la_family = literalFamily\<rparr>]
             else hw_resolve w hostname)
      in case resolved of
           Inl err \<Rightarrow> Network_error (js ''DNS resolution failed: '' @ err)
         | Inr addresses \<Rightarrow>
             if length addresses = 0
             then Network_error (js ''DNS resolution returned no addresses for '' @ js hostname)
             else (case find (\<lambda>entry. isBlockedIp (la_address entry)) addresses of
                     Some blocked \<Rightarrow>
                       Blocked_reason (js ''Blocked non-public address: '' @ js (la_address blocked))
                   | None \<Rightarrow> Addresses addresses))"

section \<open>The request\<close>

fun read_chunks :: "nat \<Rightarrow> nat \<Rightarrow> bytes list \<Rightarrow> request_failure option \<Rightarrow> request_failure + bytes list" where
  "read_chunks maxBytes sofar [] (Some err) = Inl err"
| "read_chunks maxBytes sofar [] None = Inr []"
| "read_chunks maxBytes sofar (c # cs) err =
     (if sofar + length c \<ge> maxBytes then Inr [c]
      else chain (read_chunks maxBytes (sofar + length c) cs err) (\<lambda>rest. Inr (c # rest)))"

fun readCappedBody :: "(bytes \<Rightarrow> utf16) \<Rightarrow> nat \<Rightarrow> body_source \<Rightarrow> request_failure + utf16" where
  "readCappedBody utf8 maxBytes (No_reader response) =
     chain response (\<lambda>body. Inr (take maxBytes body))"
| "readCappedBody utf8 maxBytes (Reader chunks err) =
     chain (read_chunks maxBytes 0 chunks err) (\<lambda>read. Inr (take maxBytes (utf8 (concat read))))"

fun failure_message :: "request_failure \<Rightarrow> utf16" where
  "failure_message (Failure aborted message) = (if aborted then js ''Request timed out'' else message)"

definition fetch_result :: "http_world \<Rightarrow> network_reply \<Rightarrow> ssrf_http_result" where
  "fetch_result w reply =
     (case reply of
        No_reply err \<Rightarrow> networkErrorResult (failure_message err)
      | Reply status retryAfter body \<Rightarrow>
          (let retryAfterMs = parseRetryAfter (hw_dateParse w) retryAfter (hw_now w) in
           case readCappedBody (hw_utf8 w) MAX_SSRF_RESPONSE_BYTES body of
             Inl err \<Rightarrow> networkErrorResult (failure_message err)
           | Inr body \<Rightarrow>
               \<lparr>sr_status = Some status, sr_body = body, sr_blocked = False,
                sr_networkError = False, sr_error = None, sr_retryAfterMs = retryAfterMs\<rparr>))"

definition ssrf_post ::
  "http_world \<Rightarrow> string \<Rightarrow> bytes \<Rightarrow> headers \<Rightarrow> ssrf_http_result \<times> lookup_address list option" where
  "ssrf_post w url rawBody hdrs =
     (case parseTarget w url of
        Inl reason \<Rightarrow> (blockedResult reason, None)
      | Inr hostname \<Rightarrow>
          (case resolveAndValidate w hostname of
             Blocked_reason reason \<Rightarrow> (blockedResult reason, None)
           | Network_error reason \<Rightarrow> (networkErrorResult reason, None)
           | Addresses addresses \<Rightarrow>
               (fetch_result w (hw_fetch w url rawBody hdrs addresses), Some addresses)))"

section \<open>Facts\<close>

lemma pinned_addresses_public:
  assumes "ssrf_post w url rawBody hdrs = (r, Some addresses)"
  shows "\<exists>parsed. hw_parseUrl w url = Some parsed \<and> url_protocol parsed = ''https:''"
    and "addresses \<noteq> []" and "e \<in> set addresses \<Longrightarrow> \<not> private_address (la_address e)"
  using assms
  by (auto simp: ssrf_post_def parseTarget_def resolveAndValidate_def Let_def find_None_iff
      isBlockedIp_is_private split: option.splits if_splits resolution.splits sum.splits)

lemma no_request_results:
  assumes "ssrf_post w url rawBody hdrs = (r, None)"
  shows "sr_status r = None \<and> sr_body r = [] \<and> sr_blocked r = (\<not> sr_networkError r)"
  using assms
  by (auto simp: ssrf_post_def blockedResult_def networkErrorResult_def
      split: resolution.splits sum.splits)

lemma read_chunks_prefix:
  assumes "read_chunks m sofar chunks err = Inr read"
  shows "\<exists>rest. chunks = read @ rest" and "sofar + length (concat (butlast read)) < m \<or> read = [] \<or> length read = 1"
  using assms
  by (induction m sofar chunks err arbitrary: read rule: read_chunks.induct)
    (auto simp: chain_simps length_Suc_conv split: if_splits)

lemma result_body_capped: "length (sr_body (fetch_result w reply)) \<le> MAX_SSRF_RESPONSE_BYTES"
proof -
  have "length body \<le> m" if "readCappedBody u m source = Inr body" for u m source body
    using that by (cases source) (auto simp: chain_simps)
  then show ?thesis
    by (auto simp: fetch_result_def networkErrorResult_def Let_def
        split: network_reply.split sum.split)
qed

lemma retry_after_nonneg: "parseRetryAfter dp v now = Some (Finite ms) \<Longrightarrow> 0 \<le> ms"
  by (auto simp: parseRetryAfter_def js_number_def Let_def split: option.splits if_splits
      js_number.splits)

end
