(* ===== verification/Webhook_Subscriptions.thy ===== *)
theory Webhook_Subscriptions
  imports Accounts Webhook_Secrets Ssrf_Client Activity_Transition_Map
begin

text \<open>Webhook subscriptions: the event catalogue (\<open>webhooks/events/event-catalog.ts\<close>), the
  repository with the inherited \<open>updateEntity\<close> and \<open>removeEntity\<close>, the authorization seam, the
  audit trail and the service (\<open>webhooks/subscriptions/\<close>, \<open>webhooks/admin/webhooks-audit.repository.ts\<close>).
  The checks of a route and its writes run on one database; the queue is the list of the jobs
  sent to it, and an unreachable queue is a parameter.\<close>

section \<open>Configuration and jobs\<close>

record webhook_config =
  wc_masterKey :: "string option"
  wc_maxPerBond :: "int option"
  wc_rotationGraceHours :: "int option"
  wc_autoDisableDays :: "int option"
  wc_retentionDays :: "int option"
  wc_apiVersion :: "string option"
  wc_endpointConcurrency :: "int option"

record delivery_job_data =
  jd_eventId :: uuid
  jd_subscriptionId :: uuid
  jd_retryAfterMs :: "js_number option"
  jd_test :: bool

record queue_job =
  qj_name :: string
  qj_id :: string
  qj_data :: delivery_job_data
  qj_attempts :: "int option"

text \<open>What one request or job draws from outside: the readings of the clock in their order, the
  clock and the ids of the database, cryptography, the network and the configuration.\<close>

record webhook_env =
  we_clock :: "nat \<Rightarrow> instant"
  we_dbnow :: instant
  we_uuid :: "nat \<Rightarrow> uuid"
  we_crypto :: crypto
  we_http :: http_world
  we_config :: webhook_config

abbreviation we_now :: "webhook_env \<Rightarrow> instant" where
  "we_now e \<equiv> we_clock e 0"

section \<open>The catalogue\<close>

definition ALL_ACTIVITY_EVENTS :: "activity_event list" where
  "ALL_ACTIVITY_EVENTS =
     [EV_CREATED, EV_ASSIGNED, EV_UNASSIGNED, EV_ASSISTING, EV_IN_PROGRESS, EV_VERIFY,
      EV_VERIFY_EXPIRED, EV_CREATED_OVERDUE, EV_OVERDUE, EV_NOT_ASSISTING, EV_DONE, EV_CANCELLED]"

definition PRODUCED_ACTIVITY_EVENT_TYPES :: "string list" where
  "PRODUCED_ACTIVITY_EVENT_TYPES =
     filter (\<lambda>t. t \<noteq> ACTIVITY_EVENT EV_UNASSIGNED) (map ACTIVITY_EVENT ALL_ACTIVITY_EVENTS)"

definition WEBHOOK_VIRTUAL_EVENT_TYPE :: string where
  "WEBHOOK_VIRTUAL_EVENT_TYPE = ''activity.state_changed''"

definition WEBHOOK_CATALOGUED_NOT_EMITTED_EVENT_TYPES :: "string list" where
  "WEBHOOK_CATALOGUED_NOT_EMITTED_EVENT_TYPES = [ACTIVITY_EVENT EV_UNASSIGNED]"

record event_catalog_entry =
  ec_type :: string
  ec_emitted :: bool
  ec_virtual :: bool

definition listEventCatalog :: "event_catalog_entry list" where
  "listEventCatalog =
     map (\<lambda>t. \<lparr>ec_type = t, ec_emitted = True, ec_virtual = False\<rparr>) PRODUCED_ACTIVITY_EVENT_TYPES @
     [\<lparr>ec_type = WEBHOOK_VIRTUAL_EVENT_TYPE, ec_emitted = False, ec_virtual = True\<rparr>] @
     map (\<lambda>t. \<lparr>ec_type = t, ec_emitted = False, ec_virtual = False\<rparr>)
       WEBHOOK_CATALOGUED_NOT_EMITTED_EVENT_TYPES"

definition isProducedEventType :: "string \<Rightarrow> bool" where
  "isProducedEventType t = (t \<in> set PRODUCED_ACTIVITY_EVENT_TYPES)"

section \<open>Repository\<close>

definition WEBHOOK_WILDCARD :: string where
  "WEBHOOK_WILDCARD = ''*''"

definition WEBHOOK_STATE_CHANGED_EVENT :: string where
  "WEBHOOK_STATE_CHANGED_EVENT = ''activity.state_changed''"

definition subscriptionMatchesEventType :: "string list \<Rightarrow> string \<Rightarrow> bool" where
  "subscriptionMatchesEventType eventTypes eventType \<longleftrightarrow>
     eventType \<in> set eventTypes \<or> WEBHOOK_STATE_CHANGED_EVENT \<in> set eventTypes \<or>
     WEBHOOK_WILDCARD \<in> set eventTypes"

definition findSubscriptionById :: "db \<Rightarrow> uuid \<Rightarrow> subscription_row option" where
  "findSubscriptionById d i = lookup_by sub_id i (db_subscriptions d)"

definition findActiveByBond :: "db \<Rightarrow> uuid \<Rightarrow> subscription_row list" where
  "findActiveByBond d bondId =
     sort_key sub_createdAt
       (filter (\<lambda>s. sub_bondId s = bondId \<and> sub_status s = SUB_ACTIVE) (db_subscriptions d))"

definition countByBond :: "db \<Rightarrow> uuid \<Rightarrow> nat" where
  "countByBond d bondId = length (filter (\<lambda>s. sub_bondId s = bondId) (db_subscriptions d))"

definition countSubscriptionsByStatus :: "db \<Rightarrow> subscription_status \<Rightarrow> nat" where
  "countSubscriptionsByStatus d st = length (filter (\<lambda>s. sub_status s = st) (db_subscriptions d))"

definition findActiveMatchingByBond :: "db \<Rightarrow> uuid \<Rightarrow> string \<Rightarrow> subscription_row list" where
  "findActiveMatchingByBond d bondId eventType =
     filter (\<lambda>s. sub_bondId s = bondId \<and> sub_status s = SUB_ACTIVE \<and>
        (eventType \<in> set (sub_eventTypes s) \<or> WEBHOOK_STATE_CHANGED_EVENT \<in> set (sub_eventTypes s) \<or>
         WEBHOOK_WILDCARD \<in> set (sub_eventTypes s))) (db_subscriptions d)"

text \<open>\<open>updateEntity\<close>: 404 when the row is gone; a save that changes a column stamps \<open>updated_at\<close>.\<close>

definition save_subscription ::
  "instant \<Rightarrow> (subscription_row \<Rightarrow> subscription_row) \<Rightarrow> subscription_row \<Rightarrow> subscription_row" where
  "save_subscription at f s = (if f s = s then s else (f s)\<lparr>sub_updatedAt := at\<rparr>)"

definition entity_not_found :: "uuid \<Rightarrow> http_error" where
  "entity_not_found i =
     notFoundException (''WebhookSubscriptionEntity with id '' @ dquoted i @ '' not found'')"

definition update_subscription_row ::
  "instant \<Rightarrow> uuid \<Rightarrow> (subscription_row \<Rightarrow> subscription_row) \<Rightarrow> db \<Rightarrow> subscription_row served" where
  "update_subscription_row at i f d =
     (case findSubscriptionById d i of
        None \<Rightarrow> (Inl (entity_not_found i), d)
      | Some s \<Rightarrow>
          (Inr (save_subscription at f s),
           d\<lparr>db_subscriptions := update_by sub_id i (save_subscription at f) (db_subscriptions d)\<rparr>))"

text \<open>\<open>removeEntity\<close> with the cascades of the foreign keys to deliveries and their attempts.\<close>

definition remove_subscription_row :: "uuid \<Rightarrow> db \<Rightarrow> unit served" where
  "remove_subscription_row i d =
     (case findSubscriptionById d i of
        None \<Rightarrow> (Inl (entity_not_found i), d)
      | Some _ \<Rightarrow>
          (let gone = set (map del_id (filter (\<lambda>v. del_subscriptionId v = i) (db_deliveries d))) in
           (Inr (),
            d\<lparr>db_subscriptions := filter (\<lambda>s. sub_id s \<noteq> i) (db_subscriptions d),
              db_deliveries := filter (\<lambda>v. del_subscriptionId v \<noteq> i) (db_deliveries d),
              db_attempts := filter (\<lambda>a. att_deliveryId a \<notin> gone) (db_attempts d)\<rparr>)))"

section \<open>Authorization and audit\<close>

definition assertBondAccess :: "db \<Rightarrow> uuid \<Rightarrow> auth_user \<Rightarrow> http_error + unit" where
  "assertBondAccess d bondId user =
     (if usr_systemRole user = ''admin'' then Inr ()
      else ensure (isActiveBondForMember d bondId (usr_id user))
             (forbiddenException ''You are not an active member of this bond''))"

definition assertCanManage :: "db \<Rightarrow> uuid \<Rightarrow> auth_user \<Rightarrow> http_error + unit" where
  "assertCanManage d bondId user = assertBondAccess d bondId user"

definition assertCanRead :: "db \<Rightarrow> uuid \<Rightarrow> auth_user \<Rightarrow> http_error + unit" where
  "assertCanRead d bondId user = assertBondAccess d bondId user"

datatype webhook_audit_action = WA_CREATE | WA_UPDATE | WA_ROTATE | WA_DELETE | WA_DISABLE | WA_ENABLE | WA_REPLAY

fun webhook_action_string :: "webhook_audit_action \<Rightarrow> string" where
  "webhook_action_string WA_CREATE = ''webhook_create''"
| "webhook_action_string WA_UPDATE = ''webhook_update''"
| "webhook_action_string WA_ROTATE = ''webhook_rotate''"
| "webhook_action_string WA_DELETE = ''webhook_delete''"
| "webhook_action_string WA_DISABLE = ''webhook_disable''"
| "webhook_action_string WA_ENABLE = ''webhook_enable''"
| "webhook_action_string WA_REPLAY = ''webhook_replay''"

definition webhook_audit ::
  "instant \<Rightarrow> uuid \<Rightarrow> uuid \<Rightarrow> uuid \<Rightarrow> webhook_audit_action \<Rightarrow> json_obj option \<Rightarrow> json_obj option \<Rightarrow>
   utf16 option \<Rightarrow> db \<Rightarrow> db" where
  "webhook_audit at bondId userId entityId action oldValue newValue detail d =
     d\<lparr>db_audit := db_audit d @
        [\<lparr>au_bondId = Some bondId, au_userId = userId, au_entityType = ''webhook_subscription'',
          au_entityId = Some entityId, au_action = webhook_action_string action,
          au_oldValue = oldValue, au_newValue = newValue, au_detail = detail,
          au_ipAddress = None, au_userAgent = None, au_createdAt = at\<rparr>]\<rparr>"

section \<open>Validation\<close>

text \<open>The argument may be null at run time: an optional key of a body is not type-checked.\<close>

definition assertHttpsUrl :: "http_world \<Rightarrow> string option \<Rightarrow> http_error + unit" where
  "assertHttpsUrl w url =
     (case Option.bind url (hw_parseUrl w) of
        None \<Rightarrow> Inl (badRequestException ''url must be a valid absolute URL'')
      | Some parsed \<Rightarrow>
          ensure (url_protocol parsed = ''https:'')
            (badRequestException ''url must use the https scheme''))"

definition allowed_event_types :: "string list" where
  "allowed_event_types =
     PRODUCED_ACTIVITY_EVENT_TYPES @ [WEBHOOK_VIRTUAL_EVENT_TYPE, WEBHOOK_WILDCARD]"

text \<open>\<open>[...new Set(xs)]\<close>: the first occurrences, in order.\<close>

definition uniq :: "'a list \<Rightarrow> 'a list" where
  "uniq xs = rev (remdups (rev xs))"

definition normalizeEventTypes :: "string list option \<Rightarrow> http_error + string list" where
  "normalizeEventTypes eventTypes =
     (case eventTypes of
        None \<Rightarrow> Inr [WEBHOOK_WILDCARD]
      | Some ts \<Rightarrow>
          if length ts = 0 then Inr [WEBHOOK_WILDCARD]
          else (case find (\<lambda>t. t \<notin> set allowed_event_types) ts of
                  Some t \<Rightarrow> Inl (badRequestException (''Unknown event type '' @ dquoted t))
                | None \<Rightarrow> Inr (uniq ts)))"

definition DEFAULT_WEBHOOK_MAX_PER_BOND :: int where
  "DEFAULT_WEBHOOK_MAX_PER_BOND = 10"

definition DEFAULT_WEBHOOK_ROTATION_GRACE_HOURS :: int where
  "DEFAULT_WEBHOOK_ROTATION_GRACE_HOURS = 24"

definition or_default :: "'a option \<Rightarrow> 'a \<Rightarrow> 'a" where
  "or_default x y = (case x of Some v \<Rightarrow> v | None \<Rightarrow> y)"

definition maxPerBond :: "webhook_config \<Rightarrow> int" where
  "maxPerBond c = or_default (wc_maxPerBond c) DEFAULT_WEBHOOK_MAX_PER_BOND"

definition rotationGraceHours :: "webhook_config \<Rightarrow> int" where
  "rotationGraceHours c = or_default (wc_rotationGraceHours c) DEFAULT_WEBHOOK_ROTATION_GRACE_HOURS"

definition findInBond :: "db \<Rightarrow> uuid \<Rightarrow> uuid \<Rightarrow> http_error + subscription_row" where
  "findInBond d bondId i =
     (case findSubscriptionById d i of
        Some s \<Rightarrow> if sub_bondId s = bondId then Inr s
                  else Inl (notFoundException (''Webhook subscription '' @ dquoted i @ '' not found''))
      | None \<Rightarrow> Inl (notFoundException (''Webhook subscription '' @ dquoted i @ '' not found'')))"

section \<open>Answers\<close>

record subscription_response =
  sp_id :: uuid
  sp_bondId :: uuid
  sp_url :: string
  sp_description :: "utf16 option"
  sp_eventTypes :: "string list"
  sp_status :: string
  sp_createdAt :: instant
  sp_updatedAt :: instant

record created_response = subscription_response +
  sp_secret :: string

record rotation_response =
  ro_id :: uuid
  ro_secret :: string
  ro_previousSecretExpiresAt :: string

definition subscription_response_of :: "subscription_row \<Rightarrow> subscription_response" where
  "subscription_response_of s =
     \<lparr>sp_id = sub_id s, sp_bondId = sub_bondId s, sp_url = sub_url s,
      sp_description = sub_description s, sp_eventTypes = sub_eventTypes s,
      sp_status = subscription_status_string (sub_status s), sp_createdAt = sub_createdAt s,
      sp_updatedAt = sub_updatedAt s\<rparr>"

definition created_response_of :: "subscription_row \<Rightarrow> string \<Rightarrow> created_response" where
  "created_response_of s secret =
     subscription_response.extend (subscription_response_of s) (created_response.fields secret)"

section \<open>The service\<close>

record create_subscription_dto =
  cs_url :: string
  cs_eventTypes :: "string list option"
  cs_description :: "utf16 option"

definition jstrings :: "string list \<Rightarrow> json" where
  "jstrings ts = JArr (map jstr ts)"

text \<open>The checks of \<open>create\<close>, up to the secret and its encryption.\<close>

definition create_subscription_row ::
  "webhook_env \<Rightarrow> uuid \<Rightarrow> create_subscription_dto \<Rightarrow> auth_user \<Rightarrow> db \<Rightarrow>
   http_error + (string \<times> subscription_row)" where
  "create_subscription_row e bondId dto user d =
     chain (assertCanManage d bondId user) (\<lambda>_.
     chain (assertHttpsUrl (we_http e) (Some (cs_url dto))) (\<lambda>_.
     chain (normalizeEventTypes (cs_eventTypes dto)) (\<lambda>eventTypes.
     chain (ensure (int (countByBond d bondId) < maxPerBond (we_config e))
              (conflictException (''Bond already has the maximum of '' @
                 int_text (maxPerBond (we_config e)) @ '' webhook subscriptions''))) (\<lambda>_.
     let secret = generateSecret (we_crypto e) 0 in
     (case encrypt (we_crypto e) 1 (wc_masterKey (we_config e)) secret of
        Inl _ \<Rightarrow> Inl internal_error
      | Inr stored \<Rightarrow>
          Inr (secret,
            \<lparr>sub_id = we_uuid e 0, sub_bondId = bondId, sub_createdBy = usr_id user,
             sub_url = cs_url dto, sub_description = cs_description dto,
             sub_eventTypes = eventTypes, sub_secretEncrypted = stored,
             sub_secretPrevEncrypted = None, sub_secretPrevExpiresAt = None,
             sub_status = SUB_ACTIVE, sub_consecutiveFailureSince = None,
             sub_createdAt = we_dbnow e, sub_updatedAt = we_dbnow e\<rparr>))))))"

definition create_subscription ::
  "webhook_env \<Rightarrow> uuid \<Rightarrow> create_subscription_dto \<Rightarrow> auth_user \<Rightarrow> db \<Rightarrow> created_response served" where
  "create_subscription e bondId dto user d =
     (case create_subscription_row e bondId dto user d of
        Inl err \<Rightarrow> (Inl err, d)
      | Inr (secret, row) \<Rightarrow>
          (Inr (created_response_of row secret),
           webhook_audit (we_dbnow e) bondId (usr_id user) (sub_id row) WA_CREATE None
             (Some [(''url'', jstr (sub_url row)), (''eventTypes'', jstrings (sub_eventTypes row))])
             None (d\<lparr>db_subscriptions := db_subscriptions d @ [row]\<rparr>)))"

definition list_subscriptions ::
  "uuid \<Rightarrow> auth_user \<Rightarrow> db \<Rightarrow> http_error + subscription_response list" where
  "list_subscriptions bondId user d =
     chain (assertCanRead d bondId user) (\<lambda>_.
       Inr (map subscription_response_of
         (sort_key sub_createdAt (filter (\<lambda>s. sub_bondId s = bondId) (db_subscriptions d)))))"

definition get_subscription ::
  "uuid \<Rightarrow> uuid \<Rightarrow> auth_user \<Rightarrow> db \<Rightarrow> http_error + subscription_response" where
  "get_subscription bondId i user d =
     chain (assertCanRead d bondId user) (\<lambda>_.
     chain (findInBond d bondId i) (\<lambda>s. Inr (subscription_response_of s)))"

text \<open>A key of the PATCH body is absent (\<open>Keep\<close>), null (\<open>Put None\<close>) or a value.\<close>

record update_subscription_dto =
  us_url :: "string option patch"
  us_eventTypes :: "string list option patch"
  us_description :: "utf16 option patch"
  us_status :: "subscription_status option patch"

record subscription_patch =
  sbp_url :: "string patch"
  sbp_eventTypes :: "string list patch"
  sbp_description :: "utf16 option patch"
  sbp_status :: "subscription_status patch"

definition subscription_patch_of ::
  "http_world \<Rightarrow> update_subscription_dto \<Rightarrow> http_error + subscription_patch" where
  "subscription_patch_of w dto =
     chain (case us_url dto of Keep \<Rightarrow> Inr Keep
            | Put u \<Rightarrow> chain (assertHttpsUrl w u) (\<lambda>_. Inr (Put (the u)))) (\<lambda>u.
     chain (case us_eventTypes dto of Keep \<Rightarrow> Inr Keep
            | Put ts \<Rightarrow> chain (normalizeEventTypes ts) (\<lambda>ts'. Inr (Put ts'))) (\<lambda>ts.
     chain (case us_status dto of Keep \<Rightarrow> Inr Keep
            | Put st \<Rightarrow>
                if st \<noteq> Some SUB_ACTIVE \<and> st \<noteq> Some SUB_DISABLED
                then Inl (badRequestException ''status must be ACTIVE or DISABLED'')
                else Inr (Put (the st))) (\<lambda>st.
     Inr \<lparr>sbp_url = u, sbp_eventTypes = ts, sbp_description = us_description dto, sbp_status = st\<rparr>)))"

definition patch_subscription :: "subscription_patch \<Rightarrow> subscription_row \<Rightarrow> subscription_row" where
  "patch_subscription p s =
     s\<lparr>sub_url := patched (sbp_url p) (sub_url s),
       sub_eventTypes := patched (sbp_eventTypes p) (sub_eventTypes s),
       sub_description := patched (sbp_description p) (sub_description s),
       sub_status := patched (sbp_status p) (sub_status s)\<rparr>"

definition subscription_json :: "subscription_row \<Rightarrow> json_obj" where
  "subscription_json s =
     [(''url'', jstr (sub_url s)), (''eventTypes'', jstrings (sub_eventTypes s)),
      (''description'', jnullable JStr (sub_description s)),
      (''status'', jstr (subscription_status_string (sub_status s)))]"

definition update_action :: "update_subscription_dto \<Rightarrow> subscription_row \<Rightarrow> webhook_audit_action" where
  "update_action dto old =
     (if us_status dto = Put (Some SUB_DISABLED) then WA_DISABLE
      else if us_status dto = Put (Some SUB_ACTIVE) \<and> sub_status old \<noteq> SUB_ACTIVE then WA_ENABLE
      else WA_UPDATE)"

definition update_subscription ::
  "webhook_env \<Rightarrow> uuid \<Rightarrow> uuid \<Rightarrow> update_subscription_dto \<Rightarrow> auth_user \<Rightarrow> db \<Rightarrow>
   subscription_response served" where
  "update_subscription e bondId i dto user d =
     (case chain (assertCanManage d bondId user) (\<lambda>_.
           chain (findInBond d bondId i) (\<lambda>s.
           chain (subscription_patch_of (we_http e) dto) (\<lambda>p. Inr (s, p)))) of
        Inl err \<Rightarrow> (Inl err, d)
      | Inr (s, p) \<Rightarrow>
          (case update_subscription_row (we_dbnow e) i (patch_subscription p) d of
             (Inl err, d1) \<Rightarrow> (Inl err, d1)
           | (Inr updated, d1) \<Rightarrow>
               (Inr (subscription_response_of updated),
                webhook_audit (we_dbnow e) bondId (usr_id user) i (update_action dto s)
                  (Some (subscription_json s)) (Some (subscription_json updated)) None d1)))"

definition remove_subscription ::
  "webhook_env \<Rightarrow> uuid \<Rightarrow> uuid \<Rightarrow> auth_user \<Rightarrow> db \<Rightarrow> unit served" where
  "remove_subscription e bondId i user d =
     (case chain (assertCanManage d bondId user) (\<lambda>_. findInBond d bondId i) of
        Inl err \<Rightarrow> (Inl err, d)
      | Inr s \<Rightarrow>
          (case remove_subscription_row i d of
             (Inl err, d1) \<Rightarrow> (Inl err, d1)
           | (Inr _, d1) \<Rightarrow>
               (Inr (), webhook_audit (we_dbnow e) bondId (usr_id user) i WA_DELETE
                  (Some [(''url'', jstr (sub_url s)),
                         (''status'', jstr (subscription_status_string (sub_status s)))])
                  None None d1)))"

definition rotate_secret ::
  "webhook_env \<Rightarrow> uuid \<Rightarrow> uuid \<Rightarrow> auth_user \<Rightarrow> db \<Rightarrow> rotation_response served" where
  "rotate_secret e bondId i user d =
     (case chain (assertCanManage d bondId user) (\<lambda>_. findInBond d bondId i) of
        Inl err \<Rightarrow> (Inl err, d)
      | Inr s \<Rightarrow>
          (let secret = generateSecret (we_crypto e) 0;
               expiresAt = we_now e + rotationGraceHours (we_config e) * 3600000 in
           case encrypt (we_crypto e) 1 (wc_masterKey (we_config e)) secret of
             Inl _ \<Rightarrow> (Inl internal_error, d)
           | Inr stored \<Rightarrow>
               (case update_subscription_row (we_dbnow e) i
                   (\<lambda>r. r\<lparr>sub_secretPrevEncrypted := Some (sub_secretEncrypted s),
                          sub_secretPrevExpiresAt := Some expiresAt,
                          sub_secretEncrypted := stored\<rparr>) d of
                  (Inl err, d1) \<Rightarrow> (Inl err, d1)
                | (Inr _, d1) \<Rightarrow>
                    (Inr \<lparr>ro_id = i, ro_secret = secret,
                          ro_previousSecretExpiresAt = toISOString expiresAt\<rparr>,
                     webhook_audit (we_dbnow e) bondId (usr_id user) i WA_ROTATE None
                       (Some [(''previousSecretExpiresAt'', jstr (toISOString expiresAt))])
                       None d1))))"

definition test_subscription ::
  "webhook_env \<Rightarrow> bool \<Rightarrow> uuid \<Rightarrow> uuid \<Rightarrow> auth_user \<Rightarrow> db \<Rightarrow> http_error + queue_job" where
  "test_subscription e redis_up bondId i user d =
     chain (assertCanManage d bondId user) (\<lambda>_.
     chain (findInBond d bondId i) (\<lambda>_.
     if redis_up
     then Inr \<lparr>qj_name = ''delivery'', qj_id = ''test--'' @ i @ ''--'' @ int_text (we_now e),
               qj_data = \<lparr>jd_eventId = [], jd_subscriptionId = i, jd_retryAfterMs = None,
                          jd_test = True\<rparr>, qj_attempts = None\<rparr>
     else Inl internal_error))"

end
