(* ===== verification/Webhook_Payload.thy ===== *)
theory Webhook_Payload
  imports Activities_Repository Webhook_Subscriptions
begin

text \<open>The body of a webhook (\<open>webhooks/events/payload-builder.ts\<close>): the snapshot and transition
  of an outbox event, \<open>JSON.stringify\<close> of the payload (escapes, and lone surrogates written as
  \<open>\uXXXX\<close>), its UTF-8 bytes and the 64 KB limit.\<close>

section \<open>\<open>JSON.stringify\<close> and UTF-8\<close>

definition hex4 :: "16 word \<Rightarrow> utf16" where
  "hex4 u = (let n = unat u in
     js [CHR 0x5C, CHR ''u'', hex_digit (n div 4096), hex_digit (n div 256 mod 16),
         hex_digit (n div 16 mod 16), hex_digit (n mod 16)])"

definition escape_unit :: "16 word \<Rightarrow> utf16" where
  "escape_unit u =
     (if u = 0x08 then js [CHR 0x5C, CHR ''b'']
      else if u = 0x09 then js [CHR 0x5C, CHR ''t'']
      else if u = 0x0A then js [CHR 0x5C, CHR ''n'']
      else if u = 0x0C then js [CHR 0x5C, CHR ''f'']
      else if u = 0x0D then js [CHR 0x5C, CHR ''r'']
      else if u = 0x22 \<or> u = 0x5C then [0x5C, u]
      else if u < 0x20 \<or> high_surrogate u \<or> low_surrogate u then hex4 u
      else [u])"

fun escape :: "utf16 \<Rightarrow> utf16" where
  "escape [] = []"
| "escape [u] = escape_unit u"
| "escape (u # v # us) =
     (if high_surrogate u \<and> low_surrogate v then u # v # escape us
      else escape_unit u @ escape (v # us))"

definition quoted :: "utf16 \<Rightarrow> utf16" where
  "quoted t = 0x22 # escape t @ [0x22]"

fun json_stringify :: "json \<Rightarrow> utf16"
  and stringify_items :: "json list \<Rightarrow> utf16"
  and stringify_members :: "(string \<times> json) list \<Rightarrow> utf16" where
  "json_stringify JNull = js ''null''"
| "json_stringify (JBool b) = js (if b then ''true'' else ''false'')"
| "json_stringify (JNum n) = js (int_text n)"
| "json_stringify (JStr t) = quoted t"
| "json_stringify (JArr xs) = js ''['' @ stringify_items xs @ js '']''"
| "json_stringify (JObj ms) = js ''{'' @ stringify_members ms @ js ''}''"
| "stringify_items [] = []"
| "stringify_items [x] = json_stringify x"
| "stringify_items (x # y # xs) = json_stringify x @ js '','' @ stringify_items (y # xs)"
| "stringify_members [] = []"
| "stringify_members [(k, v)] = quoted (js k) @ js '':'' @ json_stringify v"
| "stringify_members ((k, v) # m # ms) =
     quoted (js k) @ js '':'' @ json_stringify v @ js '','' @ stringify_members (m # ms)"

definition code_point :: "16 word \<Rightarrow> 16 word \<Rightarrow> nat" where
  "code_point u v = (unat u - 0xD800) * 1024 + (unat v - 0xDC00) + 0x10000"

definition utf8_unit :: "16 word \<Rightarrow> bytes" where
  "utf8_unit u =
     (let n = unat u in
      if n < 0x80 then [word_of_nat n]
      else if n < 0x800 then [word_of_nat (0xC0 + n div 64), word_of_nat (0x80 + n mod 64)]
      else if high_surrogate u \<or> low_surrogate u then [0xEF, 0xBF, 0xBD]
      else [word_of_nat (0xE0 + n div 4096), word_of_nat (0x80 + n div 64 mod 64),
            word_of_nat (0x80 + n mod 64)])"

fun utf8 :: "utf16 \<Rightarrow> bytes" where
  "utf8 [] = []"
| "utf8 [u] = utf8_unit u"
| "utf8 (u # v # us) =
     (if high_surrogate u \<and> low_surrogate v
      then (let n = code_point u v in
            [word_of_nat (0xF0 + n div 262144), word_of_nat (0x80 + n div 4096 mod 64),
             word_of_nat (0x80 + n div 64 mod 64), word_of_nat (0x80 + n mod 64)] @ utf8 us)
      else utf8_unit u @ utf8 (v # us))"

section \<open>The payload\<close>

definition MAX_WEBHOOK_PAYLOAD_BYTES :: nat where
  "MAX_WEBHOOK_PAYLOAD_BYTES = 64 * 1024"

definition DEFAULT_WEBHOOK_API_VERSION :: string where
  "DEFAULT_WEBHOOK_API_VERSION = ''2026-10-01''"

record webhook_transition =
  wt_from :: utf16
  wt_to :: utf16
  wt_actor :: utf16
  wt_reason :: "utf16 option"

record activity_snapshot =
  ws_id :: uuid
  ws_familyId :: uuid
  ws_title :: utf16
  ws_state :: utf16
  ws_assigneeId :: "uuid option"
  ws_scheduledStart :: "string option"
  ws_scheduledEnd :: "string option"
  ws_responseDeadlineAt :: "string option"
  ws_deleted :: bool
  ws_version :: int

record webhook_payload =
  wp_id :: uuid
  wp_type :: string
  wp_apiVersion :: string
  wp_occurredAt :: utf16
  wp_activity :: activity_snapshot
  wp_transition :: webhook_transition

record payload_input =
  bi_id :: uuid
  bi_type :: string
  bi_activityId :: uuid
  bi_bondId :: uuid
  bi_aggregateVersion :: int
  bi_createdAt :: instant
  bi_payload :: json_obj
  bi_activity :: "activity_row option"
  bi_apiVersion :: string

definition asString :: "json option \<Rightarrow> utf16 option" where
  "asString v = (case v of Some (JStr t) \<Rightarrow> Some t | _ \<Rightarrow> None)"

definition isoOrNull :: "instant option \<Rightarrow> string option" where
  "isoOrNull = map_option toISOString"

definition buildSnapshot :: "payload_input \<Rightarrow> activity_snapshot" where
  "buildSnapshot inp =
     (let raw = map_of (bi_payload inp); activity = bi_activity inp in
      \<lparr>ws_id = (case activity of Some a \<Rightarrow> act_id a | None \<Rightarrow> bi_activityId inp),
       ws_familyId = (case activity of Some a \<Rightarrow> act_bondId a | None \<Rightarrow> bi_bondId inp),
       ws_title = (case activity of Some a \<Rightarrow> act_title a | None \<Rightarrow> []),
       ws_state = (case asString (raw ''to'') of Some t \<Rightarrow> t
         | None \<Rightarrow> (case activity of Some a \<Rightarrow> js (status_string (act_status a)) | None \<Rightarrow> [])),
       ws_assigneeId = Option.bind activity act_assignedTo,
       ws_scheduledStart = isoOrNull (Option.bind activity act_scheduledStart),
       ws_scheduledEnd = isoOrNull (Option.bind activity act_scheduledEnd),
       ws_responseDeadlineAt = isoOrNull (Option.bind activity act_deadline),
       ws_deleted = (raw ''deleted'' = Some (JBool True) \<or>
         (\<exists>a \<in> set_option activity. act_deletedAt a \<noteq> None)),
       ws_version = bi_aggregateVersion inp\<rparr>)"

definition buildTransition :: "json_obj \<Rightarrow> webhook_transition" where
  "buildTransition raw =
     \<lparr>wt_from = or_default (asString (map_of raw ''from'')) [],
      wt_to = or_default (asString (map_of raw ''to'')) [],
      wt_actor = or_default (asString (map_of raw ''actor'')) [],
      wt_reason = asString (map_of raw ''reason'')\<rparr>"

definition snapshot_json :: "activity_snapshot \<Rightarrow> json" where
  "snapshot_json s =
     JObj [(''id'', jstr (ws_id s)), (''familyId'', jstr (ws_familyId s)),
       (''title'', JStr (ws_title s)), (''state'', JStr (ws_state s)),
       (''assigneeId'', jnullable jstr (ws_assigneeId s)),
       (''scheduledStart'', jnullable jstr (ws_scheduledStart s)),
       (''scheduledEnd'', jnullable jstr (ws_scheduledEnd s)),
       (''responseDeadlineAt'', jnullable jstr (ws_responseDeadlineAt s)),
       (''deleted'', JBool (ws_deleted s)), (''version'', JNum (ws_version s))]"

definition transition_json :: "webhook_transition \<Rightarrow> json" where
  "transition_json t =
     JObj ([(''from'', JStr (wt_from t)), (''to'', JStr (wt_to t)), (''actor'', JStr (wt_actor t))] @
       (case wt_reason t of None \<Rightarrow> [] | Some r \<Rightarrow> [(''reason'', JStr r)]))"

definition payload_json :: "webhook_payload \<Rightarrow> json" where
  "payload_json p =
     JObj [(''id'', jstr (wp_id p)), (''type'', jstr (wp_type p)),
       (''apiVersion'', jstr (wp_apiVersion p)), (''occurredAt'', JStr (wp_occurredAt p)),
       (''data'', JObj [(''activity'', snapshot_json (wp_activity p)),
          (''transition'', transition_json (wp_transition p))])]"

definition payload_bytes :: "webhook_payload \<Rightarrow> bytes" where
  "payload_bytes p = utf8 (json_stringify (payload_json p))"

definition assertPayloadWithinLimit :: "webhook_payload \<Rightarrow> utf16 + unit" where
  "assertPayloadWithinLimit p =
     (let size = length (payload_bytes p) in
      ensure (size \<le> MAX_WEBHOOK_PAYLOAD_BYTES)
        (js (''Webhook payload is '' @ decimal size @ '' bytes, exceeding the '' @
           decimal MAX_WEBHOOK_PAYLOAD_BYTES @ ''-byte (64 KB) limit'')))"

definition buildWebhookPayload :: "payload_input \<Rightarrow> utf16 + webhook_payload" where
  "buildWebhookPayload inp =
     (let payload =
        \<lparr>wp_id = bi_id inp, wp_type = bi_type inp, wp_apiVersion = bi_apiVersion inp,
         wp_occurredAt = or_default (asString (map_of (bi_payload inp) ''occurredAt''))
           (js (toISOString (bi_createdAt inp))),
         wp_activity = buildSnapshot inp, wp_transition = buildTransition (bi_payload inp)\<rparr>
      in chain (assertPayloadWithinLimit payload) (\<lambda>_. Inr payload))"

definition build_payload :: "webhook_config \<Rightarrow> db \<Rightarrow> outbox_row \<Rightarrow> utf16 + webhook_payload" where
  "build_payload c d event =
     buildWebhookPayload
       \<lparr>bi_id = ob_id event, bi_type = ob_eventType event, bi_activityId = ob_aggregateId event,
        bi_bondId = ob_bondId event, bi_aggregateVersion = ob_aggregateVersion event,
        bi_createdAt = ob_createdAt event, bi_payload = ob_payload event,
        bi_activity = findByIdIncludingDeleted d (ob_aggregateId event),
        bi_apiVersion = or_default (wc_apiVersion c) DEFAULT_WEBHOOK_API_VERSION\<rparr>"

section \<open>Facts: the size of a body\<close>

lemma utf8_unit_length: "length (utf8_unit u) \<le> 3"
  by (simp add: utf8_unit_def Let_def)

lemma length_utf8: "length (utf8 t) \<le> 3 * length t"
proof (induction t rule: utf8.induct)
  case (2 u)
  then show ?case using utf8_unit_length [of u] by simp
next
  case (3 u v us)
  then show ?case using utf8_unit_length [of u] by (auto simp: Let_def)
qed simp

lemma length_escape: "length (escape t) \<le> 6 * length t"
proof -
  have unit: "length (escape_unit u) \<le> 6" for u
    by (simp add: escape_unit_def hex4_def Let_def)
  show ?thesis
  proof (induction t rule: escape.induct)
    case (2 u)
    then show ?case using unit [of u] by simp
  next
    case (3 u v us)
    then show ?case using unit [of u] by auto
  qed simp
qed

lemma length_quoted: "length (quoted t) \<le> 6 * length t + 2"
  using length_escape [of t] by (simp add: quoted_def)

lemma escape_plain:
  assumes "\<forall>u \<in> set t. 0x20 \<le> u \<and> u < 0x80 \<and> u \<noteq> 0x22 \<and> u \<noteq> 0x5C"
  shows "escape t = t"
proof -
  have plain: "\<not> high_surrogate u" "escape_unit u = [u]"
    if "0x20 \<le> u \<and> u < 0x80 \<and> u \<noteq> 0x22 \<and> u \<noteq> 0x5C" for u :: "16 word"
  proof -
    have "unat u < 0x80" "\<not> unat u < 0x20"
      using that by (simp_all add: word_less_nat_alt word_le_nat_alt)
    then show "\<not> high_surrogate u" "escape_unit u = [u]"
      using that by (auto simp: high_surrogate_def low_surrogate_def escape_unit_def
          word_le_nat_alt word_less_nat_alt)
  qed
  show ?thesis
    using assms by (induction t rule: escape.induct) (auto simp: plain)
qed

text \<open>The texts of a payload, the version included, and the bound on the body.\<close>

definition text_size :: "webhook_payload \<Rightarrow> nat" where
  "text_size p =
     (let a = wp_activity p; t = wp_transition p;
          opt = (\<lambda>x. case x of None \<Rightarrow> 0 | Some s \<Rightarrow> length s) in
      length (wp_id p) + length (wp_type p) + length (wp_apiVersion p) + length (wp_occurredAt p) +
      length (ws_id a) + length (ws_familyId a) + length (ws_title a) + length (ws_state a) +
      opt (ws_assigneeId a) + opt (ws_scheduledStart a) + opt (ws_scheduledEnd a) +
      opt (ws_responseDeadlineAt a) + length (int_text (ws_version a)) +
      length (wt_from t) + length (wt_to t) + length (wt_actor t) +
      (case wt_reason t of None \<Rightarrow> 0 | Some r \<Rightarrow> length r))"

lemma length_nullable: "length (json_stringify (jnullable jstr x)) \<le> 6 * (case x of None \<Rightarrow> 0 | Some s \<Rightarrow> length s) + 4"
  using length_quoted [of "js (the x)"] by (cases x) auto

lemma length_key: "length (quoted (js k)) \<le> 6 * length k + 2"
  using length_quoted [of "js k"] by simp

lemma snapshot_length:
  "length (json_stringify (snapshot_json a)) \<le>
     6 * (length (ws_id a) + length (ws_familyId a) + length (ws_title a) + length (ws_state a) +
       (case ws_assigneeId a of None \<Rightarrow> 0 | Some s \<Rightarrow> length s) +
       (case ws_scheduledStart a of None \<Rightarrow> 0 | Some s \<Rightarrow> length s) +
       (case ws_scheduledEnd a of None \<Rightarrow> 0 | Some s \<Rightarrow> length s) +
       (case ws_responseDeadlineAt a of None \<Rightarrow> 0 | Some s \<Rightarrow> length s) +
       length (int_text (ws_version a))) + 1000"
  using length_quoted [of "js (ws_id a)"] length_quoted [of "js (ws_familyId a)"]
    length_quoted [of "ws_title a"] length_quoted [of "ws_state a"]
    length_nullable [of "ws_assigneeId a"] length_nullable [of "ws_scheduledStart a"]
    length_nullable [of "ws_scheduledEnd a"] length_nullable [of "ws_responseDeadlineAt a"]
    length_key [of "''id''"] length_key [of "''familyId''"] length_key [of "''title''"]
    length_key [of "''state''"] length_key [of "''assigneeId''"] length_key [of "''scheduledStart''"]
    length_key [of "''scheduledEnd''"] length_key [of "''responseDeadlineAt''"]
    length_key [of "''deleted''"] length_key [of "''version''"]
  by (simp add: snapshot_json_def del: js_Cons)

lemma transition_length:
  "length (json_stringify (transition_json t)) \<le>
     6 * (length (wt_from t) + length (wt_to t) + length (wt_actor t) +
       (case wt_reason t of None \<Rightarrow> 0 | Some r \<Rightarrow> length r)) + 300"
  using length_quoted [of "wt_from t"] length_quoted [of "wt_to t"] length_quoted [of "wt_actor t"]
    length_quoted [of "the (wt_reason t)"]
    length_key [of "''from''"] length_key [of "''to''"] length_key [of "''actor''"]
    length_key [of "''reason''"]
  by (cases "wt_reason t") (simp_all add: transition_json_def del: js_Cons)

lemma payload_length: "length (json_stringify (payload_json p)) \<le> 6 * text_size p + 2000"
  using length_quoted [of "js (wp_id p)"] length_quoted [of "js (wp_type p)"]
    length_quoted [of "js (wp_apiVersion p)"] length_quoted [of "wp_occurredAt p"]
    snapshot_length [of "wp_activity p"] transition_length [of "wp_transition p"]
    length_key [of "''id''"] length_key [of "''type''"] length_key [of "''apiVersion''"]
    length_key [of "''occurredAt''"] length_key [of "''data''"] length_key [of "''activity''"]
    length_key [of "''transition''"]
  by (simp add: payload_json_def text_size_def Let_def del: js_Cons)

lemma payload_fits: "text_size p \<le> 3000 \<Longrightarrow> assertPayloadWithinLimit p = Inr ()"
  using length_utf8 [of "json_stringify (payload_json p)"] payload_length [of p]
  by (simp add: assertPayloadWithinLimit_def payload_bytes_def MAX_WEBHOOK_PAYLOAD_BYTES_def
      ensure_def Let_def)

end
