(* ===== verification/Webhook_Delivery.thy ===== *)
theory Webhook_Delivery
  imports Webhook_Payload Notifications
begin

text \<open>One attempt of a delivery (\<open>webhooks/delivery/\<close>): the classification of an answer, the
  backoff schedule, the repositories of deliveries and attempts, the health of a subscription
  and the service. The reads of an attempt happen before the request and see the database
  \<open>d0\<close>; its writes happen after it, on the database \<open>d\<close> of that moment. What the service throws
  ends the job and makes the queue run it again.\<close>

section \<open>Classification and backoff\<close>

datatype delivery_outcome = OUT_SUCCESS | OUT_DISABLE | OUT_TERMINAL | OUT_RETRY

definition classify :: "int option \<Rightarrow> bool \<Rightarrow> delivery_outcome" where
  "classify status networkError =
     (if networkError then OUT_RETRY
      else case status of
        None \<Rightarrow> OUT_TERMINAL
      | Some st \<Rightarrow>
          if st \<ge> 200 \<and> st < 300 then OUT_SUCCESS
          else if st = 410 then OUT_DISABLE
          else if st = 408 \<or> st = 429 then OUT_RETRY
          else if st \<ge> 500 then OUT_RETRY
          else OUT_TERMINAL)"

definition WEBHOOK_BACKOFF_MS :: "int list" where
  "WEBHOOK_BACKOFF_MS =
     [0, 5000, 300000, 1800000, 7200000, 18000000, 36000000, 36000000]"

definition WEBHOOK_MAX_ATTEMPTS :: int where
  "WEBHOOK_MAX_ATTEMPTS = int (length WEBHOOK_BACKOFF_MS)"

definition webhookBackoffForAttempt :: "int \<Rightarrow> int" where
  "webhookBackoffForAttempt attemptsMade =
     (let index = min (max (attemptsMade - 1) 0) (int (length WEBHOOK_BACKOFF_MS) - 1)
      in WEBHOOK_BACKOFF_MS ! nat index)"

definition resolveBackoffMs :: "int \<Rightarrow> js_number option \<Rightarrow> int" where
  "resolveBackoffMs attemptsMade retryAfterMs =
     (case retryAfterMs of
        Some (Finite ms) \<Rightarrow> if ms \<ge> 0 then ms else webhookBackoffForAttempt attemptsMade
      | _ \<Rightarrow> webhookBackoffForAttempt attemptsMade)"

definition statusForAttempt :: "delivery_outcome \<Rightarrow> int \<Rightarrow> int \<Rightarrow> delivery_status" where
  "statusForAttempt outcome attemptNo maxAttempts =
     (if outcome = OUT_SUCCESS then D_SUCCEEDED
      else if outcome = OUT_DISABLE \<or> outcome = OUT_TERMINAL then D_FAILED
      else if attemptNo \<ge> maxAttempts then D_DEAD else D_RETRYING)"

text \<open>\<open>new Date(ms)\<close>: a time value beyond \<open>8.64e15\<close> is an invalid date.\<close>

definition js_date :: "int \<Rightarrow> instant option" where
  "js_date ms = (if \<bar>ms\<bar> \<le> 8640000000000000 then Some ms else None)"

section \<open>Repositories\<close>

text \<open>\<open>INSERT ... ON CONFLICT DO NOTHING\<close> on \<open>UNIQUE(event_id, subscription_id)\<close>.\<close>

definition delivery_exists :: "db \<Rightarrow> uuid \<Rightarrow> uuid \<Rightarrow> bool" where
  "delivery_exists d eventId subscriptionId =
     list_ex (\<lambda>v. del_eventId v = eventId \<and> del_subscriptionId v = subscriptionId) (db_deliveries d)"

definition new_delivery :: "uuid \<Rightarrow> instant \<Rightarrow> uuid \<Rightarrow> uuid \<Rightarrow> delivery_row" where
  "new_delivery newId at eventId subscriptionId =
     \<lparr>del_id = newId, del_eventId = eventId, del_subscriptionId = subscriptionId,
      del_status = D_PENDING, del_attemptCount = 0, del_nextAttemptAt = None,
      del_lastStatusCode = None, del_lastError = None, del_createdAt = at, del_completedAt = None\<rparr>"

definition insertOnConflictDoNothing ::
  "uuid \<Rightarrow> instant \<Rightarrow> uuid \<Rightarrow> uuid \<Rightarrow> db \<Rightarrow> bool \<times> db" where
  "insertOnConflictDoNothing newId at eventId subscriptionId d =
     (if delivery_exists d eventId subscriptionId then (False, d)
      else (True, d\<lparr>db_deliveries := db_deliveries d @
              [new_delivery newId at eventId subscriptionId]\<rparr>))"

definition findByEventSub :: "db \<Rightarrow> uuid \<Rightarrow> uuid \<Rightarrow> delivery_row option" where
  "findByEventSub d eventId subscriptionId =
     find (\<lambda>v. del_eventId v = eventId \<and> del_subscriptionId v = subscriptionId) (db_deliveries d)"

definition findDeliveryById :: "db \<Rightarrow> uuid \<Rightarrow> delivery_row option" where
  "findDeliveryById d i = lookup_by del_id i (db_deliveries d)"

definition findBySubscriptionPaginated :: "db \<Rightarrow> uuid \<Rightarrow> nat \<Rightarrow> nat \<Rightarrow> delivery_row list" where
  "findBySubscriptionPaginated d subscriptionId skip n =
     take n (drop skip (rev (sort_key del_createdAt
       (filter (\<lambda>v. del_subscriptionId v = subscriptionId) (db_deliveries d)))))"

definition countBySubscription :: "db \<Rightarrow> uuid \<Rightarrow> nat" where
  "countBySubscription d subscriptionId =
     length (filter (\<lambda>v. del_subscriptionId v = subscriptionId) (db_deliveries d))"

definition countDeliveriesByStatus :: "db \<Rightarrow> delivery_status \<Rightarrow> nat" where
  "countDeliveriesByStatus d st = length (filter (\<lambda>v. del_status v = st) (db_deliveries d))"

record delivery_patch =
  dp_status :: delivery_status
  dp_attemptCount :: int
  dp_nextAttemptAt :: "instant option"
  dp_lastStatusCode :: "int option patch"
  dp_lastError :: "utf16 option"
  dp_completedAt :: "instant option"

definition patch_delivery :: "delivery_patch \<Rightarrow> delivery_row \<Rightarrow> delivery_row" where
  "patch_delivery p v =
     v\<lparr>del_status := dp_status p, del_attemptCount := dp_attemptCount p,
       del_nextAttemptAt := dp_nextAttemptAt p,
       del_lastStatusCode := patched (dp_lastStatusCode p) (del_lastStatusCode v),
       del_lastError := dp_lastError p, del_completedAt := dp_completedAt p\<rparr>"

definition updateStatus :: "uuid \<Rightarrow> delivery_patch \<Rightarrow> db \<Rightarrow> db" where
  "updateStatus i p d =
     d\<lparr>db_deliveries := update_by del_id i (patch_delivery p) (db_deliveries d)\<rparr>"

definition findDeadBySubscription :: "db \<Rightarrow> uuid \<Rightarrow> delivery_row list" where
  "findDeadBySubscription d subscriptionId =
     sort_key del_createdAt
       (filter (\<lambda>v. del_subscriptionId v = subscriptionId \<and> del_status v = D_DEAD) (db_deliveries d))"

definition reconcilable :: "instant \<Rightarrow> delivery_row \<Rightarrow> bool" where
  "reconcilable now v \<longleftrightarrow>
     (del_status v = D_PENDING \<and> del_nextAttemptAt v = None) \<or>
     (del_status v = D_PENDING \<and> is_reached (del_nextAttemptAt v) now) \<or>
     (del_status v = D_RETRYING \<and> is_reached (del_nextAttemptAt v) now)"

definition findReconcilable :: "db \<Rightarrow> instant \<Rightarrow> delivery_row list" where
  "findReconcilable d now = sort_key del_createdAt (filter (reconcilable now) (db_deliveries d))"

text \<open>Attempts. The foreign key refuses an attempt of a delivery that is gone.\<close>

definition insertAttempt :: "attempt_row \<Rightarrow> db \<Rightarrow> db option" where
  "insertAttempt a d =
     (if findDeliveryById d (att_deliveryId a) = None then None
      else Some (d\<lparr>db_attempts := db_attempts d @ [a]\<rparr>))"

definition findByDelivery :: "db \<Rightarrow> uuid \<Rightarrow> attempt_row list" where
  "findByDelivery d i =
     sort_key att_attemptNo (filter (\<lambda>a. att_deliveryId a = i) (db_attempts d))"

definition findByDeliveryIds :: "db \<Rightarrow> uuid list \<Rightarrow> attempt_row list" where
  "findByDeliveryIds d ids =
     (if length ids = 0 then []
      else sort_key att_attemptNo (filter (\<lambda>a. att_deliveryId a \<in> set ids) (db_attempts d)))"

definition purgeAttemptsOlderThan :: "instant \<Rightarrow> db \<Rightarrow> nat \<times> db" where
  "purgeAttemptsOlderThan before d =
     (length (filter (\<lambda>a. att_startedAt a < before) (db_attempts d)),
      d\<lparr>db_attempts := filter (\<lambda>a. \<not> att_startedAt a < before) (db_attempts d)\<rparr>)"

section \<open>Health of a subscription\<close>

definition DEFAULT_WEBHOOK_AUTO_DISABLE_DAYS :: int where
  "DEFAULT_WEBHOOK_AUTO_DISABLE_DAYS = 5"

datatype disable_reason = Gone | Sustained_failure

definition disableNotificationText :: "uuid \<Rightarrow> disable_reason \<Rightarrow> int option \<Rightarrow> utf16 \<times> utf16" where
  "disableNotificationText subscriptionId reason autoDisableDays =
     (case reason of
        Gone \<Rightarrow>
          (js ''Webhook subscription disabled'',
           js (''Your webhook subscription '' @ subscriptionId @ '' was disabled automatically: '' @
               ''the endpoint answered 410 Gone. Re-enable it from the webhooks screen to resume deliveries.''))
      | Sustained_failure \<Rightarrow>
          (js ''Webhook subscription auto-disabled'',
           js (''Your webhook subscription '' @ subscriptionId @ '' was auto-disabled after '' @
               int_text (or_default autoDisableDays DEFAULT_WEBHOOK_AUTO_DISABLE_DAYS) @
               '' days of continuous delivery failures. '' @
               ''Re-enable it from the webhooks screen once the endpoint is healthy again.'')))"

definition autoDisableDays :: "webhook_config \<Rightarrow> int" where
  "autoDisableDays c = or_default (wc_autoDisableDays c) DEFAULT_WEBHOOK_AUTO_DISABLE_DAYS"

definition notifyDisabled :: "webhook_env \<Rightarrow> subscription_row \<Rightarrow> disable_reason \<Rightarrow> db \<Rightarrow> db" where
  "notifyDisabled e s reason d =
     (case disableNotificationText (sub_id s) reason (wc_autoDisableDays (we_config e)) of
        (title, body) \<Rightarrow>
          snd (createNotification (we_uuid e 1) (we_dbnow e)
            \<lparr>ni_userId = sub_createdBy s, ni_bondId = sub_bondId s, ni_type = ''webhook_disabled'',
             ni_title = title, ni_body = body, ni_refEntityType = ''webhook_subscription'',
             ni_refEntityId = Some (sub_id s), ni_sourceEventId = None\<rparr> d))"

text \<open>\<open>recordFailure\<close> decides on the subscription the attempt has read and writes to the current
  row; its value says whether the subscription was disabled.\<close>

definition recordFailure :: "webhook_env \<Rightarrow> subscription_row \<Rightarrow> instant \<Rightarrow> db \<Rightarrow> bool served" where
  "recordFailure e s now d =
     (if sub_status s \<noteq> SUB_ACTIVE then (Inr False, d)
      else
        (let since = or_default (sub_consecutiveFailureSince s) now in
         case (if sub_consecutiveFailureSince s = None
               then (case update_subscription_row (we_dbnow e) (sub_id s)
                       (\<lambda>r. r\<lparr>sub_consecutiveFailureSince := Some now\<rparr>) d of
                       (Inl err, d1) \<Rightarrow> (Inl err, d1) | (Inr _, d1) \<Rightarrow> (Inr (), d1))
               else (Inr (), d)) of
           (Inl err, d1) \<Rightarrow> (Inl err, d1)
         | (Inr _, d1) \<Rightarrow>
             if now - since < autoDisableDays (we_config e) * ms_per_day then (Inr False, d1)
             else
               (case update_subscription_row (we_dbnow e) (sub_id s)
                  (\<lambda>r. r\<lparr>sub_status := SUB_AUTO_DISABLED, sub_consecutiveFailureSince := None\<rparr>) d1 of
                  (Inl err, d2) \<Rightarrow> (Inl err, d2)
                | (Inr _, d2) \<Rightarrow> (Inr True, notifyDisabled e s Sustained_failure d2))))"

definition recordSuccess :: "webhook_env \<Rightarrow> subscription_row \<Rightarrow> db \<Rightarrow> unit served" where
  "recordSuccess e s d =
     (if sub_consecutiveFailureSince s = None then (Inr (), d)
      else (case update_subscription_row (we_dbnow e) (sub_id s)
              (\<lambda>r. r\<lparr>sub_consecutiveFailureSince := None\<rparr>) d of
              (Inl err, d1) \<Rightarrow> (Inl err, d1) | (Inr _, d1) \<Rightarrow> (Inr (), d1)))"

definition disableSubscription :: "webhook_env \<Rightarrow> uuid \<Rightarrow> db \<Rightarrow> unit served" where
  "disableSubscription e i d =
     (case update_subscription_row (we_dbnow e) i
        (\<lambda>r. r\<lparr>sub_status := SUB_DISABLED, sub_consecutiveFailureSince := None\<rparr>) d of
        (Inl err, d1) \<Rightarrow> (Inl err, d1) | (Inr _, d1) \<Rightarrow> (Inr (), d1))"

section \<open>The job and its end\<close>

record delivery_job =
  dj_data :: delivery_job_data
  dj_attempts :: "int option"

text \<open>Resolved, the retry signal of the service, or another exception.\<close>

datatype job_end = Job_done | Job_retry | Job_error

record handled =
  ha_end :: job_end
  ha_db :: db
  ha_data :: delivery_job_data
  ha_pinned :: "lookup_address list option"

definition WEBHOOK_RESPONSE_SNIPPET_MAX_CHARS :: nat where
  "WEBHOOK_RESPONSE_SNIPPET_MAX_CHARS = 1024"

definition truncateResponseSnippet :: "utf16 \<Rightarrow> utf16 option" where
  "truncateResponseSnippet body =
     (if body = [] then None
      else Some (if length body > WEBHOOK_RESPONSE_SNIPPET_MAX_CHARS
                 then take WEBHOOK_RESPONSE_SNIPPET_MAX_CHARS body else body))"

definition fail_delivery :: "webhook_env \<Rightarrow> uuid \<Rightarrow> int \<Rightarrow> utf16 \<Rightarrow> db \<Rightarrow> db" where
  "fail_delivery e i attemptNo err d =
     updateStatus i
       \<lparr>dp_status = D_FAILED, dp_attemptCount = attemptNo, dp_nextAttemptAt = None,
        dp_lastStatusCode = Keep, dp_lastError = Some err, dp_completedAt = Some (we_clock e 3)\<rparr> d"

definition settled_patch ::
  "delivery_status \<Rightarrow> int \<Rightarrow> int option \<Rightarrow> utf16 option \<Rightarrow> instant \<Rightarrow> delivery_patch" where
  "settled_patch st attemptNo code err now =
     \<lparr>dp_status = st, dp_attemptCount = attemptNo, dp_nextAttemptAt = None,
      dp_lastStatusCode = Put code, dp_lastError = err, dp_completedAt = Some now\<rparr>"

definition or_error :: "utf16 option \<Rightarrow> utf16 \<Rightarrow> utf16 option" where
  "or_error err text0 = Some (or_default err text0)"

definition code_text :: "int option \<Rightarrow> string \<Rightarrow> string" where
  "code_text code none = (case code of Some c \<Rightarrow> int_text c | None \<Rightarrow> none)"

definition max_attempts :: "delivery_job \<Rightarrow> int" where
  "max_attempts job = or_default (dj_attempts job) WEBHOOK_MAX_ATTEMPTS"

definition ended :: "'a served \<Rightarrow> delivery_job_data \<Rightarrow> job_end \<times> db \<times> delivery_job_data" where
  "ended r jd = (case r of (Inl _, d) \<Rightarrow> (Job_error, d, jd) | (Inr _, d) \<Rightarrow> (Job_done, d, jd))"

text \<open>The retry branch: a next attempt that is no date is refused by the column, and then nothing
  of this attempt is written to the delivery, the subscription or the job.\<close>

definition applyOutcome ::
  "webhook_env \<Rightarrow> delivery_job \<Rightarrow> uuid \<Rightarrow> subscription_row \<Rightarrow> delivery_outcome \<Rightarrow> ssrf_http_result \<Rightarrow>
   int \<Rightarrow> db \<Rightarrow> job_end \<times> db \<times> delivery_job_data" where
  "applyOutcome e job deliveryId s outcome result attemptNo d =
     (let now = we_clock e 3; code = sr_status result; jd = dj_data job in
      case outcome of
        OUT_SUCCESS \<Rightarrow>
          ended (recordSuccess e s
            (updateStatus deliveryId (settled_patch D_SUCCEEDED attemptNo code None now) d)) jd
      | OUT_DISABLE \<Rightarrow>
          (case disableSubscription e (sub_id s)
              (updateStatus deliveryId (settled_patch D_FAILED attemptNo code
                 (or_error (sr_error result) (js ''Endpoint returned 410 Gone'')) now) d) of
             (Inl _, d1) \<Rightarrow> (Job_error, d1, jd)
           | (Inr _, d1) \<Rightarrow> (Job_done, notifyDisabled e s Gone d1, jd))
      | OUT_TERMINAL \<Rightarrow>
          ended (recordFailure e s now
            (updateStatus deliveryId (settled_patch D_FAILED attemptNo code
               (or_error (sr_error result) (js (''Terminal response '' @ code_text code ''blocked'')))
               now) d)) jd
      | OUT_RETRY \<Rightarrow>
          if attemptNo \<ge> max_attempts job then
            ended (recordFailure e s now
              (updateStatus deliveryId (settled_patch D_DEAD attemptNo code
                 (or_error (sr_error result)
                    (js (''Exhausted after '' @ int_text attemptNo @ '' attempts''))) now) d)) jd
          else
            (case js_date (now + resolveBackoffMs attemptNo (sr_retryAfterMs result)) of
               None \<Rightarrow> (Job_error, d, jd)
             | Some next_at \<Rightarrow>
                 (case recordFailure e s now
                    (updateStatus deliveryId
                       \<lparr>dp_status = D_RETRYING, dp_attemptCount = attemptNo,
                        dp_nextAttemptAt = Some next_at, dp_lastStatusCode = Put code,
                        dp_lastError = sr_error result, dp_completedAt = None\<rparr> d) of
                    (Inl _, d1) \<Rightarrow> (Job_error, d1, jd)
                  | (Inr _, d1) \<Rightarrow>
                      (Job_retry, d1, jd\<lparr>jd_retryAfterMs := sr_retryAfterMs result\<rparr>))))"

section \<open>The attempt\<close>

text \<open>What is known before the request goes out: the rows, the attempt number, body and headers.\<close>

datatype prepared =
    No_delivery
  | Failed_delivery delivery_row int utf16
  | Ready delivery_row int subscription_row bytes headers

definition signed_headers ::
  "webhook_env \<Rightarrow> subscription_row \<Rightarrow> string \<Rightarrow> bytes \<Rightarrow> utf16 + headers" where
  "signed_headers e s msgId rawBody =
     (let now = we_clock e 0; timestamp = now div 1000 in
      chain (decrypt_all (we_crypto e) (wc_masterKey (we_config e)) (signingSecretsFor s now)) (\<lambda>secrets.
      chain (buildSignatureHeaders (we_crypto e) msgId timestamp rawBody secrets) (\<lambda>hs.
      Inr (hs @ [(''content-type'', ''application/json'')]))))"

definition prepare_delivery :: "webhook_env \<Rightarrow> delivery_job_data \<Rightarrow> db \<Rightarrow> prepared" where
  "prepare_delivery e jd d0 =
     (case findByEventSub d0 (jd_eventId jd) (jd_subscriptionId jd) of
        None \<Rightarrow> No_delivery
      | Some delivery \<Rightarrow>
          (let attemptNo = del_attemptCount delivery + 1 in
           case findSubscriptionById d0 (jd_subscriptionId jd) of
             None \<Rightarrow> Failed_delivery delivery attemptNo (js ''Subscription not found'')
           | Some s \<Rightarrow>
               if sub_status s \<noteq> SUB_ACTIVE then
                 Failed_delivery delivery attemptNo
                   (js (''Subscription is '' @ subscription_status_string (sub_status s) @
                        '', not ACTIVE''))
               else
                 (case findOutboxById d0 (jd_eventId jd) of
                    None \<Rightarrow> Failed_delivery delivery attemptNo (js ''Outbox event not found'')
                  | Some event \<Rightarrow>
                      (case build_payload (we_config e) d0 event of
                         Inl err \<Rightarrow>
                           Failed_delivery delivery attemptNo (js ''Payload build failed: '' @ err)
                       | Inr payload \<Rightarrow>
                           (let rawBody = payload_bytes payload in
                            case signed_headers e s (ob_id event) rawBody of
                              Inl err \<Rightarrow>
                                Failed_delivery delivery attemptNo (js ''Signing failed: '' @ err)
                            | Inr hdrs \<Rightarrow> Ready delivery attemptNo s rawBody hdrs)))))"

definition attempt_of ::
  "webhook_env \<Rightarrow> delivery_row \<Rightarrow> int \<Rightarrow> ssrf_http_result \<Rightarrow> attempt_row" where
  "attempt_of e delivery attemptNo result =
     \<lparr>att_id = we_uuid e 0, att_deliveryId = del_id delivery, att_attemptNo = attemptNo,
      att_startedAt = we_clock e 1, att_durationMs = Some (max (we_clock e 2 - we_clock e 1) 0),
      att_statusCode = sr_status result,
      att_responseSnippet = truncateResponseSnippet (sr_body result),
      att_error = sr_error result\<rparr>"

definition handle_delivery :: "webhook_env \<Rightarrow> delivery_job \<Rightarrow> db \<Rightarrow> db \<Rightarrow> handled" where
  "handle_delivery e job d0 d =
     (case prepare_delivery e (dj_data job) d0 of
        No_delivery \<Rightarrow>
          \<lparr>ha_end = Job_done, ha_db = d, ha_data = dj_data job, ha_pinned = None\<rparr>
      | Failed_delivery delivery attemptNo err \<Rightarrow>
          \<lparr>ha_end = Job_done, ha_db = fail_delivery e (del_id delivery) attemptNo err d,
           ha_data = dj_data job, ha_pinned = None\<rparr>
      | Ready delivery attemptNo s rawBody hdrs \<Rightarrow>
          (case ssrf_post (we_http e) (sub_url s) rawBody hdrs of
             (result, pinned) \<Rightarrow>
               (case insertAttempt (attempt_of e delivery attemptNo result) d of
                  None \<Rightarrow> \<lparr>ha_end = Job_error, ha_db = d, ha_data = dj_data job, ha_pinned = pinned\<rparr>
                | Some d1 \<Rightarrow>
                    (case applyOutcome e job (del_id delivery) s
                        (classify (sr_status result) (sr_networkError result)) result attemptNo d1 of
                       (je, d2, jd) \<Rightarrow>
                         \<lparr>ha_end = je, ha_db = d2, ha_data = jd, ha_pinned = pinned\<rparr>))))"

text \<open>The test ping: no row is read or written but the subscription's, and nothing is thrown.\<close>

definition test_payload :: "webhook_env \<Rightarrow> string \<Rightarrow> bytes" where
  "test_payload e msgId =
     utf8 (json_stringify (JObj
       [(''id'', jstr msgId), (''type'', jstr ''webhook.test''),
        (''apiVersion'', jstr (or_default (wc_apiVersion (we_config e)) DEFAULT_WEBHOOK_API_VERSION)),
        (''occurredAt'', jstr (toISOString (we_clock e 0))),
        (''data'', JObj [(''test'', JBool True)])]))"

definition handleTest :: "webhook_env \<Rightarrow> uuid \<Rightarrow> db \<Rightarrow> (ssrf_http_result \<times> lookup_address list option) option" where
  "handleTest e subscriptionId d =
     (case findSubscriptionById d subscriptionId of
        None \<Rightarrow> None
      | Some s \<Rightarrow>
          if sub_status s \<noteq> SUB_ACTIVE then None
          else
            (let msgId = we_uuid e 0; rawBody = test_payload e msgId in
             case signed_headers e s msgId rawBody of
               Inl _ \<Rightarrow> None
             | Inr hdrs \<Rightarrow> Some (ssrf_post (we_http e) (sub_url s) rawBody hdrs)))"

definition handle :: "webhook_env \<Rightarrow> delivery_job \<Rightarrow> db \<Rightarrow> db \<Rightarrow> handled" where
  "handle e job d0 d =
     (if jd_test (dj_data job)
      then \<lparr>ha_end = Job_done, ha_db = d, ha_data = dj_data job,
            ha_pinned = Option.bind (handleTest e (jd_subscriptionId (dj_data job)) d0) snd\<rparr>
      else handle_delivery e job d0 d)"

end
