(* ===== verification/Realtime.thy ===== *)
theory Realtime
  imports Notification_Fan_Out
begin

text \<open>The realtime channel (\<open>realtime/\<close>): the frames the worker builds from outbox events and
  created notifications (\<open>dto/*.ts\<close>), the publisher with its flag, the validation of a received
  frame and the gateway, whose registry maps a user to sockets. A frame on the channel is its
  JSON value: \<open>JSON.parse\<close> undoes \<open>JSON.stringify\<close>. Sockets are numbers.\<close>

section \<open>Frames\<close>

definition ACTIVITY_RESERVED_KEYS :: "string list" where
  "ACTIVITY_RESERVED_KEYS =
     [''v'', ''type'', ''eventId'', ''bondId'', ''activityId'', ''from'', ''to'', ''actor'',
      ''occurredAt'', ''reason'']"

definition EXPENSE_RESERVED_KEYS :: "string list" where
  "EXPENSE_RESERVED_KEYS =
     [''v'', ''type'', ''eventId'', ''bondId'', ''expenseId'', ''status'', ''actor'', ''occurredAt'']"

definition extras :: "string list \<Rightarrow> json_obj \<Rightarrow> json_obj" where
  "extras reserved payload = filter (\<lambda>(k, v). k \<notin> set reserved \<and> v \<noteq> JNull) payload"

text \<open>A member whose value is undefined is dropped by \<open>JSON.stringify\<close>.\<close>

definition member_of :: "string \<Rightarrow> json_obj \<Rightarrow> json_obj" where
  "member_of k payload = (case map_of payload k of None \<Rightarrow> [] | Some v \<Rightarrow> [(k, v)])"

definition buildActivityChangedMessage :: "outbox_row \<Rightarrow> json_obj" where
  "buildActivityChangedMessage e =
     (let payload = ob_payload e in
      [(''v'', JNum 1), (''type'', jstr ''activity.changed''), (''eventId'', jstr (ob_id e)),
       (''activityId'', (case map_of payload ''activityId'' of
          Some v \<Rightarrow> if v = JNull then jstr (ob_aggregateId e) else v | None \<Rightarrow> jstr (ob_aggregateId e))),
       (''bondId'', jstr (ob_bondId e))] @
      member_of ''from'' payload @ member_of ''to'' payload @ member_of ''actor'' payload @
      member_of ''occurredAt'' payload @ extras ACTIVITY_RESERVED_KEYS payload @
      (case map_of payload ''reason'' of Some v \<Rightarrow> if v = JNull then [] else [(''reason'', v)]
       | None \<Rightarrow> []))"

definition buildExpenseChangedMessage :: "outbox_row \<Rightarrow> json_obj" where
  "buildExpenseChangedMessage e =
     (let payload = ob_payload e in
      [(''v'', JNum 1), (''type'', jstr ''expense.changed''), (''eventId'', jstr (ob_id e)),
       (''expenseId'', jstr (ob_aggregateId e)), (''bondId'', jstr (ob_bondId e))] @
      member_of ''status'' payload @ member_of ''actor'' payload @
      [(''occurredAt'', jstr (toISOString (ob_createdAt e)))] @
      extras EXPENSE_RESERVED_KEYS payload)"

definition buildNotificationCreatedMessage :: "created_notification_ref \<Rightarrow> string \<Rightarrow> json_obj" where
  "buildNotificationCreatedMessage n occurredAt =
     [(''v'', JNum 1), (''type'', jstr ''notification.created''), (''notificationId'', jstr (nref_id n)),
      (''userId'', jstr (nref_userId n)), (''notificationType'', jstr (nref_type n)),
      (''refEntityType'', jstr (nref_refEntityType n)),
      (''refEntityId'', jnullable jstr (nref_refEntityId n)), (''occurredAt'', jstr occurredAt)]"

section \<open>Publisher\<close>

text \<open>The flag is read once; a publish that Redis refuses is swallowed. The value is what reaches
  the channel.\<close>

definition publish_enabled :: "string option \<Rightarrow> bool" where
  "publish_enabled flag = (case flag of None \<Rightarrow> True | Some f \<Rightarrow> f \<noteq> ''false'')"

definition send_frame :: "string option \<Rightarrow> bool \<Rightarrow> json_obj \<Rightarrow> json list" where
  "send_frame flag redis_up message =
     (if publish_enabled flag \<and> redis_up then [JObj message] else [])"

section \<open>Validation\<close>

definition is_text :: "json option \<Rightarrow> bool" where
  "is_text v = (case v of Some (JStr t) \<Rightarrow> t \<noteq> [] | _ \<Rightarrow> False)"

definition isActivityChanged :: "json_obj \<Rightarrow> bool" where
  "isActivityChanged v \<longleftrightarrow> is_text (map_of v ''bondId'') \<and> is_text (map_of v ''eventId'')"

definition isExpenseChanged :: "json_obj \<Rightarrow> bool" where
  "isExpenseChanged v \<longleftrightarrow> is_text (map_of v ''bondId'') \<and> is_text (map_of v ''eventId'') \<and>
     is_text (map_of v ''expenseId'')"

definition isNotificationCreated :: "json_obj \<Rightarrow> bool" where
  "isNotificationCreated v \<longleftrightarrow>
     is_text (map_of v ''notificationId'') \<and> is_text (map_of v ''userId'') \<and>
     is_text (map_of v ''notificationType'') \<and> is_text (map_of v ''refEntityType'') \<and>
     (map_of v ''refEntityId'' = Some JNull \<or> is_text (map_of v ''refEntityId'')) \<and>
     is_text (map_of v ''occurredAt'')"

definition parseRealtimeFrame :: "json \<Rightarrow> json_obj option" where
  "parseRealtimeFrame parsed =
     (case parsed of
        JObj v \<Rightarrow>
          if map_of v ''v'' \<noteq> Some (JNum 1) then None
          else if map_of v ''type'' = Some (jstr ''activity.changed'') then
            (if isActivityChanged v then Some v else None)
          else if map_of v ''type'' = Some (jstr ''expense.changed'') then
            (if isExpenseChanged v then Some v else None)
          else if map_of v ''type'' = Some (jstr ''notification.created'') then
            (if isNotificationCreated v then Some v else None)
          else None
      | _ \<Rightarrow> None)"

section \<open>Gateway\<close>

type_synonym registry = "(uuid \<times> nat list) list"

definition sockets_of :: "registry \<Rightarrow> uuid \<Rightarrow> nat list" where
  "sockets_of reg userId = (case map_of reg userId of Some ss \<Rightarrow> ss | None \<Rightarrow> [])"

fun registry_put :: "uuid \<Rightarrow> nat list \<Rightarrow> registry \<Rightarrow> registry" where
  "registry_put u ss [] = [(u, ss)]"
| "registry_put u ss ((u', ss') # reg) = (if u = u' then (u, ss) # reg else (u', ss') # registry_put u ss reg)"

definition WS_CLOSE_UNAUTHORIZED :: nat where
  "WS_CLOSE_UNAUTHORIZED = 4401"

definition WS_CLOSE_NO_MEMBERSHIP :: nat where
  "WS_CLOSE_NO_MEMBERSHIP = 4403"

text \<open>The handshake of one socket: the close code, or the registry with the socket. The user is
  what \<open>authenticate\<close> made of the token; \<open>lookup\<close> is \<open>None\<close> when the query throws.\<close>

definition handleConnection ::
  "nat \<Rightarrow> uuid option \<Rightarrow> (uuid \<Rightarrow> bond_row list option) \<Rightarrow> registry \<Rightarrow> nat + registry" where
  "handleConnection socket user lookup reg =
     (case user of
        None \<Rightarrow> Inl WS_CLOSE_UNAUTHORIZED
      | Some u \<Rightarrow>
          (case lookup u of
             None \<Rightarrow> Inl 1011
           | Some bonds \<Rightarrow>
               if length bonds = 0 then Inl WS_CLOSE_NO_MEMBERSHIP
               else Inr (registry_put u
                 (if socket \<in> set (sockets_of reg u) then sockets_of reg u
                  else sockets_of reg u @ [socket]) reg)))"

fun handleDisconnect :: "nat \<Rightarrow> registry \<Rightarrow> registry" where
  "handleDisconnect socket [] = []"
| "handleDisconnect socket ((u, ss) # reg) =
     (if socket \<in> set ss
      then (if removeAll socket ss = [] then reg else (u, removeAll socket ss) # reg)
      else (u, ss) # handleDisconnect socket reg)"

text \<open>What is written to which socket; \<open>open\<close> is the ready state.\<close>

definition deliverToUser :: "(nat \<Rightarrow> bool) \<Rightarrow> registry \<Rightarrow> json_obj \<Rightarrow> (nat \<times> json_obj) list" where
  "deliverToUser is_open reg message =
     (case map_of message ''userId'' of
        Some (JStr u) \<Rightarrow>
          map (\<lambda>s. (s, filter (\<lambda>(k, _). k \<noteq> ''userId'') message))
            (filter is_open (sockets_of reg (ascii u)))
      | _ \<Rightarrow> [])"

definition first_occurrences :: "'a list \<Rightarrow> 'a list" where
  "first_occurrences xs = rev (remdups (rev xs))"

definition deliverToBond ::
  "(nat \<Rightarrow> bool) \<Rightarrow> db \<Rightarrow> registry \<Rightarrow> json_obj \<Rightarrow> (nat \<times> json_obj) list" where
  "deliverToBond is_open d reg message =
     (case map_of message ''bondId'' of
        Some (JStr b) \<Rightarrow>
          map (\<lambda>s. (s, message))
            (filter is_open (first_occurrences
               (concat (map (sockets_of reg) (findActiveMemberIds d (ascii b))))))
      | _ \<Rightarrow> [])"

definition deliver ::
  "(nat \<Rightarrow> bool) \<Rightarrow> db \<Rightarrow> registry \<Rightarrow> json_obj \<Rightarrow> (nat \<times> json_obj) list" where
  "deliver is_open d reg message =
     (if map_of message ''type'' = Some (jstr ''notification.created'')
      then deliverToUser is_open reg message else deliverToBond is_open d reg message)"

text \<open>From the channel to the sockets: a frame that is not recognised is dropped.\<close>

definition receive_frame ::
  "(nat \<Rightarrow> bool) \<Rightarrow> db \<Rightarrow> registry \<Rightarrow> json \<Rightarrow> (nat \<times> json_obj) list" where
  "receive_frame is_open d reg raw =
     (case parseRealtimeFrame raw of None \<Rightarrow> [] | Some message \<Rightarrow> deliver is_open d reg message)"

section \<open>Facts\<close>

lemma map_of_member [simp]: "map_of (member_of k p) k' = (if k' = k then map_of p k else None)"
  by (simp add: member_of_def split: option.split)

lemma map_of_extras: "k \<in> set reserved \<Longrightarrow> map_of (extras reserved p) k = None"
  by (induction p) (auto simp: extras_def)

lemma activity_frame_fields:
  "map_of (buildActivityChangedMessage e) ''v'' = Some (JNum 1)"
  "map_of (buildActivityChangedMessage e) ''type'' = Some (jstr ''activity.changed'')"
  "map_of (buildActivityChangedMessage e) ''eventId'' = Some (jstr (ob_id e))"
  "map_of (buildActivityChangedMessage e) ''bondId'' = Some (jstr (ob_bondId e))"
  by (simp_all add: buildActivityChangedMessage_def Let_def)

lemma expense_frame_fields:
  "map_of (buildExpenseChangedMessage e) ''v'' = Some (JNum 1)"
  "map_of (buildExpenseChangedMessage e) ''type'' = Some (jstr ''expense.changed'')"
  "map_of (buildExpenseChangedMessage e) ''eventId'' = Some (jstr (ob_id e))"
  "map_of (buildExpenseChangedMessage e) ''expenseId'' = Some (jstr (ob_aggregateId e))"
  "map_of (buildExpenseChangedMessage e) ''bondId'' = Some (jstr (ob_bondId e))"
  by (simp_all add: buildExpenseChangedMessage_def Let_def)

lemma js_eq_Nil [simp]: "js s = [] \<longleftrightarrow> s = []"
  by (simp add: js_def)

lemma map_of_registry_put [simp]: "map_of (registry_put u ss reg) = (map_of reg)(u \<mapsto> ss)"
  by (induction reg) (auto simp: fun_eq_iff)

section \<open>All interleavings of the gateway\<close>

text \<open>A socket connects (its token is checked at once), its lookup of the bonds is answered later
  and registers or closes it, and it may close at any moment. \<open>gw_owner\<close> is the user of the token
  of each socket so far.\<close>

record gateway =
  gw_registry :: registry
  gw_pending :: "nat list"
  gw_open :: "nat set"
  gw_owner :: "nat \<Rightarrow> uuid option"

inductive gateway_reach :: "gateway \<Rightarrow> bool" where
  gw_start: "gateway_reach
     \<lparr>gw_registry = [], gw_pending = [], gw_open = {}, gw_owner = (\<lambda>_. None)\<rparr>"
| gw_connect: "gateway_reach g \<Longrightarrow> gw_owner g socket = None \<Longrightarrow>
     gateway_reach (g\<lparr>gw_pending := socket # gw_pending g, gw_open := insert socket (gw_open g),
       gw_owner := (gw_owner g)(socket \<mapsto> u)\<rparr>)"
| gw_refused: "gateway_reach g \<Longrightarrow> socket \<in> set (gw_pending g) \<Longrightarrow>
     handleConnection socket (gw_owner g socket) lookup (gw_registry g) = Inl code \<Longrightarrow>
     gateway_reach (g\<lparr>gw_pending := removeAll socket (gw_pending g),
       gw_open := gw_open g - {socket}\<rparr>)"
| gw_registered: "gateway_reach g \<Longrightarrow> socket \<in> set (gw_pending g) \<Longrightarrow>
     handleConnection socket (gw_owner g socket) lookup (gw_registry g) = Inr reg \<Longrightarrow>
     gateway_reach (g\<lparr>gw_pending := removeAll socket (gw_pending g), gw_registry := reg\<rparr>)"
| gw_closed: "gateway_reach g \<Longrightarrow> socket \<in> gw_open g \<Longrightarrow>
     gateway_reach (g\<lparr>gw_open := gw_open g - {socket},
       gw_registry := handleDisconnect socket (gw_registry g)\<rparr>)"

text \<open>An entry of the registry: some sockets, each once, whose tokens were the user's.\<close>

definition entry_ok :: "(nat \<Rightarrow> uuid option) \<Rightarrow> uuid \<times> nat list \<Rightarrow> bool" where
  "entry_ok owner p \<longleftrightarrow> snd p \<noteq> [] \<and> distinct (snd p) \<and> (\<forall>s \<in> set (snd p). owner s = Some (fst p))"

definition gateway_inv :: "gateway \<Rightarrow> bool" where
  "gateway_inv g \<longleftrightarrow> distinct (map fst (gw_registry g)) \<and>
     (\<forall>p \<in> set (gw_registry g). entry_ok (gw_owner g) p) \<and>
     (\<forall>s \<in> set (gw_pending g). gw_owner g s \<noteq> None)"

lemma set_registry_put:
  assumes "distinct (map fst reg)"
  shows "set (registry_put u ss reg) = insert (u, ss) {p \<in> set reg. fst p \<noteq> u}"
  using assms
proof (induction reg)
  case (Cons p reg)
  have "\<forall>q \<in> set reg. fst q \<noteq> fst p"
    using Cons.prems by (metis distinct.simps(2) image_eqI list.simps(9) set_map)
  then show ?case
    using Cons by (cases p) auto
qed simp

lemma fst_registry_put:
  "distinct (map fst reg) \<Longrightarrow> distinct (map fst (registry_put u ss reg))"
proof (induction reg)
  case (Cons p reg)
  have "fst ` set (registry_put u ss reg) \<subseteq> insert u (fst ` set reg)"
    using Cons.prems by (auto simp: set_registry_put)
  then show ?case
    using Cons by (cases p) auto
qed simp

lemma fst_handleDisconnect: "fst ` set (handleDisconnect s reg) \<subseteq> fst ` set reg"
proof (induction reg)
  case (Cons p reg)
  then show ?case
    by (cases p) (simp add: subset_insertI2)
qed simp

lemma entry_ok_disconnect:
  "\<forall>p \<in> set reg. entry_ok owner p \<Longrightarrow> \<forall>p \<in> set (handleDisconnect s reg). entry_ok owner p"
proof (induction reg)
  case (Cons p reg)
  obtain u ss where p: "p = (u, ss)" by (cases p)
  have "entry_ok owner (u, removeAll s ss)" if "removeAll s ss \<noteq> []"
    using Cons.prems that by (simp add: p entry_ok_def distinct_removeAll)
  then show ?case
    using Cons by (simp add: p)
qed simp

lemma distinct_handleDisconnect:
  "distinct (map fst reg) \<Longrightarrow> distinct (map fst (handleDisconnect s reg))"
proof (induction reg)
  case (Cons p reg)
  obtain u ss where p: "p = (u, ss)" by (cases p)
  have "u \<notin> fst ` set (handleDisconnect s reg)"
    using Cons.prems fst_handleDisconnect [of s reg] by (metis distinct.simps(2) fst_conv list.simps(9) p set_map subsetD)
  then show ?case
    using Cons by (simp add: p)
qed simp

lemma sockets_of_in: "s \<in> set (sockets_of reg u) \<Longrightarrow> \<exists>ss. (u, ss) \<in> set reg \<and> s \<in> set ss"
  by (cases "map_of reg u") (auto simp: sockets_of_def dest: map_of_SomeD)

lemma handleConnection_Inr:
  "handleConnection s user lookup reg = Inr reg' \<longleftrightarrow>
     (\<exists>u bonds. user = Some u \<and> lookup u = Some bonds \<and> bonds \<noteq> [] \<and>
        reg' = registry_put u (if s \<in> set (sockets_of reg u) then sockets_of reg u
                               else sockets_of reg u @ [s]) reg)"
  by (auto simp: handleConnection_def split: option.splits)

lemma gateway_reach_inv: "gateway_reach g \<Longrightarrow> gateway_inv g"
proof (induction rule: gateway_reach.induct)
  case (gw_registered g socket lookup reg)
  let ?ss = "\<lambda>u. if socket \<in> set (sockets_of (gw_registry g) u) then sockets_of (gw_registry g) u
    else sockets_of (gw_registry g) u @ [socket]"
  obtain u where u: "gw_owner g socket = Some u" "reg = registry_put u (?ss u) (gw_registry g)"
    using gw_registered.hyps(3) by (auto simp: handleConnection_Inr)
  have inv: "distinct (map fst (gw_registry g))" "\<forall>p \<in> set (gw_registry g). entry_ok (gw_owner g) p"
      "\<forall>s \<in> set (gw_pending g). gw_owner g s \<noteq> None"
    using gw_registered.IH by (auto simp: gateway_inv_def)
  have "entry_ok (gw_owner g) (u, ?ss u)"
  proof (cases "map_of (gw_registry g) u")
    case None
    then show ?thesis using u(1) by (simp add: entry_ok_def sockets_of_def)
  next
    case (Some ss)
    then have "entry_ok (gw_owner g) (u, ss)"
      using inv(2) map_of_SomeD by fast
    then show ?thesis using Some u(1) by (auto simp: entry_ok_def sockets_of_def)
  qed
  then show ?case
    using inv by (auto simp: gateway_inv_def u(2) set_registry_put fst_registry_put)
next
  case (gw_closed g socket)
  then have "\<forall>p \<in> set (handleDisconnect socket (gw_registry g)). entry_ok (gw_owner g) p"
    by (intro entry_ok_disconnect) (simp add: gateway_inv_def)
  then show ?case
    using gw_closed.IH by (simp add: gateway_inv_def distinct_handleDisconnect)
next
  case (gw_connect g socket u)
  have "entry_ok ((gw_owner g)(socket \<mapsto> u)) p" if "p \<in> set (gw_registry g)" for p
    using gw_connect that by (force simp: gateway_inv_def entry_ok_def)
  then show ?case
    using gw_connect.IH by (auto simp: gateway_inv_def)
qed (auto simp: gateway_inv_def)

lemma registered_owner: "gateway_inv g \<Longrightarrow> s \<in> set (sockets_of (gw_registry g) u) \<Longrightarrow> gw_owner g s = Some u"
  by (force simp: gateway_inv_def entry_ok_def dest!: sockets_of_in)

end
