(* ===== verification/Webhook_Dispatch.thy ===== *)
theory Webhook_Dispatch
  imports Webhook_Delivery Realtime
begin

text \<open>From the outbox to the deliveries (\<open>webhooks/dispatcher/\<close>, \<open>webhooks/admin/\<close>): the fan-out of
  one event in one transaction, the relay over the pending events, the reconciliation, the
  retention, the manual replay, the delivery log and the job switch of the worker. BullMQ is
  the record \<open>queue_world\<close>: whether an \<open>add\<close> reaches Redis, what \<open>getJob\<close> answers. What the
  code sends to it is the list of jobs that reached it.\<close>

section \<open>Jobs\<close>

definition buildDeliveryJobId :: "uuid \<Rightarrow> uuid \<Rightarrow> string" where
  "buildDeliveryJobId eventId subscriptionId = eventId @ ''--'' @ subscriptionId"

record queue_world =
  qw_add_ok :: "string \<Rightarrow> bool"
  qw_getJob :: "string \<Rightarrow> bool option"

definition delivery_queue_job :: "uuid \<Rightarrow> uuid \<Rightarrow> queue_job" where
  "delivery_queue_job eventId subscriptionId =
     \<lparr>qj_name = ''delivery'', qj_id = buildDeliveryJobId eventId subscriptionId,
      qj_data = \<lparr>jd_eventId = eventId, jd_subscriptionId = subscriptionId, jd_retryAfterMs = None,
                 jd_test = False\<rparr>,
      qj_attempts = Some WEBHOOK_MAX_ATTEMPTS\<rparr>"

text \<open>An \<open>add\<close> whose failure is logged and swallowed.\<close>

definition enqueue_delivery :: "queue_world \<Rightarrow> uuid \<Rightarrow> uuid \<Rightarrow> queue_job list" where
  "enqueue_delivery q eventId subscriptionId =
     (if qw_add_ok q (buildDeliveryJobId eventId subscriptionId)
      then [delivery_queue_job eventId subscriptionId] else [])"

section \<open>Fan-out of one event\<close>

definition selectMatchedSubscriptions :: "subscription_row list \<Rightarrow> string \<Rightarrow> subscription_row list" where
  "selectMatchedSubscriptions subscriptions eventType =
     rev (fst (fold (\<lambda>s (matched, seen).
         if sub_id s \<in> seen then (matched, seen)
         else if \<not> subscriptionMatchesEventType (sub_eventTypes s) eventType then (matched, seen)
         else (s # matched, insert (sub_id s) seen)) subscriptions ([], {})))"

text \<open>The inserts of the transaction: the subscriptions whose row is new.\<close>

fun insert_deliveries ::
  "(nat \<Rightarrow> uuid) \<Rightarrow> instant \<Rightarrow> uuid \<Rightarrow> subscription_row list \<Rightarrow> db \<Rightarrow> uuid list \<times> db" where
  "insert_deliveries ids at eventId [] d = ([], d)"
| "insert_deliveries ids at eventId (s # ss) d =
     (case insertOnConflictDoNothing (ids 0) at eventId (sub_id s) d of
        (created, d1) \<Rightarrow>
          (case insert_deliveries (\<lambda>n. ids (Suc n)) at eventId ss d1 of
             (rest, d2) \<Rightarrow> (if created then sub_id s # rest else rest, d2)))"

record dispatch_env =
  dx_env :: env
  dx_ids :: "nat \<Rightarrow> uuid"
  dx_tz :: "instant \<Rightarrow> int"
  dx_fanout_flag :: config_value
  dx_publish_flag :: "string option"
  dx_redis_up :: bool
  dx_now :: instant
  dx_queue :: queue_world
  dx_notifications :: bool

text \<open>The outcome of a dispatch: the jobs that reached the queue, how many were created, the
  frames published and the database. \<open>aborts\<close> says that the transaction fails, which is an
  exception of \<open>dispatch\<close> and leaves everything as it was.\<close>

record dispatched =
  di_count :: nat
  di_jobs :: "queue_job list"
  di_frames :: "json list"
  di_db :: db

definition matched_subscriptions :: "outbox_row \<Rightarrow> db \<Rightarrow> subscription_row list" where
  "matched_subscriptions event d =
     (if ob_aggregateType event = Agg_activity
      then selectMatchedSubscriptions (findActiveByBond d (ob_bondId event)) (ob_eventType event)
      else [])"

definition dispatch :: "dispatch_env \<Rightarrow> bool \<Rightarrow> outbox_row \<Rightarrow> db \<Rightarrow> dispatched option" where
  "dispatch x aborts event d =
     (if aborts then None
      else
        (case insert_deliveries (dx_ids x) (env_dbnow (dx_env x)) (ob_id event)
            (matched_subscriptions event d) d of
          (created, d1) \<Rightarrow>
            (case (if dx_notifications x
                   then handleOutboxEvent (dx_fanout_flag x) (dx_env x) (dx_tz x) event d1
                   else ([], d1)) of
               (notes, d2) \<Rightarrow>
                 Some \<lparr>di_count = length created,
                   di_jobs = concat (map (enqueue_delivery (dx_queue x) (ob_id event)) created),
                   di_frames = concat (map (\<lambda>n. send_frame (dx_publish_flag x) (dx_redis_up x)
                     (buildNotificationCreatedMessage n (toISOString (dx_now x)))) notes),
                   di_db = markDispatched (ob_id event) (env_dbnow (dx_env x)) d2\<rparr>)))"

section \<open>The relay\<close>

definition RELAY_BATCH_LIMIT :: nat where
  "RELAY_BATCH_LIMIT = 100"

definition event_frames :: "dispatch_env \<Rightarrow> outbox_row \<Rightarrow> json list" where
  "event_frames x event =
     (case ob_aggregateType event of
        Agg_activity \<Rightarrow> send_frame (dx_publish_flag x) (dx_redis_up x) (buildActivityChangedMessage event)
      | Agg_expense \<Rightarrow> send_frame (dx_publish_flag x) (dx_redis_up x) (buildExpenseChangedMessage event))"

text \<open>The loop over the batch; \<open>xs i\<close> is what the \<open>i\<close>-th dispatch draws from outside and
  \<open>aborts i\<close> whether its transaction fails. A failed event is logged and skipped.\<close>

fun relay_events ::
  "(nat \<Rightarrow> dispatch_env) \<Rightarrow> (nat \<Rightarrow> bool) \<Rightarrow> nat \<Rightarrow> outbox_row list \<Rightarrow> db \<Rightarrow> dispatched" where
  "relay_events xs aborts i [] d = \<lparr>di_count = 0, di_jobs = [], di_frames = [], di_db = d\<rparr>"
| "relay_events xs aborts i (event # events) d =
     (case dispatch (xs i) (aborts i) event d of
        None \<Rightarrow> relay_events xs aborts (Suc i) events d
      | Some r \<Rightarrow>
          (let rest = relay_events xs aborts (Suc i) events (di_db r) in
           \<lparr>di_count = di_count r + di_count rest, di_jobs = di_jobs r @ di_jobs rest,
            di_frames = di_frames r @ event_frames (xs i) event @ di_frames rest,
            di_db = di_db rest\<rparr>))"

definition relay_run :: "(nat \<Rightarrow> dispatch_env) \<Rightarrow> (nat \<Rightarrow> bool) \<Rightarrow> nat \<Rightarrow> db \<Rightarrow> dispatched" where
  "relay_run xs aborts limit d = relay_events xs aborts 0 (findPending limit d) d"

section \<open>Reconciliation\<close>

fun requeue :: "queue_world \<Rightarrow> delivery_row list \<Rightarrow> nat \<times> queue_job list" where
  "requeue q [] = (0, [])"
| "requeue q (v # vs) =
     (case qw_getJob q (buildDeliveryJobId (del_eventId v) (del_subscriptionId v)) of
        None \<Rightarrow> (0, [])
      | Some True \<Rightarrow> requeue q vs
      | Some False \<Rightarrow>
          (case requeue q vs of
             (n, jobs) \<Rightarrow> (Suc n, enqueue_delivery q (del_eventId v) (del_subscriptionId v) @ jobs)))"

record reconcile_result =
  re_dispatchedOutbox :: nat
  re_reenqueuedDeliveries :: nat

definition reconcile_run ::
  "(nat \<Rightarrow> dispatch_env) \<Rightarrow> (nat \<Rightarrow> bool) \<Rightarrow> queue_world \<Rightarrow> instant \<Rightarrow> db \<Rightarrow>
   reconcile_result \<times> queue_job list \<times> json list \<times> db" where
  "reconcile_run xs aborts q now d =
     (let r = relay_run xs aborts RELAY_BATCH_LIMIT d in
      case requeue q (findReconcilable (di_db r) now) of
        (n, jobs) \<Rightarrow>
          (\<lparr>re_dispatchedOutbox = di_count r, re_reenqueuedDeliveries = n\<rparr>, di_jobs r @ jobs,
           di_frames r, di_db r))"

section \<open>Retention\<close>

definition DEFAULT_RETENTION_DAYS :: int where
  "DEFAULT_RETENTION_DAYS = 30"

record retention_result =
  rt_purgedAttempts :: nat
  rt_purgedOutbox :: nat
  rt_cutoff :: instant

definition retention_run :: "webhook_config \<Rightarrow> instant \<Rightarrow> db \<Rightarrow> retention_result \<times> db" where
  "retention_run c now d =
     (let cutoff = now - or_default (wc_retentionDays c) DEFAULT_RETENTION_DAYS * ms_per_day in
      case purgeAttemptsOlderThan cutoff d of
        (attempts, d1) \<Rightarrow>
          (case purgeDispatchedBefore cutoff d1 of
             (d2, outbox) \<Rightarrow>
               (\<lparr>rt_purgedAttempts = attempts, rt_purgedOutbox = outbox, rt_cutoff = cutoff\<rparr>, d2)))"

section \<open>Replay\<close>

definition reset_patch :: delivery_patch where
  "reset_patch =
     \<lparr>dp_status = D_PENDING, dp_attemptCount = 0, dp_nextAttemptAt = None,
      dp_lastStatusCode = Put None, dp_lastError = None, dp_completedAt = None\<rparr>"

text \<open>The reset commits before the queue is asked; an unreachable queue is an exception, and a
  job that cannot be removed is left alone.\<close>

definition resetAndEnqueue :: "queue_world \<Rightarrow> delivery_row \<Rightarrow> db \<Rightarrow> (http_error + queue_job) \<times> db" where
  "resetAndEnqueue q v d =
     (let d1 = updateStatus (del_id v) reset_patch d;
          jobId = buildDeliveryJobId (del_eventId v) (del_subscriptionId v) in
      case qw_getJob q jobId of
        None \<Rightarrow> (Inl internal_error, d1)
      | Some _ \<Rightarrow>
          if qw_add_ok q jobId
          then (Inr (delivery_queue_job (del_eventId v) (del_subscriptionId v)), d1)
          else (Inl internal_error, d1))"

definition replay_delivery ::
  "webhook_env \<Rightarrow> queue_world \<Rightarrow> uuid \<Rightarrow> auth_user \<Rightarrow> db \<Rightarrow> queue_job served" where
  "replay_delivery e q deliveryId user d =
     (case findDeliveryById d deliveryId of
        None \<Rightarrow>
          (Inl (notFoundException (''Webhook delivery '' @ dquoted deliveryId @ '' not found'')), d)
      | Some v \<Rightarrow>
          (case findSubscriptionById d (del_subscriptionId v) of
             None \<Rightarrow>
               (Inl (notFoundException
                  (''Webhook delivery '' @ dquoted deliveryId @ '' has no subscription'')), d)
           | Some s \<Rightarrow>
               (case assertCanManage d (sub_bondId s) user of
                  Inl err \<Rightarrow> (Inl err, d)
                | Inr _ \<Rightarrow>
                    (case resetAndEnqueue q v d of
                       (Inl err, d1) \<Rightarrow> (Inl err, d1)
                     | (Inr job, d1) \<Rightarrow>
                         (Inr job,
                          webhook_audit (we_dbnow e) (sub_bondId s) (usr_id user) (del_id v) WA_REPLAY
                            None None (Some (js (''Replayed delivery '' @ del_id v @
                              '' for subscription '' @ sub_id s))) d1)))))"

fun replay_all :: "queue_world \<Rightarrow> delivery_row list \<Rightarrow> db \<Rightarrow> (http_error + queue_job list) \<times> db" where
  "replay_all q [] d = (Inr [], d)"
| "replay_all q (v # vs) d =
     (case resetAndEnqueue q v d of
        (Inl err, d1) \<Rightarrow> (Inl err, d1)
      | (Inr job, d1) \<Rightarrow>
          (case replay_all q vs d1 of
             (Inl err, d2) \<Rightarrow> (Inl err, d2)
           | (Inr jobs, d2) \<Rightarrow> (Inr (job # jobs), d2)))"

definition replay_dead ::
  "webhook_env \<Rightarrow> queue_world \<Rightarrow> uuid \<Rightarrow> uuid \<Rightarrow> auth_user \<Rightarrow> db \<Rightarrow> (queue_job list) served" where
  "replay_dead e q bondId subscriptionId user d =
     (case chain (assertCanManage d bondId user) (\<lambda>_. findInBond d bondId subscriptionId) of
        Inl err \<Rightarrow> (Inl err, d)
      | Inr _ \<Rightarrow>
          (let dead = findDeadBySubscription d subscriptionId in
           case replay_all q dead d of
             (Inl err, d1) \<Rightarrow> (Inl err, d1)
           | (Inr jobs, d1) \<Rightarrow>
               (Inr jobs,
                if length dead > 0
                then webhook_audit (we_dbnow e) bondId (usr_id user) subscriptionId WA_REPLAY None None
                  (Some (js (''Replayed '' @ decimal (length dead) @
                     '' DEAD deliveries for subscription '' @ subscriptionId))) d1
                else d1)))"

section \<open>The delivery log\<close>

definition WEBHOOK_DELIVERY_LOG_DEFAULT_LIMIT :: nat where
  "WEBHOOK_DELIVERY_LOG_DEFAULT_LIMIT = 20"

record attempt_response =
  ar_attemptNo :: int
  ar_statusCode :: "int option"
  ar_durationMs :: "int option"
  ar_responseSnippet :: "utf16 option"
  ar_error :: "utf16 option"
  ar_startedAt :: string

record delivery_response =
  dr_id :: uuid
  dr_eventId :: uuid
  dr_subscriptionId :: uuid
  dr_status :: string
  dr_attemptCount :: int
  dr_nextAttemptAt :: "string option"
  dr_lastStatusCode :: "int option"
  dr_lastError :: "utf16 option"
  dr_createdAt :: string
  dr_completedAt :: "string option"
  dr_attempts :: "attempt_response list"

record paginated_deliveries =
  pg_data :: "delivery_response list"
  pg_page :: nat
  pg_limit :: nat
  pg_total :: nat

definition attempt_response_of :: "attempt_row \<Rightarrow> attempt_response" where
  "attempt_response_of a =
     \<lparr>ar_attemptNo = att_attemptNo a, ar_statusCode = att_statusCode a,
      ar_durationMs = att_durationMs a, ar_responseSnippet = att_responseSnippet a,
      ar_error = att_error a, ar_startedAt = toISOString (att_startedAt a)\<rparr>"

definition delivery_response_of :: "attempt_row list \<Rightarrow> delivery_row \<Rightarrow> delivery_response" where
  "delivery_response_of attempts v =
     \<lparr>dr_id = del_id v, dr_eventId = del_eventId v, dr_subscriptionId = del_subscriptionId v,
      dr_status = delivery_status_string (del_status v), dr_attemptCount = del_attemptCount v,
      dr_nextAttemptAt = map_option toISOString (del_nextAttemptAt v),
      dr_lastStatusCode = del_lastStatusCode v, dr_lastError = del_lastError v,
      dr_createdAt = toISOString (del_createdAt v),
      dr_completedAt = map_option toISOString (del_completedAt v),
      dr_attempts = map attempt_response_of (filter (\<lambda>a. att_deliveryId a = del_id v) attempts)\<rparr>"

definition getLog ::
  "uuid \<Rightarrow> uuid \<Rightarrow> nat option \<Rightarrow> nat option \<Rightarrow> auth_user \<Rightarrow> db \<Rightarrow> http_error + paginated_deliveries" where
  "getLog bondId subscriptionId page_q limit_q user d =
     chain (assertCanRead d bondId user) (\<lambda>_.
     chain (findInBond d bondId subscriptionId) (\<lambda>_.
     let page = or_default page_q 1;
         limit = or_default limit_q WEBHOOK_DELIVERY_LOG_DEFAULT_LIMIT;
         rows = findBySubscriptionPaginated d subscriptionId ((page - 1) * limit) limit;
         attempts = findByDeliveryIds d (map del_id rows)
     in Inr \<lparr>pg_data = map (delivery_response_of attempts) rows, pg_page = page, pg_limit = limit,
             pg_total = countBySubscription d subscriptionId\<rparr>))"

section \<open>The worker\<close>

text \<open>The backoff the queue asks for: a pending \<open>Retry-After\<close> of the job first.\<close>

definition webhookBackoffStrategy :: "int \<Rightarrow> delivery_job_data option \<Rightarrow> int" where
  "webhookBackoffStrategy attemptsMade jd =
     resolveBackoffMs attemptsMade (Option.bind jd jd_retryAfterMs)"

text \<open>What one job of the worker draws from outside; \<open>wk_fails\<close> says that the first query of a
  poll, a reconciliation or a purge throws, which the processor logs and swallows.\<close>

record worker_env =
  wk_relay :: "nat \<Rightarrow> dispatch_env"
  wk_aborts :: "nat \<Rightarrow> bool"
  wk_queue :: queue_world
  wk_now :: instant
  wk_env :: webhook_env
  wk_fails :: bool

record processed =
  pr_end :: job_end
  pr_jobs :: "queue_job list"
  pr_frames :: "json list"
  pr_db :: db

definition swallowed :: "db \<Rightarrow> processed" where
  "swallowed d = \<lparr>pr_end = Job_done, pr_jobs = [], pr_frames = [], pr_db = d\<rparr>"

definition runPoll :: "worker_env \<Rightarrow> db \<Rightarrow> processed" where
  "runPoll w d =
     (if wk_fails w then swallowed d
      else (let r = relay_run (wk_relay w) (wk_aborts w) RELAY_BATCH_LIMIT d in
            \<lparr>pr_end = Job_done, pr_jobs = di_jobs r, pr_frames = di_frames r, pr_db = di_db r\<rparr>))"

definition runReconcile :: "worker_env \<Rightarrow> db \<Rightarrow> processed" where
  "runReconcile w d =
     (if wk_fails w then swallowed d
      else (case reconcile_run (wk_relay w) (wk_aborts w) (wk_queue w) (wk_now w) d of
              (_, jobs, frames, d1) \<Rightarrow>
                \<lparr>pr_end = Job_done, pr_jobs = jobs, pr_frames = frames, pr_db = d1\<rparr>))"

definition runRetention :: "worker_env \<Rightarrow> db \<Rightarrow> processed" where
  "runRetention w d =
     (if wk_fails w then swallowed d
      else (swallowed (snd (retention_run (we_config (wk_env w)) (wk_now w) d))))"

definition process_job :: "worker_env \<Rightarrow> string \<Rightarrow> delivery_job \<Rightarrow> db \<Rightarrow> db \<Rightarrow> processed" where
  "process_job w name job d0 d =
     (if name = ''delivery'' then
        (let h = handle (wk_env w) job d0 d in
         \<lparr>pr_end = ha_end h, pr_jobs = [], pr_frames = [], pr_db = ha_db h\<rparr>)
      else if name = ''dispatch-poll'' then runPoll w d
      else if name = ''reconcile'' then runReconcile w d
      else if name = ''retention'' then runRetention w d
      else swallowed d)"

text \<open>The schedulers of a starting worker: those Redis refuses are logged and skipped.\<close>

definition upsertSchedulers :: "(string \<Rightarrow> bool) \<Rightarrow> int option \<Rightarrow> int option \<Rightarrow> (string \<times> int \<times> string) list" where
  "upsertSchedulers redis_takes poll_ms reconcile_ms =
     filter (\<lambda>(i, _, _). redis_takes i)
       [(''webhooks-dispatch-poll'', or_default poll_ms 2000, ''dispatch-poll''),
        (''webhooks-reconcile'', or_default reconcile_ms 300000, ''reconcile''),
        (''webhooks-retention'', 86400000, ''retention'')]"

end
