(* ===== verification/Relay_Facts.thy ===== *)
theory Relay_Facts
  imports Webhook_Dispatch
begin

text \<open>What the fan-out and the relay do to the tables: the deliveries as a table filled by
  insert-if-absent (the second interpretation of \<open>dedup_table\<close>), the effect of one dispatch and
  of a run over a batch of events of which some abort.\<close>

section \<open>The deliveries are filled once\<close>

definition delivery_key :: "delivery_row \<Rightarrow> uuid \<times> uuid" where
  "delivery_key v = (del_eventId v, del_subscriptionId v)"

definition delivery_keys :: "db \<Rightarrow> (uuid \<times> uuid) set" where
  "delivery_keys d = delivery_key ` set (db_deliveries d)"

fun put_delivery :: "uuid \<times> instant \<times> uuid \<times> uuid \<Rightarrow> db \<Rightarrow> db" where
  "put_delivery (newId, at, ev, s) d = snd (insertOnConflictDoNothing newId at ev s d)"

fun insert_key :: "uuid \<times> instant \<times> uuid \<times> uuid \<Rightarrow> uuid \<times> uuid" where
  "insert_key (newId, at, ev, s) = (ev, s)"

lemma delivery_exists_iff: "delivery_exists d ev s \<longleftrightarrow> (ev, s) \<in> delivery_keys d"
  by (auto simp: delivery_exists_def delivery_keys_def delivery_key_def list_ex_iff image_iff)

lemma new_delivery_key [simp]: "delivery_key (new_delivery i at ev s) = (ev, s)"
  by (simp add: delivery_key_def new_delivery_def)

interpretation outgoing: dedup_table delivery_keys put_delivery insert_key
proof unfold_locales
  fix r :: "uuid \<times> instant \<times> uuid \<times> uuid" and d :: db
  obtain i t ev s where r: "r = (i, t, ev, s)" by (cases r)
  show "insert_key r \<notin> delivery_keys d \<Longrightarrow>
      delivery_keys (put_delivery r d) = insert (insert_key r) (delivery_keys d)"
    by (simp add: r insertOnConflictDoNothing_def delivery_exists_iff) (simp add: delivery_keys_def)
  show "insert_key r \<in> delivery_keys d \<Longrightarrow> put_delivery r d = d"
    by (simp add: r insertOnConflictDoNothing_def delivery_exists_iff)
qed

fun insert_items :: "(nat \<Rightarrow> uuid) \<Rightarrow> instant \<Rightarrow> uuid \<Rightarrow> subscription_row list \<Rightarrow> (uuid \<times> instant \<times> uuid \<times> uuid) list" where
  "insert_items ids at ev [] = []"
| "insert_items ids at ev (s # ss) = (ids 0, at, ev, sub_id s) # insert_items (\<lambda>n. ids (Suc n)) at ev ss"

lemma insert_items_keys: "insert_key ` set (insert_items ids at ev ss) = (\<lambda>s. (ev, sub_id s)) ` set ss"
  by (induction ids at ev ss rule: insert_items.induct) auto

lemma insert_deliveries_put_all:
  "snd (insert_deliveries ids at ev ss d) = outgoing.put_all (insert_items ids at ev ss) d"
  by (induction ids at ev ss d rule: insert_deliveries.induct) (auto split: prod.split)

lemma insert_deliveries_keys:
  "delivery_keys (snd (insert_deliveries ids at ev ss d)) =
     (\<lambda>s. (ev, sub_id s)) ` set ss \<union> delivery_keys d"
  by (simp add: insert_deliveries_put_all insert_items_keys)

text \<open>The rows one fan-out appends: one per matching subscription that had none, in order.\<close>

definition new_rows_for :: "instant \<Rightarrow> uuid \<Rightarrow> uuid list \<Rightarrow> delivery_row list \<Rightarrow> bool" where
  "new_rows_for at ev subs rows \<longleftrightarrow> map del_subscriptionId rows = subs \<and>
     (\<forall>r \<in> set rows. \<exists>i. r = new_delivery i at ev (del_subscriptionId r))"

lemma new_rows_for_Cons:
  "new_rows_for at ev subs rows \<Longrightarrow> new_rows_for at ev (s # subs) (new_delivery i at ev s # rows)"
  by (auto simp: new_rows_for_def) (auto simp: new_delivery_def)

lemma insert_deliveries_rows:
  assumes "distinct (map sub_id ss)"
  shows "\<exists>rows. insert_deliveries ids at ev ss d =
      (map del_subscriptionId rows, d\<lparr>db_deliveries := db_deliveries d @ rows\<rparr>) \<and>
    new_rows_for at ev (filter (\<lambda>s. (ev, s) \<notin> delivery_keys d) (map sub_id ss)) rows"
  using assms
proof (induction ss arbitrary: ids d)
  case Nil
  show ?case by (simp add: new_rows_for_def)
next
  case (Cons s ss)
  show ?case
  proof (cases "(ev, sub_id s) \<in> delivery_keys d")
    case True
    obtain rows where "insert_deliveries (\<lambda>n. ids (Suc n)) at ev ss d =
          (map del_subscriptionId rows, d\<lparr>db_deliveries := db_deliveries d @ rows\<rparr>)"
        "new_rows_for at ev (filter (\<lambda>s. (ev, s) \<notin> delivery_keys d) (map sub_id ss)) rows"
      using Cons.IH Cons.prems by (metis distinct.simps(2) list.simps(9))
    then show ?thesis
      using True by (intro exI [of _ rows]) (simp add: insertOnConflictDoNothing_def delivery_exists_iff)
  next
    case False
    let ?row = "new_delivery (ids 0) at ev (sub_id s)"
    let ?d1 = "d\<lparr>db_deliveries := db_deliveries d @ [?row]\<rparr>"
    obtain rows where rows: "insert_deliveries (\<lambda>n. ids (Suc n)) at ev ss ?d1 =
          (map del_subscriptionId rows, ?d1\<lparr>db_deliveries := db_deliveries ?d1 @ rows\<rparr>)"
        "new_rows_for at ev (filter (\<lambda>s. (ev, s) \<notin> delivery_keys ?d1) (map sub_id ss)) rows"
      using Cons.IH [of "\<lambda>n. ids (Suc n)" ?d1] Cons.prems by auto
    have "delivery_keys ?d1 = insert (ev, sub_id s) (delivery_keys d)"
      by (simp add: delivery_keys_def)
    then have "filter (\<lambda>s. (ev, s) \<notin> delivery_keys ?d1) (map sub_id ss) =
        filter (\<lambda>s. (ev, s) \<notin> delivery_keys d) (map sub_id ss)"
      using Cons.prems by (auto intro!: filter_cong)
    then show ?thesis
      using False rows new_rows_for_Cons [OF rows(2), of "sub_id s" "ids 0"]
      by (intro exI [of _ "?row # rows"])
        (simp add: insertOnConflictDoNothing_def delivery_exists_iff new_delivery_def)
  qed
qed

section \<open>Selection\<close>

lemma select_fold:
  "fst (fold (\<lambda>s (matched, seen).
         if sub_id s \<in> seen then (matched, seen)
         else if \<not> P s then (matched, seen) else (s # matched, insert (sub_id s) seen)) ss (m, seen)) =
     rev (filter P ss) @ m"
  if "distinct (map sub_id ss)" and "sub_id ` set ss \<inter> seen = {}"
  using that
proof (induction ss arbitrary: m seen)
  case (Cons s ss)
  have "sub_id ` set ss \<inter> insert (sub_id s) seen = {}" "sub_id ` set ss \<inter> seen = {}"
    using Cons.prems by auto
  then show ?case
    using Cons by auto
qed simp

lemma selectMatched_filter:
  "distinct (map sub_id ss) \<Longrightarrow> selectMatchedSubscriptions ss t =
     filter (\<lambda>s. subscriptionMatchesEventType (sub_eventTypes s) t) ss"
  unfolding selectMatchedSubscriptions_def by (subst select_fold) auto

definition wants :: "outbox_row \<Rightarrow> subscription_row \<Rightarrow> bool" where
  "wants event s \<longleftrightarrow> ob_aggregateType event = Agg_activity \<and> sub_bondId s = ob_bondId event \<and>
     sub_status s = SUB_ACTIVE \<and> subscriptionMatchesEventType (sub_eventTypes s) (ob_eventType event)"

lemma distinct_map_filter_sort:
  "distinct (map f xs) \<Longrightarrow> distinct (map f (sort_key g (filter P xs)))"
  by (simp add: distinct_map inj_on_def)

lemma matched_spec:
  assumes "distinct (map sub_id (db_subscriptions d))"
  shows "set (matched_subscriptions event d) = {s \<in> set (db_subscriptions d). wants event s}"
    and "distinct (map sub_id (matched_subscriptions event d))"
proof -
  have "distinct (map sub_id (findActiveByBond d (ob_bondId event)))"
    unfolding findActiveByBond_def using assms by (rule distinct_map_filter_sort)
  note matched = matched_subscriptions_def selectMatched_filter [OF this]
  show "set (matched_subscriptions event d) = {s \<in> set (db_subscriptions d). wants event s}"
    unfolding matched by (auto simp: wants_def findActiveByBond_def)
  show "distinct (map sub_id (matched_subscriptions event d))"
    unfolding matched using \<open>distinct (map sub_id (findActiveByBond d (ob_bondId event)))\<close>
    by (simp add: distinct_map_filter)
qed

lemma matched_cong:
  "db_subscriptions d' = db_subscriptions d \<Longrightarrow>
     matched_subscriptions event d' = matched_subscriptions event d"
  by (simp add: matched_subscriptions_def findActiveByBond_def)

section \<open>One dispatch\<close>

lemma persist_frame: "\<exists>rows. snd (persist ids at p us d) = d\<lparr>db_notifications := db_notifications d @ rows\<rparr>"
proof (induction us arbitrary: ids d)
  case Nil
  show ?case by (intro exI [of _ "[]"]) simp
next
  case (Cons u us)
  have "snd (persist ids at p (u # us) d) =
      snd (persist (\<lambda>n. ids (Suc n)) at p us (snd (createFromEvent (ids 0) at (input_for p u) d)))"
    by (auto split: prod.split option.split)
  then show ?case
    using Cons [of "\<lambda>n. ids (Suc n)" "snd (createFromEvent (ids 0) at (input_for p u) d)"]
    by (auto simp: createFromEvent_rows)
qed

lemma handleOutboxEvent_frame:
  "\<exists>rows. snd (handleOutboxEvent flag e tz event d) = d\<lparr>db_notifications := db_notifications d @ rows\<rparr>"
proof -
  have plan: "\<exists>rows. snd (handle_fan_out ids at plan d) = d\<lparr>db_notifications := db_notifications d @ rows\<rparr>"
    for ids at plan
  proof (cases "plan = None \<or> snd (the plan) = []")
    case True
    then have same: "snd (handle_fan_out ids at plan d) = d"
      by (auto simp: handle_fan_out_def split: option.split)
    show ?thesis unfolding same by (intro exI [of _ "[]"]) simp
  next
    case False
    then obtain p us where same: "handle_fan_out ids at plan d = persist ids at p us d"
      by (auto simp: handle_fan_out_def)
    show ?thesis unfolding same by (rule persist_frame)
  qed
  show ?thesis
  proof (cases "isFanOutEnabled flag")
    case True
    then show ?thesis
      using plan by (simp add: handleOutboxEvent_def handleActivityEvent_def handleExpenseEvent_def
          split: aggregate_type.split)
  next
    case False
    then have same: "snd (handleOutboxEvent flag e tz event d) = d"
      by (simp add: handleOutboxEvent_def)
    show ?thesis unfolding same by (intro exI [of _ "[]"]) simp
  qed
qed

text \<open>The new rows with their jobs, the marked event and some notifications.\<close>

definition dispatch_effect ::
  "dispatch_env \<Rightarrow> outbox_row \<Rightarrow> db \<Rightarrow> delivery_row list \<Rightarrow> dispatched \<Rightarrow> bool" where
  "dispatch_effect x event d rows r \<longleftrightarrow>
     new_rows_for (env_dbnow (dx_env x)) (ob_id event)
       (filter (\<lambda>s. (ob_id event, s) \<notin> delivery_keys d) (map sub_id (matched_subscriptions event d))) rows \<and>
     di_count r = length rows \<and>
     di_jobs r = concat (map (\<lambda>v. enqueue_delivery (dx_queue x) (ob_id event) (del_subscriptionId v)) rows) \<and>
     (\<exists>ns. di_db r = d\<lparr>db_deliveries := db_deliveries d @ rows,
        db_notifications := db_notifications d @ ns,
        db_outbox := update_by ob_id (ob_id event)
          (\<lambda>e. e\<lparr>ob_dispatchedAt := Some (env_dbnow (dx_env x))\<rparr>) (db_outbox d)\<rparr>)"

lemma dispatch_commits:
  assumes "distinct (map sub_id (db_subscriptions d))"
  shows "\<exists>r rows. dispatch x False event d = Some r \<and> dispatch_effect x event d rows r"
proof -
  obtain rows where rows: "insert_deliveries (dx_ids x) (env_dbnow (dx_env x)) (ob_id event)
        (matched_subscriptions event d) d =
        (map del_subscriptionId rows, d\<lparr>db_deliveries := db_deliveries d @ rows\<rparr>)"
      "new_rows_for (env_dbnow (dx_env x)) (ob_id event)
       (filter (\<lambda>s. (ob_id event, s) \<notin> delivery_keys d) (map sub_id (matched_subscriptions event d))) rows"
    using insert_deliveries_rows [OF matched_spec(2) [OF assms]] by blast
  let ?d1 = "d\<lparr>db_deliveries := db_deliveries d @ rows\<rparr>"
  let ?n = "if dx_notifications x
     then handleOutboxEvent (dx_fanout_flag x) (dx_env x) (dx_tz x) event ?d1 else ([], ?d1)"
  obtain ns where ns: "snd ?n = ?d1\<lparr>db_notifications := db_notifications ?d1 @ ns\<rparr>"
  proof (cases "dx_notifications x")
    case True
    then show ?thesis
      using handleOutboxEvent_frame [of "dx_fanout_flag x" "dx_env x" "dx_tz x" event ?d1] that by auto
  next
    case False
    then show ?thesis
      using that [of "[]"] by simp
  qed
  then obtain created where n: "?n = (created, d\<lparr>db_deliveries := db_deliveries d @ rows,
      db_notifications := db_notifications d @ ns\<rparr>)"
    by (cases ?n) simp
  show ?thesis
    unfolding dispatch_def dispatch_effect_def rows(1) prod.case n
    using rows(2)
    by (intro exI [of _ rows] exI conjI) (auto simp: markDispatched_def comp_def intro!: exI [of _ ns])
qed

section \<open>A batch\<close>

text \<open>The events whose transaction commits.\<close>

fun committed :: "(nat \<Rightarrow> bool) \<Rightarrow> nat \<Rightarrow> outbox_row list \<Rightarrow> outbox_row list" where
  "committed aborts i [] = []"
| "committed aborts i (event # events) =
     (if aborts i then [] else [event]) @ committed aborts (Suc i) events"

lemma committed_subset: "set (committed aborts i events) \<subseteq> set events"
  by (induction events arbitrary: i) auto

lemma committed_all: "committed (\<lambda>_. False) i events = events"
  by (induction events arbitrary: i) auto

definition due_keys :: "outbox_row list \<Rightarrow> db \<Rightarrow> (uuid \<times> uuid) set" where
  "due_keys events d =
     {(ob_id event, sub_id s) |event s. event \<in> set events \<and> s \<in> set (db_subscriptions d) \<and> wants event s}"

definition pending_after :: "outbox_row list \<Rightarrow> db \<Rightarrow> outbox_row list" where
  "pending_after events d =
     filter (\<lambda>e. is_pending e \<and> ob_id e \<notin> ob_id ` set events) (db_outbox d)"

text \<open>The effect of a run: the due pairs that were missing get one row and, when the queue is up,
  one job each, the
  committed events leave the pending ones, the rest of the tables stays.\<close>

definition relay_effect ::
  "bool \<Rightarrow> outbox_row list \<Rightarrow> db \<Rightarrow> delivery_row list \<Rightarrow> dispatched \<Rightarrow> bool" where
  "relay_effect queue_up events d rows r \<longleftrightarrow>
     db_deliveries (di_db r) = db_deliveries d @ rows \<and> distinct (map delivery_key rows) \<and>
     delivery_key ` set rows = due_keys events d - delivery_keys d \<and>
     (\<forall>v \<in> set rows. del_status v = D_PENDING \<and> del_attemptCount v = 0) \<and>
     di_count r = length rows \<and>
     (queue_up \<longrightarrow> di_jobs r =
        map (\<lambda>v. delivery_queue_job (del_eventId v) (del_subscriptionId v)) rows) \<and>
     filter is_pending (db_outbox (di_db r)) = pending_after events d \<and>
     map ob_id (db_outbox (di_db r)) = map ob_id (db_outbox d) \<and>
     db_subscriptions (di_db r) = db_subscriptions d \<and> db_attempts (di_db r) = db_attempts d"

lemma rows_keys:
  assumes "new_rows_for at ev subs rows"
  shows "map delivery_key rows = map (\<lambda>s. (ev, s)) subs" and "\<forall>v \<in> set rows. del_eventId v = ev"
    and "\<forall>v \<in> set rows. del_status v = D_PENDING \<and> del_attemptCount v = 0"
proof -
  have "delivery_key v = (ev, del_subscriptionId v) \<and> del_eventId v = ev \<and> del_status v = D_PENDING \<and> del_attemptCount v = 0"
    if v: "v \<in> set rows" for v
  proof -
    obtain i where "v = new_delivery i at ev (del_subscriptionId v)"
      using assms v by (auto simp: new_rows_for_def)
    then have v': "del_eventId v = del_eventId (new_delivery i at ev (del_subscriptionId v))"
        "delivery_key v = delivery_key (new_delivery i at ev (del_subscriptionId v))"
        "del_status v = del_status (new_delivery i at ev (del_subscriptionId v))"
        "del_attemptCount v = del_attemptCount (new_delivery i at ev (del_subscriptionId v))"
      by simp_all
    show ?thesis
      unfolding v' by (simp add: new_delivery_def delivery_key_def)
  qed
  then show "map delivery_key rows = map (\<lambda>s. (ev, s)) subs" "\<forall>v \<in> set rows. del_eventId v = ev"
    "\<forall>v \<in> set rows. del_status v = D_PENDING \<and> del_attemptCount v = 0"
    using assms by (auto simp: new_rows_for_def intro!: nth_equalityI)
qed

lemma mark_pending:
  "filter is_pending (update_by ob_id i (\<lambda>e. e\<lparr>ob_dispatchedAt := Some at\<rparr>) rows) =
     filter (\<lambda>e. is_pending e \<and> ob_id e \<noteq> i) rows"
  by (induction rows) (auto simp: is_pending_def)

lemma due_keys_Nil [simp]: "due_keys [] d = {}"
  by (simp add: due_keys_def)

lemma due_keys_Cons: "due_keys (e # es) d = due_keys [e] d \<union> due_keys es d"
  by (auto simp: due_keys_def)

lemma due_keys_cong: "db_subscriptions d' = db_subscriptions d \<Longrightarrow> due_keys es d' = due_keys es d"
  by (simp add: due_keys_def)

lemma pending_after_then:
  "filter is_pending (db_outbox d1) = pending_after [e] d \<Longrightarrow>
     pending_after es d1 = pending_after (e # es) d"
proof -
  assume first: "filter is_pending (db_outbox d1) = pending_after [e] d"
  have "pending_after es d1 =
      filter (\<lambda>r. ob_id r \<notin> ob_id ` set es) (filter is_pending (db_outbox d1))"
    by (simp add: pending_after_def conj_commute)
  then show ?thesis
    unfolding first by (simp add: pending_after_def)
qed

lemma relay_effect_none:
  "relay_effect up [] d [] \<lparr>di_count = 0, di_jobs = [], di_frames = frames, di_db = d\<rparr>"
  by (simp add: relay_effect_def pending_after_def)

text \<open>One committed event is a run of its own.\<close>

lemma dispatch_is_run:
  assumes subs: "distinct (map sub_id (db_subscriptions d))"
    and eff: "dispatch_effect x event d rows r" and up: "up \<longrightarrow> (\<forall>j. qw_add_ok (dx_queue x) j)"
  shows "relay_effect up [event] d rows r"
proof -
  note new = rows_keys [OF eff [unfolded dispatch_effect_def, THEN conjunct1]]
  have keys: "delivery_key ` set rows = due_keys [event] d - delivery_keys d"
  proof -
    have "delivery_key ` set rows = set (map delivery_key rows)"
      by simp
    also have "\<dots> = due_keys [event] d - delivery_keys d"
      unfolding new(1) by (auto simp: due_keys_def matched_spec(1) [OF subs] image_iff)
    finally show ?thesis .
  qed
  have "distinct (map delivery_key rows)"
    unfolding new(1) using matched_spec(2) [OF subs] by (simp add: distinct_map inj_on_def)
  moreover have "up \<longrightarrow> di_jobs r =
      map (\<lambda>v. delivery_queue_job (del_eventId v) (del_subscriptionId v)) rows"
  proof
    assume up
    then have "di_jobs r = concat (map (\<lambda>v. [delivery_queue_job (ob_id event) (del_subscriptionId v)]) rows)"
      using eff assms(3) by (simp add: dispatch_effect_def enqueue_delivery_def)
    then show "di_jobs r = map (\<lambda>v. delivery_queue_job (del_eventId v) (del_subscriptionId v)) rows"
      using new(2) by (simp add: concat_map_singleton)
  qed
  ultimately show ?thesis
    using eff keys new(3)
    by (auto simp: dispatch_effect_def relay_effect_def mark_pending pending_after_def)
qed

lemma relay_effect_trans:
  assumes one: "relay_effect up [event] d rows r" and rest: "relay_effect up es (di_db r) rows' r'"
  shows "relay_effect up (event # es) d (rows @ rows')
    \<lparr>di_count = di_count r + di_count r', di_jobs = di_jobs r @ di_jobs r', di_frames = frames,
     di_db = di_db r'\<rparr>"
proof -
  have keys: "delivery_keys (di_db r) = delivery_keys d \<union> due_keys [event] d"
      "due_keys es (di_db r) = due_keys es d"
    using one by (auto simp: relay_effect_def delivery_keys_def intro!: due_keys_cong)
  have new: "delivery_key ` set rows = due_keys [event] d - delivery_keys d"
      "delivery_key ` set rows' = due_keys es d - (delivery_keys d \<union> due_keys [event] d)"
    using one rest keys by (auto simp: relay_effect_def)
  have "filter is_pending (db_outbox (di_db r')) = pending_after (event # es) d"
    using one rest pending_after_then [of "di_db r" event d es] by (simp add: relay_effect_def)
  moreover have "delivery_key ` set (rows @ rows') = due_keys (event # es) d - delivery_keys d"
    unfolding due_keys_Cons [of event es] set_append image_Un new by auto
  moreover have "distinct (map delivery_key (rows @ rows'))"
    using one rest new by (auto simp: relay_effect_def)
  ultimately show ?thesis
    using one rest by (auto simp: relay_effect_def)
qed

lemma relay_events_effect:
  assumes "distinct (map sub_id (db_subscriptions d))"
    and "up \<longrightarrow> (\<forall>i j. qw_add_ok (dx_queue (xs i)) j)"
  shows "\<exists>rows. relay_effect up (committed aborts i events) d rows (relay_events xs aborts i events d)"
  using assms(1)
proof (induction events arbitrary: i d)
  case Nil
  show ?case using relay_effect_none by auto
next
  case (Cons event events)
  show ?case
  proof (cases "aborts i")
    case True
    then show ?thesis using Cons by (simp add: dispatch_def)
  next
    case False
    obtain r rows where r: "dispatch (xs i) False event d = Some r"
        "dispatch_effect (xs i) event d rows r"
      using dispatch_commits [OF Cons.prems] by blast
    have one: "relay_effect up [event] d rows r"
      by (rule dispatch_is_run [OF Cons.prems r(2)]) (use assms(2) in simp)
    then have "distinct (map sub_id (db_subscriptions (di_db r)))"
      using Cons.prems by (simp add: relay_effect_def)
    then obtain rows' where "relay_effect up (committed aborts (Suc i) events) (di_db r) rows'
        (relay_events xs aborts (Suc i) events (di_db r))"
      using Cons.IH by blast
    from relay_effect_trans [OF one this] show ?thesis
      using False r(1) by (auto simp: Let_def)
  qed
qed

end
