(* ===== verification/Webhook_Examples.thy ===== *)
theory Webhook_Examples
  imports Examples Relay_Facts
begin

text \<open>A small concrete instance for the witnesses of the webhook properties: the bond of
  \<open>Examples\<close> with one wildcard subscription and one pending event, a worker environment, a toy
  cipher that keeps the plain text and a network that answers every request alike.\<close>

definition hook_sub :: subscription_row where
  "hook_sub =
     \<lparr>sub_id = ''s1'', sub_bondId = ''b'', sub_createdBy = ''u1'', sub_url = ''https://h'',
      sub_description = None, sub_eventTypes = [''*''], sub_secretEncrypted = ''v1:::'',
      sub_secretPrevEncrypted = None, sub_secretPrevExpiresAt = None, sub_status = SUB_ACTIVE,
      sub_consecutiveFailureSince = None, sub_createdAt = 0, sub_updatedAt = 0\<rparr>"

definition hook_event :: outbox_row where
  "hook_event =
     \<lparr>ob_id = ''e1'', ob_aggregateType = Agg_activity, ob_aggregateId = ''a1'', ob_bondId = ''b'',
      ob_eventType = ''activity.done'', ob_aggregateVersion = 1, ob_payload = [],
      ob_createdAt = 0, ob_dispatchedAt = None\<rparr>"

definition hook_delivery :: delivery_row where
  "hook_delivery = new_delivery ''d1'' 0 ''e1'' ''s1''"

definition hook_db :: db where
  "hook_db = ex_db0\<lparr>db_subscriptions := [hook_sub], db_outbox := [hook_event]\<rparr>"

definition hook_db1 :: db where
  "hook_db1 = hook_db\<lparr>db_deliveries := [hook_delivery]\<rparr>"

definition hook_config :: webhook_config where
  "hook_config =
     \<lparr>wc_masterKey = Some (base64 (replicate 32 7)), wc_maxPerBond = None,
      wc_rotationGraceHours = None, wc_autoDisableDays = None, wc_retentionDays = None,
      wc_apiVersion = None, wc_endpointConcurrency = None\<rparr>"

definition hook_crypto :: crypto where
  "hook_crypto =
     \<lparr>cy_encrypt = (\<lambda>_ _ pt. (pt, [])), cy_decrypt = (\<lambda>_ _ _ ct. Some ct),
      cy_hmac = (\<lambda>key _. key), cy_random = (\<lambda>n k. replicate k (word_of_nat n))\<rparr>"

definition hook_http :: "network_reply \<Rightarrow> http_world" where
  "hook_http reply =
     \<lparr>hw_parseUrl = (\<lambda>url. if take 5 url = ''https'' then
         Some \<lparr>url_protocol = ''https:'', url_hostname = ''h'', url_host = ''h''\<rparr> else None),
      hw_resolve = (\<lambda>_. Inr [\<lparr>la_address = ''93.184.216.34'', la_family = 4\<rparr>]),
      hw_fetch = (\<lambda>_ _ _ _. reply), hw_utf8 = (\<lambda>_. []), hw_dateParse = (\<lambda>_. None), hw_now = 0\<rparr>"

definition hook_env :: "network_reply \<Rightarrow> webhook_env" where
  "hook_env reply =
     \<lparr>we_clock = (\<lambda>n. int n), we_dbnow = 0, we_uuid = (\<lambda>n. replicate (Suc n) CHR ''x''),
      we_crypto = hook_crypto, we_http = hook_http reply, we_config = hook_config\<rparr>"

definition hook_queue :: queue_world where
  "hook_queue = \<lparr>qw_add_ok = (\<lambda>_. True), qw_getJob = (\<lambda>_. Some False)\<rparr>"

definition hook_dispatch :: dispatch_env where
  "hook_dispatch =
     \<lparr>dx_env = ex_env, dx_ids = (\<lambda>n. replicate (Suc n) CHR ''y''), dx_tz = (\<lambda>_. 0),
      dx_fanout_flag = Cfg_unset, dx_publish_flag = None, dx_redis_up = True, dx_now = 0,
      dx_queue = hook_queue, dx_notifications = True\<rparr>"

definition hook_job :: "delivery_job" where
  "hook_job =
     \<lparr>dj_data = \<lparr>jd_eventId = ''e1'', jd_subscriptionId = ''s1'', jd_retryAfterMs = None,
                 jd_test = False\<rparr>, dj_attempts = Some WEBHOOK_MAX_ATTEMPTS\<rparr>"

definition hook_worker :: worker_env where
  "hook_worker =
     \<lparr>wk_relay = (\<lambda>_. hook_dispatch), wk_aborts = (\<lambda>_. False), wk_queue = hook_queue, wk_now = 0,
      wk_env = hook_env (Reply 200 None (Reader [] None)), wk_fails = False\<rparr>"

lemmas hook_defs = hook_sub_def hook_event_def hook_delivery_def hook_db_def hook_db1_def
  hook_config_def hook_crypto_def hook_http_def hook_env_def hook_queue_def hook_dispatch_def
  hook_job_def

lemma hook_gcm: "gcm_law hook_crypto"
  by (simp add: gcm_law_def hook_crypto_def)

lemma hook_queue_up [simp]: "qw_add_ok (dx_queue hook_dispatch) j"
  by (simp add: hook_dispatch_def hook_queue_def)

lemma hook_tables [simp]:
  "db_subscriptions hook_db = [hook_sub]" "db_outbox hook_db = [hook_event]"
  "db_subscriptions hook_db1 = [hook_sub]" "db_outbox hook_db1 = [hook_event]"
  "db_deliveries hook_db = []" "db_deliveries hook_db1 = [hook_delivery]"
  "db_attempts hook_db = []" "db_attempts hook_db1 = []"
  by (simp_all add: hook_db_def hook_db1_def ex_db0_def empty_db_def)

end
