(* ===== verification/Delivery_Loop.thy ===== *)
theory Delivery_Loop
  imports Webhook_Delivery
begin

text \<open>The life of one delivery: what an attempt does to its row, and the loop of attempts that
  the retry signal keeps going. Between and during the attempts the rest of the program may
  change the database in any way that leaves this delivery alone.\<close>

section \<open>Frames\<close>

lemma update_subscription_row_frame:
  assumes "update_subscription_row at i f d = (r, d')"
  shows "db_deliveries d' = db_deliveries d" "db_attempts d' = db_attempts d"
    "db_outbox d' = db_outbox d" "db_notifications d' = db_notifications d"
    "db_activities d' = db_activities d" "db_audit d' = db_audit d"
  using assms by (auto simp: update_subscription_row_def split: option.splits)

lemma notifyDisabled_frame [simp]:
  "db_deliveries (notifyDisabled e s reason d) = db_deliveries d"
  "db_subscriptions (notifyDisabled e s reason d) = db_subscriptions d"
  "db_attempts (notifyDisabled e s reason d) = db_attempts d"
  by (auto simp: notifyDisabled_def createNotification_def Let_def split: prod.split)

lemma recordFailure_deliveries:
  "recordFailure e s now d = (r, d') \<Longrightarrow> db_deliveries d' = db_deliveries d"
  by (auto simp: recordFailure_def Let_def dest!: update_subscription_row_frame(1)
      split: if_splits prod.splits sum.splits)

lemma recordSuccess_deliveries: "recordSuccess e s d = (r, d') \<Longrightarrow> db_deliveries d' = db_deliveries d"
  by (auto simp: recordSuccess_def dest!: update_subscription_row_frame(1)
      split: if_splits prod.splits sum.splits)

lemma disableSubscription_deliveries:
  "disableSubscription e i d = (r, d') \<Longrightarrow> db_deliveries d' = db_deliveries d"
  by (auto simp: disableSubscription_def dest!: update_subscription_row_frame(1)
      split: if_splits prod.splits sum.splits)

section \<open>The row of a delivery\<close>

definition row_of :: "delivery_row list \<Rightarrow> uuid \<Rightarrow> uuid \<Rightarrow> delivery_row option" where
  "row_of rows ev sub1 = find (\<lambda>v. del_eventId v = ev \<and> del_subscriptionId v = sub1) rows"

lemma findByEventSub_row: "findByEventSub d ev s = row_of (db_deliveries d) ev s"
  by (simp add: findByEventSub_def row_of_def)

lemma row_of_SomeD:
  "row_of rows ev s = Some v \<Longrightarrow> v \<in> set rows \<and> del_eventId v = ev \<and> del_subscriptionId v = s"
  by (auto simp: row_of_def find_Some_iff)

lemma patch_delivery_key [simp]:
  "del_id (patch_delivery p v) = del_id v" "del_eventId (patch_delivery p v) = del_eventId v"
  "del_subscriptionId (patch_delivery p v) = del_subscriptionId v"
  by (simp_all add: patch_delivery_def)

lemma row_of_update:
  "row_of rows ev s = Some v \<Longrightarrow>
     row_of (update_by del_id (del_id v) (patch_delivery p) rows) ev s = Some (patch_delivery p v)"
  by (induction rows) (auto simp: row_of_def split: if_splits)

lemma row_after_updateStatus:
  "row_of (db_deliveries d) ev s = Some v \<Longrightarrow>
     row_of (db_deliveries (updateStatus (del_id v) p d)) ev s = Some (patch_delivery p v)"
  by (simp add: updateStatus_def row_of_update)

text \<open>A settled delivery is finished for good: a final status, a completion time, no next attempt.\<close>

definition settled_row :: "delivery_row \<Rightarrow> bool" where
  "settled_row v \<longleftrightarrow> del_status v \<in> {D_SUCCEEDED, D_FAILED, D_DEAD} \<and> del_completedAt v \<noteq> None \<and>
     del_nextAttemptAt v = None"

definition retrying_row :: "delivery_job \<Rightarrow> delivery_row \<Rightarrow> bool" where
  "retrying_row job v \<longleftrightarrow> del_status v = D_RETRYING \<and> del_attemptCount v < max_attempts job \<and>
     del_nextAttemptAt v \<noteq> None \<and> del_completedAt v = None"

lemma patch_settled:
  "st \<in> {D_SUCCEEDED, D_FAILED, D_DEAD} \<Longrightarrow> settled_row (patch_delivery (settled_patch st n c err now) v)"
  by (simp add: settled_row_def patch_delivery_def settled_patch_def)

lemma patch_count: "del_attemptCount (patch_delivery (settled_patch st n c err now) v) = n"
  by (simp add: patch_delivery_def settled_patch_def)

lemma applyOutcome_row:
  assumes "row_of (db_deliveries d) ev s = Some v"
    and "applyOutcome e job (del_id v) sb outcome result n d = (je, d', jd)"
  shows "je = Job_error \<or>
    (\<exists>v'. row_of (db_deliveries d') ev s = Some v' \<and> del_id v' = del_id v \<and>
       del_attemptCount v' = n \<and> del_status v' = statusForAttempt outcome n (max_attempts job) \<and>
       (if je = Job_retry then retrying_row job v' else settled_row v'))"
    and "jd_eventId jd = jd_eventId (dj_data job) \<and> jd_subscriptionId jd = jd_subscriptionId (dj_data job) \<and>
       jd_test jd = jd_test (dj_data job)"
proof -
  note row = row_after_updateStatus [OF assms(1)]
  note frames = recordFailure_deliveries recordSuccess_deliveries disableSubscription_deliveries
  show "jd_eventId jd = jd_eventId (dj_data job) \<and>
      jd_subscriptionId jd = jd_subscriptionId (dj_data job) \<and> jd_test jd = jd_test (dj_data job)"
    using assms(2) by (auto simp: applyOutcome_def ended_def Let_def
        split: delivery_outcome.splits prod.splits sum.splits if_splits option.splits)
  show "je = Job_error \<or>
    (\<exists>v'. row_of (db_deliveries d') ev s = Some v' \<and> del_id v' = del_id v \<and>
       del_attemptCount v' = n \<and> del_status v' = statusForAttempt outcome n (max_attempts job) \<and>
       (if je = Job_retry then retrying_row job v' else settled_row v'))"
  proof (cases outcome)
    case OUT_RETRY
    then show ?thesis
      using assms(2) row
      by (auto simp: applyOutcome_def ended_def Let_def settled_row_def retrying_row_def
          statusForAttempt_def settled_patch_def patch_delivery_def dest!: frames
          split: prod.splits sum.splits if_splits option.splits)
  qed (use assms(2) row in \<open>auto simp: applyOutcome_def ended_def Let_def settled_row_def
      statusForAttempt_def settled_patch_def patch_delivery_def dest!: frames
      split: prod.splits sum.splits\<close>)
qed

text \<open>One attempt, its reads on \<open>d0\<close> and its writes on \<open>d\<close>.\<close>

lemma handle_row:
  fixes e :: webhook_env and job :: delivery_job and d0 d :: db
  assumes "jd_test (dj_data job) = False"
    and "row_of (db_deliveries d0) (jd_eventId (dj_data job)) (jd_subscriptionId (dj_data job)) = Some v"
    and "row_of (db_deliveries d) (jd_eventId (dj_data job)) (jd_subscriptionId (dj_data job)) = Some v"
  defines "h \<equiv> handle e job d0 d"
  shows "ha_end h = Job_error \<or>
    (\<exists>v'. row_of (db_deliveries (ha_db h)) (jd_eventId (dj_data job)) (jd_subscriptionId (dj_data job))
            = Some v' \<and> del_id v' = del_id v \<and> del_attemptCount v' = del_attemptCount v + 1 \<and>
       (if ha_end h = Job_retry then retrying_row job v' else settled_row v'))"
    and "jd_eventId (ha_data h) = jd_eventId (dj_data job)"
    and "jd_subscriptionId (ha_data h) = jd_subscriptionId (dj_data job)"
    and "jd_test (ha_data h) = False"
proof -
  let ?ev = "jd_eventId (dj_data job)" and ?s = "jd_subscriptionId (dj_data job)"
  have "(ha_end h = Job_error \<or>
    (\<exists>v'. row_of (db_deliveries (ha_db h)) ?ev ?s = Some v' \<and> del_id v' = del_id v \<and>
       del_attemptCount v' = del_attemptCount v + 1 \<and>
       (if ha_end h = Job_retry then retrying_row job v' else settled_row v'))) \<and>
    jd_eventId (ha_data h) = ?ev \<and> jd_subscriptionId (ha_data h) = ?s \<and> jd_test (ha_data h) = False"
  proof (cases "prepare_delivery e (dj_data job) d0")
    case No_delivery
    then show ?thesis
      using assms(2) by (auto simp: prepare_delivery_def findByEventSub_row Let_def
          split: option.splits sum.splits if_splits)
  next
    case (Failed_delivery delivery n err)
    then have "delivery = v" "n = del_attemptCount v + 1"
      using assms(2) by (auto simp: prepare_delivery_def findByEventSub_row Let_def
          split: option.splits sum.splits if_splits)
    then show ?thesis
      using Failed_delivery row_after_updateStatus [OF assms(3)] assms(1)
      by (simp add: h_def handle_def handle_delivery_def fail_delivery_def settled_row_def
          patch_delivery_def)
  next
    case (Ready delivery n sb body hdrs)
    then have v: "delivery = v" "n = del_attemptCount v + 1"
      using assms(2) by (auto simp: prepare_delivery_def findByEventSub_row Let_def
          split: option.splits sum.splits if_splits)
    obtain result pinned where post: "ssrf_post (we_http e) (sub_url sb) body hdrs = (result, pinned)"
      by (cases "ssrf_post (we_http e) (sub_url sb) body hdrs")
    show ?thesis
    proof (cases "insertAttempt (attempt_of e delivery n result) d")
      case None
      then show ?thesis
        using Ready post assms(1) by (simp add: h_def handle_def handle_delivery_def)
    next
      case (Some d1)
      then have d1: "db_deliveries d1 = db_deliveries d"
        by (auto simp: insertAttempt_def split: if_splits)
      obtain je d2 jd where out: "applyOutcome e job (del_id v) sb
          (classify (sr_status result) (sr_networkError result)) result n d1 = (je, d2, jd)"
        by (metis prod_cases3)
      have h: "h = \<lparr>ha_end = je, ha_db = d2, ha_data = jd, ha_pinned = pinned\<rparr>"
        using Ready post Some out v(1) assms(1) by (simp add: h_def handle_def handle_delivery_def)
      show ?thesis
        using applyOutcome_row [OF _ out, of ?ev ?s] assms(1,3) d1 v(2) h by auto
    qed
  qed
  then show "ha_end h = Job_error \<or>
    (\<exists>v'. row_of (db_deliveries (ha_db h)) ?ev ?s = Some v' \<and> del_id v' = del_id v \<and>
       del_attemptCount v' = del_attemptCount v + 1 \<and>
       (if ha_end h = Job_retry then retrying_row job v' else settled_row v'))"
    and "jd_eventId (ha_data h) = ?ev" and "jd_subscriptionId (ha_data h) = ?s"
    and "jd_test (ha_data h) = False"
    by auto
qed

section \<open>The loop\<close>

text \<open>The queue runs the job again while the service asks for a retry. \<open>before k\<close> is what happens
  to the database before attempt \<open>k\<close>, \<open>during k\<close> what happens while its request is out.\<close>

partial_function (option) retry_loop ::
  "(nat \<Rightarrow> webhook_env) \<Rightarrow> (nat \<Rightarrow> db \<Rightarrow> db) \<Rightarrow> (nat \<Rightarrow> db \<Rightarrow> db) \<Rightarrow> nat \<Rightarrow> delivery_job \<Rightarrow> db \<Rightarrow>
   (nat \<times> job_end \<times> db) option" where
  "retry_loop env before during k job d =
     (let d0 = before k d; h = handle (env k) job d0 (during k d0) in
      if ha_end h = Job_retry
      then retry_loop env before during (Suc k) (job\<lparr>dj_data := ha_data h\<rparr>) (ha_db h)
      else Some (Suc k, ha_end h, ha_db h))"

lemma retry_loop_settles:
  assumes "jd_test (dj_data job) = False"
    and "jd_eventId (dj_data job) = ev" and "jd_subscriptionId (dj_data job) = s"
    and alone: "\<And>k d. row_of (db_deliveries (before k d)) ev s = row_of (db_deliveries d) ev s"
      "\<And>k d. row_of (db_deliveries (during k d)) ev s = row_of (db_deliveries d) ev s"
    and "row_of (db_deliveries d) ev s = Some v"
    and "max_attempts job - del_attemptCount v \<le> int m"
  shows "\<exists>n je d'. retry_loop env before during k job d = Some (k + n, je, d') \<and> 1 \<le> n \<and>
    n \<le> max 1 m \<and>
    (je = Job_error \<or> (je = Job_done \<and> (\<exists>v'. row_of (db_deliveries d') ev s = Some v' \<and>
       settled_row v' \<and> del_attemptCount v' = del_attemptCount v + int n)))"
  using assms(1-3,6,7)
proof (induction m arbitrary: k job d v rule: less_induct)
  case (less m)
  define d0 where "d0 = before k d"
  define h where "h = handle (env k) job d0 (during k d0)"
  have rows: "row_of (db_deliveries d0) ev s = Some v"
      "row_of (db_deliveries (during k d0)) ev s = Some v"
    using less.prems(4) alone by (simp_all add: d0_def)
  note step = handle_row [of job d0 v "during k d0" "env k", folded h_def, unfolded less.prems(2,3),
    OF less.prems(1) rows]
  have unfold: "retry_loop env before during k job d =
      (if ha_end h = Job_retry
       then retry_loop env before during (Suc k) (job\<lparr>dj_data := ha_data h\<rparr>) (ha_db h)
       else Some (Suc k, ha_end h, ha_db h))"
    by (subst retry_loop.simps) (simp add: Let_def h_def d0_def)
  show ?case
  proof (cases "ha_end h")
    case Job_retry
    then obtain v' where v': "row_of (db_deliveries (ha_db h)) ev s = Some v'"
        "del_attemptCount v' = del_attemptCount v + 1" "del_attemptCount v' < max_attempts job"
      using step(1) by (auto simp: retrying_row_def)
    let ?job = "job\<lparr>dj_data := ha_data h\<rparr>"
    have max: "max_attempts ?job = max_attempts job"
      by (simp add: max_attempts_def)
    have "1 < m"
      using less.prems(5) v'(2,3) by linarith
    then have "m - 1 < m" "max_attempts ?job - del_attemptCount v' \<le> int (m - 1)"
      using less.prems(5) v'(2) max by linarith+
    then obtain n je d' where "retry_loop env before during (Suc k) ?job (ha_db h) = Some (Suc k + n, je, d')"
        "1 \<le> n" "n \<le> max 1 (m - 1)"
        "je = Job_error \<or> (je = Job_done \<and> (\<exists>v''. row_of (db_deliveries d') ev s = Some v'' \<and>
           settled_row v'' \<and> del_attemptCount v'' = del_attemptCount v' + int n))"
      using less.IH [of "m - 1" ?job "ha_db h" v' "Suc k"] step(2-4) v'(1) less.prems(2,3) by auto
    then show ?thesis
      using Job_retry unfold \<open>1 < m\<close> v'(2)
      by (intro exI [of _ "Suc n"] exI [of _ je] exI [of _ d']) auto
  next
    case Job_done
    then show ?thesis
      using unfold step(1) by (intro exI [of _ 1] exI [of _ Job_done] exI [of _ "ha_db h"]) auto
  next
    case Job_error
    then show ?thesis
      using unfold by (intro exI [of _ 1] exI [of _ Job_error] exI [of _ "ha_db h"]) auto
  qed
qed

section \<open>The loop ends without an error\<close>

text \<open>An attempt ends with an error only when the subscription is gone or the next date is none.\<close>

abbreviation subscription_ids :: "db \<Rightarrow> uuid list" where
  "subscription_ids d \<equiv> map sub_id (db_subscriptions d)"

lemma save_subscription_id: "sub_id (f s) = sub_id s \<Longrightarrow> sub_id (save_subscription at f s) = sub_id s"
  by (simp add: save_subscription_def)

lemma update_subscription_row_present:
  assumes "i \<in> set (subscription_ids d)" and "\<And>r. sub_id (f r) = sub_id r"
  shows "\<exists>s d'. update_subscription_row at i f d = (Inr s, d') \<and>
    subscription_ids d' = subscription_ids d"
proof -
  obtain s where "findSubscriptionById d i = Some s"
    using assms(1) by (cases "findSubscriptionById d i") (auto simp: findSubscriptionById_def lookup_by_None_iff)
  then show ?thesis
    using assms(2) by (simp add: update_subscription_row_def save_subscription_id)
qed

lemma health_present:
  assumes "sub_id s \<in> set (subscription_ids d)"
  shows "\<exists>b d'. recordFailure e s now d = (Inr b, d') \<and> subscription_ids d' = subscription_ids d"
    and "\<exists>d'. recordSuccess e s d = (Inr (), d') \<and> subscription_ids d' = subscription_ids d"
    and "\<exists>d'. disableSubscription e (sub_id s) d = (Inr (), d') \<and> subscription_ids d' = subscription_ids d"
proof -
  note upd = update_subscription_row_present [of "sub_id s"]
  have since: "\<exists>x d1. update_subscription_row (we_dbnow e) (sub_id s)
      (\<lambda>r. r\<lparr>sub_consecutiveFailureSince := v\<rparr>) d = (Inr x, d1) \<and>
      subscription_ids d1 = subscription_ids d" for v
    by (rule upd) (use assms in simp_all)
  have st: "\<exists>x d1. update_subscription_row (we_dbnow e) (sub_id s)
      (\<lambda>r. r\<lparr>sub_status := w, sub_consecutiveFailureSince := v\<rparr>) d' = (Inr x, d1) \<and>
      subscription_ids d1 = subscription_ids d'" if "subscription_ids d' = subscription_ids d" for w v d'
    by (rule upd) (use assms that in simp_all)
  obtain x d1 where first: "update_subscription_row (we_dbnow e) (sub_id s)
      (\<lambda>r. r\<lparr>sub_consecutiveFailureSince := Some now\<rparr>) d = (Inr x, d1)"
      "subscription_ids d1 = subscription_ids d"
    using since by blast
  obtain y d2 z d3 where second: "update_subscription_row (we_dbnow e) (sub_id s)
      (\<lambda>r. r\<lparr>sub_status := SUB_AUTO_DISABLED, sub_consecutiveFailureSince := None\<rparr>) d = (Inr y, d2)"
      "subscription_ids d2 = subscription_ids d"
      "update_subscription_row (we_dbnow e) (sub_id s)
      (\<lambda>r. r\<lparr>sub_status := SUB_AUTO_DISABLED, sub_consecutiveFailureSince := None\<rparr>) d1 = (Inr z, d3)"
      "subscription_ids d3 = subscription_ids d"
    using st [of d] st [OF first(2)] first(2) by metis
  show "\<exists>b d'. recordFailure e s now d = (Inr b, d') \<and> subscription_ids d' = subscription_ids d"
    by (cases "sub_consecutiveFailureSince s")
      (simp_all add: recordFailure_def Let_def first second ex_bool_eq)
  show "\<exists>d'. recordSuccess e s d = (Inr (), d') \<and> subscription_ids d' = subscription_ids d"
    using since [of None] by (auto simp: recordSuccess_def)
  show "\<exists>d'. disableSubscription e (sub_id s) d = (Inr (), d') \<and> subscription_ids d' = subscription_ids d"
    using st [of d None SUB_DISABLED] by (auto simp: disableSubscription_def)
qed

text \<open>The next date of every retry is a date.\<close>

definition retry_dates_ok :: "webhook_env \<Rightarrow> bool" where
  "retry_dates_ok e \<longleftrightarrow> (\<forall>url body hdrs n.
     js_date (we_clock e 3 + resolveBackoffMs n (sr_retryAfterMs (fst (ssrf_post (we_http e) url body hdrs))))
       \<noteq> None)"

lemma applyOutcome_present:
  assumes "sub_id s \<in> set (subscription_ids d)"
    and "js_date (we_clock e 3 + resolveBackoffMs n (sr_retryAfterMs result)) \<noteq> None"
  shows "\<exists>je d' jd. applyOutcome e job i s outcome result n d = (je, d', jd) \<and> je \<noteq> Job_error \<and>
    subscription_ids d' = subscription_ids d"
proof -
  have keep: "subscription_ids (updateStatus i p d) = subscription_ids d" for p
    by (simp add: updateStatus_def)
  have health: "sub_id s \<in> set (subscription_ids (updateStatus i p d))" for p
    using assms(1) by (simp add: keep)
  obtain at where at: "js_date (we_clock e 3 + resolveBackoffMs n (sr_retryAfterMs result)) = Some at"
    using assms(2) by blast
  note steps = health_present(1) [OF health] health_present(2) [OF health] health_present(3) [OF health]
  show ?thesis
  proof (cases outcome)
    case OUT_SUCCESS
    then show ?thesis
      using steps(2) [of e "settled_patch D_SUCCEEDED n (sr_status result) None (we_clock e 3)"] keep
      by (auto simp: applyOutcome_def ended_def Let_def)
  next
    case OUT_DISABLE
    then show ?thesis
      using steps(3) [of e "settled_patch D_FAILED n (sr_status result)
          (or_error (sr_error result) (js ''Endpoint returned 410 Gone'')) (we_clock e 3)"] keep
      by (auto simp: applyOutcome_def ended_def Let_def)
  next
    case OUT_TERMINAL
    then show ?thesis
      using steps(1) [of e "we_clock e 3" "settled_patch D_FAILED n (sr_status result)
          (or_error (sr_error result)
            (js (''Terminal response '' @ code_text (sr_status result) ''blocked'')))
          (we_clock e 3)"] keep
      by (auto simp: applyOutcome_def ended_def Let_def)
  next
    case OUT_RETRY
    then show ?thesis
      using steps(1) [of e "we_clock e 3" "settled_patch D_DEAD n (sr_status result)
          (or_error (sr_error result) (js (''Exhausted after '' @ int_text n @ '' attempts'')))
          (we_clock e 3)"]
        steps(1) [of e "we_clock e 3" "\<lparr>dp_status = D_RETRYING, dp_attemptCount = n,
          dp_nextAttemptAt = Some at, dp_lastStatusCode = Put (sr_status result),
          dp_lastError = sr_error result, dp_completedAt = None\<rparr>"] keep at
      by (auto simp: applyOutcome_def ended_def Let_def)
  qed
qed

lemma handle_present:
  assumes "jd_test (dj_data job) = False"
    and "row_of (db_deliveries d) (jd_eventId (dj_data job)) (jd_subscriptionId (dj_data job)) = Some v"
    and "row_of (db_deliveries d0) (jd_eventId (dj_data job)) (jd_subscriptionId (dj_data job)) = Some v"
    and "jd_subscriptionId (dj_data job) \<in> set (subscription_ids d)" and "retry_dates_ok e"
  shows "ha_end (handle e job d0 d) \<noteq> Job_error"
    and "subscription_ids (ha_db (handle e job d0 d)) = subscription_ids d"
proof -
  have "ha_end (handle e job d0 d) \<noteq> Job_error \<and>
    subscription_ids (ha_db (handle e job d0 d)) = subscription_ids d"
  proof (cases "prepare_delivery e (dj_data job) d0")
    case (Ready delivery n s body hdrs)
    then have v: "delivery = v" "sub_id s = jd_subscriptionId (dj_data job)"
      using assms(3) by (auto simp: prepare_delivery_def findByEventSub_row Let_def
          findSubscriptionById_def dest: lookup_by_SomeD split: option.splits sum.splits if_splits)
    obtain result pinned where post: "ssrf_post (we_http e) (sub_url s) body hdrs = (result, pinned)"
      by (cases "ssrf_post (we_http e) (sub_url s) body hdrs")
    have "findDeliveryById d (del_id v) \<noteq> None"
      using row_of_SomeD [OF assms(2)] by (auto simp: findDeliveryById_def lookup_by_None_iff)
    then have ins: "insertAttempt (attempt_of e delivery n result) d =
        Some (d\<lparr>db_attempts := db_attempts d @ [attempt_of e delivery n result]\<rparr>)"
      by (simp add: insertAttempt_def attempt_of_def v(1))
    have "js_date (we_clock e 3 + resolveBackoffMs n (sr_retryAfterMs result)) \<noteq> None"
      using assms(5) post unfolding retry_dates_ok_def by (metis fst_conv)
    moreover have "sub_id s \<in> set (subscription_ids
        (d\<lparr>db_attempts := db_attempts d @ [attempt_of e delivery n result]\<rparr>))"
      using assms(4) v(2) by simp
    ultimately obtain je d' jd where "applyOutcome e job (del_id v) s
        (classify (sr_status result) (sr_networkError result)) result n
        (d\<lparr>db_attempts := db_attempts d @ [attempt_of e delivery n result]\<rparr>) = (je, d', jd)"
        "je \<noteq> Job_error" "subscription_ids d' = subscription_ids
          (d\<lparr>db_attempts := db_attempts d @ [attempt_of e delivery n result]\<rparr>)"
      using applyOutcome_present by blast
    then show ?thesis
      using Ready post ins v(1) assms(1) by (simp add: handle_def handle_delivery_def)
  qed (use assms(1) in \<open>simp_all add: handle_def handle_delivery_def fail_delivery_def updateStatus_def\<close>)
  then show "ha_end (handle e job d0 d) \<noteq> Job_error"
    and "subscription_ids (ha_db (handle e job d0 d)) = subscription_ids d"
    by auto
qed

text \<open>What happens beside the attempts leaves the delivery and the existence of its subscription alone.\<close>

definition leaves_alone :: "uuid \<Rightarrow> uuid \<Rightarrow> (nat \<Rightarrow> db \<Rightarrow> db) \<Rightarrow> bool" where
  "leaves_alone ev s f \<longleftrightarrow> (\<forall>k d. findByEventSub (f k d) ev s = findByEventSub d ev s \<and>
     (s \<in> set (subscription_ids d) \<longrightarrow> s \<in> set (subscription_ids (f k d))))"

lemma retry_loop_no_error:
  assumes "retry_loop env before during k job d = Some r"
  shows "(\<forall>k. retry_dates_ok (env k)) \<longrightarrow> leaves_alone ev s before \<longrightarrow> leaves_alone ev s during \<longrightarrow>
    \<not> jd_test (dj_data job) \<longrightarrow> jd_eventId (dj_data job) = ev \<longrightarrow> jd_subscriptionId (dj_data job) = s \<longrightarrow>
    (\<exists>v. findByEventSub d ev s = Some v) \<longrightarrow> s \<in> set (subscription_ids d) \<longrightarrow>
    fst (snd r) \<noteq> Job_error"
proof (rule retry_loop.raw_induct [OF _ assms])
  fix loop env before during k job d r
  assume again: "\<And>env before during k job d r. loop env before during k job d = Some r \<Longrightarrow>
      (\<forall>k. retry_dates_ok (env k)) \<longrightarrow> leaves_alone ev s before \<longrightarrow> leaves_alone ev s during \<longrightarrow>
      \<not> jd_test (dj_data job) \<longrightarrow> jd_eventId (dj_data job) = ev \<longrightarrow>
      jd_subscriptionId (dj_data job) = s \<longrightarrow> (\<exists>v. findByEventSub d ev s = Some v) \<longrightarrow>
      s \<in> set (subscription_ids d) \<longrightarrow> fst (snd r) \<noteq> Job_error"
    and step: "(let d0 = before k d; h = handle (env k) job d0 (during k d0)
      in if ha_end h = Job_retry
         then loop env before during (Suc k) (job\<lparr>dj_data := ha_data h\<rparr>) (ha_db h)
         else Some (Suc k, ha_end h, ha_db h)) = Some r"
  show "(\<forall>k. retry_dates_ok (env k)) \<longrightarrow> leaves_alone ev s before \<longrightarrow> leaves_alone ev s during \<longrightarrow>
    \<not> jd_test (dj_data job) \<longrightarrow> jd_eventId (dj_data job) = ev \<longrightarrow> jd_subscriptionId (dj_data job) = s \<longrightarrow>
    (\<exists>v. findByEventSub d ev s = Some v) \<longrightarrow> s \<in> set (subscription_ids d) \<longrightarrow>
    fst (snd r) \<noteq> Job_error"
  proof (intro impI)
    assume dates: "\<forall>k. retry_dates_ok (env k)"
      and alone: "leaves_alone ev s before" "leaves_alone ev s during"
      and job: "\<not> jd_test (dj_data job)" "jd_eventId (dj_data job) = ev" "jd_subscriptionId (dj_data job) = s"
      and found: "\<exists>v. findByEventSub d ev s = Some v" and sub: "s \<in> set (subscription_ids d)"
    define d0 where "d0 = before k d"
    define h where "h = handle (env k) job d0 (during k d0)"
    obtain v where rows: "row_of (db_deliveries (during k d0)) ev s = Some v"
        "row_of (db_deliveries d0) ev s = Some v"
      using found alone by (auto simp: d0_def leaves_alone_def findByEventSub_row)
    have subs: "s \<in> set (subscription_ids (during k d0))"
      using sub alone by (auto simp: d0_def leaves_alone_def)
    note present = handle_present [of job "during k d0" v d0 "env k", folded h_def, unfolded job(2,3),
      OF _ rows subs]
    note row = handle_row [of job d0 v "during k d0" "env k", folded h_def, unfolded job(2,3),
      OF _ rows(2,1)]
    show "fst (snd r) \<noteq> Job_error"
    proof (cases "ha_end h = Job_retry")
      case True
      then have "loop env before during (Suc k) (job\<lparr>dj_data := ha_data h\<rparr>) (ha_db h) = Some r"
        using step by (simp add: Let_def h_def d0_def)
      from again [OF this] show ?thesis
        using True dates alone job row present subs by (auto simp: findByEventSub_row)
    next
      case False
      then show ?thesis
        using step present dates job(1) by (auto simp: Let_def h_def d0_def)
    qed
  qed
qed

end
