(* ===== verification/Delivery_Rows.thy ===== *)
theory Delivery_Rows
  imports Relay_Facts Delivery_Loop
begin

text \<open>The shape of the rows of the webhooks in every run: what each status of a delivery says of
  its other columns, what an attempt holds, and the keys between the tables. The machine
  \<open>webhook_reach\<close> interleaves the jobs of the worker, whose reads and writes may see different
  databases, with the routes of the subscriptions and the replay.\<close>

section \<open>Well-formed rows\<close>

definition delivery_wf :: "delivery_row \<Rightarrow> bool" where
  "delivery_wf v \<longleftrightarrow>
     (case del_status v of
        D_PENDING \<Rightarrow> del_attemptCount v = 0 \<and> del_nextAttemptAt v = None \<and>
          del_completedAt v = None \<and> del_lastError v = None
      | D_RETRYING \<Rightarrow> 1 \<le> del_attemptCount v \<and> del_nextAttemptAt v \<noteq> None \<and> del_completedAt v = None
      | D_SUCCEEDED \<Rightarrow> 1 \<le> del_attemptCount v \<and> del_nextAttemptAt v = None \<and>
          del_completedAt v \<noteq> None \<and> del_lastError v = None \<and>
          (\<exists>c \<in> {200..<300}. del_lastStatusCode v = Some c)
      | _ \<Rightarrow> 1 \<le> del_attemptCount v \<and> del_nextAttemptAt v = None \<and> del_completedAt v \<noteq> None \<and>
          del_lastError v \<noteq> None)"

definition attempt_wf :: "attempt_row \<Rightarrow> bool" where
  "attempt_wf a \<longleftrightarrow> 1 \<le> att_attemptNo a \<and> (\<exists>ms \<ge> 0. att_durationMs a = Some ms) \<and>
     (case att_responseSnippet a of None \<Rightarrow> True | Some t \<Rightarrow> t \<noteq> [] \<and> length t \<le> 1024)"

abbreviation outbox_ids :: "db \<Rightarrow> uuid set" where
  "outbox_ids d \<equiv> ob_id ` set (db_outbox d)"

definition delivery_ok :: "db \<Rightarrow> delivery_row \<Rightarrow> bool" where
  "delivery_ok d v \<longleftrightarrow> delivery_wf v \<and> del_subscriptionId v \<in> set (subscription_ids d) \<and>
     del_eventId v \<in> outbox_ids d"

definition attempt_ok :: "db \<Rightarrow> attempt_row \<Rightarrow> bool" where
  "attempt_ok d a \<longleftrightarrow> attempt_wf a \<and> att_deliveryId a \<in> del_id ` set (db_deliveries d)"

definition webhooks_ok :: "db \<Rightarrow> bool" where
  "webhooks_ok d \<longleftrightarrow> (\<forall>v \<in> set (db_deliveries d). delivery_ok d v) \<and>
     distinct (map delivery_key (db_deliveries d)) \<and> (\<forall>a \<in> set (db_attempts d). attempt_ok d a)"

text \<open>\<open>d'\<close> has the deliveries and attempts of \<open>d\<close> and no fewer subscriptions and events.\<close>

definition same_webhooks :: "db \<Rightarrow> db \<Rightarrow> bool" where
  "same_webhooks d d' \<longleftrightarrow> db_deliveries d' = db_deliveries d \<and> db_attempts d' = db_attempts d \<and>
     set (subscription_ids d) \<subseteq> set (subscription_ids d') \<and> outbox_ids d \<subseteq> outbox_ids d'"

lemma same_webhooks_refl [simp]: "same_webhooks d d"
  by (simp add: same_webhooks_def)

lemma same_webhooks_trans:
  "same_webhooks d d1 \<Longrightarrow> same_webhooks d1 d2 \<Longrightarrow> same_webhooks d d2"
  unfolding same_webhooks_def by (metis subset_trans)

lemma same_webhooks_ok: "same_webhooks d d' \<Longrightarrow> webhooks_ok d \<Longrightarrow> webhooks_ok d'"
  by (auto simp: same_webhooks_def webhooks_ok_def delivery_ok_def attempt_ok_def)

lemma webhook_audit_same [simp]: "same_webhooks d (webhook_audit at b u i act old new detail d)"
  by (simp add: same_webhooks_def webhook_audit_def)

lemma image_update_by:
  assumes "\<And>r. key (f r) = key r"
  shows "key ` set (update_by key' k f rows) = key ` set rows"
  by (induction rows) (auto simp: assms)

lemma update_subscription_row_same:
  assumes "update_subscription_row at i f d = (r, d')" and "\<And>s. sub_id (f s) = sub_id s"
  shows "same_webhooks d d'"
  using assms image_update_by [of sub_id "save_subscription at f" sub_id i]
  by (auto simp: update_subscription_row_def same_webhooks_def save_subscription_id
      split: option.splits)

section \<open>The steps of an attempt\<close>

lemma notifyDisabled_same [simp]: "same_webhooks d (notifyDisabled e s reason d)"
  by (auto simp: same_webhooks_def notifyDisabled_def createNotification_def Let_def split: prod.split)

lemma recordFailure_same:
  assumes "recordFailure e s now d = (r, d')"
  shows "same_webhooks d d'"
proof -
  note upd = update_subscription_row_same [where at = "we_dbnow e" and i = "sub_id s"]
  show ?thesis
    using assms
    by (auto simp: recordFailure_def Let_def split: if_splits prod.splits sum.splits
        dest!: upd intro: same_webhooks_trans)
qed

lemma recordSuccess_same: "recordSuccess e s d = (r, d') \<Longrightarrow> same_webhooks d d'"
  by (auto simp: recordSuccess_def split: if_splits prod.splits sum.splits
      dest!: update_subscription_row_same)

lemma disableSubscription_same: "disableSubscription e i d = (r, d') \<Longrightarrow> same_webhooks d d'"
  by (auto simp: disableSubscription_def split: prod.splits sum.splits
      dest!: update_subscription_row_same)

text \<open>A patch that makes every row well formed.\<close>

definition good_patch :: "delivery_patch \<Rightarrow> bool" where
  "good_patch p \<longleftrightarrow> (\<forall>v. delivery_wf (patch_delivery p v))"

lemma updateStatus_ok:
  assumes "webhooks_ok d" and "good_patch p"
  shows "webhooks_ok (updateStatus i p d)"
proof -
  have keys: "map delivery_key (update_by del_id i (patch_delivery p) rows) = map delivery_key rows" for rows
    by (induction rows) (auto simp: delivery_key_def)
  have ids: "del_id ` set (update_by del_id i (patch_delivery p) rows) = del_id ` set rows" for rows
    by (rule image_update_by) simp
  have "delivery_ok d v" if "v \<in> set (update_by del_id i (patch_delivery p) (db_deliveries d))" for v
    using set_update_by_cases [OF that] assms
    by (auto simp: webhooks_ok_def good_patch_def delivery_ok_def)
  then show ?thesis
    using assms(1) keys [of "db_deliveries d"] ids [of "db_deliveries d"]
    by (auto simp: webhooks_ok_def updateStatus_def delivery_ok_def attempt_ok_def)
qed

lemma good_patches:
  "good_patch reset_patch"
  "1 \<le> n \<Longrightarrow> good_patch (settled_patch D_FAILED n c (Some err) now)"
  "1 \<le> n \<Longrightarrow> good_patch (settled_patch D_DEAD n c (Some err) now)"
  "1 \<le> n \<Longrightarrow> k \<in> {200..<300} \<Longrightarrow> good_patch (settled_patch D_SUCCEEDED n (Some k) None now)"
  "1 \<le> n \<Longrightarrow> good_patch \<lparr>dp_status = D_RETRYING, dp_attemptCount = n, dp_nextAttemptAt = Some t,
     dp_lastStatusCode = code, dp_lastError = err', dp_completedAt = None\<rparr>"
  "1 \<le> n \<Longrightarrow> good_patch \<lparr>dp_status = D_FAILED, dp_attemptCount = n, dp_nextAttemptAt = None,
     dp_lastStatusCode = code, dp_lastError = Some err, dp_completedAt = Some now\<rparr>"
  by (auto simp: good_patch_def delivery_wf_def patch_delivery_def reset_patch_def settled_patch_def)

lemma classify_success: "classify c net = OUT_SUCCESS \<Longrightarrow> \<exists>n \<in> {200..<300}. c = Some n"
  by (auto simp: classify_def split: option.splits if_splits)

lemma applyOutcome_ok:
  assumes ok: "webhooks_ok d" and n: "1 \<le> n"
    and out: "applyOutcome e job i s (classify (sr_status result) net) result n d = (je, d', jd)"
  shows "webhooks_ok d'"
proof -
  have upd: "webhooks_ok (updateStatus i p d)" if "good_patch p" for p
    by (rule updateStatus_ok [OF ok that])
  note same = recordFailure_same [THEN same_webhooks_ok] recordSuccess_same [THEN same_webhooks_ok]
    disableSubscription_same [THEN same_webhooks_ok] notifyDisabled_same [THEN same_webhooks_ok]
  show ?thesis
  proof (cases "classify (sr_status result) net")
    case OUT_SUCCESS
    then obtain c where "c \<in> {200..<300}" "sr_status result = Some c"
      using classify_success by blast
    then show ?thesis
      using out OUT_SUCCESS good_patches(4) [OF n] upd
      by (auto simp: applyOutcome_def ended_def Let_def split: prod.splits sum.splits dest: same(2))
  next
    case OUT_DISABLE
    then show ?thesis
      using out good_patches(2) [OF n] upd
      by (auto simp: applyOutcome_def or_error_def Let_def split: prod.splits sum.splits
          dest: same(3) intro!: same(4))
  next
    case OUT_TERMINAL
    then show ?thesis
      using out good_patches(2) [OF n] upd
      by (auto simp: applyOutcome_def ended_def or_error_def Let_def split: prod.splits sum.splits
          dest: same(1))
  next
    case OUT_RETRY
    then show ?thesis
      using out good_patches(3,5) [OF n] upd ok
      by (auto simp: applyOutcome_def ended_def or_error_def Let_def
          split: prod.splits sum.splits if_splits option.splits dest: same(1))
  qed
qed

lemma attempt_of_wf: "1 \<le> n \<Longrightarrow> attempt_wf (attempt_of e v n result)"
  by (auto simp: attempt_wf_def attempt_of_def truncateResponseSnippet_def
      WEBHOOK_RESPONSE_SNIPPET_MAX_CHARS_def)

lemma insertAttempt_ok:
  "webhooks_ok d \<Longrightarrow> insertAttempt a d = Some d' \<Longrightarrow> attempt_wf a \<Longrightarrow> webhooks_ok d'"
  by (auto simp: insertAttempt_def webhooks_ok_def delivery_ok_def attempt_ok_def findDeliveryById_def
      lookup_by_None_iff split: if_splits)

lemma count_nonneg: "delivery_wf v \<Longrightarrow> 0 \<le> del_attemptCount v"
  by (auto simp: delivery_wf_def split: delivery_status.splits)

lemma prepared_count:
  assumes "webhooks_ok d0"
  shows "prepare_delivery e jd d0 = Failed_delivery v n err \<Longrightarrow> 1 \<le> n"
    and "prepare_delivery e jd d0 = Ready v n s body hdrs \<Longrightarrow> 1 \<le> n"
proof -
  have found: "0 \<le> del_attemptCount w" if "findByEventSub d0 ev s = Some w" for ev s w
    using that assms row_of_SomeD
    by (fastforce simp: findByEventSub_row webhooks_ok_def delivery_ok_def intro: count_nonneg)
  show "prepare_delivery e jd d0 = Failed_delivery v n err \<Longrightarrow> 1 \<le> n"
    by (auto simp: prepare_delivery_def Let_def dest!: found split: option.splits if_splits sum.splits)
  show "prepare_delivery e jd d0 = Ready v n s body hdrs \<Longrightarrow> 1 \<le> n"
    by (auto simp: prepare_delivery_def Let_def dest!: found split: option.splits if_splits sum.splits)
qed

lemma handle_ok:
  assumes "webhooks_ok d0" and "webhooks_ok d"
  shows "webhooks_ok (ha_db (handle e job d0 d))"
proof (cases "prepare_delivery e (dj_data job) d0")
  case (Failed_delivery v n err)
  then show ?thesis
    using prepared_count(1) [OF assms(1) Failed_delivery] assms(2)
    by (simp add: handle_def handle_delivery_def fail_delivery_def updateStatus_ok good_patches(6))
next
  case (Ready v n s body hdrs)
  note n = prepared_count(2) [OF assms(1) Ready]
  obtain result pinned where post: "ssrf_post (we_http e) (sub_url s) body hdrs = (result, pinned)"
    by (cases "ssrf_post (we_http e) (sub_url s) body hdrs")
  show ?thesis
    using Ready post assms(2) applyOutcome_ok [OF insertAttempt_ok [OF assms(2) _ attempt_of_wf [OF n]] n]
    by (auto simp: handle_def handle_delivery_def split: option.split prod.split)
qed (use assms(2) in \<open>simp add: handle_def handle_delivery_def\<close>)

section \<open>Dispatch and retention\<close>

lemma insertOnConflict_ok:
  assumes "webhooks_ok d" and "s \<in> set (subscription_ids d)" and "ev \<in> outbox_ids d"
  shows "webhooks_ok (snd (insertOnConflictDoNothing newId at ev s d))"
proof -
  have "delivery_wf (new_delivery newId at ev s)"
    by (simp add: delivery_wf_def new_delivery_def)
  then show ?thesis
    using assms
    by (auto simp: insertOnConflictDoNothing_def delivery_exists_iff delivery_keys_def webhooks_ok_def
        delivery_ok_def attempt_ok_def new_delivery_def delivery_key_def)
qed

lemma insert_deliveries_ok:
  assumes "webhooks_ok d" and "set (map sub_id ss) \<subseteq> set (subscription_ids d)" and "ev \<in> outbox_ids d"
  shows "webhooks_ok (snd (insert_deliveries ids at ev ss d)) \<and>
    subscription_ids (snd (insert_deliveries ids at ev ss d)) = subscription_ids d \<and>
    outbox_ids (snd (insert_deliveries ids at ev ss d)) = outbox_ids d"
  using assms
proof (induction ids at ev ss d rule: insert_deliveries.induct)
  case (2 ids at ev s ss d)
  obtain b d1 where ins: "insertOnConflictDoNothing (ids 0) at ev (sub_id s) d = (b, d1)"
    by (cases "insertOnConflictDoNothing (ids 0) at ev (sub_id s) d")
  then have "webhooks_ok d1" "subscription_ids d1 = subscription_ids d" "outbox_ids d1 = outbox_ids d"
    using insertOnConflict_ok [OF 2(2), of "sub_id s" ev "ids 0" at] 2(3,4)
    by (auto simp: insertOnConflictDoNothing_def split: if_splits)
  then show ?case
    using 2(1) [OF ins [symmetric]] 2(3,4) ins by (auto split: prod.splits)
qed simp

lemma select_subset: "set (selectMatchedSubscriptions ss t) \<subseteq> set ss"
proof -
  let ?step = "\<lambda>s (matched, seen).
         if sub_id s \<in> seen then (matched, seen)
         else if \<not> subscriptionMatchesEventType (sub_eventTypes s) t then (matched, seen)
         else (s # matched, insert (sub_id s) seen)"
  have "set (fst (fold ?step ss (m, seen))) \<subseteq> set m \<union> set ss" for m seen
  proof (induction ss arbitrary: m seen)
    case (Cons s ss)
    show ?case
      using Cons [of m seen] Cons [of "s # m" "insert (sub_id s) seen"] by auto
  qed simp
  from this [of "[]"] show ?thesis
    by (simp add: selectMatchedSubscriptions_def)
qed

lemma matched_subset: "set (matched_subscriptions event d) \<subseteq> set (db_subscriptions d)"
  using select_subset [of "findActiveByBond d (ob_bondId event)" "ob_eventType event"]
  by (auto simp: matched_subscriptions_def findActiveByBond_def)

lemma dispatch_ok:
  assumes "webhooks_ok d" and "ob_id event \<in> outbox_ids d" and "dispatch x aborts event d = Some r"
  shows "webhooks_ok (di_db r) \<and> outbox_ids (di_db r) = outbox_ids d"
proof -
  let ?ins = "insert_deliveries (dx_ids x) (env_dbnow (dx_env x)) (ob_id event)
    (matched_subscriptions event d) d"
  obtain created d1 where ins: "?ins = (created, d1)"
    by (cases ?ins)
  have "set (map sub_id (matched_subscriptions event d)) \<subseteq> set (subscription_ids d)"
    using matched_subset by auto
  from insert_deliveries_ok [OF assms(1) this assms(2), of "dx_ids x" "env_dbnow (dx_env x)"]
  have d1: "webhooks_ok d1" "outbox_ids d1 = outbox_ids d"
    unfolding ins snd_conv by blast+
  define n where "n = (if dx_notifications x
     then handleOutboxEvent (dx_fanout_flag x) (dx_env x) (dx_tz x) event d1 else ([], d1))"
  have "\<exists>rows. snd n = d1\<lparr>db_notifications := db_notifications d1 @ rows\<rparr>"
    unfolding n_def using handleOutboxEvent_frame [of "dx_fanout_flag x" "dx_env x" "dx_tz x" event d1]
    by (cases "dx_notifications x") (auto intro!: exI [of _ "[]"])
  then have n: "same_webhooks d1 (snd n)" "outbox_ids (snd n) = outbox_ids d1"
    by (auto simp: same_webhooks_def)
  have mark: "same_webhooks d2 (markDispatched i at d2)" "outbox_ids (markDispatched i at d2) = outbox_ids d2"
    for i at d2
  proof -
    have "ob_id ` set (update_by ob_id i (\<lambda>e. e\<lparr>ob_dispatchedAt := Some at\<rparr>) (db_outbox d2)) =
        ob_id ` set (db_outbox d2)"
      by (rule image_update_by) simp
    then show "same_webhooks d2 (markDispatched i at d2)"
      "outbox_ids (markDispatched i at d2) = outbox_ids d2"
      by (simp_all add: same_webhooks_def markDispatched_def)
  qed
  have "di_db r = markDispatched (ob_id event) (env_dbnow (dx_env x)) (snd n)"
    using assms(3) unfolding dispatch_def ins prod.case n_def [symmetric]
    by (auto split: if_splits prod.splits)
  then show ?thesis
    using mark n d1 same_webhooks_ok by metis
qed

lemma relay_events_ok:
  "webhooks_ok d \<Longrightarrow> ob_id ` set events \<subseteq> outbox_ids d \<Longrightarrow>
     webhooks_ok (di_db (relay_events xs aborts i events d))"
proof (induction events arbitrary: i d)
  case (Cons event events)
  then show ?case
    using dispatch_ok [OF Cons.prems(1), of event "xs i" "aborts i"]
    by (auto simp: Let_def split: option.split)
qed simp

lemma relay_run_ok: "webhooks_ok d \<Longrightarrow> webhooks_ok (di_db (relay_run xs aborts limit d))"
  unfolding relay_run_def by (rule relay_events_ok) (use findPending_set in fastforce)+

lemma retention_ok: "webhooks_ok d \<Longrightarrow> webhooks_ok (snd (retention_run c now d))"
proof -
  assume ok: "webhooks_ok d"
  have "webhooks_ok (snd (purgeAttemptsOlderThan t d))" for t
    using ok by (auto simp: purgeAttemptsOlderThan_def webhooks_ok_def delivery_ok_def attempt_ok_def)
  moreover have "webhooks_ok (fst (purgeDispatchedBefore t d'))" if "webhooks_ok d'" for t d'
  proof -
    have "ob_id e \<in> ob_id ` {e \<in> set (db_outbox d'). \<not> purgeable t e}"
      if "e \<in> set (db_outbox d')" "ob_id e \<notin> ob_id ` {e \<in> set (db_outbox d'). purgeable t e}" for e
      using that by auto
    then show ?thesis
      using that
      by (auto simp: purgeDispatchedBefore_def Let_def webhooks_ok_def delivery_ok_def attempt_ok_def
          distinct_map_filter image_iff) (metis+)?
  qed
  ultimately show "webhooks_ok (snd (retention_run c now d))"
    by (simp add: retention_run_def Let_def split: prod.split) (metis fst_conv snd_conv)
qed

lemma process_job_ok:
  assumes "webhooks_ok d0" and "webhooks_ok d"
  shows "webhooks_ok (pr_db (process_job w name job d0 d))"
  using assms handle_ok relay_run_ok retention_ok
  by (auto simp: process_job_def runPoll_def runReconcile_def runRetention_def reconcile_run_def
      swallowed_def Let_def split: prod.split)

section \<open>The routes\<close>

lemma remove_subscription_row_ok:
  assumes "webhooks_ok d" and "remove_subscription_row i d = (r, d')"
  shows "webhooks_ok d'"
  using assms
  by (auto simp: remove_subscription_row_def Let_def webhooks_ok_def delivery_ok_def attempt_ok_def
      distinct_map_filter image_iff split: option.splits) (metis+)?

lemma subscription_routes_ok:
  assumes "webhooks_ok d"
  shows "webhooks_ok (snd (create_subscription e bondId dto user d))"
    and "webhooks_ok (snd (update_subscription e bondId i udto user d))"
    and "webhooks_ok (snd (rotate_secret e bondId i user d))"
    and "webhooks_ok (snd (remove_subscription e bondId i user d))"
proof -
  note audit = same_webhooks_ok [OF webhook_audit_same]
  note upd = same_webhooks_ok [OF update_subscription_row_same, OF _ _ assms]
  have add: "webhooks_ok (d\<lparr>db_subscriptions := db_subscriptions d @ [row]\<rparr>)" for row
    by (rule same_webhooks_ok [OF _ assms]) (auto simp: same_webhooks_def)
  show "webhooks_ok (snd (create_subscription e bondId dto user d))"
    using assms add by (auto simp: create_subscription_def intro!: audit split: sum.split)
  show "webhooks_ok (snd (update_subscription e bondId i udto user d))"
    using assms
    by (auto simp: update_subscription_def patch_subscription_def intro!: audit dest!: upd
        split: sum.split prod.split)
  show "webhooks_ok (snd (rotate_secret e bondId i user d))"
    using assms
    by (auto simp: rotate_secret_def Let_def intro!: audit dest!: upd split: sum.split prod.split)
  show "webhooks_ok (snd (remove_subscription e bondId i user d))"
    using assms remove_subscription_row_ok
    by (auto simp: remove_subscription_def intro!: audit split: sum.split prod.split)
qed

lemma resetAndEnqueue_ok: "webhooks_ok d \<Longrightarrow> webhooks_ok (snd (resetAndEnqueue q v d))"
  by (simp add: resetAndEnqueue_def Let_def updateStatus_ok good_patches(1) split: option.split)

lemma replay_all_ok: "webhooks_ok d \<Longrightarrow> webhooks_ok (snd (replay_all q vs d))"
proof (induction q vs d rule: replay_all.induct)
  case (2 q v vs d)
  then show ?case
    using resetAndEnqueue_ok [OF 2(2), of q v] by (auto split: prod.split sum.split)
qed simp

lemma replay_ok:
  assumes "webhooks_ok d"
  shows "webhooks_ok (snd (replay_delivery e q i user d))"
    and "webhooks_ok (snd (replay_dead e q bondId i user d))"
proof -
  note audit = same_webhooks_ok [OF webhook_audit_same]
  have reset: "webhooks_ok d'" if "resetAndEnqueue q v d = (r, d')" for v r d'
    using resetAndEnqueue_ok [OF assms, of q v] that by simp
  show "webhooks_ok (snd (replay_delivery e q i user d))"
    using assms
    by (auto simp: replay_delivery_def intro!: audit dest!: reset
        split: option.split sum.split prod.split)
  show "webhooks_ok (snd (replay_dead e q bondId i user d))"
    using assms replay_all_ok [OF assms, of q "findDeadBySubscription d i"]
    by (auto simp: replay_dead_def Let_def intro!: audit split: sum.split prod.split)
qed

section \<open>All interleavings\<close>

text \<open>A job reads one reachable database and writes to another, which covers every interleaving of
  its request with the rest. The other components touch neither deliveries nor attempts nor
  subscriptions, and never remove an event.\<close>

inductive webhook_reach :: "db \<Rightarrow> bool" where
  wh_start: "db_deliveries d = [] \<Longrightarrow> db_attempts d = [] \<Longrightarrow> webhook_reach d"
| wh_other: "webhook_reach d \<Longrightarrow> db_deliveries d' = db_deliveries d \<Longrightarrow>
     db_attempts d' = db_attempts d \<Longrightarrow> db_subscriptions d' = db_subscriptions d \<Longrightarrow>
     outbox_ids d \<subseteq> outbox_ids d' \<Longrightarrow> webhook_reach d'"
| wh_job: "webhook_reach d0 \<Longrightarrow> webhook_reach d \<Longrightarrow>
     webhook_reach (pr_db (process_job w name job d0 d))"
| wh_create: "webhook_reach d \<Longrightarrow> webhook_reach (snd (create_subscription e bondId dto user d))"
| wh_update: "webhook_reach d \<Longrightarrow> webhook_reach (snd (update_subscription e bondId i udto user d))"
| wh_rotate: "webhook_reach d \<Longrightarrow> webhook_reach (snd (rotate_secret e bondId i user d))"
| wh_remove: "webhook_reach d \<Longrightarrow> webhook_reach (snd (remove_subscription e bondId i user d))"
| wh_replay: "webhook_reach d \<Longrightarrow> webhook_reach (snd (replay_delivery e q i user d))"
| wh_replay_dead: "webhook_reach d \<Longrightarrow> webhook_reach (snd (replay_dead e q bondId i user d))"

lemma webhook_reach_ok: "webhook_reach d \<Longrightarrow> webhooks_ok d"
proof (induction rule: webhook_reach.induct)
  case (wh_start d)
  then show ?case by (simp add: webhooks_ok_def)
next
  case (wh_other d d')
  show ?case
    by (rule same_webhooks_ok [OF _ wh_other.IH]) (use wh_other.hyps in \<open>simp add: same_webhooks_def\<close>)
qed (rule process_job_ok subscription_routes_ok replay_ok; assumption)+

end
