(* ===== verification/Webhook_Observability.thy ===== *)
theory Webhook_Observability
  imports Webhook_Dispatch Complex_Main
begin

text \<open>Logs, metrics and alerts of the webhooks (\<open>webhooks/webhooks-observability.ts\<close>). A log entry
  is the object handed to \<open>JSON.stringify\<close>. Ratios are rationals: a quotient of two counts below
  \<open>2 ^ 50\<close> compares with the double \<open>0.2\<close> as it does with one fifth. The sentence of an alert,
  which is never logged, is not modelled. What the database and Redis answer are arguments.\<close>

section \<open>Redaction\<close>

definition ascii_unit :: "(char \<Rightarrow> bool) \<Rightarrow> 16 word \<Rightarrow> bool" where
  "ascii_unit p u \<longleftrightarrow> unat u < 128 \<and> p (char_of (unat u))"

definition letter_or_digit :: "char \<Rightarrow> bool" where
  "letter_or_digit c =
     (let n = of_char c :: nat in
      (65 \<le> n \<and> n \<le> 90) \<or> (97 \<le> n \<and> n \<le> 122) \<or> (48 \<le> n \<and> n \<le> 57))"

text \<open>\<open>\w\<close> and \<open>[A-Za-z0-9+/=]\<close>.\<close>

definition word_char :: "16 word \<Rightarrow> bool" where
  "word_char = ascii_unit (\<lambda>c. letter_or_digit c \<or> c = CHR ''_'')"

definition secret_char :: "16 word \<Rightarrow> bool" where
  "secret_char = ascii_unit (\<lambda>c. letter_or_digit c \<or> c \<in> {CHR ''+'', CHR ''/'', CHR ''=''})"

definition REDACTED :: utf16 where
  "REDACTED = js ''[REDACTED]''"

text \<open>\<open>/\bwhsec_[A-Za-z0-9+/=]{4,}/\<close> at a place whose left neighbour is a word character or not.\<close>

definition secret_here :: "bool \<Rightarrow> utf16 \<Rightarrow> bool" where
  "secret_here after_word t \<longleftrightarrow> \<not> after_word \<and> take 6 t = js WEBHOOK_SECRET_PREFIX \<and>
     4 \<le> length (takeWhile secret_char (drop 6 t))"

function redact :: "bool \<Rightarrow> utf16 \<Rightarrow> utf16" where
  "redact after_word t =
     (case t of [] \<Rightarrow> []
      | c # cs \<Rightarrow>
          if secret_here after_word t
          then REDACTED @
            redact (word_char (last (takeWhile secret_char (drop 6 t)))) (dropWhile secret_char (drop 6 t))
          else c # redact (word_char c) cs)"
  by pat_completeness auto
termination
proof (relation "measure (length \<circ> snd)")
  fix after_word :: bool and t :: utf16 and c cs
  assume "t = c # cs"
  have "length (dropWhile secret_char (drop 6 t)) \<le> length (drop 6 t)"
    by (rule length_dropWhile_le)
  then have "length (dropWhile secret_char (drop 6 t)) < length t"
    using \<open>t = c # cs\<close> by auto
  then show "((word_char (last (takeWhile secret_char (drop 6 t))), dropWhile secret_char (drop 6 t)),
      after_word, t) \<in> measure (length \<circ> snd)"
    by simp
qed auto

declare redact.simps [simp del]

definition redactSecrets :: "utf16 option \<Rightarrow> utf16" where
  "redactSecrets t = (case t of None \<Rightarrow> [] | Some s \<Rightarrow> redact False s)"

section \<open>The log entry of an attempt\<close>

definition FORBIDDEN_LOG_KEYS :: "string list" where
  "FORBIDDEN_LOG_KEYS =
     [''secret'', ''secrets'', ''secretencrypted'', ''secretprevencrypted'', ''whsec'',
      ''authorization'', ''webhooksignature'', ''signature'', ''headers'', ''body'', ''rawbody'',
      ''payload'', ''responsesnippet'', ''response'', ''errorbody'']"

definition DELIVERY_LOG_ALLOWED_KEYS :: "string list" where
  "DELIVERY_LOG_ALLOWED_KEYS =
     [''eventId'', ''subscriptionId'', ''attempt'', ''outcome'', ''status'', ''statusCode'',
      ''latencyMs'', ''deliveryId'', ''bondId'']"

definition lower_char :: "char \<Rightarrow> char" where
  "lower_char c =
     (let n = of_char c :: nat in if 65 \<le> n \<and> n \<le> 90 then char_of (n + 32) else c)"

definition log_value :: "json \<Rightarrow> json" where
  "log_value v = (case v of JStr t \<Rightarrow> JStr (redactSecrets (Some t)) | _ \<Rightarrow> v)"

definition buildDeliveryLogEntry :: "json_obj \<Rightarrow> json_obj" where
  "buildDeliveryLogEntry inp =
     concat (map (\<lambda>key.
       (case map_of inp key of
          None \<Rightarrow> []
        | Some v \<Rightarrow>
            if map lower_char key \<in> set FORBIDDEN_LOG_KEYS then [] else [(key, log_value v)]))
       DELIVERY_LOG_ALLOWED_KEYS)"

text \<open>What \<open>handle\<close> passes for one attempt.\<close>

fun outcome_string :: "delivery_outcome \<Rightarrow> string" where
  "outcome_string OUT_SUCCESS = ''SUCCESS''"
| "outcome_string OUT_DISABLE = ''DISABLE''"
| "outcome_string OUT_TERMINAL = ''TERMINAL''"
| "outcome_string OUT_RETRY = ''RETRY''"

definition attempt_log ::
  "delivery_job_data \<Rightarrow> attempt_row \<Rightarrow> delivery_outcome \<Rightarrow> delivery_status \<Rightarrow> uuid \<Rightarrow> json_obj" where
  "attempt_log jd a outcome st bondId =
     [(''eventId'', jstr (jd_eventId jd)), (''subscriptionId'', jstr (jd_subscriptionId jd)),
      (''attempt'', JNum (att_attemptNo a)), (''outcome'', jstr (outcome_string outcome)),
      (''status'', jstr (delivery_status_string st)),
      (''statusCode'', jnullable JNum (att_statusCode a)),
      (''latencyMs'', JNum (or_default (att_durationMs a) 0)),
      (''deliveryId'', jstr (att_deliveryId a)), (''bondId'', jstr bondId)]"

section \<open>Metrics\<close>

record webhook_metrics =
  wm_byStatus :: "(delivery_status \<times> nat) list"
  wm_latencyCount :: nat
  wm_latencyTotalMs :: int
  wm_latencyMaxMs :: int
  wm_autoDisabled :: nat

definition no_metrics :: webhook_metrics where
  "no_metrics = \<lparr>wm_byStatus = [], wm_latencyCount = 0, wm_latencyTotalMs = 0,
                 wm_latencyMaxMs = 0, wm_autoDisabled = 0\<rparr>"

fun count_up :: "'k \<Rightarrow> ('k \<times> nat) list \<Rightarrow> ('k \<times> nat) list" where
  "count_up k [] = [(k, 1)]"
| "count_up k ((k', n) # ps) = (if k = k' then (k, n + 1) # ps else (k', n) # count_up k ps)"

definition recordDeliveryOutcome ::
  "delivery_status \<Rightarrow> int option \<Rightarrow> webhook_metrics \<Rightarrow> webhook_metrics" where
  "recordDeliveryOutcome st latencyMs m =
     (let m1 = m\<lparr>wm_byStatus := count_up st (wm_byStatus m)\<rparr> in
      case latencyMs of
        None \<Rightarrow> m1
      | Some ms \<Rightarrow>
          m1\<lparr>wm_latencyCount := wm_latencyCount m1 + 1,
             wm_latencyTotalMs := wm_latencyTotalMs m1 + ms,
             wm_latencyMaxMs := max (wm_latencyMaxMs m1) ms\<rparr>)"

definition recordAutoDisabled :: "webhook_metrics \<Rightarrow> webhook_metrics" where
  "recordAutoDisabled m = m\<lparr>wm_autoDisabled := wm_autoDisabled m + 1\<rparr>"

record attempt_latency =
  al_count :: nat
  al_totalMs :: int
  al_maxMs :: int
  al_avgMs :: rat

definition attemptLatency :: "webhook_metrics \<Rightarrow> attempt_latency" where
  "attemptLatency m =
     \<lparr>al_count = wm_latencyCount m, al_totalMs = wm_latencyTotalMs m, al_maxMs = wm_latencyMaxMs m,
      al_avgMs = (if wm_latencyCount m > 0
        then of_int (wm_latencyTotalMs m) / of_nat (wm_latencyCount m) else 0)\<rparr>"

definition hasData :: "webhook_metrics \<Rightarrow> bool" where
  "hasData m \<longleftrightarrow> wm_latencyCount m > 0 \<or> length (wm_byStatus m) > 0 \<or> wm_autoDisabled m > 0"

section \<open>Alerts\<close>

datatype webhook_alert_code = OUTBOX_LAG | QUEUE_GROWING | DEAD_RATE_SPIKE

record webhook_alert =
  wa_code :: webhook_alert_code
  wa_value :: int
  wa_threshold :: int

record alert_thresholds =
  at_outboxLagMs :: int
  at_queueGrowMinDepth :: int
  at_deadRateRatio :: rat
  at_deadMinCount :: int

definition DEFAULT_ALERT_THRESHOLDS :: alert_thresholds where
  "DEFAULT_ALERT_THRESHOLDS =
     \<lparr>at_outboxLagMs = 60000, at_queueGrowMinDepth = 100, at_deadRateRatio = 1 / 5,
      at_deadMinCount = 5\<rparr>"

record alert_snapshot =
  an_oldestPendingOutboxAgeMs :: "int option"
  an_queueDepth :: "int option"
  an_previousQueueDepth :: "int option"
  an_deadDeliveries :: nat
  an_totalDeliveries :: nat

definition evaluateWebhookAlerts :: "alert_snapshot \<Rightarrow> alert_thresholds \<Rightarrow> webhook_alert list" where
  "evaluateWebhookAlerts s t =
     (case an_oldestPendingOutboxAgeMs s of
        Some age \<Rightarrow>
          if age \<ge> at_outboxLagMs t
          then [\<lparr>wa_code = OUTBOX_LAG, wa_value = age, wa_threshold = at_outboxLagMs t\<rparr>] else []
      | None \<Rightarrow> []) @
     (case (an_queueDepth s, an_previousQueueDepth s) of
        (Some depth, Some previous) \<Rightarrow>
          if depth > previous \<and> depth \<ge> at_queueGrowMinDepth t
          then [\<lparr>wa_code = QUEUE_GROWING, wa_value = depth, wa_threshold = at_queueGrowMinDepth t\<rparr>]
          else []
      | _ \<Rightarrow> []) @
     (if an_totalDeliveries s > 0
      then (let deadRate = of_nat (an_deadDeliveries s) / of_nat (an_totalDeliveries s) in
            if int (an_deadDeliveries s) \<ge> at_deadMinCount t \<and> deadRate > at_deadRateRatio t
            then [\<lparr>wa_code = DEAD_RATE_SPIKE, wa_value = int (an_deadDeliveries s),
                   wa_threshold = at_deadMinCount t\<rparr>] else [])
      else [])"

section \<open>The service\<close>

record observability =
  oy_metrics :: webhook_metrics
  oy_previousQueueDepth :: "int option"

record observability_snapshot =
  os_deliveriesByStatus :: "(string \<times> nat) list"
  os_deliveriesByStatusTotal :: "(string \<times> nat) list"
  os_totalDeliveries :: nat
  os_attemptLatency :: attempt_latency
  os_queueDepth :: "int option"
  os_oldestPendingOutboxAgeMs :: "int option"
  os_deadDeliveries :: nat
  os_autoDisabledSubscriptions :: nat

definition ALL_DELIVERY_STATUSES :: "delivery_status list" where
  "ALL_DELIVERY_STATUSES = [D_PENDING, D_RETRYING, D_SUCCEEDED, D_FAILED, D_DEAD]"

text \<open>The counter of a result and the line it logs; the line of an auto-disabled subscription.\<close>

definition recordAttempt ::
  "json_obj \<Rightarrow> delivery_status \<Rightarrow> int option \<Rightarrow> observability \<Rightarrow> json_obj \<times> observability" where
  "recordAttempt inp st latencyMs o1 =
     (buildDeliveryLogEntry inp @ [(''severity'', jstr ''webhook.delivery.attempt'')],
      o1\<lparr>oy_metrics := recordDeliveryOutcome st latencyMs (oy_metrics o1)\<rparr>)"

definition observe_auto_disabled :: "uuid \<Rightarrow> observability \<Rightarrow> json_obj \<times> observability" where
  "observe_auto_disabled subscriptionId o1 =
     ([(''subscriptionId'', jstr subscriptionId),
       (''severity'', jstr ''webhook.subscription.auto_disabled'')],
      o1\<lparr>oy_metrics := recordAutoDisabled (oy_metrics o1)\<rparr>)"

definition observability_snapshot_of ::
  "int option \<Rightarrow> instant \<Rightarrow> db \<Rightarrow> observability \<Rightarrow> observability_snapshot" where
  "observability_snapshot_of queueDepth now d o1 =
     (let counts = map (\<lambda>st. (st, countDeliveriesByStatus d st)) ALL_DELIVERY_STATUSES in
      \<lparr>os_deliveriesByStatus =
         map (\<lambda>(st, n). (delivery_status_string st, n)) (wm_byStatus (oy_metrics o1)),
       os_deliveriesByStatusTotal = map (\<lambda>(st, n). (delivery_status_string st, n)) counts,
       os_totalDeliveries = sum_list (map snd counts),
       os_attemptLatency = attemptLatency (oy_metrics o1),
       os_queueDepth = queueDepth,
       os_oldestPendingOutboxAgeMs = map_option (\<lambda>t. now - t) (oldestPendingCreatedAt d),
       os_deadDeliveries = or_default (map_of counts D_DEAD) 0,
       os_autoDisabledSubscriptions = countSubscriptionsByStatus d SUB_AUTO_DISABLED\<rparr>)"

text \<open>\<open>db_up\<close> says whether the queries are answered; a failure is logged and remembers nothing.\<close>

definition evaluateAlerts ::
  "bool \<Rightarrow> int option \<Rightarrow> instant \<Rightarrow> db \<Rightarrow> observability \<Rightarrow> webhook_alert list \<times> observability" where
  "evaluateAlerts db_up queueDepth now d o1 =
     (if \<not> db_up then ([], o1)
      else
        (let snap = observability_snapshot_of queueDepth now d o1 in
         (evaluateWebhookAlerts
            \<lparr>an_oldestPendingOutboxAgeMs = os_oldestPendingOutboxAgeMs snap,
             an_queueDepth = os_queueDepth snap,
             an_previousQueueDepth = oy_previousQueueDepth o1,
             an_deadDeliveries = os_deadDeliveries snap,
             an_totalDeliveries = os_totalDeliveries snap\<rparr> DEFAULT_ALERT_THRESHOLDS,
          o1\<lparr>oy_previousQueueDepth := os_queueDepth snap\<rparr>)))"

section \<open>Facts: nothing redactable is left\<close>

lemma REDACTED_hd: "REDACTED = 0x5B # tl REDACTED"
  by (simp add: REDACTED_def js_def)

text \<open>Until the first bracket the redacted text is the text.\<close>

lemma redact_prefix: "0x5B \<notin> set (take n (redact b t)) \<Longrightarrow> take n (redact b t) = take n t"
proof (induction b t arbitrary: n rule: redact.induct)
  case (1 b t)
  show ?case
  proof (cases t)
    case Nil
    then show ?thesis by (simp add: redact.simps)
  next
    case (Cons c cs)
    show ?thesis
    proof (cases "secret_here b t")
      case True
      then have "redact b t = 0x5B # tl REDACTED @
          redact (word_char (last (takeWhile secret_char (drop 6 t)))) (dropWhile secret_char (drop 6 t))"
        using Cons by (subst redact.simps, subst REDACTED_hd) simp
      then show ?thesis
        using 1(3) by (cases n) auto
    next
      case False
      then have "redact b t = c # redact (word_char c) cs"
        using Cons by (subst redact.simps) simp
      then show ?thesis
        using 1(2) [OF Cons False] 1(3) Cons by (cases n) auto
    qed
  qed
qed

lemma takeWhile_at_least:
  "k \<le> length (takeWhile P xs) \<longleftrightarrow> k \<le> length xs \<and> (\<forall>x \<in> set (take k xs). P x)"
proof (induction xs arbitrary: k)
  case (Cons x xs)
  then show ?case by (cases k) auto
qed simp

lemma secret_here_take: "secret_here b (take 10 t) = secret_here b t"
  by (simp add: secret_here_def takeWhile_at_least drop_take)

lemma bracket_not_secret:
  assumes "secret_here b t"
  shows "0x5B \<notin> set (take 10 t)"
proof -
  have "take 10 t = take 6 t @ take 4 (drop 6 t)"
    by (simp add: take_add [of 6 4 t, simplified])
  moreover have "\<not> secret_char 0x5B"
    by (simp add: secret_char_def ascii_unit_def letter_or_digit_def char_of_def of_char_def)
  moreover have "0x5B \<notin> set (js WEBHOOK_SECRET_PREFIX)"
    by (simp add: js_def WEBHOOK_SECRET_PREFIX_def)
  ultimately show ?thesis
    using assms by (auto simp: secret_here_def takeWhile_at_least)
qed

text \<open>A place of a text, by what stands before it.\<close>

definition after_word_in :: "bool \<Rightarrow> utf16 \<Rightarrow> bool" where
  "after_word_in b pre = (if pre = [] then b else word_char (last pre))"

lemma secret_here_hd: "secret_here b t \<Longrightarrow> \<exists>us. t = 0x77 # us"
  by (cases t) (auto simp: secret_here_def WEBHOOK_SECRET_PREFIX_def)

lemma redact_step:
  "redact b [] = []"
  "\<not> secret_here b (c # cs) \<Longrightarrow> redact b (c # cs) = c # redact (word_char c) cs"
  "secret_here b t \<Longrightarrow> redact b t = REDACTED @
     redact (word_char (last (takeWhile secret_char (drop 6 t)))) (dropWhile secret_char (drop 6 t))"
  by (subst redact.simps; auto split: list.split simp: secret_here_def)+

text \<open>What follows a redacted secret starts with no letter.\<close>

lemma redact_after_secret:
  assumes "redact b (dropWhile secret_char t) = 0x77 # us"
  shows False
proof (cases "dropWhile secret_char t")
  case (Cons c cs)
  then have "\<not> secret_char c"
    using hd_dropWhile [of secret_char t] by auto
  moreover have "secret_char 0x77"
    by (simp add: secret_char_def ascii_unit_def letter_or_digit_def char_of_def of_char_def)
  ultimately show False
    using assms Cons redact_step(2) [of b c cs] redact_step(3) [of b "c # cs"]
    by (cases "secret_here b (c # cs)") (auto simp: REDACTED_def)
next
  case Nil
  show False using assms unfolding Nil redact_step(1) by simp
qed

lemma redact_clean:
  assumes "redact b t = pre @ post"
  shows "\<not> secret_here (after_word_in b pre) post"
  using assms
proof (induction b t arbitrary: pre rule: redact.induct)
  case (1 b t)
  show ?case
  proof (cases "secret_here b t")
    case True
    define rest where "rest = redact (word_char (last (takeWhile secret_char (drop 6 t))))
      (dropWhile secret_char (drop 6 t))"
    obtain c cs where t: "t = c # cs"
      using secret_here_hd [OF True] by auto
    have eq: "REDACTED @ rest = pre @ post"
      using 1(3) redact_step(3) [OF True] by (simp add: rest_def)
    then consider qs where "pre = REDACTED @ qs" "rest = qs @ post"
      | q qs where "REDACTED = pre @ q # qs" "post = (q # qs) @ rest"
      by (auto simp: append_eq_append_conv2 neq_Nil_conv) (metis append_Nil2 neq_Nil_conv)
    then show ?thesis
    proof cases
      case 1
      show ?thesis
      proof (cases "qs = []")
        case True
        then show ?thesis
          using 1 redact_after_secret secret_here_hd unfolding rest_def by (metis append_Nil)
      next
        case False
        then show ?thesis
          using "1.IH"(1) [OF t True, of qs] 1 by (auto simp: rest_def after_word_in_def)
      qed
    next
      case 2
      have "q \<in> set (pre @ q # qs)"
        by simp
      then have "q \<in> set REDACTED"
        by (simp only: 2(1))
      then show ?thesis
        using 2(2) secret_here_hd [of _ post] by (auto simp: REDACTED_def)
    qed
  next
    case False
    note here = False
    show ?thesis
    proof (cases t)
      case Nil
      then show ?thesis
        using 1(3) by (simp add: redact_step secret_here_def WEBHOOK_SECRET_PREFIX_def)
    next
      case (Cons c cs)
      have eq: "redact b t = c # redact (word_char c) cs"
        using here Cons redact_step(2) by simp
      show ?thesis
      proof (cases pre)
        case Nil
        show ?thesis
        proof
          assume "secret_here (after_word_in b pre) post"
          then have found: "secret_here b (redact b t)"
            using 1(3) Nil by (simp add: after_word_in_def)
          then have "take 10 (redact b t) = take 10 t"
            by (intro redact_prefix bracket_not_secret)
          then show False
            using found here secret_here_take by metis
        qed
      next
        case Nil2: (Cons p ps)
        then have "redact (word_char c) cs = ps @ post" "p = c"
          using 1(3) eq by auto
        then show ?thesis
          using "1.IH"(2) [OF Cons here, of ps] Nil2 by (auto simp: after_word_in_def split: if_splits)
      qed
    qed
  qed
qed

text \<open>So no generated secret stands in a redacted text but after a word character.\<close>

lemma secret_chars_base64: "\<forall>u \<in> set (js (base64 bs)). secret_char u"
proof -
  have char: "letter_or_digit c \<or> c \<in> {CHR ''+'', CHR ''/'', CHR ''=''} \<Longrightarrow>
      of_char c < (128 :: nat) \<Longrightarrow> secret_char (word_of_nat (of_char c))" for c
    by (simp add: secret_char_def ascii_unit_def unat_of_nat)
  have signs: "char_of (43 :: nat) = CHR ''+''" "char_of (47 :: nat) = CHR ''/''"
    by (simp_all add: char_of_def bit_0)
  have "secret_char (word_of_nat (of_char (base64_char d)))" if "d < 64" for d
    using that by (intro char)
      (auto simp: base64_char_def letter_or_digit_def Let_def signs)
  moreover have "secret_char 61"
    by (simp add: secret_char_def ascii_unit_def letter_or_digit_def char_of_def of_char_def bit_0)
  ultimately show ?thesis
    by (induction bs rule: base64.induct) (auto simp: Let_def)
qed

lemma redacted_secret:
  assumes "redactSecrets t = pre @ js (generateSecret cy n) @ post"
    and "cy_random cy n SECRET_BYTES \<noteq> []"
  shows "pre \<noteq> [] \<and> word_char (last pre)"
proof (rule ccontr)
  assume start: "\<not> (pre \<noteq> [] \<and> word_char (last pre))"
  obtain s where "redact False s = pre @ js (generateSecret cy n) @ post"
    using assms(1) by (cases t) (auto simp: redactSecrets_def generateSecret_def WEBHOOK_SECRET_PREFIX_def)
  then have clean: "\<not> secret_here (after_word_in False pre) (js (generateSecret cy n) @ post)"
    by (rule redact_clean)
  let ?b = "js (base64 (cy_random cy n SECRET_BYTES))"
  have "4 \<le> length (base64 bs)" if "bs \<noteq> []" for bs
    using that by (induction bs rule: base64.induct) (auto simp: Let_def)
  then have "4 \<le> length ?b"
    using assms(2) by (simp add: js_def)
  then have "4 \<le> length (takeWhile secret_char (?b @ post))"
    using secret_chars_base64 by (simp add: takeWhile_append2)
  then have "secret_here False (js (generateSecret cy n) @ post)"
    by (simp add: secret_here_def generateSecret_def WEBHOOK_SECRET_PREFIX_def)
  then show False
    using clean start by (auto simp: after_word_in_def split: if_splits)
qed

lemma log_entry_fields:
  assumes "(k, v) \<in> set (buildDeliveryLogEntry inp)"
  shows "k \<in> set DELIVERY_LOG_ALLOWED_KEYS" and "k \<notin> set FORBIDDEN_LOG_KEYS"
    and "\<exists>w. map_of inp k = Some w \<and> v = log_value w"
proof -
  show key: "k \<in> set DELIVERY_LOG_ALLOWED_KEYS"
    and "\<exists>w. map_of inp k = Some w \<and> v = log_value w"
    using assms by (force simp: buildDeliveryLogEntry_def split: option.splits if_splits)+
  show "k \<notin> set FORBIDDEN_LOG_KEYS"
    using key by (auto simp: DELIVERY_LOG_ALLOWED_KEYS_def FORBIDDEN_LOG_KEYS_def)
qed

lemma map_of_count_up:
  "map_of (count_up k ps) k' = (if k' = k then Some (or_default (map_of ps k) 0 + 1) else map_of ps k')"
  by (induction ps) (auto simp: or_default_def)

lemma total_by_status:
  "sum_list (map (countDeliveriesByStatus d) ALL_DELIVERY_STATUSES) = length (db_deliveries d)"
proof -
  have "sum_list (map (\<lambda>st. length (filter (\<lambda>v. del_status v = st) vs)) ALL_DELIVERY_STATUSES) = length vs"
    for vs
  proof (induction vs)
    case (Cons v vs)
    then show ?case
      by (cases "del_status v") (simp_all add: ALL_DELIVERY_STATUSES_def)
  qed (simp add: ALL_DELIVERY_STATUSES_def)
  then show ?thesis
    by (simp add: countDeliveriesByStatus_def [abs_def])
qed

end
