(* ===== verification/Webhook_Properties.thy ===== *)
theory Webhook_Properties
  imports Webhook_Examples Delivery_Rows Webhook_Observability
begin

text \<open>The properties of the webhooks, from the outbox to the endpoint, with their witnesses.\<close>

section \<open>From the outbox to the deliveries\<close>




lemma relay_run_effect:
  assumes "distinct (map sub_id (db_subscriptions d))"
    and "up \<longrightarrow> (\<forall>i j. qw_add_ok (dx_queue (xs i)) j)"
  shows "\<exists>rows. relay_effect up (committed aborts 0 (findPending limit d)) d rows
    (relay_run xs aborts limit d)"
  unfolding relay_run_def using assms by (rule relay_events_effect)





section \<open>The attempts of a delivery\<close>



section \<open>The rows of the webhooks\<close>

text \<open>C24. The rows of the webhooks are well formed in every interleaving of the worker's jobs, the
  routes of the subscriptions and the replay. A pending delivery has no attempt, no date and no
  error; a retrying one has been attempted and has a next date; a succeeded one has a code of 2xx
  and no error; a failed or dead one is completed and says why. Each delivery belongs to a
  subscription and an event that exist, no pair has two, and each attempt belongs to a delivery
  that exists, has a number, a duration and a snippet of at most 1024 units.\<close>

theorem delivery_rows_well_formed:
  assumes "webhook_reach d"
  shows "(\<forall>v \<in> set (db_deliveries d). delivery_wf v \<and> del_subscriptionId v \<in> sub_id ` set (db_subscriptions d) \<and>
      del_eventId v \<in> ob_id ` set (db_outbox d)) \<and>
    distinct (map (\<lambda>v. (del_eventId v, del_subscriptionId v)) (db_deliveries d)) \<and>
    (\<forall>a \<in> set (db_attempts d). attempt_wf a \<and> att_deliveryId a \<in> del_id ` set (db_deliveries d))"
  using webhook_reach_ok [OF assms]
  by (simp add: webhooks_ok_def delivery_ok_def attempt_ok_def delivery_key_def [abs_def])

theorem delivery_rows_well_formed_witness:
  "let d = pr_db (process_job hook_worker ''dispatch-poll'' hook_job hook_db hook_db) in
    db_deliveries d \<noteq> [] \<and> (\<forall>v \<in> set (db_deliveries d). delivery_wf v)"
proof -
  let ?r = "relay_run (\<lambda>_. hook_dispatch) (\<lambda>_. False) RELAY_BATCH_LIMIT hook_db"
  let ?d = "pr_db (process_job hook_worker ''dispatch-poll'' hook_job hook_db hook_db)"
  have run: "?d = di_db ?r"
    by (simp add: process_job_def runPoll_def hook_worker_def Let_def)
  obtain rows where "relay_effect False (committed (\<lambda>_. False) 0 (findPending RELAY_BATCH_LIMIT hook_db))
      hook_db rows ?r"
    using relay_run_effect [of hook_db False "\<lambda>_. hook_dispatch" "\<lambda>_. False" RELAY_BATCH_LIMIT]
    by (simp only: hook_tables) auto
  then have rows: "db_deliveries ?d = rows" "delivery_key ` set rows =
      due_keys (findPending RELAY_BATCH_LIMIT hook_db) hook_db - delivery_keys hook_db"
    unfolding run by (simp_all add: relay_effect_def committed_all)
  have "findPending RELAY_BATCH_LIMIT hook_db = [hook_event]"
    by (simp add: findPending_def is_pending_def hook_event_def RELAY_BATCH_LIMIT_def)
  moreover have "wants hook_event hook_sub"
    by (simp add: wants_def hook_defs subscriptionMatchesEventType_def WEBHOOK_WILDCARD_def)
  ultimately have "rows \<noteq> []"
    using rows(2) by (auto simp: due_keys_def delivery_keys_def)
  have reach: "webhook_reach hook_db"
    by (rule wh_start) simp_all
  have "\<forall>v \<in> set (db_deliveries ?d). delivery_wf v"
    using delivery_rows_well_formed [OF wh_job [OF reach reach, of hook_worker "''dispatch-poll''" hook_job]]
    by blast
  with \<open>rows \<noteq> []\<close> show ?thesis
    using rows(1) by (simp add: Let_def)
qed

end
