(* ===== verification/Endpoint_Limiter.thy ===== *)
theory Endpoint_Limiter
  imports Ssrf_Client Interfaces Webhook_Subscriptions
begin

text \<open>The semaphore per endpoint host (\<open>webhooks/delivery/endpoint-limiter.ts\<close>). A task is the
  number of one \<open>run\<close>; it is granted a slot at once or waits, and when it ends its releaser
  hands the slot to the first waiter or gives it back. The contract is the locale
  \<open>slot_semaphore\<close>; the machine of all interleavings of starts and ends is \<open>limiter_reach\<close>.\<close>

section \<open>The code\<close>

definition DEFAULT_ENDPOINT_CONCURRENCY :: int where
  "DEFAULT_ENDPOINT_CONCURRENCY = 5"

definition endpointHost :: "http_world \<Rightarrow> string \<Rightarrow> string" where
  "endpointHost w url = (case hw_parseUrl w url of Some parsed \<Rightarrow> url_host parsed | None \<Rightarrow> url)"

record limiter =
  lim_cap :: int
  lim_active :: "string \<Rightarrow> int option"
  lim_waiters :: "string \<Rightarrow> nat list option"
  lim_released :: "nat set"

definition new_limiter :: "int option \<Rightarrow> limiter" where
  "new_limiter configured =
     \<lparr>lim_cap = (case configured of Some c \<Rightarrow> if c > 0 then c else DEFAULT_ENDPOINT_CONCURRENCY
                 | None \<Rightarrow> DEFAULT_ENDPOINT_CONCURRENCY),
      lim_active = Map.empty, lim_waiters = Map.empty, lim_released = {}\<rparr>"

definition activeCount :: "limiter \<Rightarrow> string \<Rightarrow> int" where
  "activeCount l host = or_default (lim_active l host) 0"

definition waiting :: "limiter \<Rightarrow> string \<Rightarrow> nat list" where
  "waiting l host = or_default (lim_waiters l host) []"

text \<open>\<open>True\<close>: the promise of the slot is resolved; \<open>False\<close>: the task is queued.\<close>

definition acquire :: "string \<Rightarrow> nat \<Rightarrow> limiter \<Rightarrow> bool \<times> limiter" where
  "acquire host task l =
     (let current = or_default (lim_active l host) 0 in
      if current < lim_cap l
      then (True, l\<lparr>lim_active := (lim_active l)(host \<mapsto> current + 1)\<rparr>)
      else (False, l\<lparr>lim_waiters :=
              (lim_waiters l)(host \<mapsto> or_default (lim_waiters l host) [] @ [task])\<rparr>))"

text \<open>The releaser of \<open>task\<close>; its value is the waiter that inherits the slot.\<close>

definition release :: "string \<Rightarrow> nat \<Rightarrow> limiter \<Rightarrow> nat option \<times> limiter" where
  "release host task l =
     (if task \<in> lim_released l then (None, l)
      else
        (let l1 = l\<lparr>lim_released := insert task (lim_released l)\<rparr> in
         case lim_waiters l host of
           Some (next # rest) \<Rightarrow>
             (Some next, l1\<lparr>lim_waiters := (lim_waiters l)(host \<mapsto> rest)\<rparr>)
         | _ \<Rightarrow>
             (let current = or_default (lim_active l host) 1 in
              (None, l1\<lparr>lim_active := (lim_active l)(host \<mapsto> max (current - 1) 0)\<rparr>))))"

section \<open>The contract\<close>

locale slot_semaphore =
  fixes cap :: "'s \<Rightarrow> int"
    and held :: "'s \<Rightarrow> 'k \<Rightarrow> int"
    and queue :: "'s \<Rightarrow> 'k \<Rightarrow> 't list"
    and spent :: "'s \<Rightarrow> 't \<Rightarrow> bool"
    and take_slot :: "'k \<Rightarrow> 't \<Rightarrow> 's \<Rightarrow> bool \<times> 's"
    and give_slot :: "'k \<Rightarrow> 't \<Rightarrow> 's \<Rightarrow> 't option \<times> 's"
  assumes take_free: "held s k < cap s \<Longrightarrow> take_slot k t s = (g, s') \<Longrightarrow>
        g \<and> held s' k = held s k + 1 \<and> queue s' k = queue s k"
    and take_full: "\<not> held s k < cap s \<Longrightarrow> take_slot k t s = (g, s') \<Longrightarrow>
        \<not> g \<and> held s' k = held s k \<and> queue s' k = queue s k @ [t]"
    and take_frame: "take_slot k t s = (g, s') \<Longrightarrow>
        cap s' = cap s \<and> spent s' = spent s \<and> (k' \<noteq> k \<longrightarrow> held s' k' = held s k' \<and> queue s' k' = queue s k')"
    and give_next: "\<not> spent s t \<Longrightarrow> queue s k = u # q \<Longrightarrow> give_slot k t s = (r, s') \<Longrightarrow>
        r = Some u \<and> held s' k = held s k \<and> queue s' k = q"
    and give_free: "\<not> spent s t \<Longrightarrow> queue s k = [] \<Longrightarrow> 0 < held s k \<Longrightarrow> give_slot k t s = (r, s') \<Longrightarrow>
        r = None \<and> held s' k = held s k - 1 \<and> queue s' k = []"
    and give_frame: "\<not> spent s t \<Longrightarrow> give_slot k t s = (r, s') \<Longrightarrow>
        cap s' = cap s \<and> (\<forall>t'. spent s' t' = (t' = t \<or> spent s t')) \<and>
        (k' \<noteq> k \<longrightarrow> held s' k' = held s k' \<and> queue s' k' = queue s k')"
    and give_again: "spent s t \<Longrightarrow> give_slot k t s = (None, s)"
begin

text \<open>\<open>n\<close> slots are held, never more than the cap, and nobody waits while one is free.\<close>

definition balanced :: "'s \<Rightarrow> 'k \<Rightarrow> int \<Rightarrow> bool" where
  "balanced s k n \<longleftrightarrow> held s k = n \<and> 0 \<le> n \<and> n \<le> cap s \<and> (queue s k \<noteq> [] \<longrightarrow> n = cap s)"

lemma take_balanced:
  assumes "balanced s k n" and "take_slot k t s = (g, s')"
  shows "balanced s' k (if g then n + 1 else n)"
    and "queue s' k = (if g then queue s k else queue s k @ [t])" and "g \<longrightarrow> queue s k = []"
proof -
  have cap: "cap s' = cap s"
    using take_frame [OF assms(2)] by blast
  have "balanced s' k (if g then n + 1 else n) \<and>
      queue s' k = (if g then queue s k else queue s k @ [t]) \<and> (g \<longrightarrow> queue s k = [])"
  proof (cases "held s k < cap s")
    case True
    then show ?thesis
      using take_free [OF True assms(2)] assms(1) cap by (auto simp: balanced_def)
  next
    case False
    then show ?thesis
      using take_full [OF False assms(2)] assms(1) cap by (auto simp: balanced_def)
  qed
  then show "balanced s' k (if g then n + 1 else n)"
    "queue s' k = (if g then queue s k else queue s k @ [t])" "g \<longrightarrow> queue s k = []"
    by auto
qed

lemma give_balanced:
  assumes "balanced s k n" and "0 < n" and "\<not> spent s t" and "give_slot k t s = (r, s')"
  shows "balanced s' k (case r of Some _ \<Rightarrow> n | None \<Rightarrow> n - 1)"
    and "queue s k = (case r of Some u \<Rightarrow> u # queue s' k | None \<Rightarrow> queue s' k)"
proof -
  have cap: "cap s' = cap s"
    using give_frame [OF assms(3,4)] by blast
  have "balanced s' k (case r of Some _ \<Rightarrow> n | None \<Rightarrow> n - 1) \<and>
      queue s k = (case r of Some u \<Rightarrow> u # queue s' k | None \<Rightarrow> queue s' k)"
  proof (cases "queue s k")
    case Nil
    then show ?thesis
      using give_free [OF assms(3) Nil _ assms(4)] assms(1,2) cap by (auto simp: balanced_def)
  next
    case (Cons u q)
    then show ?thesis
      using give_next [OF assms(3) Cons assms(4)] assms(1) cap by (auto simp: balanced_def)
  qed
  then show "balanced s' k (case r of Some _ \<Rightarrow> n | None \<Rightarrow> n - 1)"
    "queue s k = (case r of Some u \<Rightarrow> u # queue s' k | None \<Rightarrow> queue s' k)"
    by auto
qed

lemma balanced_other:
  "take_slot k t s = (g, s') \<Longrightarrow> k' \<noteq> k \<Longrightarrow> balanced s' k' n = balanced s k' n"
  "\<not> spent s t \<Longrightarrow> give_slot k t s = (r, s') \<Longrightarrow> k' \<noteq> k \<Longrightarrow> balanced s' k' n = balanced s k' n"
  using take_frame [of k t s g s' k'] give_frame [of s t k r s' k'] by (auto simp: balanced_def)

end

interpretation hosts: slot_semaphore lim_cap activeCount waiting "\<lambda>l t. t \<in> lim_released l" acquire release
proof unfold_locales
qed (auto simp: acquire_def release_def activeCount_def waiting_def or_default_def Let_def
    split: if_splits option.splits list.splits)

section \<open>All interleavings\<close>

text \<open>Who holds a slot, and the tasks in the order they arrived and were granted.\<close>

record limiter_system =
  ls_limiter :: limiter
  ls_running :: "(string \<times> nat) list"
  ls_arrived :: "(string \<times> nat) list"
  ls_granted :: "(string \<times> nat) list"

inductive limiter_reach :: "int option \<Rightarrow> limiter_system \<Rightarrow> bool" for configured where
  lim_init: "limiter_reach configured
     \<lparr>ls_limiter = new_limiter configured, ls_running = [], ls_arrived = [], ls_granted = []\<rparr>"
| lim_start: "limiter_reach configured s \<Longrightarrow> task \<notin> snd ` set (ls_arrived s) \<Longrightarrow>
     acquire host task (ls_limiter s) = (granted, l) \<Longrightarrow>
     limiter_reach configured
       \<lparr>ls_limiter = l,
        ls_running = ls_running s @ (if granted then [(host, task)] else []),
        ls_arrived = ls_arrived s @ [(host, task)],
        ls_granted = ls_granted s @ (if granted then [(host, task)] else [])\<rparr>"
| lim_end: "limiter_reach configured s \<Longrightarrow> (host, task) \<in> set (ls_running s) \<Longrightarrow>
     release host task (ls_limiter s) = (resumed, l) \<Longrightarrow>
     limiter_reach configured
       \<lparr>ls_limiter = l,
        ls_running = remove1 (host, task) (ls_running s) @
          (case resumed of Some t \<Rightarrow> [(host, t)] | None \<Rightarrow> []),
        ls_arrived = ls_arrived s,
        ls_granted = ls_granted s @ (case resumed of Some t \<Rightarrow> [(host, t)] | None \<Rightarrow> [])\<rparr>"

definition at_host :: "string \<Rightarrow> (string \<times> nat) list \<Rightarrow> (string \<times> nat) list" where
  "at_host host ts = filter (\<lambda>(h, _). h = host) ts"

text \<open>The invariant: the count is the number of running tasks, the arrivals of a host are its
  grants followed by its waiters, tasks are distinct and a running one has not been released.\<close>

definition limiter_inv :: "limiter_system \<Rightarrow> bool" where
  "limiter_inv s \<longleftrightarrow>
     (\<forall>h. hosts.balanced (ls_limiter s) h (int (length (at_host h (ls_running s)))) \<and>
        map snd (at_host h (ls_arrived s)) = map snd (at_host h (ls_granted s)) @ waiting (ls_limiter s) h) \<and>
     distinct (map snd (ls_arrived s)) \<and> set (ls_granted s) \<subseteq> set (ls_arrived s) \<and>
     distinct (ls_running s) \<and> set (ls_running s) \<subseteq> set (ls_granted s) \<and>
     (\<forall>t \<in> lim_released (ls_limiter s). t \<in> snd ` set (ls_granted s) - snd ` set (ls_running s))"

lemma at_host_append [simp]: "at_host h (xs @ ys) = at_host h xs @ at_host h ys"
  by (simp add: at_host_def)

lemma at_host_single [simp]: "at_host h [(k, t)] = (if k = h then [(k, t)] else [])"
  by (simp add: at_host_def)

lemma at_host_Nil [simp]: "at_host h [] = []"
  by (simp add: at_host_def)

lemma at_host_remove1 [simp]:
  "at_host h (remove1 (k, t) xs) = (if k = h then remove1 (k, t) (at_host h xs) else at_host h xs)"
  by (auto simp: at_host_def filter_remove1 intro!: remove1_idem)

lemma in_at_host [simp]: "(k, t) \<in> set (at_host h xs) \<longleftrightarrow> k = h \<and> (k, t) \<in> set xs"
  by (auto simp: at_host_def)

lemma distinct_ids:
  "distinct (map snd xs) \<Longrightarrow> (h, t) \<in> set xs \<Longrightarrow> (h', t) \<in> set xs \<Longrightarrow> h' = h"
  by (induction xs) (auto simp: image_iff)

lemma waiter_not_granted:
  assumes "limiter_inv s" and "u \<in> set (waiting (ls_limiter s) h)"
  shows "(h, u) \<in> set (ls_arrived s)" and "(h', u) \<notin> set (ls_granted s)"
proof -
  have split: "map snd (at_host h (ls_arrived s)) =
      map snd (at_host h (ls_granted s)) @ waiting (ls_limiter s) h"
    and dist: "distinct (map snd (ls_arrived s))" and sub: "set (ls_granted s) \<subseteq> set (ls_arrived s)"
    using assms(1) by (auto simp: limiter_inv_def)
  have "u \<in> set (map snd (at_host h (ls_arrived s)))"
    using assms(2) by (simp add: split)
  then show arrived: "(h, u) \<in> set (ls_arrived s)"
    by (auto simp: at_host_def)
  have "distinct (map snd (at_host h (ls_arrived s)))"
    using dist unfolding at_host_def by (rule distinct_map_filter)
  then have "u \<notin> snd ` set (at_host h (ls_granted s))"
    using assms(2) by (auto simp: split)
  then have "(h, u) \<notin> set (ls_granted s)"
    by (force simp: at_host_def)
  then show "(h', u) \<notin> set (ls_granted s)"
    using distinct_ids [OF dist arrived, of h'] sub by auto
qed

lemma limiter_inv_start:
  assumes inv: "limiter_inv s" and fresh: "task \<notin> snd ` set (ls_arrived s)"
    and acq: "acquire host task (ls_limiter s) = (granted, l)"
  shows "limiter_inv
     \<lparr>ls_limiter = l, ls_running = ls_running s @ (if granted then [(host, task)] else []),
      ls_arrived = ls_arrived s @ [(host, task)],
      ls_granted = ls_granted s @ (if granted then [(host, task)] else [])\<rparr>"
proof -
  have bal: "hosts.balanced (ls_limiter s) h (int (length (at_host h (ls_running s))))"
    and order: "map snd (at_host h (ls_arrived s)) =
      map snd (at_host h (ls_granted s)) @ waiting (ls_limiter s) h" for h
    using inv by (auto simp: limiter_inv_def)
  note step = hosts.take_balanced [OF bal acq]
  have other: "hosts.balanced l h n = hosts.balanced (ls_limiter s) h n"
      "waiting l h = waiting (ls_limiter s) h" if "h \<noteq> host" for h n
    using hosts.balanced_other(1) [OF acq that] hosts.take_frame [OF acq, of h] that by auto
  have released: "lim_released l = lim_released (ls_limiter s)"
    using hosts.take_frame [OF acq] by (auto simp: fun_eq_iff)
  have "(host, task) \<notin> set (ls_running s)" "(host, task) \<notin> set (ls_granted s)"
    using inv fresh by (force simp: limiter_inv_def)+
  moreover have "task \<notin> lim_released (ls_limiter s)"
    using inv fresh by (force simp: limiter_inv_def)
  ultimately show ?thesis
    unfolding limiter_inv_def
    using inv fresh released step order bal other
    by (cases granted) (force simp: limiter_inv_def)+
qed

lemma limiter_inv_end:
  assumes inv: "limiter_inv s" and running: "(host, task) \<in> set (ls_running s)"
    and rel: "release host task (ls_limiter s) = (resumed, l)"
  shows "limiter_inv
     \<lparr>ls_limiter = l,
      ls_running = remove1 (host, task) (ls_running s) @
        (case resumed of Some t \<Rightarrow> [(host, t)] | None \<Rightarrow> []),
      ls_arrived = ls_arrived s,
      ls_granted = ls_granted s @ (case resumed of Some t \<Rightarrow> [(host, t)] | None \<Rightarrow> [])\<rparr>"
proof -
  let ?n = "int (length (at_host host (ls_running s)))"
  have bal: "hosts.balanced (ls_limiter s) h (int (length (at_host h (ls_running s))))"
    and order: "map snd (at_host h (ls_arrived s)) =
      map snd (at_host h (ls_granted s)) @ waiting (ls_limiter s) h" for h
    using inv by (auto simp: limiter_inv_def)
  have live: "task \<notin> lim_released (ls_limiter s)"
    using inv running by (force simp: limiter_inv_def)
  have mem: "(host, task) \<in> set (at_host host (ls_running s))"
    using running by simp
  then have pos: "0 < ?n"
    using length_pos_if_in_set [OF mem] by simp
  note step = hosts.give_balanced [OF bal pos live rel]
  have frame: "lim_released l = insert task (lim_released (ls_limiter s))"
    using hosts.give_frame [OF live rel] by auto
  have other: "hosts.balanced l h n = hosts.balanced (ls_limiter s) h n"
      "waiting l h = waiting (ls_limiter s) h" if "h \<noteq> host" for h n
    using hosts.balanced_other(2) [OF live rel that] hosts.give_frame [OF live rel, of h] that by auto
  have count: "int (length (remove1 (host, task) (at_host host (ls_running s)))) = ?n - 1"
    unfolding length_remove1 using mem pos by (simp only: if_True)
  have gone: "task \<notin> snd ` set (remove1 (host, task) (ls_running s))"
  proof
    assume "task \<in> snd ` set (remove1 (host, task) (ls_running s))"
    then obtain h where h: "(h, task) \<in> set (remove1 (host, task) (ls_running s))"
      by auto
    then have "(h, task) \<in> set (ls_arrived s)" "(host, task) \<in> set (ls_arrived s)"
      using inv running notin_set_remove1 by (fastforce simp: limiter_inv_def)+
    then have "h = host"
      using distinct_ids inv by (auto simp: limiter_inv_def)
    then show False
      using h inv by (simp add: limiter_inv_def)
  qed
  have was: "task \<in> snd ` set (ls_granted s)"
    using inv running by (force simp: limiter_inv_def)
  show ?thesis
  proof (cases resumed)
    case None
    then show ?thesis
      unfolding limiter_inv_def
      using inv step order bal other frame count gone was
      by (auto simp: limiter_inv_def dest: notin_set_remove1)
  next
    case (Some u)
    then have queue: "waiting (ls_limiter s) host = u # waiting l host"
      using step(2) by simp
    then have u: "(host, u) \<in> set (ls_arrived s)" "(h, u) \<notin> set (ls_granted s)" for h
      using waiter_not_granted [OF inv, of u host] by auto
    have u': "u \<notin> lim_released (ls_limiter s)" "u \<noteq> task" "(host, u) \<notin> set (ls_running s)"
      using inv u(2) was running by (force simp: limiter_inv_def)+
    show ?thesis
      unfolding limiter_inv_def
      using Some inv step order bal other frame count gone was u u' queue
      by (auto simp: limiter_inv_def dest: notin_set_remove1)
  qed
qed

lemma limiter_reach_inv: "limiter_reach configured s \<Longrightarrow> limiter_inv s"
proof (induction rule: limiter_reach.induct)
  case lim_init
  show ?case
    by (simp add: limiter_inv_def hosts.balanced_def new_limiter_def activeCount_def waiting_def
        or_default_def DEFAULT_ENDPOINT_CONCURRENCY_def split: option.split)
qed (rule limiter_inv_start limiter_inv_end; assumption)+

lemma limiter_reach_cap:
  "limiter_reach configured s \<Longrightarrow> lim_cap (ls_limiter s) = lim_cap (new_limiter configured)"
proof (induction rule: limiter_reach.induct)
  case (lim_start s task host granted l)
  then show ?case using hosts.take_frame [OF lim_start.hyps(3)] by simp
next
  case (lim_end s host task resumed l)
  then show ?case
    by (auto simp: release_def Let_def split: if_splits option.splits list.splits)
qed simp

end
