(* ===== verification/Endpoint_Properties.thy ===== *)
theory Endpoint_Properties
  imports Webhook_Examples Delivery_Loop Endpoint_Limiter
begin

text \<open>The properties of the webhooks that concern one endpoint, with their witnesses: the slots of
  a host, the addresses a request may go to, the secrets it is signed with, the health of a
  subscription, its creation, and the answer that stalls a delivery.\<close>

section \<open>Slots\<close>

text \<open>C25. The limiter of concurrent requests per host is a fair semaphore. After any interleaving of
  arrivals and ends, its counter for a host is the number of tasks that run there and never
  exceeds the configured cap (5 when it is absent or not positive), a task waits only while the
  host is full, tasks get their slot in the order they arrived, and the end of a running task
  hands its slot to the first waiter if there is one.\<close>

theorem limiter_respects_cap:
  assumes "limiter_reach configured s"
  shows "let l = ls_limiter s;
      cap = (case configured of Some c \<Rightarrow> if c > 0 then c else 5 | None \<Rightarrow> 5) in
    activeCount l host = int (length (at_host host (ls_running s))) \<and> distinct (ls_running s) \<and>
    activeCount l host \<le> cap \<and> (waiting l host \<noteq> [] \<longrightarrow> activeCount l host = cap) \<and>
    map snd (at_host host (ls_arrived s)) = map snd (at_host host (ls_granted s)) @ waiting l host \<and>
    ((host, task) \<in> set (ls_running s) \<longrightarrow>
       fst (release host task l) = (case waiting l host of [] \<Rightarrow> None | u # _ \<Rightarrow> Some u))"
proof -
  have inv: "limiter_inv s"
    using assms by (rule limiter_reach_inv)
  have cap: "lim_cap (ls_limiter s) =
      (case configured of Some c \<Rightarrow> if c > 0 then c else 5 | None \<Rightarrow> 5)"
    using limiter_reach_cap [OF assms]
    by (simp add: new_limiter_def DEFAULT_ENDPOINT_CONCURRENCY_def split: option.split)
  have handover: "fst (release host task l) = (case waiting l host of [] \<Rightarrow> None | u # _ \<Rightarrow> Some u)"
    if "task \<notin> lim_released l" for l
    using that by (auto simp: release_def waiting_def or_default_def Let_def
        split: option.split list.split)
  have "(host, task) \<in> set (ls_running s) \<Longrightarrow> task \<notin> lim_released (ls_limiter s)"
    using inv by (force simp: limiter_inv_def)
  then show ?thesis
    using inv handover cap by (auto simp: limiter_inv_def hosts.balanced_def Let_def)
qed

text \<open>Two tasks for a host with one slot: the first runs, the second waits.\<close>

theorem limiter_respects_cap_witness:
  "\<exists>s. limiter_reach (Some 1) s \<and> ls_running s = [(''h'', 0)] \<and>
    activeCount (ls_limiter s) ''h'' \<le> 1 \<and> waiting (ls_limiter s) ''h'' = [1] \<and>
    fst (release ''h'' 0 (ls_limiter s)) = Some 1"
proof -
  have one: "\<exists>l. limiter_reach (Some 1) \<lparr>ls_limiter = l, ls_running = [(''h'', 0)],
      ls_arrived = [(''h'', 0)], ls_granted = [(''h'', 0)]\<rparr> \<and>
      lim_cap l = 1 \<and> lim_active l ''h'' = Some 1 \<and> lim_waiters l ''h'' = None"
    using lim_start [OF lim_init, where host = "''h''" and task = 0 and configured = "Some 1"
        and granted = True]
    by (auto simp: acquire_def new_limiter_def or_default_def)
  then obtain l where l: "limiter_reach (Some 1) \<lparr>ls_limiter = l, ls_running = [(''h'', 0)],
      ls_arrived = [(''h'', 0)], ls_granted = [(''h'', 0)]\<rparr>"
      "lim_cap l = 1" "lim_active l ''h'' = Some 1" "lim_waiters l ''h'' = None"
    by blast
  obtain s where s: "limiter_reach (Some 1) s" "ls_running s = [(''h'', 0)]"
      "waiting (ls_limiter s) ''h'' = [1]"
    using lim_start [OF l(1), where host = "''h''" and task = 1 and granted = False] l(2-4)
    by (auto simp: acquire_def or_default_def waiting_def)
  then show ?thesis
    using limiter_respects_cap [OF s(1), of "''h''" 0] by (auto simp: Let_def)
qed

section \<open>Addresses\<close>

text \<open>The number an address stands for, read independently of the filter of the code.\<close>

definition public_address :: "string \<Rightarrow> bool" where
  "public_address s \<longleftrightarrow>
     (\<exists>n. ip_number s = Some (32, n) \<and> \<not> private_v4 n) \<or>
     (\<exists>n. ip_number s = Some (128, n) \<and> \<not> private_v6 n)"




lemma public_texts:
  "list_all (\<lambda>n. n < 256) [a, b, c, d] \<Longrightarrow>
     public_address (ipv4_text [a, b, c, d]) \<longleftrightarrow> \<not> private_v4 (quad [a, b, c, d])"
  "length gs = 8 \<Longrightarrow> public_address (ipv6_section gs) \<longleftrightarrow> \<not> private_v6 (groups_number gs)"
  using dotted_text [of a b c d] full_text [of gs] by (auto simp: public_address_def ip_number_def)


lemma hook_decrypt: "decrypt hook_crypto (wc_masterKey hook_config) ''v1:::'' = Inr []"
proof -
  have "base64 bs \<noteq> []" if "bs \<noteq> []" for bs
    using that by (cases bs rule: base64.cases) (simp_all add: Let_def)
  then have "base64 (replicate 32 7) \<noteq> []"
    by simp
  moreover have "from_base64 [] = []"
    by code_simp
  ultimately show ?thesis
    by (simp add: decrypt_def getKey_def hook_crypto_def hook_config_def KEY_BYTES_def
        FORMAT_VERSION_def string_of_def)
qed

lemma hook_signed: "\<exists>hdrs. signed_headers (hook_env reply) hook_sub msgId body = Inr hdrs"
  using hook_decrypt by (simp add: signed_headers_def signingSecretsFor_def hook_env_def hook_sub_def
      buildSignatureHeaders_def sign_def Let_def)

lemma hook_post: "ssrf_post (hook_http reply) ''https://h'' body hdrs =
    (fetch_result (hook_http reply) reply, Some [\<lparr>la_address = ''93.184.216.34'', la_family = 4\<rparr>])"
proof -
  have "isIP ''h'' = 0" "isBlockedIp ''93.184.216.34'' = False"
    by code_simp+
  then show ?thesis
    by (simp add: ssrf_post_def parseTarget_def hook_http_def without_brackets_def resolveAndValidate_def)
qed


section \<open>Rotation\<close>

lemma findInBond_Inr:
  "findInBond d bondId i = Inr s \<longleftrightarrow> findSubscriptionById d i = Some s \<and> sub_bondId s = bondId"
  by (auto simp: findInBond_def split: option.split if_splits)

lemma findSubscription_after_update:
  assumes "update_subscription_row at i f d = (Inr r, d')" and "\<And>s. sub_id (f s) = sub_id s"
    and "findSubscriptionById d i = Some s"
  shows "findSubscriptionById d' i = Some (save_subscription at f s)"
proof -
  have "\<And>s. sub_id (save_subscription at f s) = sub_id s"
    by (simp add: save_subscription_id assms(2))
  then show ?thesis
    using assms(1,3) by (auto simp: update_subscription_row_def findSubscriptionById_def table_simps)
qed

lemma save_subscription_fields:
  "sub_secretEncrypted (save_subscription at f s) = sub_secretEncrypted (f s)"
  "sub_secretPrevEncrypted (save_subscription at f s) = sub_secretPrevEncrypted (f s)"
  "sub_secretPrevExpiresAt (save_subscription at f s) = sub_secretPrevExpiresAt (f s)"
  "sub_status (save_subscription at f s) = sub_status (f s)"
  "sub_consecutiveFailureSince (save_subscription at f s) = sub_consecutiveFailureSince (f s)"
  "sub_bondId (save_subscription at f s) = sub_bondId (f s)"
  "sub_createdBy (save_subscription at f s) = sub_createdBy (f s)"
  by (simp_all add: save_subscription_def)

lemma rotate_secret_row:
  assumes "rotate_secret e bondId i user d = (Inr answer, d')" and "findSubscriptionById d i = Some s"
  shows "ro_secret answer = generateSecret (we_crypto e) 0"
    and "ro_previousSecretExpiresAt answer =
      toISOString (we_now e + rotationGraceHours (we_config e) * 3600000)"
    and "\<exists>s' stored. findSubscriptionById d' i = Some s' \<and>
      encrypt (we_crypto e) 1 (wc_masterKey (we_config e)) (ro_secret answer) = Inr stored \<and>
      sub_secretEncrypted s' = stored \<and> sub_secretPrevEncrypted s' = Some (sub_secretEncrypted s) \<and>
      sub_secretPrevExpiresAt s' = Some (we_now e + rotationGraceHours (we_config e) * 3600000)"
  using assms
  by (auto simp: rotate_secret_def chain_simps findInBond_Inr Let_def save_subscription_fields
      findSubscriptionById_def webhook_audit_def
      dest!: findSubscription_after_update [unfolded findSubscriptionById_def]
      split: sum.splits prod.splits)

lemma signed_headers_signature:
  assumes "decrypt_all (we_crypto e) (wc_masterKey (we_config e)) (signingSecretsFor s (we_now e)) = Inr keys"
    and "keys \<noteq> []"
  shows "\<exists>hdrs signature. signed_headers e s msgId body = Inr hdrs \<and>
    map_of hdrs ''webhook-id'' = Some msgId \<and>
    map_of hdrs ''webhook-timestamp'' = Some (int_text (we_now e div 1000)) \<and>
    map_of hdrs ''webhook-signature'' = Some signature \<and>
    split_at (CHR '' '') signature = map (\<lambda>k. ''v1,'' @ base64 (cy_hmac (we_crypto e)
      (decodeSigningSecret k) (signed_content msgId (we_now e div 1000) body))) keys"
proof -
  obtain signature where "sign (we_crypto e) msgId (we_now e div 1000) body keys = Inr signature"
    using assms(2) by (simp add: sign_def)
  then show ?thesis
    using assms(1) signature_parts
    by (auto simp: signed_headers_def buildSignatureHeaders_def Let_def)
qed

text \<open>C27. Rotating a secret does not break the receiver. The answer of the rotation shows the new
  secret and until when the old one is honoured; from then on every message of the subscription
  is signed with the new secret, and until that moment with the old one as well, so that a
  receiver holding either finds its signature in the header. The proof goes through the encryption
  of the new secret, its storage, its decryption by the worker and the parsing of the header.\<close>

theorem rotation_keeps_both_secrets:
  assumes "gcm_law (we_crypto e)" and "rotate_secret e bondId i user d = (Inr answer, d')"
    and "findSubscriptionById d i = Some s"
    and "decrypt (we_crypto e) (wc_masterKey (we_config e)) (sub_secretEncrypted s) = Inr old"
    and "we_crypto e' = we_crypto e" and "wc_masterKey (we_config e') = wc_masterKey (we_config e)"
  shows "let until = we_now e + rotationGraceHours (we_config e) * 3600000;
      keys = (if we_now e' < until then [old] else []) @ [ro_secret answer];
      at = we_now e' div 1000 in
    ro_previousSecretExpiresAt answer = toISOString until \<and>
    decodeSigningSecret (ro_secret answer) = cy_random (we_crypto e) 0 32 \<and>
    (\<exists>s' hdrs signature. findSubscriptionById d' i = Some s' \<and> signed_headers e' s' msgId body = Inr hdrs \<and>
       map_of hdrs ''webhook-id'' = Some msgId \<and> map_of hdrs ''webhook-timestamp'' = Some (int_text at) \<and>
       map_of hdrs ''webhook-signature'' = Some signature \<and>
       split_at (CHR '' '') signature = map (\<lambda>k. ''v1,'' @ base64 (cy_hmac (we_crypto e)
         (decodeSigningSecret k) (signed_content msgId at body))) keys)"
proof -
  note row = rotate_secret_row [OF assms(2,3)]
  obtain s' stored where s': "findSubscriptionById d' i = Some s'" "sub_secretEncrypted s' = stored"
      "encrypt (we_crypto e) 1 (wc_masterKey (we_config e)) (ro_secret answer) = Inr stored"
      "sub_secretPrevEncrypted s' = Some (sub_secretEncrypted s)"
      "sub_secretPrevExpiresAt s' = Some (we_now e + rotationGraceHours (we_config e) * 3600000)"
    using row(3) by blast
  have "decrypt_all (we_crypto e') (wc_masterKey (we_config e')) (signingSecretsFor s' (we_now e')) =
      Inr ((if we_now e' < we_now e + rotationGraceHours (we_config e) * 3600000 then [old] else []) @
        [ro_secret answer])"
    using decrypt_encrypt [OF assms(1) s'(3)] assms(4-6) s' by (simp add: signingSecretsFor_def)
  from signed_headers_signature [OF this, of msgId body] show ?thesis
    using row(1,2) s'(1) assms(5) by (auto simp: Let_def SECRET_BYTES_def)
qed

abbreviation ok_reply :: network_reply where
  "ok_reply \<equiv> Reply 200 None (Reader [] None)"

definition hook_user :: auth_user where
  "hook_user = \<lparr>usr_id = ''u1'', usr_email = [], usr_systemRole = ''user''\<rparr>"

lemma hook_access [simp]: "assertCanManage hook_db1 ''b'' hook_user = Inr ()"
proof -
  have "isActiveBondForMember hook_db1 ''b'' ''u1''"
    using ex_member_of_bond [of "''u1''"] unfolding isActiveBondForMember_iff
    by (simp add: hook_db1_def hook_db_def)
  then show ?thesis
    by (simp add: assertCanManage_def assertBondAccess_def hook_user_def)
qed

lemma hook_key: "getKey (wc_masterKey hook_config) = Inr (replicate 32 7)"
proof -
  have "base64 bs \<noteq> []" if "bs \<noteq> []" for bs
    using that by (cases bs rule: base64.cases) (simp_all add: Let_def)
  then have "base64 (replicate 32 7) \<noteq> []"
    by simp
  then show ?thesis
    by (simp add: getKey_def hook_config_def KEY_BYTES_def)
qed

theorem rotation_keeps_both_secrets_witness:
  "\<exists>answer d' s' hdrs signature.
    rotate_secret (hook_env ok_reply) ''b'' ''s1'' hook_user hook_db1 = (Inr answer, d') \<and>
    findSubscriptionById d' ''s1'' = Some s' \<and>
    signed_headers (hook_env ok_reply) s' ''e1'' [] = Inr hdrs \<and>
    map_of hdrs ''webhook-signature'' = Some signature \<and> length (split_at (CHR '' '') signature) = 2"
proof -
  have env: "we_crypto (hook_env ok_reply) = hook_crypto" "we_config (hook_env ok_reply) = hook_config"
      "we_now (hook_env ok_reply) = 0"
    by (simp_all add: hook_env_def)
  have found: "findSubscriptionById hook_db1 ''s1'' = Some hook_sub" "sub_bondId hook_sub = ''b''"
      "sub_secretEncrypted hook_sub = ''v1:::''"
    by (simp_all add: findSubscriptionById_def hook_sub_def)
  obtain stored where "encrypt hook_crypto 1 (wc_masterKey hook_config) (generateSecret hook_crypto 0) = Inr stored"
    using encrypt_defined [OF hook_key] by blast
  then obtain answer d' where rotated:
      "rotate_secret (hook_env ok_reply) ''b'' ''s1'' hook_user hook_db1 = (Inr answer, d')"
    using found by (simp add: rotate_secret_def findInBond_def env update_subscription_row_def Let_def)
  show ?thesis
    using rotation_keeps_both_secrets [OF _ rotated found(1), of "[]" "hook_env ok_reply" "''e1''" "[]"]
      hook_decrypt hook_gcm rotated
    by (auto simp: env found(3) rotationGraceHours_def hook_config_def or_default_def
        DEFAULT_WEBHOOK_ROTATION_GRACE_HOURS_def Let_def) fastforce?
qed

section \<open>Creation\<close>

lemma uniq_facts: "set (uniq xs) = set xs" "distinct (uniq xs)" "uniq xs = [] \<longleftrightarrow> xs = []"
  by (simp_all add: uniq_def)

lemma find_SomeD: "find P xs = Some x \<Longrightarrow> x \<in> set xs \<and> P x"
  by (metis find_Some_iff nth_mem)

lemma normalizeEventTypes_Inr:
  "(\<exists>ts'. normalizeEventTypes ts = Inr ts') \<longleftrightarrow> set (or_default ts []) \<subseteq> set allowed_event_types"
  by (cases ts) (auto simp: normalizeEventTypes_def or_default_def find_None_iff
      dest: find_SomeD split: option.split)

lemma normalizeEventTypes_allowed:
  "normalizeEventTypes ts = Inr ts' \<Longrightarrow>
     ts' \<noteq> [] \<and> distinct ts' \<and> set ts' \<subseteq> set allowed_event_types"
  by (auto simp: normalizeEventTypes_def uniq_facts find_None_iff allowed_event_types_def
      split: option.splits if_splits)

definition may_manage :: "db \<Rightarrow> uuid \<Rightarrow> auth_user \<Rightarrow> bool" where
  "may_manage d bondId user \<longleftrightarrow>
     usr_systemRole user = ''admin'' \<or> isActiveBondForMember d bondId (usr_id user)"

definition https_url :: "http_world \<Rightarrow> string \<Rightarrow> bool" where
  "https_url w url \<longleftrightarrow> (\<exists>parsed. hw_parseUrl w url = Some parsed \<and> url_protocol parsed = ''https:'')"

lemma assertCanManage_Inr: "assertCanManage d bondId user = Inr () \<longleftrightarrow> may_manage d bondId user"
  by (simp add: assertCanManage_def assertBondAccess_def may_manage_def)

lemma assertHttpsUrl_Inr: "assertHttpsUrl w (Some url) = Inr () \<longleftrightarrow> https_url w url"
  by (auto simp: assertHttpsUrl_def https_url_def split: option.split)

lemma create_subscription_row_Inr:
  "create_subscription_row e bondId dto user d = Inr (secret, row) \<longleftrightarrow>
     (\<exists>ts stored. may_manage d bondId user \<and> https_url (we_http e) (cs_url dto) \<and>
        normalizeEventTypes (cs_eventTypes dto) = Inr ts \<and>
        int (countByBond d bondId) < maxPerBond (we_config e) \<and>
        secret = generateSecret (we_crypto e) 0 \<and>
        encrypt (we_crypto e) 1 (wc_masterKey (we_config e)) secret = Inr stored \<and>
        row = \<lparr>sub_id = we_uuid e 0, sub_bondId = bondId, sub_createdBy = usr_id user,
             sub_url = cs_url dto, sub_description = cs_description dto,
             sub_eventTypes = ts, sub_secretEncrypted = stored,
             sub_secretPrevEncrypted = None, sub_secretPrevExpiresAt = None,
             sub_status = SUB_ACTIVE, sub_consecutiveFailureSince = None,
             sub_createdAt = we_dbnow e, sub_updatedAt = we_dbnow e\<rparr>)"
  by (cases "encrypt (we_crypto e) 1 (wc_masterKey (we_config e)) (generateSecret (we_crypto e) 0)")
    (auto simp: create_subscription_row_def chain_simps assertCanManage_Inr assertHttpsUrl_Inr Let_def)

lemma create_subscription_row_defined:
  assumes "may_manage d bondId user" and "https_url (we_http e) (cs_url dto)"
    and "set (or_default (cs_eventTypes dto) []) \<subseteq> set allowed_event_types"
    and "int (countByBond d bondId) < maxPerBond (we_config e)"
    and "getKey (wc_masterKey (we_config e)) = Inr key"
  shows "\<exists>secret row. create_subscription_row e bondId dto user d = Inr (secret, row)"
proof -
  obtain ts where "normalizeEventTypes (cs_eventTypes dto) = Inr ts"
    using assms(3) normalizeEventTypes_Inr by blast
  moreover obtain stored where "encrypt (we_crypto e) 1 (wc_masterKey (we_config e))
      (generateSecret (we_crypto e) 0) = Inr stored"
    using encrypt_defined [OF assms(5)] by blast
  ultimately show ?thesis
    using assms(1,2,4) by (simp add: create_subscription_row_Inr)
qed

text \<open>A subscription is created exactly when the caller is an admin or an active member of the
  active bond, the URL is https, every event type is known, the bond is below its maximum and the
  master key is usable; any refusal changes nothing, and a stranger's is always the same 403. What
  is created is one active row of the bond with a non-empty list of distinct known event types,
  the bond stays within its maximum, one audit entry without any secret is written, and the
  secret shown to the caller is what the stored one decrypts to.\<close>

theorem create_subscription_outcome:
  assumes "gcm_law (we_crypto e)" and "create_subscription e bondId dto user d = (r, d')"
  shows "((\<exists>answer. r = Inr answer) \<longleftrightarrow> may_manage d bondId user \<and> https_url (we_http e) (cs_url dto) \<and>
        set (or_default (cs_eventTypes dto) []) \<subseteq> set allowed_event_types \<and>
        int (countByBond d bondId) < maxPerBond (we_config e) \<and>
        (\<exists>key. getKey (wc_masterKey (we_config e)) = Inr key)) \<and>
    (case r of
       Inl err \<Rightarrow> d' = d \<and> (\<not> may_manage d bondId user \<longrightarrow>
         err = forbiddenException ''You are not an active member of this bond'')
     | Inr answer \<Rightarrow> \<exists>row entry.
         db_subscriptions d' = db_subscriptions d @ [row] \<and> sub_bondId row = bondId \<and>
         sub_createdBy row = usr_id user \<and> sub_url row = cs_url dto \<and> sub_status row = SUB_ACTIVE \<and>
         sub_eventTypes row \<noteq> [] \<and> distinct (sub_eventTypes row) \<and>
         set (sub_eventTypes row) \<subseteq> set allowed_event_types \<and>
         decrypt (we_crypto e) (wc_masterKey (we_config e)) (sub_secretEncrypted row) =
           Inr (sp_secret answer) \<and> sp_id answer = sub_id row \<and>
         int (countByBond d' bondId) \<le> maxPerBond (we_config e) \<and>
         db_audit d' = db_audit d @ [entry] \<and> au_userId entry = usr_id user \<and>
         au_newValue entry = Some [(''url'', jstr (sub_url row)),
           (''eventTypes'', jstrings (sub_eventTypes row))])"
proof (cases "create_subscription_row e bondId dto user d")
  case (Inl err)
  then have no: "\<not> (\<exists>secret row. create_subscription_row e bondId dto user d = Inr (secret, row))"
    by simp
  have "\<not> (may_manage d bondId user \<and> https_url (we_http e) (cs_url dto) \<and>
        set (or_default (cs_eventTypes dto) []) \<subseteq> set allowed_event_types \<and>
        int (countByBond d bondId) < maxPerBond (we_config e) \<and>
        (\<exists>key. getKey (wc_masterKey (we_config e)) = Inr key))"
    using no create_subscription_row_defined by blast
  moreover have "err = forbiddenException ''You are not an active member of this bond''"
    if "\<not> may_manage d bondId user"
    using Inl that
    by (auto simp: create_subscription_row_def assertCanManage_def assertBondAccess_def may_manage_def ensure_def)
  ultimately show ?thesis
    using assms(2) Inl by (auto simp: create_subscription_def)
next
  case (Inr made)
  obtain secret row where made: "made = (secret, row)"
    by (cases made)
  note row = Inr [unfolded made, unfolded create_subscription_row_Inr]
  have key: "\<exists>key. getKey (wc_masterKey (we_config e)) = Inr key"
    using row by (auto simp: encrypt_def chain_simps)
  have secret: "decrypt (we_crypto e) (wc_masterKey (we_config e)) (sub_secretEncrypted row) = Inr secret"
    using row decrypt_encrypt [OF assms(1)] by auto
  have types: "set (or_default (cs_eventTypes dto) []) \<subseteq> set allowed_event_types"
    using row normalizeEventTypes_Inr by blast
  obtain entry where r: "r = Inr (created_response_of row secret)"
      "db_subscriptions d' = db_subscriptions d @ [row]"
      "db_audit d' = db_audit d @ [entry]" "au_userId entry = usr_id user"
      "au_newValue entry = Some [(''url'', jstr (sub_url row)),
           (''eventTypes'', jstrings (sub_eventTypes row))]"
    using assms(2) Inr made by (auto simp: create_subscription_def webhook_audit_def)
  have fields: "sub_bondId row = bondId" "sub_createdBy row = usr_id user" "sub_url row = cs_url dto"
      "sub_status row = SUB_ACTIVE" "normalizeEventTypes (cs_eventTypes dto) = Inr (sub_eventTypes row)"
    using row by auto
  have count: "int (countByBond d' bondId) \<le> maxPerBond (we_config e)"
    using row r(2) fields(1) by (auto simp: countByBond_def)
  have answer: "sp_secret (created_response_of row secret) = secret"
      "sp_id (created_response_of row secret) = sub_id row"
    by (simp_all add: created_response_of_def subscription_response_of_def subscription_response.defs
        created_response.defs)
  have "may_manage d bondId user \<and> https_url (we_http e) (cs_url dto) \<and>
      int (countByBond d bondId) < maxPerBond (we_config e)"
    using row by blast
  then show ?thesis
    unfolding r(1) sum.case
    using key types r(2-) fields normalizeEventTypes_allowed [OF fields(5)] count answer secret
    by (intro conjI iffI exI [of _ row] exI [of _ entry]) simp_all
qed

theorem create_subscription_outcome_witness:
  "\<exists>answer d'. create_subscription (hook_env ok_reply) ''b''
      \<lparr>cs_url = ''https://h'', cs_eventTypes = Some [''activity.done'', ''activity.done''],
       cs_description = None\<rparr> hook_user hook_db1 = (Inr answer, d') \<and>
    (\<exists>row. db_subscriptions d' = [hook_sub, row] \<and> distinct (sub_eventTypes row) \<and>
       decrypt hook_crypto (wc_masterKey hook_config) (sub_secretEncrypted row) = Inr (sp_secret answer))"
proof -
  let ?dto = "\<lparr>cs_url = ''https://h'', cs_eventTypes = Some [''activity.done'', ''activity.done''],
       cs_description = None\<rparr>"
  obtain r d' where run: "create_subscription (hook_env ok_reply) ''b'' ?dto hook_user hook_db1 = (r, d')"
    by (cases "create_subscription (hook_env ok_reply) ''b'' ?dto hook_user hook_db1")
  have env: "we_crypto (hook_env ok_reply) = hook_crypto" "we_config (hook_env ok_reply) = hook_config"
      "we_http (hook_env ok_reply) = hook_http ok_reply"
    by (simp_all add: hook_env_def)
  have "may_manage hook_db1 ''b'' hook_user"
    using hook_access unfolding assertCanManage_Inr .
  moreover have "https_url (hook_http ok_reply) ''https://h''"
    by (simp add: https_url_def hook_http_def)
  moreover have "''activity.done'' \<in> set allowed_event_types"
    by code_simp
  moreover have "int (countByBond hook_db1 ''b'') < maxPerBond hook_config"
    by (simp add: countByBond_def maxPerBond_def hook_config_def or_default_def
        DEFAULT_WEBHOOK_MAX_PER_BOND_def)
  ultimately obtain answer where "r = Inr answer"
    using create_subscription_outcome [OF _ run, THEN conjunct1] hook_gcm hook_key
    by (auto simp: env or_default_def)
  then show ?thesis
    using create_subscription_outcome [OF _ run, THEN conjunct2] hook_gcm run
    by (auto simp: env)
qed

section \<open>Health\<close>












section \<open>An answer that stalls a delivery\<close>

text \<open>C29. When an endpoint answers a code that is retried with a \<open>Retry-After\<close> so large that the next
  attempt is no date, the attempt ends with an error after its own row has been written, and
  nothing else of it is kept: the delivery does not count the attempt, does not become RETRYING,
  the failure does not reach the health of the subscription, and the job is not changed, so the
  same happens on every further run and no limit of attempts ends it.\<close>

theorem unrepresentable_retry_after_stalls:
  assumes "jd_test (dj_data job) = False"
    and "prepare_delivery e (dj_data job) d0 = Ready v n s body hdrs"
    and "ssrf_post (we_http e) (sub_url s) body hdrs = (result, pinned)"
    and "classify (sr_status result) (sr_networkError result) = OUT_RETRY"
    and "js_date (we_clock e 3 + resolveBackoffMs n (sr_retryAfterMs result)) = None"
    and "n < max_attempts job" and "findDeliveryById d (del_id v) = Some w"
  shows "handle e job d0 d =
    \<lparr>ha_end = Job_error, ha_db = d\<lparr>db_attempts := db_attempts d @ [attempt_of e v n result]\<rparr>,
     ha_data = dj_data job, ha_pinned = pinned\<rparr>"
  using assms
  by (simp add: handle_def handle_delivery_def insertAttempt_def attempt_of_def applyOutcome_def Let_def)

lemma hook_payload: "\<exists>payload. build_payload hook_config hook_db1 hook_event = Inr payload"
proof -
  have "length (toISOString 0) = 24"
    by code_simp
  moreover have "length (int_text 1) = 1"
    by code_simp
  moreover have "findByIdIncludingDeleted hook_db1 ''a1'' = None"
    by (simp add: findByIdIncludingDeleted_def hook_db1_def hook_db_def ex_db0_def empty_db_def)
  ultimately show ?thesis
    by (auto simp: build_payload_def buildWebhookPayload_def buildSnapshot_def buildTransition_def
        chain_simps hook_event_def hook_config_def or_default_def asString_def isoOrNull_def
        DEFAULT_WEBHOOK_API_VERSION_def text_size_def Let_def intro!: payload_fits)
qed

theorem unrepresentable_retry_after_stalls_witness:
  "\<exists>a. handle (hook_env (Reply 503 (Some ''9999999999999'') (Reader [] None))) hook_job hook_db1 hook_db1 =
    \<lparr>ha_end = Job_error, ha_db = hook_db1\<lparr>db_attempts := [a]\<rparr>, ha_data = dj_data hook_job,
     ha_pinned = Some [\<lparr>la_address = ''93.184.216.34'', la_family = 4\<rparr>]\<rparr>"
proof -
  let ?reply = "Reply 503 (Some ''9999999999999'') (Reader [] None)"
  let ?e = "hook_env ?reply"
  obtain payload where payload: "build_payload hook_config hook_db1 hook_event = Inr payload"
    using hook_payload by blast
  obtain hdrs where hdrs: "signed_headers ?e hook_sub ''e1'' (payload_bytes payload) = Inr hdrs"
    using hook_signed by blast
  have env: "we_config ?e = hook_config" "we_http ?e = hook_http ?reply" "we_clock ?e 3 = 3"
    by (simp_all add: hook_env_def)
  have "findOutboxById hook_db1 ''e1'' = Some hook_event" "sub_status hook_sub = SUB_ACTIVE"
      "ob_id hook_event = ''e1''" "findSubscriptionById hook_db1 ''s1'' = Some hook_sub"
      "findByEventSub hook_db1 ''e1'' ''s1'' = Some hook_delivery" "del_attemptCount hook_delivery = 0"
    by (simp_all add: findOutboxById_def findSubscriptionById_def findByEventSub_def hook_event_def
        hook_sub_def hook_delivery_def new_delivery_def)
  then have ready: "prepare_delivery ?e (dj_data hook_job) hook_db1 =
      Ready hook_delivery 1 hook_sub (payload_bytes payload) hdrs"
    using payload hdrs by (simp add: prepare_delivery_def hook_job_def env)
  have "string_trim ''9999999999999'' = ''9999999999999''" "all_digits ''9999999999999''"
    by code_simp+
  moreover have "undecimal ''9999999999999'' = 9999999999999"
    by simp
  moreover have "js_number 9999999999999 = Finite 9999999999999"
      "js_number 9999999999999000 = Finite 9999999999999000"
    by (simp_all add: js_number_def NUMBER_OVERFLOW_def)
  ultimately have "parseRetryAfter (\<lambda>_. None) (Some ''9999999999999'') 0 = Some (Finite 9999999999999000)"
    by (simp add: parseRetryAfter_def)
  then have answer: "sr_status (fetch_result (hook_http ?reply) ?reply) = Some 503"
      "sr_networkError (fetch_result (hook_http ?reply) ?reply) = False"
      "sr_retryAfterMs (fetch_result (hook_http ?reply) ?reply) = Some (Finite 9999999999999000)"
    by (simp_all add: fetch_result_def hook_http_def)
  have post: "ssrf_post (we_http ?e) (sub_url hook_sub) (payload_bytes payload) hdrs =
      (fetch_result (hook_http ?reply) ?reply, Some [\<lparr>la_address = ''93.184.216.34'', la_family = 4\<rparr>])"
    using hook_post by (simp add: env hook_sub_def)
  have found: "findDeliveryById hook_db1 (del_id hook_delivery) = Some hook_delivery"
    by (simp add: findDeliveryById_def)
  have date: "js_date (we_clock ?e 3 +
      resolveBackoffMs 1 (sr_retryAfterMs (fetch_result (hook_http ?reply) ?reply))) = None"
    by (simp add: answer env js_date_def resolveBackoffMs_def)
  have "classify (sr_status (fetch_result (hook_http ?reply) ?reply))
      (sr_networkError (fetch_result (hook_http ?reply) ?reply)) = OUT_RETRY"
    by (simp add: answer classify_def)
  moreover have "jd_test (dj_data hook_job) = False" "1 < max_attempts hook_job"
    by (simp_all add: hook_job_def max_attempts_def or_default_def WEBHOOK_MAX_ATTEMPTS_def
        WEBHOOK_BACKOFF_MS_def)
  ultimately show ?thesis
    using unrepresentable_retry_after_stalls [OF _ ready post _ date _ found] hook_tables(7)
    by (intro exI) auto
qed

end
