(* ===== verification/Realtime_Properties.thy ===== *)
theory Realtime_Properties
  imports Webhook_Examples Notification_Properties
begin

text \<open>The property of the realtime channel with its witness: whom a frame reaches.\<close>

section \<open>Delivery to a set of users\<close>

text \<open>\<open>out\<close> writes the message once to each open registered socket of these users and to no other,
  and each of those sockets was opened with the token of one of them.\<close>

definition reaches ::
  "gateway \<Rightarrow> (nat \<Rightarrow> bool) \<Rightarrow> uuid set \<Rightarrow> json_obj \<Rightarrow> (nat \<times> json_obj) list \<Rightarrow> bool" where
  "reaches g is_open users message out \<longleftrightarrow>
     distinct (map fst out) \<and>
     fst ` set out = {k. is_open k \<and> (\<exists>u \<in> users. k \<in> set (sockets_of (gw_registry g) u))} \<and>
     (\<forall>(k, m) \<in> set out. m = message \<and> (\<exists>u \<in> users. gw_owner g k = Some u))"

lemma sockets_distinct:
  assumes "gateway_inv g"
  shows "distinct (sockets_of (gw_registry g) u)"
proof (cases "map_of (gw_registry g) u")
  case (Some ss)
  then have "(u, ss) \<in> set (gw_registry g)"
    by (rule map_of_SomeD)
  then show ?thesis
    using assms Some by (auto simp: gateway_inv_def entry_ok_def sockets_of_def)
qed (simp add: sockets_of_def)

lemma reaches_sockets:
  assumes "gateway_inv g" and "distinct ks"
    and "set ks = (\<Union>u \<in> users. set (sockets_of (gw_registry g) u))"
  shows "reaches g is_open users message (map (\<lambda>s. (s, message)) (filter is_open ks))"
proof -
  have "\<exists>u \<in> users. gw_owner g k = Some u" if "k \<in> set ks" for k
    using that registered_owner [OF assms(1)] unfolding assms(3) by blast
  then show ?thesis
    using assms(2,3) by (auto simp: reaches_def comp_def image_image)
qed

lemma deliverToBond_reaches:
  assumes "gateway_inv g" and "map_of message ''bondId'' = Some (jstr b)"
  shows "reaches g is_open (set (findActiveMemberIds d b)) message
    (deliverToBond is_open d (gw_registry g) message)"
  using reaches_sockets [OF assms(1), of "first_occurrences (concat (map (sockets_of (gw_registry g))
      (findActiveMemberIds d b)))"] assms(2)
  by (simp add: deliverToBond_def first_occurrences_def)

lemma deliverToUser_reaches:
  assumes "gateway_inv g" and "map_of message ''userId'' = Some (jstr u)"
  shows "reaches g is_open {u} (filter (\<lambda>(k, _). k \<noteq> ''userId'') message)
    (deliverToUser is_open (gw_registry g) message)"
  using reaches_sockets [OF assms(1) sockets_distinct [OF assms(1)], of u "{u}"] assms(2)
  by (simp add: deliverToUser_def)

lemma is_text_js [simp]: "is_text (Some (jstr s)) \<longleftrightarrow> s \<noteq> []"
  by (simp add: is_text_def)

lemma jstr_eq [simp]: "jstr s = jstr t \<longleftrightarrow> s = t"
  by (metis ascii_js json.inject(3))

section \<open>The audience\<close>

text \<open>C30. A frame reaches its audience and nobody else. In every state the gateway can get into, the
  frame built from an event of an activity or an expense is recognised and written unchanged,
  once, to every open registered socket of the users who are active members of its bond at that
  moment; the frame of a notification is written, without the user id, once to every open socket
  of its addressee. No other socket gets it, and each of those sockets had shown the token of the
  user it is written to.\<close>

theorem frames_reach_their_audience:
  assumes "gateway_reach g"
    and "ob_id event \<noteq> []" and "ob_bondId event \<noteq> []" and "ob_aggregateId event \<noteq> []"
    and "[] \<notin> {nref_id n, nref_userId n, nref_type n, nref_refEntityType n, occurredAt}"
    and "nref_refEntityId n \<noteq> Some []"
  shows "reaches g is_open (set (findActiveMemberIds d (ob_bondId event))) (buildActivityChangedMessage event)
      (receive_frame is_open d (gw_registry g) (JObj (buildActivityChangedMessage event))) \<and>
    reaches g is_open (set (findActiveMemberIds d (ob_bondId event))) (buildExpenseChangedMessage event)
      (receive_frame is_open d (gw_registry g) (JObj (buildExpenseChangedMessage event))) \<and>
    reaches g is_open {nref_userId n}
      (filter (\<lambda>(k, _). k \<noteq> ''userId'') (buildNotificationCreatedMessage n occurredAt))
      (receive_frame is_open d (gw_registry g) (JObj (buildNotificationCreatedMessage n occurredAt)))"
proof (intro conjI)
  note inv = gateway_reach_inv [OF assms(1)]
  have "receive_frame is_open d (gw_registry g) (JObj (buildActivityChangedMessage event)) =
      deliverToBond is_open d (gw_registry g) (buildActivityChangedMessage event)"
    using assms(2,3)
    by (simp add: receive_frame_def parseRealtimeFrame_def activity_frame_fields isActivityChanged_def deliver_def)
  then show "reaches g is_open (set (findActiveMemberIds d (ob_bondId event)))
      (buildActivityChangedMessage event)
      (receive_frame is_open d (gw_registry g) (JObj (buildActivityChangedMessage event)))"
    using deliverToBond_reaches [OF inv activity_frame_fields(4)] by simp
  have "receive_frame is_open d (gw_registry g) (JObj (buildExpenseChangedMessage event)) =
      deliverToBond is_open d (gw_registry g) (buildExpenseChangedMessage event)"
    using assms(2-4)
    by (simp add: receive_frame_def parseRealtimeFrame_def expense_frame_fields isExpenseChanged_def deliver_def)
  then show "reaches g is_open (set (findActiveMemberIds d (ob_bondId event)))
      (buildExpenseChangedMessage event)
      (receive_frame is_open d (gw_registry g) (JObj (buildExpenseChangedMessage event)))"
    using deliverToBond_reaches [OF inv expense_frame_fields(5)] by simp
  have ne: "nref_id n \<noteq> []" "nref_userId n \<noteq> []" "nref_type n \<noteq> []" "nref_refEntityType n \<noteq> []"
      "occurredAt \<noteq> []"
    using assms(5) by auto
  have user: "map_of (buildNotificationCreatedMessage n occurredAt) ''userId'' = Some (jstr (nref_userId n))"
    by (simp add: buildNotificationCreatedMessage_def)
  have "receive_frame is_open d (gw_registry g) (JObj (buildNotificationCreatedMessage n occurredAt)) =
      deliverToUser is_open (gw_registry g) (buildNotificationCreatedMessage n occurredAt)"
    using ne assms(6)
    by (cases "nref_refEntityId n")
      (simp_all add: receive_frame_def parseRealtimeFrame_def buildNotificationCreatedMessage_def
        isNotificationCreated_def deliver_def)
  then show "reaches g is_open {nref_userId n}
      (filter (\<lambda>(k, _). k \<noteq> ''userId'') (buildNotificationCreatedMessage n occurredAt))
      (receive_frame is_open d (gw_registry g) (JObj (buildNotificationCreatedMessage n occurredAt)))"
    using deliverToUser_reaches [OF inv user] by simp
qed

text \<open>A member with one socket and a stranger with another: the frame is written to the member's.\<close>

theorem frames_reach_their_audience_witness:
  "\<exists>g. gateway_reach g \<and> gw_owner g 7 = Some ''u1'' \<and> gw_owner g 8 = Some ''u9'' \<and>
    fst ` set (receive_frame (\<lambda>_. True) ex_db0 (gw_registry g)
      (JObj (buildActivityChangedMessage hook_event))) = {7}"
proof -
  define g where "g = \<lparr>gw_registry = [(''u1'', [7]), (''u9'', [8])], gw_pending = [], gw_open = {8, 7},
    gw_owner = [7 \<mapsto> ''u1'', 8 \<mapsto> ''u9'']\<rparr>"
  note one = gw_connect [OF gw_start, where socket = 7 and u = "''u1''", simplified]
  note two = gw_connect [OF one, where socket = 8 and u = "''u9''", simplified]
  note three = gw_registered [OF two, where socket = 7 and lookup = "\<lambda>_. Some [ex_bond]",
      simplified handleConnection_def, simplified]
  note four = gw_registered [OF three, where socket = 8 and lookup = "\<lambda>_. Some [ex_bond]",
      simplified handleConnection_def, simplified]
  have reach: "gateway_reach g"
    using four by (simp add: g_def sockets_of_def)
  have "set (findActiveMemberIds ex_db0 ''b'') = {''u1'', ''u2''}"
    by (auto simp: findActiveMemberIds_def ex_defs)
  moreover have "sockets_of (gw_registry g) ''u1'' = [7]" "sockets_of (gw_registry g) ''u2'' = []"
    by (simp_all add: g_def sockets_of_def)
  moreover have "reaches g (\<lambda>_. True) (set (findActiveMemberIds ex_db0 ''b''))
      (buildActivityChangedMessage hook_event)
      (receive_frame (\<lambda>_. True) ex_db0 (gw_registry g) (JObj (buildActivityChangedMessage hook_event)))"
    using frames_reach_their_audience [OF reach, of hook_event
        "\<lparr>nref_id = ''n'', nref_userId = ''u1'', nref_type = ''t'', nref_refEntityType = ''r'',
          nref_refEntityId = None\<rparr>" "''o''"]
    by (simp add: hook_event_def)
  ultimately show ?thesis
    using reach by (intro exI [of _ g]) (auto simp: reaches_def g_def)
qed

end
