(* ===== verification/Js_Double.thy ===== *)
theory Js_Double
  imports Complex_Main
begin

text \<open>The numbers of the runtime as the rationals they are: a finite double is a rational, and each
  arithmetic operation rounds the exact result to the nearest double, ties to even. Overflow and
  the subnormal range are far from the amounts and percentages computed here and are not
  modelled; both zeros are the rational zero.\<close>

section \<open>Rounding to a double\<close>

fun bit_length :: "nat \<Rightarrow> nat" where
  "bit_length n = (if n = 0 then 0 else Suc (bit_length (n div 2)))"

declare bit_length.simps [simp del]

definition round_half_even :: "rat \<Rightarrow> int" where
  "round_half_even x =
     (let n = \<lfloor>x\<rfloor>; r = x - of_int n in
      if r < 1/2 then n else if r > 1/2 then n + 1 else if even n then n else n + 1)"

text \<open>The exponent that brings the significand of a non-zero number to 53 bits.\<close>

definition double_exponent :: "rat \<Rightarrow> int" where
  "double_exponent x =
     (case quotient_of x of (p, q) \<Rightarrow>
        (let k = int (bit_length (nat \<bar>p\<bar>)) - int (bit_length (nat q)) - 53 in
         if \<bar>x\<bar> / 2 powi k < 2 ^ 53 then k else k + 1))"

definition to_double :: "rat \<Rightarrow> rat" where
  "to_double x =
     (if x = 0 then 0
      else of_int (round_half_even (x / 2 powi double_exponent x)) * 2 powi double_exponent x)"

section \<open>Operations\<close>

definition js_add :: "rat \<Rightarrow> rat \<Rightarrow> rat" where
  "js_add x y = to_double (x + y)"

definition js_mul :: "rat \<Rightarrow> rat \<Rightarrow> rat" where
  "js_mul x y = to_double (x * y)"

definition js_div :: "rat \<Rightarrow> rat \<Rightarrow> rat" where
  "js_div x y = to_double (x / y)"

text \<open>\<open>Math.round\<close>: the nearest integer, a tie upwards.\<close>

definition js_round :: "rat \<Rightarrow> int" where
  "js_round x = \<lfloor>x + 1/2\<rfloor>"

definition NUMBER_EPSILON :: rat where
  "NUMBER_EPSILON = 1 / 2 ^ 52"

text \<open>\<open>Number\<close> of the text of an amount with two decimals, given in hundredths.\<close>

definition amount_number :: "int \<Rightarrow> rat" where
  "amount_number hundredths = to_double (of_int hundredths / 100)"

section \<open>The error of one operation\<close>

lemma bit_length_bounds: "0 < n \<Longrightarrow> 2 ^ (bit_length n - 1) \<le> n \<and> n < 2 ^ bit_length n \<and> 0 < bit_length n"
proof (induction n rule: bit_length.induct)
  case (1 n)
  show ?case
  proof (cases "n div 2 = 0")
    case True
    then have "n = 1"
      using 1(2) by auto
    then show ?thesis
      by (simp add: bit_length.simps)
  next
    case False
    have ih: "2 ^ (bit_length (n div 2) - 1) \<le> n div 2" "n div 2 < 2 ^ bit_length (n div 2)"
        "0 < bit_length (n div 2)"
      using 1 False by auto
    have len: "bit_length n = Suc (bit_length (n div 2))"
      using 1(2) by (simp add: bit_length.simps [of n])
    have "2 ^ bit_length (n div 2) = 2 * (2::nat) ^ (bit_length (n div 2) - 1)"
      using ih(3) by (metis Suc_diff_1 power_Suc)
    moreover have "2 * (n div 2) \<le> n" "n < 2 * (n div 2) + 2"
      by linarith+
    ultimately show ?thesis
      using ih unfolding len power_Suc diff_Suc_1 by linarith
  qed
qed

lemma round_half_even_error: "\<bar>of_int (round_half_even x) - x\<bar> \<le> 1/2"
proof -
  have "of_int \<lfloor>x\<rfloor> \<le> x" "x < of_int \<lfloor>x\<rfloor> + 1"
    by linarith+
  then show ?thesis
    by (simp add: round_half_even_def Let_def abs_le_iff)
qed

lemma double_exponent_bound:
  assumes "x \<noteq> 0"
  shows "2 ^ 52 \<le> \<bar>x\<bar> / 2 powi double_exponent x"
proof -
  obtain p q where pq: "quotient_of x = (p, q)"
    by (cases "quotient_of x")
  have q: "0 < q" and x: "x = of_int p / of_int q"
    using quotient_of_denom_pos [OF pq] quotient_of_div [OF pq] by auto
  have p: "p \<noteq> 0"
    using assms x by auto
  let ?bp = "bit_length (nat \<bar>p\<bar>)" and ?bq = "bit_length (nat q)"
  let ?k = "int ?bp - int ?bq - 53"
  have bp: "2 ^ (?bp - 1) \<le> nat \<bar>p\<bar>" "0 < ?bp" and bq: "nat q < 2 ^ ?bq"
    using bit_length_bounds [of "nat \<bar>p\<bar>"] bit_length_bounds [of "nat q"] p q by auto
  have P: "(2::rat) ^ (?bp - 1) \<le> of_int \<bar>p\<bar>"
  proof -
    have "int (2 ^ (?bp - 1)) \<le> \<bar>p\<bar>"
      using bp(1) by linarith
    then have "(of_int (int (2 ^ (?bp - 1))) :: rat) \<le> of_int \<bar>p\<bar>"
      by (simp only: of_int_le_iff)
    then show ?thesis by simp
  qed
  have Q: "(of_int q :: rat) \<le> 2 ^ ?bq"
  proof -
    have "q \<le> int (2 ^ ?bq)"
      using bq q by linarith
    then have "(of_int q :: rat) \<le> of_int (int (2 ^ ?bq))"
      by (simp only: of_int_le_iff)
    then show ?thesis by simp
  qed
  have "(2::rat) ^ (?bp - 1) / 2 ^ ?bq \<le> \<bar>x\<bar>"
    unfolding x abs_divide using P Q q by (intro frac_le) auto
  moreover have "(2::rat) ^ (?bp - 1) / 2 ^ ?bq = 2 powi (int ?bp - 1 - int ?bq)"
  proof -
    have "int ?bp - 1 = int (?bp - 1)"
      using bp(2) by simp
    then have "2 powi (int ?bp - 1 - int ?bq) = (2::rat) powi int (?bp - 1) / 2 powi int ?bq"
      by (metis power_int_diff zero_neq_numeral)
    then show ?thesis
      by (simp only: power_int_of_nat)
  qed
  ultimately have low: "2 powi (int ?bp - 1 - int ?bq) \<le> \<bar>x\<bar>"
    by simp
  have scale: "(2::rat) ^ 52 * 2 powi ?k = 2 powi (int ?bp - 1 - int ?bq)"
  proof -
    have "(2::rat) powi (52 + ?k) = 2 powi 52 * 2 powi ?k"
      by (rule power_int_add) simp
    moreover have "52 + ?k = int ?bp - 1 - int ?bq"
      by simp
    ultimately show ?thesis
      by (simp only: power_int_numeral)
  qed
  have first: "2 ^ 52 \<le> \<bar>x\<bar> / 2 powi ?k"
    using low scale by (simp add: pos_le_divide_eq)
  show ?thesis
  proof (cases "\<bar>x\<bar> / 2 powi ?k < 2 ^ 53")
    case True
    then show ?thesis
      using first by (simp add: double_exponent_def pq Let_def)
  next
    case False
    then have "2 ^ 53 * 2 powi ?k \<le> \<bar>x\<bar>"
      by (simp add: pos_le_divide_eq not_less)
    moreover have "(2::rat) powi (?k + 1) = 2 powi ?k * 2"
      by (rule power_int_add_1) simp
    ultimately have "2 ^ 52 * 2 powi (?k + 1) \<le> \<bar>x\<bar>"
      by (simp only:) simp
    then show ?thesis
      using False by (simp add: double_exponent_def pq Let_def pos_le_divide_eq)
  qed
qed

text \<open>The relative error of a rounding is at most \<open>2\<^sup>-\<^sup>5\<^sup>3\<close>.\<close>

lemma to_double_error: "\<bar>to_double x - x\<bar> \<le> \<bar>x\<bar> / 2 ^ 53"
proof (cases "x = 0")
  case False
  let ?u = "(2::rat) powi double_exponent x"
  have u: "0 < ?u"
    by simp
  have "\<bar>to_double x - x\<bar> = \<bar>of_int (round_half_even (x / ?u)) - x / ?u\<bar> * ?u"
    using False u by (simp add: to_double_def abs_mult_pos left_diff_distrib)
  also have "\<dots> \<le> 1/2 * ?u"
    using round_half_even_error u by (intro mult_right_mono) auto
  also have "\<dots> \<le> \<bar>x\<bar> / 2 ^ 53"
    using double_exponent_bound [OF False] u by (simp add: pos_le_divide_eq field_simps)
  finally show ?thesis .
qed (simp add: to_double_def)

lemma to_double_0 [simp]: "to_double 0 = 0"
  by (simp add: to_double_def)

end
