(* ===== verification/Report_Builder.thy ===== *)
theory Report_Builder
  imports Js_Double Js_Date Database
begin

text \<open>The pure half of the reports (\<open>reports/build-bond-report.ts\<close>, \<open>reports/build-bond-health.ts\<close>):
  the report of a bond over a period, the row of the list of bonds and the monthly trend. All
  numbers are doubles (\<open>Js_Double\<close>); an amount comes as the decimal text of its column and is
  given in hundredths. An object keyed by strings is an association list in insertion order.
  Identifiers are lower-case hexadecimal with dashes, for which \<open>localeCompare\<close> is the order of
  the characters.\<close>

section \<open>Rows\<close>

record report_activity_row =
  ra_status :: activity_status
  ra_criticality :: criticality
  ra_deadline :: "instant option"
  ra_assignedTo :: "uuid option"

record report_expense_row =
  re_status :: expense_status
  re_amount :: int
  re_categoryId :: "uuid option"
  re_deletedAt :: "instant option"

record report_category_row =
  rc_id :: uuid
  rc_name :: utf16

record report_child_row =
  rch_id :: uuid
  rch_firstName :: utf16
  rch_lastName :: utf16
  rch_dateOfBirth :: "string option"

record report_member_row =
  rm_userId :: uuid
  rm_firstName :: utf16
  rm_lastName :: utf16
  rm_role :: string

record bond_report_input =
  bri_bondId :: uuid
  bri_bondTitle :: utf16
  bri_dateFrom :: string
  bri_dateTo :: string
  bri_generatedAt :: instant
  bri_activities :: "report_activity_row list"
  bri_expenses :: "report_expense_row list"
  bri_categories :: "report_category_row list"
  bri_children :: "report_child_row list"
  bri_childActivityCounts :: "(uuid \<times> nat) list"
  bri_members :: "report_member_row list"

section \<open>The report\<close>

record activity_section =
  as_total :: nat
  as_completed :: nat
  as_overdue :: nat
  as_completionRate :: rat
  as_byStatus :: "(string \<times> nat) list"
  as_byCriticality :: "(string \<times> nat) list"

record status_bucket =
  sbk_count :: nat
  sbk_amount :: rat

record category_bucket =
  cbk_categoryId :: "uuid option"
  cbk_categoryName :: "utf16 option"
  cbk_count :: nat
  cbk_amount :: rat

record expense_section =
  es_totalAmount :: rat
  es_paidAmount :: rat
  es_pendingAmount :: rat
  es_paidAmountPercentage :: rat
  es_paidCountPercentage :: rat
  es_byStatus :: "(string \<times> status_bucket) list"
  es_byCategory :: "category_bucket list"

record report_child =
  rcd_id :: uuid
  rcd_firstName :: utf16
  rcd_lastName :: utf16
  rcd_dateOfBirth :: "string option"
  rcd_ageInYears :: "int option"
  rcd_activityCount :: nat

record report_member =
  rmb_userId :: uuid
  rmb_firstName :: utf16
  rmb_lastName :: utf16
  rmb_role :: string
  rmb_assigned :: nat
  rmb_completed :: nat
  rmb_completionPercentage :: rat

record bond_report =
  br_bondId :: uuid
  br_bondTitle :: utf16
  br_dateFrom :: string
  br_dateTo :: string
  br_generatedAt :: string
  br_activities :: activity_section
  br_expenses :: expense_section
  br_children :: "report_child list"
  br_members :: "report_member list"

section \<open>Helpers\<close>

definition REPORT_TERMINAL_STATUSES :: "activity_status list" where
  "REPORT_TERMINAL_STATUSES = [DONE, CANCELLED]"

definition isEligibleExpense :: "report_expense_row \<Rightarrow> bool" where
  "isEligibleExpense row \<longleftrightarrow> re_deletedAt row = None \<and> re_status row \<noteq> REJECTED"

definition round2 :: "rat \<Rightarrow> rat" where
  "round2 value0 = js_div (of_int (js_round (js_mul (js_add value0 NUMBER_EPSILON) 100))) 100"

definition percentage :: "rat \<Rightarrow> rat \<Rightarrow> rat" where
  "percentage numerator denominator =
     (if denominator = 0 then 0 else round2 (js_mul (js_div numerator denominator) 100))"

definition ageInYears :: "string option \<Rightarrow> instant \<Rightarrow> int option" where
  "ageInYears dateOfBirth now =
     (case dateOfBirth of None \<Rightarrow> None
      | Some v \<Rightarrow>
          (case js_parse_day v of None \<Rightarrow> None
           | Some born \<Rightarrow>
               (case (civil_from_days (now div ms_per_day), civil_from_days born) of
                  ((ay, am, ad), (by0, bm, bd)) \<Rightarrow>
                    (let monthDiff = am - bm;
                         age = (if monthDiff < 0 \<or> (monthDiff = 0 \<and> ad < bd)
                                then ay - by0 - 1 else ay - by0)
                     in if age < 0 then None else Some age))))"

fun increment :: "string \<Rightarrow> (string \<times> nat) list \<Rightarrow> (string \<times> nat) list" where
  "increment key [] = [(key, 1)]"
| "increment key ((k, n) # bucket) =
     (if k = key then (k, n + 1) # bucket else (k, n) # increment key bucket)"

fun criticality_string :: "criticality \<Rightarrow> string" where
  "criticality_string CRITICAL = ''critical''"
| "criticality_string HIGH = ''high''"
| "criticality_string MEDIUM = ''medium''"
| "criticality_string LOW = ''low''"

text \<open>\<open>rows.reduce((sum, e) => sum + toAmount(e.amount), 0)\<close>\<close>

definition sum_amounts :: "int list \<Rightarrow> rat" where
  "sum_amounts amounts = foldl (\<lambda>sum0 a. js_add sum0 (amount_number a)) 0 amounts"

text \<open>The update of one bucket of an object or a \<open>Map\<close>: in place, or appended when it is new.\<close>

fun upsert :: "'k \<Rightarrow> 'b \<Rightarrow> ('b \<Rightarrow> 'b) \<Rightarrow> ('k \<times> 'b) list \<Rightarrow> ('k \<times> 'b) list" where
  "upsert key fresh f [] = [(key, f fresh)]"
| "upsert key fresh f ((k, b) # buckets) =
     (if k = key then (k, f b) # buckets else (k, b) # upsert key fresh f buckets)"

definition expense_status_buckets :: "report_expense_row list \<Rightarrow> (string \<times> status_bucket) list" where
  "expense_status_buckets expenses =
     foldl (\<lambda>buckets e.
        if re_deletedAt e \<noteq> None then buckets
        else upsert (expense_status_string (re_status e)) \<lparr>sbk_count = 0, sbk_amount = 0\<rparr>
               (\<lambda>b. \<lparr>sbk_count = sbk_count b + 1, sbk_amount = js_add (sbk_amount b) (amount_number (re_amount e))\<rparr>)
               buckets) [] expenses"

definition category_buckets ::
  "report_category_row list \<Rightarrow> report_expense_row list \<Rightarrow> category_bucket list" where
  "category_buckets categories eligible =
     (let names = map_of (rev (map (\<lambda>c. (rc_id c, rc_name c)) categories));
          buckets = foldl (\<lambda>buckets e.
            upsert (re_categoryId e)
              \<lparr>cbk_categoryId = re_categoryId e, cbk_categoryName = Option.bind (re_categoryId e) names,
               cbk_count = 0, cbk_amount = 0\<rparr>
              (\<lambda>b. b\<lparr>cbk_count := cbk_count b + 1,
                     cbk_amount := js_add (cbk_amount b) (amount_number (re_amount e))\<rparr>)
              buckets) [] eligible
      in sort_key (\<lambda>b. (- cbk_amount b, case cbk_categoryId b of Some i \<Rightarrow> i | None \<Rightarrow> []))
           (map (\<lambda>(_, b). b\<lparr>cbk_amount := round2 (cbk_amount b)\<rparr>) buckets))"

section \<open>The builder\<close>

definition report_activities :: "bond_report_input \<Rightarrow> activity_section" where
  "report_activities inp =
     (let activities = bri_activities inp;
          completed = length (filter (\<lambda>a. ra_status a = DONE) activities)
      in \<lparr>as_total = length activities, as_completed = completed,
          as_overdue = length (filter (\<lambda>a. ra_status a \<notin> set REPORT_TERMINAL_STATUSES \<and>
             (case ra_deadline a of Some t \<Rightarrow> t < bri_generatedAt inp | None \<Rightarrow> False)) activities),
          as_completionRate = percentage (of_nat completed) (of_nat (length activities)),
          as_byStatus = foldl (\<lambda>b a. increment (status_string (ra_status a)) b) [] activities,
          as_byCriticality =
            foldl (\<lambda>b a. increment (criticality_string (ra_criticality a)) b) [] activities\<rparr>)"

definition report_expenses :: "bond_report_input \<Rightarrow> expense_section" where
  "report_expenses inp =
     (let eligible = filter isEligibleExpense (bri_expenses inp);
          totalAmount = round2 (sum_amounts (map re_amount eligible));
          paidRows = filter (\<lambda>e. re_status e = PAID) eligible;
          paidAmount = round2 (sum_amounts (map re_amount paidRows));
          pendingAmount = round2 (sum_amounts (map re_amount
            (filter (\<lambda>e. re_status e = PENDING \<or> re_status e = APPROVED) eligible)))
      in \<lparr>es_totalAmount = totalAmount, es_paidAmount = paidAmount, es_pendingAmount = pendingAmount,
          es_paidAmountPercentage = percentage paidAmount totalAmount,
          es_paidCountPercentage = percentage (of_nat (length paidRows)) (of_nat (length eligible)),
          es_byStatus = map (\<lambda>(status, bucket). (status, bucket\<lparr>sbk_amount := round2 (sbk_amount bucket)\<rparr>))
            (expense_status_buckets (bri_expenses inp)),
          es_byCategory = category_buckets (bri_categories inp) eligible\<rparr>)"

definition report_children :: "bond_report_input \<Rightarrow> report_child list" where
  "report_children inp =
     map (\<lambda>c. \<lparr>rcd_id = rch_id c, rcd_firstName = rch_firstName c, rcd_lastName = rch_lastName c,
        rcd_dateOfBirth = rch_dateOfBirth c,
        rcd_ageInYears = ageInYears (rch_dateOfBirth c) (bri_generatedAt inp),
        rcd_activityCount = (case map_of (bri_childActivityCounts inp) (rch_id c) of
           Some n \<Rightarrow> n | None \<Rightarrow> 0)\<rparr>) (bri_children inp)"

definition report_members :: "bond_report_input \<Rightarrow> report_member list" where
  "report_members inp =
     map (\<lambda>m.
       let assigned = filter (\<lambda>a. ra_assignedTo a = Some (rm_userId m)) (bri_activities inp);
           completed = filter (\<lambda>a. ra_status a = DONE) assigned
       in \<lparr>rmb_userId = rm_userId m, rmb_firstName = rm_firstName m, rmb_lastName = rm_lastName m,
           rmb_role = rm_role m, rmb_assigned = length assigned, rmb_completed = length completed,
           rmb_completionPercentage = percentage (of_nat (length completed)) (of_nat (length assigned))\<rparr>)
       (bri_members inp)"

definition buildBondReport :: "bond_report_input \<Rightarrow> bond_report" where
  "buildBondReport inp =
     \<lparr>br_bondId = bri_bondId inp, br_bondTitle = bri_bondTitle inp, br_dateFrom = bri_dateFrom inp,
      br_dateTo = bri_dateTo inp, br_generatedAt = toISOString (bri_generatedAt inp),
      br_activities = report_activities inp, br_expenses = report_expenses inp,
      br_children = report_children inp, br_members = report_members inp\<rparr>"

section \<open>Health and trend\<close>

record bond_health_aggregates =
  ag_activitiesTotal :: nat
  ag_activitiesCompleted :: nat
  ag_expensesEligibleAmount :: rat
  ag_expensesPaidAmount :: rat
  ag_childrenCount :: nat
  ag_membersCount :: nat

record bond_health_row =
  bh_bondId :: uuid
  bh_title :: utf16
  bh_agreementType :: agreement_type
  bh_isActive :: bool
  bh_membersCount :: nat
  bh_childrenCount :: nat
  bh_activitiesTotal :: nat
  bh_completionRate :: rat
  bh_paidAmountPercentage :: rat

definition EMPTY_AGGREGATES :: bond_health_aggregates where
  "EMPTY_AGGREGATES =
     \<lparr>ag_activitiesTotal = 0, ag_activitiesCompleted = 0, ag_expensesEligibleAmount = 0,
      ag_expensesPaidAmount = 0, ag_childrenCount = 0, ag_membersCount = 0\<rparr>"

definition buildBondHealthRow :: "bond_row \<Rightarrow> bond_health_aggregates option \<Rightarrow> bond_health_row" where
  "buildBondHealthRow b given =
     (let aggregates = (case given of Some x \<Rightarrow> x | None \<Rightarrow> EMPTY_AGGREGATES) in
      \<lparr>bh_bondId = bond_id b, bh_title = bond_title b, bh_agreementType = bond_agreementType b,
       bh_isActive = bond_isActive b, bh_membersCount = ag_membersCount aggregates,
       bh_childrenCount = ag_childrenCount aggregates,
       bh_activitiesTotal = ag_activitiesTotal aggregates,
       bh_completionRate = percentage (of_nat (ag_activitiesCompleted aggregates))
         (of_nat (ag_activitiesTotal aggregates)),
       bh_paidAmountPercentage = percentage (ag_expensesPaidAmount aggregates)
         (ag_expensesEligibleAmount aggregates)\<rparr>)"

record bond_trend_aggregate_row =
  ta_month :: string
  ta_activitiesTotal :: nat
  ta_activitiesCompleted :: nat

record bond_trend_point =
  tp_month :: string
  tp_activitiesTotal :: nat
  tp_completionRate :: rat

text \<open>A month is counted from year 0; \<open>Date.UTC(y, m, 1)\<close> normalises a month outside the year.\<close>

definition month_number :: "instant \<Rightarrow> int" where
  "month_number t = (case civil_from_days (t div ms_per_day) of (y, m, _) \<Rightarrow> 12 * y + (m - 1))"

definition month_start :: "int \<Rightarrow> instant" where
  "month_start n = days_from_civil (n div 12) (n mod 12 + 1) 1 * ms_per_day"

definition monthKey :: "instant \<Rightarrow> string" where
  "monthKey date =
     (case civil_from_days (date div ms_per_day) of (y, m, _) \<Rightarrow>
        (if y < 0 then CHR ''-'' # decimal (nat (- y)) else decimal (nat y)) @ ''-'' @
        pad_start 2 (decimal (nat m)))"

definition buildBondTrend :: "bond_trend_aggregate_row list \<Rightarrow> nat \<Rightarrow> instant \<Rightarrow> bond_trend_point list" where
  "buildBondTrend rows months reference =
     (let byMonth = map_of (rev (map (\<lambda>r. (ta_month r, r)) rows)) in
      map (\<lambda>offset.
        let key = monthKey (month_start (month_number reference - int offset)) in
        case byMonth key of
          Some row \<Rightarrow> \<lparr>tp_month = key, tp_activitiesTotal = ta_activitiesTotal row,
             tp_completionRate = percentage (of_nat (ta_activitiesCompleted row))
               (of_nat (ta_activitiesTotal row))\<rparr>
        | None \<Rightarrow> \<lparr>tp_month = key, tp_activitiesTotal = 0, tp_completionRate = percentage 0 0\<rparr>)
        (rev [0..<months]))"

definition clampPaidPercentage :: "rat \<Rightarrow> rat" where
  "clampPaidPercentage value0 = min 100 (round2 value0)"

end
