(* ===== verification/Storage.thy ===== *)
theory Storage
  imports Js_Text
begin

text \<open>The object storage (\<open>storage/storage.service.ts\<close>): paths in two buckets of a Supabase
  project. The client of Supabase is a parameter: a state and, per call the service makes, its
  answer on that state (no value for an error or a missing url).\<close>

section \<open>The client\<close>

record ('s, 'b) supabase =
  sb_createSignedUploadUrl :: "'s \<Rightarrow> string \<Rightarrow> utf16 \<Rightarrow> string option"
  sb_list :: "'s \<Rightarrow> string \<Rightarrow> utf16 \<Rightarrow> utf16 \<Rightarrow> nat \<Rightarrow> utf16 list option"
  sb_createSignedUrl :: "'s \<Rightarrow> string \<Rightarrow> utf16 \<Rightarrow> nat \<Rightarrow> string option"
  sb_remove :: "'s \<Rightarrow> string \<Rightarrow> utf16 list \<Rightarrow> bool \<times> 's"
  sb_upload :: "'s \<Rightarrow> string \<Rightarrow> utf16 \<Rightarrow> 'b \<Rightarrow> string \<Rightarrow> bool \<times> 's"

text \<open>The service: its client, missing when the project is not configured, and its buckets.\<close>

record ('s, 'b) storage_service =
  ss_supabase :: "('s, 'b) supabase option"
  ss_bucket :: string
  ss_reportsBucket :: string

definition config_or :: "string option \<Rightarrow> string \<Rightarrow> string" where
  "config_or given fallback = (case given of Some v \<Rightarrow> if v = [] then fallback else v | None \<Rightarrow> fallback)"

definition storage_service_of ::
  "('s, 'b) supabase option \<Rightarrow> string option \<Rightarrow> string option \<Rightarrow> ('s, 'b) storage_service" where
  "storage_service_of client attachmentsBucket reportsBucket =
     \<lparr>ss_supabase = client,
      ss_bucket = config_or attachmentsBucket ''activity-attachments'',
      ss_reportsBucket = config_or reportsBucket ''reports''\<rparr>"

section \<open>Operations\<close>

definition createSignedUploadUrl ::
  "('s, 'b) storage_service \<Rightarrow> 's \<Rightarrow> utf16 \<Rightarrow> (string \<times> utf16) option" where
  "createSignedUploadUrl st s path =
     (case ss_supabase st of None \<Rightarrow> None
      | Some client \<Rightarrow>
          map_option (\<lambda>url. (url, path)) (sb_createSignedUploadUrl client s (ss_bucket st) path))"

definition slash :: "16 word" where
  "slash = 47"

definition objectExists :: "('s, 'b) storage_service \<Rightarrow> 's \<Rightarrow> utf16 \<Rightarrow> bool" where
  "objectExists st s path =
     (case ss_supabase st of None \<Rightarrow> False
      | Some client \<Rightarrow>
          (let parts = split_at slash path; dir = join [slash] (butlast parts); name = last parts in
           case sb_list client s (ss_bucket st) dir name 1 of
             None \<Rightarrow> False | Some found \<Rightarrow> list_ex (\<lambda>f. f = name) found))"

definition DOWNLOAD_SECONDS :: nat where
  "DOWNLOAD_SECONDS = 900"

definition createSignedDownloadUrl ::
  "('s, 'b) storage_service \<Rightarrow> 's \<Rightarrow> utf16 \<Rightarrow> string option" where
  "createSignedDownloadUrl st s path =
     (case ss_supabase st of None \<Rightarrow> None
      | Some client \<Rightarrow> sb_createSignedUrl client s (ss_bucket st) path DOWNLOAD_SECONDS)"

definition removeObject :: "('s, 'b) storage_service \<Rightarrow> utf16 \<Rightarrow> 's \<Rightarrow> bool \<times> 's" where
  "removeObject st path s =
     (case ss_supabase st of None \<Rightarrow> (False, s)
      | Some client \<Rightarrow> sb_remove client s (ss_bucket st) [path])"

definition uploadObject ::
  "('s, 'b) storage_service \<Rightarrow> utf16 \<Rightarrow> 'b \<Rightarrow> string \<Rightarrow> 's \<Rightarrow> utf16 option \<times> 's" where
  "uploadObject st path body contentType s =
     (case ss_supabase st of None \<Rightarrow> (None, s)
      | Some client \<Rightarrow>
          (case sb_upload client s (ss_reportsBucket st) path body contentType of
             (ok, s') \<Rightarrow> (if ok then Some path else None, s')))"

definition createSignedReportDownloadUrl ::
  "('s, 'b) storage_service \<Rightarrow> 's \<Rightarrow> utf16 \<Rightarrow> string option" where
  "createSignedReportDownloadUrl st s path =
     (case ss_supabase st of None \<Rightarrow> None
      | Some client \<Rightarrow> sb_createSignedUrl client s (ss_reportsBucket st) path DOWNLOAD_SECONDS)"

end
