(* ===== verification/Reports.thy ===== *)
theory Reports
  imports Report_Builder Bonds Storage
begin

text \<open>The reports (\<open>reports/\<close>): the reads of the report of a bond and of the list of bonds, the
  services that answer them, and the life of a PDF report (the request that inserts the row and
  enqueues a job, the worker that renders, uploads and closes it, the view with a signed link).
  A date the client sends is a text; \<open>new Date\<close> of one that is not a day is an invalid date,
  which throws when it is printed or sent to the database (\<open>internal_error\<close>).\<close>

section \<open>Dates of a period\<close>

definition addDaysToIsoDate :: "string \<Rightarrow> int \<Rightarrow> string option" where
  "addDaysToIsoDate date days =
     map_option (\<lambda>z. take 10 (toISOString ((z + days) * ms_per_day))) (js_parse_day date)"

definition midnight :: "string \<Rightarrow> instant option" where
  "midnight date = map_option (\<lambda>z. z * ms_per_day) (js_parse_day date)"

text \<open>A text the database takes for a date: a day of the calendar.\<close>

definition is_calendar_day :: "string \<Rightarrow> bool" where
  "is_calendar_day v = (case js_parse_day v of Some z \<Rightarrow> day_string z = v | None \<Rightarrow> False)"

definition isoDay :: "instant \<Rightarrow> string" where
  "isoDay t = take 10 (toISOString t)"

section \<open>The reads of one report\<close>

definition findReportBond :: "db \<Rightarrow> uuid \<Rightarrow> bond_row option" where
  "findReportBond d bondId = lookup_by bond_id bondId (db_bonds d)"

text \<open>\<open>COALESCE(a.scheduledStart, a.createdAt)\<close>\<close>

definition reference_instant :: "activity_row \<Rightarrow> instant" where
  "reference_instant a = (case act_scheduledStart a of Some t \<Rightarrow> t | None \<Rightarrow> act_createdAt a)"

definition in_window :: "instant \<Rightarrow> instant \<Rightarrow> activity_row \<Rightarrow> bool" where
  "in_window from to a \<longleftrightarrow> act_deletedAt a = None \<and>
     from \<le> reference_instant a \<and> reference_instant a < to"

definition findActivities :: "db \<Rightarrow> uuid \<Rightarrow> instant \<Rightarrow> instant \<Rightarrow> activity_row list" where
  "findActivities d bondId from toExclusive =
     filter (\<lambda>a. act_bondId a = bondId \<and> in_window from toExclusive a) (db_activities d)"

definition findExpenses :: "db \<Rightarrow> uuid \<Rightarrow> string \<Rightarrow> string \<Rightarrow> expense_row list" where
  "findExpenses d bondId fromDate toExclusiveDate =
     filter (\<lambda>x. exp_bondId x = bondId \<and> fromDate \<le> exp_expenseDate x \<and>
        exp_expenseDate x < toExclusiveDate) (db_expenses d)"

definition findCategoriesByIds :: "db \<Rightarrow> uuid list \<Rightarrow> category_row list" where
  "findCategoriesByIds d ids =
     (if ids = [] then [] else filter (\<lambda>c. cat_id c \<in> set ids) (db_categories d))"

definition findReportChildren :: "db \<Rightarrow> uuid \<Rightarrow> child_row list" where
  "findReportChildren d bondId =
     rev (sort_key child_createdAt (rev (filter (\<lambda>c. child_bondId c = bondId) (db_children d))))"

definition findChildActivityCounts :: "db \<Rightarrow> uuid \<Rightarrow> instant \<Rightarrow> instant \<Rightarrow> (uuid \<times> nat) list" where
  "findChildActivityCounts d bondId from toExclusive =
     (let acts = findActivities d bondId from toExclusive;
          joined = filter (\<lambda>ac. list_ex (\<lambda>a. act_id a = ac_activityId ac) acts) (db_activity_children d)
      in map (\<lambda>c. (c, length (remdups (map ac_activityId (filter (\<lambda>ac. ac_childId ac = c) joined)))))
           (remdups (map ac_childId joined)))"

definition findReportMembers :: "db \<Rightarrow> uuid \<Rightarrow> member_row list" where
  "findReportMembers d bondId =
     filter (\<lambda>m. mem_bondId m = bondId \<and> mem_leftAt m = None) (db_members d)"

section \<open>The report of a bond\<close>

definition name_part :: "(personal_data_row \<Rightarrow> utf16) \<Rightarrow> db \<Rightarrow> uuid \<Rightarrow> utf16" where
  "name_part part d userId =
     (case lookup_by pd_userId userId (db_personal d) of Some p \<Rightarrow> part p | None \<Rightarrow> [])"

definition report_input ::
  "db \<Rightarrow> bond_row \<Rightarrow> string \<Rightarrow> string \<Rightarrow> instant \<Rightarrow> instant \<Rightarrow> string \<Rightarrow> instant \<Rightarrow> bond_report_input" where
  "report_input d b dateFrom dateTo fromInstant toInstant toExclusiveDate generatedAt =
     (let bondId = bond_id b; expenses = findExpenses d bondId dateFrom toExclusiveDate;
          categories = findCategoriesByIds d (List.map_filter exp_categoryId expenses)
      in \<lparr>bri_bondId = bond_id b, bri_bondTitle = bond_title b, bri_dateFrom = dateFrom,
          bri_dateTo = dateTo, bri_generatedAt = generatedAt,
          bri_activities = map (\<lambda>a. \<lparr>ra_status = act_status a, ra_criticality = act_criticality a,
             ra_deadline = act_deadline a, ra_assignedTo = act_assignedTo a\<rparr>)
             (findActivities d bondId fromInstant toInstant),
          bri_expenses = map (\<lambda>x. \<lparr>re_status = exp_status x, re_amount = exp_amount x,
             re_categoryId = exp_categoryId x, re_deletedAt = exp_deletedAt x\<rparr>) expenses,
          bri_categories = map (\<lambda>c. \<lparr>rc_id = cat_id c, rc_name = cat_name c\<rparr>) categories,
          bri_children = map (\<lambda>c. \<lparr>rch_id = child_id c, rch_firstName = child_firstName c,
             rch_lastName = child_lastName c, rch_dateOfBirth = child_dateOfBirth c\<rparr>)
             (findReportChildren d bondId),
          bri_childActivityCounts = findChildActivityCounts d bondId fromInstant toInstant,
          bri_members = map (\<lambda>m. \<lparr>rm_userId = mem_userId m,
             rm_firstName = name_part pd_firstName d (mem_userId m),
             rm_lastName = name_part pd_lastName d (mem_userId m),
             rm_role = role_string (mem_role m)\<rparr>) (findReportMembers d bondId)\<rparr>)"

definition bondNotFound :: "uuid \<Rightarrow> http_error" where
  "bondNotFound bondId = notFoundException (''Bond '' @ bondId @ '' not found'')"

definition periodReversed :: http_error where
  "periodReversed = badRequestException ''dateTo must be on or after dateFrom''"

definition build :: "db \<Rightarrow> env \<Rightarrow> uuid \<Rightarrow> string \<Rightarrow> string \<Rightarrow> http_error + bond_report" where
  "build d e bondId dateFrom dateTo =
     chain (ensure (\<not> dateTo < dateFrom) periodReversed) (\<lambda>_.
     chain (some_or (findReportBond d bondId) (bondNotFound bondId)) (\<lambda>b.
     chain (some_or (addDaysToIsoDate dateTo 1) internal_error) (\<lambda>toExclusiveDate.
     chain (some_or (midnight dateFrom) internal_error) (\<lambda>fromInstant.
     chain (some_or (midnight toExclusiveDate) internal_error) (\<lambda>toInstant.
     chain (ensure (is_calendar_day dateFrom) internal_error) (\<lambda>_.
       Inr (buildBondReport (report_input d b dateFrom dateTo fromInstant toInstant toExclusiveDate
         (env_clock e 0)))))))))"

section \<open>The health of all bonds\<close>

definition findBonds :: "db \<Rightarrow> bond_row list" where
  "findBonds d = rev (sort_key bond_createdAt (rev (db_bonds d)))"

text \<open>One grouped query: a row per bond that has rows. The map is folded over the four queries in
  their order, each overwriting its own counts; amounts are summed exactly by the database and
  arrive as text.\<close>

definition group_ids :: "('r \<Rightarrow> uuid) \<Rightarrow> uuid list \<Rightarrow> 'r list \<Rightarrow> uuid list" where
  "group_ids key ids rows = remdups (filter (\<lambda>i. i \<in> set ids) (map key rows))"

definition merge_groups ::
  "uuid list \<Rightarrow> (uuid \<Rightarrow> bond_health_aggregates \<Rightarrow> bond_health_aggregates) \<Rightarrow>
   (uuid \<rightharpoonup> bond_health_aggregates) \<Rightarrow> (uuid \<rightharpoonup> bond_health_aggregates)" where
  "merge_groups groups f result =
     fold (\<lambda>i m. m(i \<mapsto> f i (case m i of Some x \<Rightarrow> x | None \<Rightarrow> EMPTY_AGGREGATES))) groups result"

definition sum_hundredths :: "expense_row list \<Rightarrow> int" where
  "sum_hundredths xs = sum_list (map exp_amount xs)"

definition aggregatesByBond ::
  "db \<Rightarrow> uuid list \<Rightarrow> instant \<Rightarrow> instant \<Rightarrow> (uuid \<rightharpoonup> bond_health_aggregates)" where
  "aggregatesByBond d bondIds fromInstant toExclusiveInstant =
     (let acts = filter (in_window fromInstant toExclusiveInstant) (db_activities d);
          exps = filter (\<lambda>x. exp_deletedAt x = None \<and> isoDay fromInstant \<le> exp_expenseDate x \<and>
             exp_expenseDate x < isoDay toExclusiveInstant) (db_expenses d);
          members = filter (\<lambda>m. mem_leftAt m = None) (db_members d);
          of_bond = (\<lambda>i a. act_bondId a = i);
          exp_of = (\<lambda>i x. exp_bondId x = i)
      in (merge_groups (group_ids mem_bondId bondIds members)
            (\<lambda>i ag. ag\<lparr>ag_membersCount := length (filter (\<lambda>m. mem_bondId m = i) members)\<rparr>)
          \<circ> merge_groups (group_ids child_bondId bondIds (db_children d))
            (\<lambda>i ag. ag\<lparr>ag_childrenCount := length (filter (\<lambda>c. child_bondId c = i) (db_children d))\<rparr>)
          \<circ> merge_groups (group_ids exp_bondId bondIds exps)
            (\<lambda>i ag. ag\<lparr>ag_expensesEligibleAmount := amount_number
                  (sum_hundredths (filter (\<lambda>x. exp_of i x \<and> exp_status x \<noteq> REJECTED) exps)),
                ag_expensesPaidAmount := amount_number
                  (sum_hundredths (filter (\<lambda>x. exp_of i x \<and> exp_status x = PAID) exps))\<rparr>)
          \<circ> merge_groups (group_ids act_bondId bondIds acts)
            (\<lambda>i ag. ag\<lparr>ag_activitiesTotal := length (filter (of_bond i) acts),
                ag_activitiesCompleted := length (filter (\<lambda>a. of_bond i a \<and> act_status a = DONE) acts)\<rparr>))
         Map.empty)"

text \<open>The window: the order of the texts is checked first. An invalid \<open>from\<close> fails in the first
  query, which is not made when there are no bonds.\<close>

definition health_window :: "string \<Rightarrow> string \<Rightarrow> http_error + (instant option \<times> instant option)" where
  "health_window dateFrom dateTo =
     chain (ensure (\<not> dateTo < dateFrom) periodReversed) (\<lambda>_.
     chain (some_or (addDaysToIsoDate dateTo 1) internal_error) (\<lambda>next0.
       Inr (midnight dateFrom, midnight next0)))"

definition health :: "db \<Rightarrow> string \<Rightarrow> string \<Rightarrow> http_error + bond_health_row list" where
  "health d dateFrom dateTo =
     chain (health_window dateFrom dateTo) (\<lambda>(from, to).
       (let bonds = findBonds d in
        if bonds = [] then Inr []
        else chain (some_or from internal_error) (\<lambda>f.
             chain (some_or to internal_error) (\<lambda>t.
               (let aggregates = aggregatesByBond d (map bond_id bonds) f t in
                Inr (map (\<lambda>b. buildBondHealthRow b (aggregates (bond_id b))) bonds))))))"

section \<open>The monthly trend\<close>

text \<open>\<open>to_char(date_trunc('month', \<dots>), 'YYYY-MM')\<close> truncates in the time zone of the session of
  the database, a parameter: its offset at an instant.\<close>

definition session_month :: "(instant \<Rightarrow> int) \<Rightarrow> instant \<Rightarrow> string" where
  "session_month zone t = take 7 (day_string ((t + zone t) div ms_per_day))"

definition trendByMonth ::
  "(instant \<Rightarrow> int) \<Rightarrow> db \<Rightarrow> uuid \<Rightarrow> instant \<Rightarrow> instant \<Rightarrow> bond_trend_aggregate_row list" where
  "trendByMonth zone d bondId from toExclusive =
     (let acts = findActivities d bondId from toExclusive;
          month = (\<lambda>a. session_month zone (reference_instant a))
      in map (\<lambda>k. \<lparr>ta_month = k, ta_activitiesTotal = length (filter (\<lambda>a. month a = k) acts),
              ta_activitiesCompleted = length (filter (\<lambda>a. month a = k \<and> act_status a = DONE) acts)\<rparr>)
           (sort (remdups (map month acts))))"

definition DEFAULT_TREND_MONTHS :: int where
  "DEFAULT_TREND_MONTHS = 6"

definition trend ::
  "(instant \<Rightarrow> int) \<Rightarrow> db \<Rightarrow> env \<Rightarrow> uuid \<Rightarrow> int option \<Rightarrow> http_error + (uuid \<times> bond_trend_point list)" where
  "trend zone d e bondId given =
     (let months = (case given of Some n \<Rightarrow> n | None \<Rightarrow> DEFAULT_TREND_MONTHS) in
      chain (ensure (\<not> (months < 1 \<or> months > 12))
              (badRequestException ''months must be between 1 and 12'')) (\<lambda>_.
      chain (some_or (findReportBond d bondId) (bondNotFound bondId)) (\<lambda>_.
        (let now = env_clock e 0;
             from = month_start (month_number now - (months - 1));
             toExclusive = month_start (month_number now + 1)
         in Inr (bondId, buildBondTrend (trendByMonth zone d bondId from toExclusive) (nat months) now)))))"

section \<open>PDF reports\<close>

definition findReportById :: "db \<Rightarrow> uuid \<Rightarrow> report_row option" where
  "findReportById d i = lookup_by rep_id i (db_reports d)"

definition list_report_rows :: "db \<Rightarrow> uuid option \<Rightarrow> report_row list" where
  "list_report_rows d bondId =
     rev (sort_key rep_createdAt (rev (filter (\<lambda>r. case bondId of Some b \<Rightarrow> rep_bondId r = b | None \<Rightarrow> True)
       (db_reports d))))"

definition markCompleted :: "uuid \<Rightarrow> utf16 \<Rightarrow> instant \<Rightarrow> uuid \<Rightarrow> db \<Rightarrow> db" where
  "markCompleted i fileUrl generatedAt generatedBy d =
     d\<lparr>db_reports := update_by rep_id i (\<lambda>r. r\<lparr>rep_status := R_COMPLETED, rep_fileUrl := Some fileUrl,
        rep_generatedAt := Some generatedAt, rep_generatedBy := Some generatedBy\<rparr>) (db_reports d)\<rparr>"

text \<open>The producer. \<open>accepts\<close> says whether \<open>Queue.add\<close> takes a job with a custom id or throws; a
  failure is logged and swallowed. A waiting job is the id of its report.\<close>

definition report_job_id :: "uuid \<Rightarrow> string" where
  "report_job_id reportId = ''report-pdf:'' @ reportId"

definition enqueue_report :: "(string \<Rightarrow> bool) \<Rightarrow> uuid \<Rightarrow> uuid list \<Rightarrow> uuid list" where
  "enqueue_report accepts reportId jobs =
     (if accepts (report_job_id reportId) then jobs @ [reportId] else jobs)"

record report_ticket =
  rt_id :: uuid
  rt_status :: report_status
  rt_bondId :: uuid
  rt_dateFrom :: string
  rt_dateTo :: string

text \<open>\<open>date_column\<close> is how the database reads a text for a column of type \<open>date\<close>: no value for a
  text that it refuses.\<close>

definition requestPdf ::
  "(string \<Rightarrow> string option) \<Rightarrow> (string \<Rightarrow> bool) \<Rightarrow> env \<Rightarrow> uuid \<Rightarrow> string \<Rightarrow> string \<Rightarrow> uuid \<Rightarrow> db \<times> uuid list \<Rightarrow>
   (http_error + report_ticket) \<times> db \<times> uuid list" where
  "requestPdf date_column accepts e bondId dateFrom dateTo requestedBy st =
     (case st of (d, jobs) \<Rightarrow>
       (if dateTo < dateFrom then (Inl periodReversed, d, jobs)
        else if findReportBond d bondId = None then (Inl (bondNotFound bondId), d, jobs)
        else (case (date_column dateFrom, date_column dateTo) of
            (Some from, Some to) \<Rightarrow>
              (let row = \<lparr>rep_id = env_uuid e 0, rep_bondId = bondId, rep_requestedBy = requestedBy,
                     rep_generatedBy = None, rep_dateFrom = from, rep_dateTo = to,
                     rep_status = R_REQUESTED, rep_fileUrl = None, rep_generatedAt = None,
                     rep_createdAt = env_dbnow e\<rparr>
               in (Inr \<lparr>rt_id = rep_id row, rt_status = rep_status row, rt_bondId = bondId,
                        rt_dateFrom = dateFrom, rt_dateTo = dateTo\<rparr>,
                   d\<lparr>db_reports := db_reports d @ [row]\<rparr>,
                   enqueue_report accepts (rep_id row) jobs))
          | _ \<Rightarrow> (Inl internal_error, d, jobs))))"

definition report_isFinished :: "report_status \<Rightarrow> bool" where
  "report_isFinished status \<longleftrightarrow> status = R_COMPLETED \<or> status = R_DELIVERED"

definition reportNotFound :: "uuid \<Rightarrow> http_error" where
  "reportNotFound i = notFoundException (''Report '' @ i @ '' not found'')"

record report_view =
  rv_id :: uuid
  rv_bondId :: uuid
  rv_status :: report_status
  rv_dateFrom :: string
  rv_dateTo :: string
  rv_fileUrl :: "string option"
  rv_generatedAt :: "instant option"
  rv_createdAt :: instant

definition report_toView :: "('s, 'b) storage_service \<Rightarrow> 's \<Rightarrow> report_row \<Rightarrow> report_view" where
  "report_toView st s r =
     \<lparr>rv_id = rep_id r, rv_bondId = rep_bondId r, rv_status = rep_status r,
      rv_dateFrom = rep_dateFrom r, rv_dateTo = rep_dateTo r,
      rv_fileUrl =
        (if report_isFinished (rep_status r)
         then (case rep_fileUrl r of Some f \<Rightarrow>
                 if f = [] then None else createSignedReportDownloadUrl st s f | None \<Rightarrow> None)
         else None),
      rv_generatedAt = rep_generatedAt r, rv_createdAt = rep_createdAt r\<rparr>"

definition getReport :: "('s, 'b) storage_service \<Rightarrow> 's \<Rightarrow> db \<Rightarrow> uuid \<Rightarrow> http_error + report_view" where
  "getReport st s d i =
     chain (some_or (findReportById d i) (reportNotFound i)) (\<lambda>r. Inr (report_toView st s r))"

definition listReports :: "('s, 'b) storage_service \<Rightarrow> 's \<Rightarrow> db \<Rightarrow> uuid option \<Rightarrow> report_view list" where
  "listReports st s d bondId = map (report_toView st s) (list_report_rows d bondId)"

definition report_path :: "report_row \<Rightarrow> utf16" where
  "report_path r = js (''reports/'' @ rep_bondId r @ ''/'' @ rep_id r @ ''.pdf'')"

text \<open>The worker: it reads on \<open>d0\<close> and closes the report on \<open>d\<close>. \<open>render\<close> is the PDF library: no
  value when it rejects.\<close>

definition generatePdf ::
  "('s, 'b) storage_service \<Rightarrow> (bond_report \<Rightarrow> 'b option) \<Rightarrow> env \<Rightarrow> uuid \<Rightarrow> db \<Rightarrow> db \<times> 's \<Rightarrow>
   (http_error + unit) \<times> db \<times> 's" where
  "generatePdf st render e reportId d0 ds =
     (case ds of (d, s) \<Rightarrow>
       (case findReportById d0 reportId of
          None \<Rightarrow> (Inl (reportNotFound reportId), d, s)
        | Some report \<Rightarrow>
            if report_isFinished (rep_status report) then (Inr (), d, s)
            else (case build d0 e (rep_bondId report) (rep_dateFrom report) (rep_dateTo report) of
                    Inl err \<Rightarrow> (Inl err, d, s)
                  | Inr data \<Rightarrow>
                      (case render data of
                         None \<Rightarrow> (Inl internal_error, d, s)
                       | Some pdf \<Rightarrow>
                           (case uploadObject st (report_path report) pdf ''application/pdf'' s of
                              (None, s') \<Rightarrow> (Inl internal_error, d, s')
                            | (Some stored, s') \<Rightarrow>
                                (Inr (), markCompleted (rep_id report) stored (env_clock e 1)
                                           (rep_requestedBy report) d, s'))))))"

end
