(* ===== verification/Report_Numbers.thy ===== *)
theory Report_Numbers
  imports Report_Builder
begin

text \<open>Facts about the numbers of the reports: rounding to two decimals undoes the error of the sums
  in doubles, so that a sum of amounts is the double of the exact sum; a percentage lies between
  0 and 100 and reaches its ends only where the counts do.\<close>

section \<open>Rounding to two decimals\<close>

lemma js_round_near: "\<bar>x - of_int a\<bar> < 1/2 \<Longrightarrow> js_round x = a"
  unfolding js_round_def by (rule floor_unique) linarith+

text \<open>The powers are written out for the arithmetic: \<open>2^53 = 9007199254740992\<close>,
  \<open>2^52 = 4503599627370496\<close>, \<open>2^50 = 1125899906842624\<close>, \<open>2^48 = 281474976710656\<close> and
  \<open>2^43 = 8796093022208\<close>.\<close>

lemma to_double_near: "\<bar>to_double x - x\<bar> \<le> \<bar>x\<bar> / 9007199254740992"
  using to_double_error [of x] by simp

lemma to_double_bounds: "x - \<bar>x\<bar> / 9007199254740992 \<le> to_double x" "to_double x \<le> x + \<bar>x\<bar> / 9007199254740992"
  using to_double_near [of x] by linarith+

text \<open>What \<open>round2\<close> rounds, for an argument within \<open>2^43\<close>: the argument in hundredths, up to a
  quarter.\<close>

lemma round2_argument:
  assumes "0 \<le> v" "v \<le> 8796093022208"
  shows "\<bar>js_mul (js_add v NUMBER_EPSILON) 100 - 100 * v\<bar> \<le> 1/4"
proof -
  define s where "s = v + NUMBER_EPSILON"
  define t where "t = to_double s"
  have eps: "0 \<le> NUMBER_EPSILON" "NUMBER_EPSILON \<le> 1 / 4503599627370496"
    by (simp_all add: NUMBER_EPSILON_def)
  have s: "0 \<le> s" "v \<le> s" "s \<le> v + 1 / 4503599627370496"
    using assms eps by (auto simp: s_def)
  have t: "s - s / 9007199254740992 \<le> t" "t \<le> s + s / 9007199254740992"
    using to_double_bounds [of s] s(1) by (auto simp: t_def)
  have t0: "0 \<le> t"
    using t(1) s(1) by linarith
  have m: "t * 100 - t * 100 / 9007199254740992 \<le> to_double (t * 100)"
      "to_double (t * 100) \<le> t * 100 + t * 100 / 9007199254740992"
    using to_double_bounds [of "t * 100"] t0 by auto
  have "js_mul (js_add v NUMBER_EPSILON) 100 = to_double (t * 100)"
    by (simp add: js_mul_def js_add_def t_def s_def)
  then show ?thesis
    using m t s assms by linarith
qed

lemma round2_near:
  assumes "\<bar>v - of_int a / 100\<bar> \<le> 1 / 500" "0 \<le> v" "v \<le> 8796093022208"
  shows "round2 v = amount_number a"
proof -
  have "\<bar>100 * v - of_int a\<bar> \<le> 1/5"
    using assms(1) by linarith
  then have "\<bar>js_mul (js_add v NUMBER_EPSILON) 100 - of_int a\<bar> < 1/2"
    using round2_argument [OF assms(2,3)] by linarith
  then have "js_round (js_mul (js_add v NUMBER_EPSILON) 100) = a"
    by (rule js_round_near)
  then show ?thesis
    by (simp add: round2_def js_div_def amount_number_def)
qed

section \<open>Sums of amounts\<close>

lemma sum_amounts_snoc: "sum_amounts (xs @ [a]) = js_add (sum_amounts xs) (amount_number a)"
  by (simp add: sum_amounts_def)

lemma sum_step_error:
  fixes k h s a :: rat
  assumes s: "\<bar>s - g\<bar> \<le> 4 * k * g / 9007199254740992" and g: "0 \<le> g" and a: "0 \<le> a"
    and k: "0 \<le> k" "k \<le> 1125899906842624"
  shows "\<bar>to_double (s + to_double a) - (g + a)\<bar> \<le> 4 * (k + 1) * (g + a) / 9007199254740992"
proof -
  define p where "p = k * g"
  define q where "q = k * a"
  have pq: "0 \<le> p" "p \<le> 1125899906842624 * g" "0 \<le> q"
    unfolding p_def q_def using k g a by (auto intro: mult_right_mono)
  let ?x = "s + to_double a"
  have goal: "4 * (k + 1) * (g + a) = 4 * p + 4 * q + 4 * g + 4 * a"
    by (simp add: p_def q_def algebra_simps)
  have s': "\<bar>s - g\<bar> \<le> 4 * p / 9007199254740992"
    using s by (simp add: p_def mult.assoc)
  have ta: "\<bar>to_double a - a\<bar> \<le> a / 9007199254740992"
    using to_double_near [of a] a by simp
  have x: "\<bar>?x - (g + a)\<bar> \<le> 4 * p / 9007199254740992 + a / 9007199254740992"
    using s' ta by linarith
  have "4 * p / 9007199254740992 \<le> g / 2" "a / 9007199254740992 \<le> a / 2"
    using pq(2) a by simp_all
  then have ax: "\<bar>?x\<bar> \<le> 2 * g + 2 * a"
    using x g a by linarith
  have "\<bar>to_double ?x - ?x\<bar> \<le> 2 * g / 9007199254740992 + 2 * a / 9007199254740992"
    using order_trans [OF to_double_near [of ?x] divide_right_mono [OF ax]]
    by (simp add: add_divide_distrib)
  then have "\<bar>to_double ?x - (g + a)\<bar> \<le> 4 * p / 9007199254740992 + 4 * q / 9007199254740992 + 4 * g / 9007199254740992 + 4 * a / 9007199254740992"
    using x pq g a by linarith
  then show ?thesis
    by (simp only: goal add_divide_distrib)
qed

lemma sum_amounts_error:
  assumes "\<forall>a \<in> set xs. 0 \<le> a" "length xs \<le> 1125899906842624"
  shows "\<bar>sum_amounts xs - of_int (sum_list xs) / 100\<bar>
    \<le> 4 * of_nat (length xs) * (of_int (sum_list xs) / 100) / 9007199254740992"
  using assms
proof (induction xs rule: rev_induct)
  case Nil
  then show ?case by (simp add: sum_amounts_def)
next
  case (snoc a xs)
  let ?g = "of_int (sum_list xs) / 100 :: rat" and ?k = "of_nat (length xs) :: rat"
  have ih: "\<bar>sum_amounts xs - ?g\<bar> \<le> 4 * ?k * ?g / 9007199254740992"
    using snoc by simp
  have g: "0 \<le> ?g" and a: "0 \<le> (of_int a / 100 :: rat)"
    using snoc.prems by (auto intro!: sum_list_nonneg)
  have "of_nat (length xs) \<le> (of_nat (1125899906842624) :: rat)"
    using snoc.prems(2) by (simp only: of_nat_le_iff length_append)
  then have k: "0 \<le> ?k" "?k \<le> 1125899906842624"
    by simp_all
  from sum_step_error [OF ih g a k] show ?case
    by (simp add: sum_amounts_snoc js_add_def amount_number_def add_divide_distrib add.commute
        del: distrib_left_numeral distrib_right_numeral)
qed

text \<open>The sum that the code makes in doubles, once rounded, is the double of the exact sum.\<close>

lemma round2_sum_amounts:
  assumes nonneg: "\<forall>a \<in> set xs. 0 \<le> a" and size: "int (length xs) * (sum_list xs + 1) \<le> 281474976710656"
  shows "round2 (sum_amounts xs) = amount_number (sum_list xs)"
proof -
  let ?n = "int (length xs)" and ?h = "sum_list xs"
  have h: "0 \<le> ?h"
    using nonneg by (auto intro: sum_list_nonneg)
  have nh: "?n * ?h \<le> 281474976710656" "?n \<le> 281474976710656"
  proof -
    have "?n * (?h + 1) = ?n * ?h + ?n" "0 \<le> ?n * ?h"
      using h by (simp_all add: distrib_left)
    then show "?n * ?h \<le> 281474976710656" "?n \<le> 281474976710656"
      using size by linarith+
  qed
  have "length xs \<le> 1125899906842624"
  proof -
    have "int (length xs) \<le> int (1125899906842624)"
      using nh(2) by simp
    then show ?thesis
      by (simp only: of_nat_le_iff)
  qed
  then have err: "\<bar>sum_amounts xs - of_int ?h / 100\<bar> \<le> 4 * of_nat (length xs) * (of_int ?h / 100) / 9007199254740992"
    using sum_amounts_error nonneg by blast
  have "(of_int (?n * ?h) :: rat) \<le> of_int (281474976710656)"
    using nh(1) by (simp only: of_int_le_iff)
  then have prod: "(of_nat (length xs) * of_int ?h :: rat) \<le> 281474976710656"
    by simp
  have "4 * of_nat (length xs) * (of_int ?h / 100) = 4 * (of_nat (length xs) * of_int ?h :: rat) / 100"
    by simp
  with err prod have small: "\<bar>sum_amounts xs - of_int ?h / 100\<bar> \<le> 1/500"
    by linarith
  show ?thesis
  proof (cases "xs = []")
    case True
    then show ?thesis
      using round2_near [of 0 0] by (simp add: sum_amounts_def)
  next
    case False
    then have "1 \<le> ?n" by (cases xs) simp_all
    then have "?h \<le> ?n * ?h"
      using h by (simp add: mult_le_cancel_right1)
    then have H: "?h \<le> 281474976710656"
      using nh(1) by linarith
    then have "(of_int ?h :: rat) \<le> of_int (281474976710656)"
      by (simp only: of_int_le_iff)
    then have H': "(of_int ?h :: rat) \<le> 281474976710656"
      by simp
    have "0 \<le> sum_amounts xs"
    proof (cases "?h = 0")
      case True
      then show ?thesis
        using err by simp
    next
      case False
      then have "1 \<le> ?h" using h by linarith
      then have "(1::rat) \<le> of_int ?h" by simp
      then show ?thesis
        using small by linarith
    qed
    then show ?thesis
      using small H' by (intro round2_near) linarith+
  qed
qed

section \<open>Percentages\<close>

lemma to_double_nonneg: "0 \<le> x \<Longrightarrow> 0 \<le> to_double x"
proof -
  assume "0 \<le> x"
  moreover have "x - \<bar>x\<bar> / 9007199254740992 \<le> to_double x"
    by (rule to_double_bounds)
  ultimately show ?thesis by simp
qed

lemma to_double_100: "to_double 100 = 100"
  by code_simp

lemma hundredths_bounds:
  assumes "0 \<le> k" "k \<le> 10000"
  shows "0 \<le> to_double (of_int k / 100)" "to_double (of_int k / 100) \<le> 100"
    "to_double (of_int k / 100) = 100 \<longleftrightarrow> k = 10000" "to_double (of_int k / 100) = 0 \<longleftrightarrow> k = 0"
proof -
  let ?x = "of_int k / 100 :: rat"
  have x: "0 \<le> ?x" using assms by simp
  have b: "?x - ?x / 9007199254740992 \<le> to_double ?x" "to_double ?x \<le> ?x + ?x / 9007199254740992"
    using to_double_bounds [of ?x] x by simp_all
  show "0 \<le> to_double ?x"
    using x by (rule to_double_nonneg)
  show "to_double ?x = 0 \<longleftrightarrow> k = 0"
    using b(1) assms by auto
  have less: "to_double ?x < 100" if "k \<noteq> 10000"
  proof -
    have "k \<le> 9999" using that assms by linarith
    then have "(of_int k :: rat) \<le> of_int 9999" by (simp only: of_int_le_iff)
    then show ?thesis
      using b(2) by simp
  qed
  have eq: "to_double ?x = 100" if "k = 10000"
    using that to_double_100 by simp
  show "to_double ?x \<le> 100"
    using less eq by (cases "k = 10000") auto
  show "to_double ?x = 100 \<longleftrightarrow> k = 10000"
    using less eq by fastforce
qed

text \<open>The hundredths that a percentage is rounded to are near the exact ones.\<close>

definition percentage_steps :: "rat \<Rightarrow> rat \<Rightarrow> int" where
  "percentage_steps n d =
     js_round (js_mul (js_add (js_mul (js_div n d) 100) NUMBER_EPSILON) 100)"

lemma percentage_by_steps:
  "d \<noteq> 0 \<Longrightarrow> percentage n d = to_double (of_int (percentage_steps n d) / 100)"
  by (simp add: percentage_def percentage_steps_def round2_def js_div_def)

lemma percentage_argument:
  assumes "0 \<le> q" "q \<le> 1"
  shows "\<bar>to_double (to_double q * 100) - 100 * q\<bar> \<le> 1 / 100000"
    and "0 \<le> to_double (to_double q * 100)"
proof -
  define u where "u = to_double q"
  have u: "\<bar>u - q\<bar> \<le> q / 9007199254740992" "0 \<le> u"
    using to_double_near [of q] to_double_nonneg [of q] assms by (simp_all add: u_def)
  then have u2: "u \<le> 2"
    using assms by linarith
  have v: "\<bar>to_double (u * 100) - u * 100\<bar> \<le> u * 100 / 9007199254740992"
    using to_double_near [of "u * 100"] u(2) by simp
  have "u * 100 / 9007199254740992 \<le> 1 / 1000000" "q / 9007199254740992 \<le> 1 / 100000000"
    using u2 assms by simp_all
  then show "\<bar>to_double (to_double q * 100) - 100 * q\<bar> \<le> 1 / 100000"
    using v u(1) unfolding u_def [symmetric] by linarith
  show "0 \<le> to_double (to_double q * 100)"
    using u(2) unfolding u_def [symmetric] by (intro to_double_nonneg) simp
qed

lemma percentage_steps_near:
  assumes "0 \<le> n" "n \<le> d" "0 < d"
  shows "\<exists>x. percentage_steps n d = js_round x \<and> \<bar>x - 10000 * (n / d)\<bar> \<le> 26 / 100"
proof -
  let ?q = "n / d"
  have q: "0 \<le> ?q" "?q \<le> 1"
    using assms by simp_all
  define v where "v = js_mul (js_div n d) 100"
  have v: "\<bar>v - 100 * ?q\<bar> \<le> 1 / 100000" "0 \<le> v"
    using percentage_argument [OF q] by (simp_all add: v_def js_mul_def js_div_def)
  then have "v \<le> 8796093022208"
    using q by linarith
  then have "\<bar>js_mul (js_add v NUMBER_EPSILON) 100 - 100 * v\<bar> \<le> 1/4"
    using round2_argument v(2) by simp
  then have "\<bar>js_mul (js_add v NUMBER_EPSILON) 100 - 10000 * ?q\<bar> \<le> 26 / 100"
    using v(1) by linarith
  then show ?thesis
    by (auto simp: percentage_steps_def v_def)
qed

lemma js_round_bounds: "x - 1/2 < of_int (js_round x)" "of_int (js_round x) \<le> x + 1/2"
  unfolding js_round_def by linarith+

lemma percentage_steps_bounds:
  assumes "0 \<le> n" "n \<le> d" "0 < d"
  shows "0 \<le> percentage_steps n d" "percentage_steps n d \<le> 10000"
    and "percentage_steps n d = 10000 \<Longrightarrow> 10000 * (n / d) > 9999 + 1 / 100"
    and "percentage_steps n d = 0 \<Longrightarrow> 10000 * (n / d) < 99 / 100"
proof -
  obtain x where x: "percentage_steps n d = js_round x" "\<bar>x - 10000 * (n / d)\<bar> \<le> 26 / 100"
    using percentage_steps_near [OF assms] by blast
  have q: "0 \<le> n / d" "n / d \<le> 1"
    using assms by simp_all
  note b = js_round_bounds [of x]
  have "of_int (- 1) < (of_int (js_round x) :: rat)" "(of_int (js_round x) :: rat) < of_int 10001"
    using b x(2) q by (simp, linarith)+
  then have "- 1 < js_round x" "js_round x < 10001"
    by (simp_all only: of_int_less_iff)
  then show "0 \<le> percentage_steps n d" "percentage_steps n d \<le> 10000"
    by (simp_all add: x(1))
  show "10000 * (n / d) > 9999 + 1 / 100" if "percentage_steps n d = 10000"
  proof -
    have "(of_int (js_round x) :: rat) = 10000"
      using that x(1) by simp
    then show ?thesis
      using b x(2) by linarith
  qed
  show "10000 * (n / d) < 99 / 100" if "percentage_steps n d = 0"
  proof -
    have "(of_int (js_round x) :: rat) = 0"
      using that x(1) by simp
    then show ?thesis
      using b x(2) by linarith
  qed
qed

text \<open>A percentage of a part lies between 0 and 100.\<close>

lemma percentage_bounds:
  assumes "0 \<le> n" "n \<le> d"
  shows "0 \<le> percentage n d \<and> percentage n d \<le> 100"
proof (cases "d = 0")
  case False
  then have "0 < d" using assms by linarith
  with assms show ?thesis
    using hundredths_bounds percentage_steps_bounds by (simp add: percentage_by_steps)
qed (simp add: percentage_def)

lemma steps_of_all: "0 < d \<Longrightarrow> percentage_steps d d = 10000"
  using percentage_steps_near [of d d] js_round_near [of _ 10000] by fastforce

lemma steps_of_none: "0 < d \<Longrightarrow> percentage_steps 0 d = 0"
  using percentage_steps_near [of 0 d] js_round_near [of _ 0] by fastforce

text \<open>Of up to 10000 things, 100 means all of them and 0 means none.\<close>

lemma percentage_ends:
  assumes "c \<le> t" "0 < t" "t \<le> 10000"
  shows "percentage (of_nat c) (of_nat t) = 100 \<longleftrightarrow> c = t"
    and "percentage (of_nat c) (of_nat t) = 0 \<longleftrightarrow> c = 0"
proof -
  let ?n = "of_nat c :: rat" and ?d = "of_nat t :: rat"
  have nd: "0 \<le> ?n" "?n \<le> ?d" "0 < ?d" "?d \<le> 10000"
  proof -
    have "(of_nat t :: rat) \<le> of_nat 10000"
      using assms(3) by (simp only: of_nat_le_iff)
    then show "?d \<le> 10000" by simp
  qed (use assms in simp_all)
  note steps = percentage_steps_bounds [OF nd(1-3)]
  have p: "percentage ?n ?d = to_double (of_int (percentage_steps ?n ?d) / 100)"
    using nd(3) by (intro percentage_by_steps) simp
  have all: "percentage_steps ?d ?d = 10000" and none: "percentage_steps 0 ?d = 0"
    using nd(3) by (simp_all add: steps_of_all steps_of_none)
  have "c = t" if "percentage_steps ?n ?d = 10000"
  proof (rule ccontr)
    assume "c \<noteq> t"
    then have "c + 1 \<le> t" using assms(1) by simp
    then have "(of_nat (c + 1) :: rat) \<le> ?d"
      by (simp only: of_nat_le_iff)
    then have "10000 * ?n \<le> 9999 * ?d"
      using nd by simp
    then have "10000 * (?n / ?d) \<le> 9999"
      using nd(3) by (simp add: pos_divide_le_eq)
    then show False
      using steps(3) [OF that] by linarith
  qed
  moreover have "c = 0" if "percentage_steps ?n ?d = 0"
  proof (rule ccontr)
    assume "c \<noteq> 0"
    then have "(1::rat) \<le> ?n" by simp
    then have "?d \<le> 10000 * ?n"
      using nd(4) by linarith
    then have "1 \<le> 10000 * (?n / ?d)"
      using nd(3) by (simp add: pos_le_divide_eq)
    then show False
      using steps(4) [OF that] by linarith
  qed
  ultimately show "percentage ?n ?d = 100 \<longleftrightarrow> c = t" "percentage ?n ?d = 0 \<longleftrightarrow> c = 0"
    unfolding p using hundredths_bounds(3,4) [OF steps(1,2)] all none by auto
qed

end
