(* ===== verification/Report_Facts.thy ===== *)
theory Report_Facts
  imports Reports Report_Numbers Civil_Dates
begin

text \<open>Facts about the reports: the four grouped queries of the list of bonds as plain counts, the
  two ways the services cut the same period out of the tables, and the months of the trend.\<close>

section \<open>Grouped queries\<close>

definition ag_of :: "(uuid \<rightharpoonup> bond_health_aggregates) \<Rightarrow> uuid \<Rightarrow> bond_health_aggregates" where
  "ag_of m i = (case m i of Some x \<Rightarrow> x | None \<Rightarrow> EMPTY_AGGREGATES)"

lemma ag_of_empty [simp]: "ag_of Map.empty i = EMPTY_AGGREGATES"
  by (simp add: ag_of_def)

lemma merge_groups_ag:
  "distinct gs \<Longrightarrow>
     ag_of (merge_groups gs f m) i = (if i \<in> set gs then f i (ag_of m i) else ag_of m i)"
  by (induction gs arbitrary: m) (auto simp: merge_groups_def ag_of_def)

lemma merge_group_ids_ag:
  assumes "i \<in> set ids" and "i \<notin> key ` set rows \<Longrightarrow> f i (ag_of m i) = ag_of m i"
  shows "ag_of (merge_groups (group_ids key ids rows) f m) i = f i (ag_of m i)"
proof -
  have "distinct (group_ids key ids rows)" "set (group_ids key ids rows) = key ` set rows \<inter> set ids"
    by (auto simp: group_ids_def)
  then show ?thesis
    using assms by (simp add: merge_groups_ag)
qed

lemma filter_absent: "i \<notin> key ` set rows \<Longrightarrow> filter (\<lambda>r. key r = i \<and> P r) rows = []"
  by (auto simp: filter_empty_conv)

lemma filter_absent' [simp]: "i \<notin> key ` set rows \<Longrightarrow> filter (\<lambda>r. key r = i) rows = []"
  by (auto simp: filter_empty_conv)

definition bond_expenses :: "db \<Rightarrow> uuid \<Rightarrow> string \<Rightarrow> string \<Rightarrow> (expense_status \<Rightarrow> bool) \<Rightarrow> expense_row list" where
  "bond_expenses d i from to P =
     filter (\<lambda>x. exp_deletedAt x = None \<and> P (exp_status x)) (findExpenses d i from to)"

lemma bond_expenses_grouped:
  "filter (\<lambda>x. exp_bondId x = i \<and> P (exp_status x))
     (filter (\<lambda>x. exp_deletedAt x = None \<and> from \<le> exp_expenseDate x \<and> exp_expenseDate x < to)
       (db_expenses d)) = bond_expenses d i from to P"
  unfolding bond_expenses_def findExpenses_def filter_filter by (rule filter_cong) auto

lemma activities_grouped:
  "filter (\<lambda>a. act_bondId a = i) (filter (in_window f t) (db_activities d)) = findActivities d i f t"
  unfolding findActivities_def filter_filter by (rule filter_cong) auto

lemma members_grouped:
  "filter (\<lambda>m. mem_bondId m = i) (filter (\<lambda>m. mem_leftAt m = None) (db_members d)) =
     findReportMembers d i"
  unfolding findReportMembers_def filter_filter by (rule filter_cong) auto

text \<open>What the list of bonds knows of one of them, whatever groups the queries return.\<close>

lemma aggregates_of_bond:
  assumes "i \<in> set ids"
  shows "ag_of (aggregatesByBond d ids f t) i =
    \<lparr>ag_activitiesTotal = length (findActivities d i f t),
     ag_activitiesCompleted = length (filter (\<lambda>a. act_status a = DONE) (findActivities d i f t)),
     ag_expensesEligibleAmount =
       amount_number (sum_hundredths (bond_expenses d i (isoDay f) (isoDay t) (\<lambda>s. s \<noteq> REJECTED))),
     ag_expensesPaidAmount =
       amount_number (sum_hundredths (bond_expenses d i (isoDay f) (isoDay t) (\<lambda>s. s = PAID))),
     ag_childrenCount = length (filter (\<lambda>c. child_bondId c = i) (db_children d)),
     ag_membersCount = length (findReportMembers d i)\<rparr>"
proof -
  let ?acts = "filter (in_window f t) (db_activities d)"
  let ?exps = "filter (\<lambda>x. exp_deletedAt x = None \<and> isoDay f \<le> exp_expenseDate x \<and>
     exp_expenseDate x < isoDay t) (db_expenses d)"
  let ?mems = "filter (\<lambda>m. mem_leftAt m = None) (db_members d)"
  let ?done = "\<lambda>i. filter (\<lambda>a. act_bondId a = i \<and> act_status a = DONE) ?acts"
  let ?el = "\<lambda>i. filter (\<lambda>x. exp_bondId x = i \<and> exp_status x \<noteq> REJECTED) ?exps"
  let ?pd = "\<lambda>i. filter (\<lambda>x. exp_bondId x = i \<and> exp_status x = PAID) ?exps"
  let ?f1 = "\<lambda>i ag. ag\<lparr>ag_activitiesTotal := length (filter (\<lambda>a. act_bondId a = i) ?acts),
     ag_activitiesCompleted := length (?done i)\<rparr>"
  let ?f2 = "\<lambda>i ag. ag\<lparr>ag_expensesEligibleAmount := amount_number (sum_hundredths (?el i)),
     ag_expensesPaidAmount := amount_number (sum_hundredths (?pd i))\<rparr>"
  let ?f3 = "\<lambda>i ag. ag\<lparr>ag_childrenCount := length (filter (\<lambda>c. child_bondId c = i) (db_children d))\<rparr>"
  let ?f4 = "\<lambda>i ag. ag\<lparr>ag_membersCount := length (filter (\<lambda>m. mem_bondId m = i) ?mems)\<rparr>"
  define m1 where "m1 = merge_groups (group_ids act_bondId ids ?acts) ?f1 Map.empty"
  define m2 where "m2 = merge_groups (group_ids exp_bondId ids ?exps) ?f2 m1"
  define m3 where "m3 = merge_groups (group_ids child_bondId ids (db_children d)) ?f3 m2"
  have zero: "amount_number (sum_hundredths []) = 0"
    by (simp add: amount_number_def sum_hundredths_def)
  have one: "ag_of m1 i = ?f1 i EMPTY_AGGREGATES"
    unfolding m1_def
    by (subst merge_group_ids_ag [OF assms])
      (auto simp: filter_empty_conv EMPTY_AGGREGATES_def)
  have two: "ag_of m2 i = ?f2 i (ag_of m1 i)"
    unfolding m2_def
  proof (rule merge_group_ids_ag [OF assms])
    assume none: "i \<notin> exp_bondId ` set ?exps"
    have "?el i = []" "?pd i = []"
      using filter_absent [OF none] by simp_all
    then show "?f2 i (ag_of m1 i) = ag_of m1 i"
      by (simp only: one zero) (simp add: EMPTY_AGGREGATES_def)
  qed
  have three: "ag_of m3 i = ?f3 i (ag_of m2 i)"
    unfolding m3_def
  proof (rule merge_group_ids_ag [OF assms])
    assume "i \<notin> child_bondId ` set (db_children d)"
    then have "filter (\<lambda>c. child_bondId c = i) (db_children d) = []"
      by (rule filter_absent')
    then show "?f3 i (ag_of m2 i) = ag_of m2 i"
      by (simp only: two one) (simp add: EMPTY_AGGREGATES_def)
  qed
  have four: "ag_of (merge_groups (group_ids mem_bondId ids ?mems) ?f4 m3) i = ?f4 i (ag_of m3 i)"
  proof (rule merge_group_ids_ag [OF assms])
    assume "i \<notin> mem_bondId ` set ?mems"
    then have "filter (\<lambda>m. mem_bondId m = i) ?mems = []"
      by (rule filter_absent')
    then show "?f4 i (ag_of m3 i) = ag_of m3 i"
      by (simp only: three two one) (simp add: EMPTY_AGGREGATES_def)
  qed
  have done0: "?done i = filter (\<lambda>a. act_status a = DONE) (findActivities d i f t)"
    unfolding findActivities_def filter_filter by (rule filter_cong) auto
  have el: "?el i = bond_expenses d i (isoDay f) (isoDay t) (\<lambda>s. s \<noteq> REJECTED)"
    by (rule bond_expenses_grouped)
  have pd: "?pd i = bond_expenses d i (isoDay f) (isoDay t) (\<lambda>s. s = PAID)"
    by (rule bond_expenses_grouped)
  have whole: "aggregatesByBond d ids f t = merge_groups (group_ids mem_bondId ids ?mems) ?f4 m3"
    by (simp only: aggregatesByBond_def Let_def o_def m3_def m2_def m1_def)
  show ?thesis
    unfolding whole unfolding four unfolding three two one done0 el pd activities_grouped
      members_grouped by (simp add: EMPTY_AGGREGATES_def)
qed

text \<open>The row of a bond, as the list of bonds answers it.\<close>

lemma health_row:
  assumes "b \<in> set (findBonds d)" and "midnight dateFrom = Some f"
    and "addDaysToIsoDate dateTo 1 = Some following" "midnight following = Some t" "\<not> dateTo < dateFrom"
  shows "\<exists>rows. health d dateFrom dateTo = Inr rows \<and>
    buildBondHealthRow b (aggregatesByBond d (map bond_id (findBonds d)) f t (bond_id b)) \<in> set rows"
  using assms by (auto simp: health_def health_window_def chain_simps ensure_def Let_def)

lemma buildBondHealthRow_ag:
  "buildBondHealthRow b (m i) = buildBondHealthRow b (Some (ag_of m i))"
  by (simp add: buildBondHealthRow_def ag_of_def split: option.split)

section \<open>The period\<close>

text \<open>A printed day parses back to itself.\<close>

lemma printed_day:
  assumes "w = take 10 (toISOString (z * ms_per_day))" "js_parse_day w = Some z'"
  shows "z' = z" "w = day_string z" "length (day_string z) = 10"
proof -
  obtain y m dd where c: "civil_from_days z = (y, m, dd)"
    by (cases "civil_from_days z")
  have v: "valid_civil y m dd" "days_from_civil y m dd = z"
    using civil_from_days_valid [OF c] by simp_all
  have y: "0 \<le> y \<and> y \<le> 9999"
  proof (rule ccontr)
    assume "\<not> (0 \<le> y \<and> y \<le> 9999)"
    then have "\<exists>r. year_string y = CHR ''-'' # r \<or> year_string y = CHR ''+'' # r"
      by (auto simp: year_string_def)
    then have "\<exists>c r. toISOString (z * ms_per_day) = c # r \<and> \<not> is_digit c"
      by (auto simp: toISOString_def day_string_def c ms_per_day_def Let_def is_digit_def)
    then have "\<exists>c r. take 4 w = c # r \<and> \<not> is_digit c"
      using assms(1) by (auto simp: take_Cons')
    then show False
      using assms(2) by (auto simp: js_parse_day_def Let_def split: if_splits)
  qed
  have printed: "day_string z = day_text y m dd"
    using day_string_civil [OF v(1)] y v(2) by simp
  show len: "length (day_string z) = 10"
    using day_text_parts(1) [of y m dd] valid_civil_bounds [OF v(1)] y printed by simp
  then show w: "w = day_string z"
    using assms(1) toISOString_day by simp
  have "js_parse_day w = Some z"
    unfolding js_parse_day_iff w printed
    using valid_civil_bounds [OF v(1)] y v by blast
  then show "z' = z"
    using assms(2) by simp
qed

lemma isoDay_calendar:
  assumes "is_calendar_day v" "midnight v = Some t"
  shows "isoDay t = v"
proof -
  obtain z where z: "js_parse_day v = Some z" "day_string z = v" "t = z * ms_per_day"
    using assms by (auto simp: is_calendar_day_def midnight_def split: option.splits)
  moreover have "length v = 10"
    using z(1) by (auto simp: js_parse_day_def Let_def split: if_splits)
  ultimately show ?thesis
    using toISOString_day [of z] by (simp add: isoDay_def)
qed

lemma isoDay_next:
  assumes "addDaysToIsoDate v n = Some w" "midnight w = Some t"
  shows "isoDay t = w"
proof -
  obtain z where w: "w = take 10 (toISOString ((z + n) * ms_per_day))"
    using assms(1) by (auto simp: addDaysToIsoDate_def)
  obtain z' where z': "js_parse_day w = Some z'" "t = z' * ms_per_day"
    using assms(2) by (auto simp: midnight_def)
  show ?thesis
    using printed_day [OF w z'(1)] toISOString_day [of "z + n"] by (simp add: isoDay_def z'(2))
qed

section \<open>The two totals\<close>

definition amounts_fit :: "db \<Rightarrow> uuid \<Rightarrow> bool" where
  "amounts_fit d i \<longleftrightarrow>
     (let xs = filter (\<lambda>x. exp_bondId x = i) (db_expenses d) in
      (\<forall>x \<in> set xs. 0 \<le> exp_amount x) \<and> int (length xs) * (sum_hundredths xs + 1) \<le> 2 ^ 48)"

lemma sum_list_filter_le: "\<forall>x \<in> set xs. (0::int) \<le> g x \<Longrightarrow> sum_list (map g (filter P xs)) \<le> sum_list (map g xs)"
  by (induction xs) auto

lemma fit_sublist:
  assumes "amounts_fit d i"
  shows "round2 (sum_amounts (map exp_amount (bond_expenses d i from to P))) =
           amount_number (sum_hundredths (bond_expenses d i from to P))"
    and "0 \<le> sum_hundredths (bond_expenses d i from to P)"
    and "sum_hundredths (bond_expenses d i from to P) < 2 ^ 48"
proof -
  define xs :: "expense_row list" where "xs = filter (\<lambda>x. exp_bondId x = i) (db_expenses d)"
  define Q :: "expense_row \<Rightarrow> bool" where "Q = (\<lambda>x. exp_deletedAt x = None \<and> P (exp_status x) \<and> from \<le> exp_expenseDate x \<and>
    exp_expenseDate x < to)"
  have ys: "bond_expenses d i from to P = filter Q xs"
    unfolding bond_expenses_def findExpenses_def xs_def Q_def filter_filter
    by (rule filter_cong) auto
  have xs: "\<forall>x \<in> set xs. 0 \<le> exp_amount x" "int (length xs) * (sum_hundredths xs + 1) \<le> 2 ^ 48"
    using assms by (simp_all add: amounts_fit_def Let_def xs_def)
  have pos: "0 \<le> sum_hundredths (filter Q xs)" "sum_hundredths (filter Q xs) \<le> sum_hundredths xs"
    using xs(1) by (auto simp: sum_hundredths_def intro!: sum_list_nonneg sum_list_filter_le)
  show "0 \<le> sum_hundredths (bond_expenses d i from to P)"
    using pos(1) by (simp add: ys)
  have "int (length (filter Q xs)) * (sum_hundredths (filter Q xs) + 1)
      \<le> int (length xs) * (sum_hundredths xs + 1)"
    using pos by (intro mult_mono) auto
  then have "int (length (filter Q xs)) * (sum_hundredths (filter Q xs) + 1) \<le> 2 ^ 48"
    using xs(2) by linarith
  then show "round2 (sum_amounts (map exp_amount (bond_expenses d i from to P))) =
           amount_number (sum_hundredths (bond_expenses d i from to P))"
    unfolding ys sum_hundredths_def using xs(1) by (intro round2_sum_amounts) auto
  show "sum_hundredths (bond_expenses d i from to P) < 2 ^ 48"
  proof (cases "xs = []")
    case False
    then have "1 \<le> int (length xs)"
      by (cases xs) simp_all
    then have "1 * (sum_hundredths xs + 1) \<le> int (length xs) * (sum_hundredths xs + 1)"
      using pos by (intro mult_right_mono) linarith+
    then have "sum_hundredths xs + 1 \<le> 2 ^ 48"
      using xs(2) by simp
    then show ?thesis
      using pos unfolding ys by simp
  qed (simp add: ys sum_hundredths_def)
qed

section \<open>The report of the same period\<close>

lemma eligible_rows:
  "map re_amount (filter isEligibleExpense (map (\<lambda>x. \<lparr>re_status = exp_status x,
      re_amount = exp_amount x, re_categoryId = exp_categoryId x, re_deletedAt = exp_deletedAt x\<rparr>)
      (findExpenses d i from to))) =
   map exp_amount (bond_expenses d i from to (\<lambda>s. s \<noteq> REJECTED))"
  by (simp add: bond_expenses_def filter_map o_def isEligibleExpense_def)

lemma paid_rows:
  "map re_amount (filter (\<lambda>e. re_status e = PAID) (filter isEligibleExpense
      (map (\<lambda>x. \<lparr>re_status = exp_status x, re_amount = exp_amount x,
         re_categoryId = exp_categoryId x, re_deletedAt = exp_deletedAt x\<rparr>)
      (findExpenses d i from to)))) =
   map exp_amount (bond_expenses d i from to (\<lambda>s. s = PAID))"
  unfolding bond_expenses_def filter_map o_def filter_filter isEligibleExpense_def
  by (simp add: o_def) (rule arg_cong [of _ _ "map exp_amount"], rule filter_cong, auto)

text \<open>Both services count the same activities, members and children; the percentage paid agrees
  because rounding undoes the error of the sums in doubles.\<close>

lemma report_and_aggregates:
  assumes b: "findReportBond d bondId = Some b" and start: "is_calendar_day dateFrom" "midnight dateFrom = Some f"
    and stop: "addDaysToIsoDate dateTo 1 = Some w" "midnight w = Some t" and fit: "amounts_fit d bondId"
    and ids: "bondId \<in> set ids"
    and r_def: "r = buildBondReport (report_input d b dateFrom dateTo f t w now)"
    and row_def: "row = buildBondHealthRow b (aggregatesByBond d ids f t bondId)"
  shows "bh_activitiesTotal row = as_total (br_activities r)"
    and "bh_completionRate row = as_completionRate (br_activities r)"
    and "bh_paidAmountPercentage row = es_paidAmountPercentage (br_expenses r)"
    and "bh_membersCount row = length (br_members r)"
    and "bh_childrenCount row = length (br_children r)"
proof -
  have i: "bond_id b = bondId"
    using b by (auto simp: findReportBond_def dest: lookup_by_SomeD)
  have row: "row = buildBondHealthRow b (Some (ag_of (aggregatesByBond d ids f t) bondId))"
    unfolding row_def by (rule buildBondHealthRow_ag)
  note ag = aggregates_of_bond [OF ids, of d f t]
  note days = isoDay_calendar [OF start] isoDay_next [OF stop]
  show "bh_activitiesTotal row = as_total (br_activities r)"
    "bh_completionRate row = as_completionRate (br_activities r)"
    "bh_membersCount row = length (br_members r)" "bh_childrenCount row = length (br_children r)"
    unfolding row ag
    by (simp_all add: r_def buildBondHealthRow_def buildBondReport_def report_input_def i Let_def
        report_activities_def report_members_def report_children_def findReportChildren_def
        filter_map o_def)
  show "bh_paidAmountPercentage row = es_paidAmountPercentage (br_expenses r)"
    unfolding row ag days
    by (simp add: r_def buildBondHealthRow_def buildBondReport_def report_input_def i Let_def
        report_expenses_def eligible_rows paid_rows fit_sublist(1) [OF fit] del: filter_filter)
qed

end
