(* ===== verification/Report_Trend.thy ===== *)
theory Report_Trend
  imports Report_Facts
begin

text \<open>The months of the trend: an instant lies between the start of its month and the start of the
  next one, months are named apart, and so the grouped query, cut at the borders of whole months,
  counts each activity in the month of its reference date.\<close>

section \<open>Months\<close>

lemma first_of_next_month:
  assumes "1 \<le> m" "m \<le> 12"
  shows "(if m = 12 then days_from_civil (y + 1) 1 1 else days_from_civil y (m + 1) 1) =
    days_from_civil y m 1 + month_days y m"
proof (cases "m = 12")
  case True
  have "days_before_month y 12 + 31 = (if is_leap y then 366 else 365)" "days_before_month (y + 1) 1 = 0"
    by (simp_all add: days_before_month_def)
  then show ?thesis
    using True year_length [of y] by (simp add: days_from_civil_def month_days_def)
next
  case False
  then show ?thesis
    using assms month_length [of m y] by (simp add: days_from_civil_def)
qed

lemma month_start_next:
  "month_start (n + 1) = month_start n + month_days (n div 12) (n mod 12 + 1) * ms_per_day"
proof -
  let ?y = "n div 12" and ?m = "n mod 12 + 1"
  have m: "1 \<le> ?m" "?m \<le> 12"
    by (simp_all add: add.commute zle_add1_eq_le [symmetric] del: zle_add1_eq_le)
  have "month_start (n + 1) = (if ?m = 12 then days_from_civil (?y + 1) 1 1
      else days_from_civil ?y (?m + 1) 1) * ms_per_day"
  proof (cases "?m = 12")
    case True
    then have "(n + 1) div 12 = ?y + 1" "(n + 1) mod 12 = 0"
      by presburger+
    then show ?thesis
      unfolding month_start_def if_P [OF True] by simp
  next
    case False
    have split: "n + 1 = 12 * ?y + ?m"
      by simp
    have b: "0 \<le> ?m" "?m < 12"
      using m False by linarith+
    have "(n + 1) div 12 = ?y" "(n + 1) mod 12 = ?m"
      by (rule int_div_pos_eq [OF split b], rule int_mod_pos_eq [OF split b])
    then show ?thesis
      unfolding month_start_def if_not_P [OF False] by simp
  qed
  also have "\<dots> = (days_from_civil ?y ?m 1 + month_days ?y ?m) * ms_per_day"
    by (simp only: first_of_next_month [OF m])
  also have "\<dots> = month_start n + month_days ?y ?m * ms_per_day"
    by (simp only: month_start_def distrib_right)
  finally show ?thesis .
qed

lemma month_days_pos: "0 < month_days y m"
  by (simp add: month_days_def)

lemma month_start_mono: "n \<le> k \<Longrightarrow> month_start n \<le> month_start k"
proof (induction k rule: int_ge_induct)
  case (step k)
  have "0 < month_days (k div 12) (k mod 12 + 1) * ms_per_day"
    using month_days_pos by (simp add: ms_per_day_def)
  with step show ?case
    by (simp add: month_start_next)
qed simp

lemma month_of_number:
  assumes "civil_from_days z = (y, m, d)"
  shows "(12 * y + (m - 1)) div 12 = y" "(12 * y + (m - 1)) mod 12 + 1 = m"
proof -
  have "1 \<le> m" "m \<le> 12"
    using civil_from_days_valid [OF assms] by (auto simp: valid_civil_def)
  then show "(12 * y + (m - 1)) div 12 = y" "(12 * y + (m - 1)) mod 12 + 1 = m"
    by presburger+
qed

lemma instant_in_month:
  "month_start (month_number t) \<le> t \<and> t < month_start (month_number t + 1)"
proof -
  define z where "z = t div ms_per_day"
  obtain y m d where c: "civil_from_days z = (y, m, d)"
    by (cases "civil_from_days z")
  have v: "1 \<le> d" "d \<le> month_days y m" "days_from_civil y m d = z"
    using civil_from_days_valid [OF c] by (auto simp: valid_civil_def)
  have n: "month_number t = 12 * y + (m - 1)"
    using c by (simp add: month_number_def z_def)
  have first: "days_from_civil y m 1 = z - (d - 1)"
    using v(3) by (simp add: days_from_civil_def)
  have start: "month_start (month_number t) = (z - (d - 1)) * ms_per_day"
    unfolding n month_start_def month_of_number [OF c] first ..
  have t: "z * ms_per_day \<le> t" "t < (z + 1) * ms_per_day"
    unfolding z_def ms_per_day_def by presburger+
  have "month_start (month_number t + 1) = (z - (d - 1) + month_days y m) * ms_per_day"
    unfolding month_start_next start unfolding n month_of_number [OF c] by (simp add: distrib_right)
  moreover have "(z - (d - 1)) * ms_per_day \<le> z * ms_per_day"
    "(z + 1) * ms_per_day \<le> (z - (d - 1) + month_days y m) * ms_per_day"
    using v by (auto simp: ms_per_day_def)
  ultimately show ?thesis
    using t start by linarith
qed

text \<open>A period of whole months holds the instants of those months.\<close>

lemma month_window:
  "month_start a \<le> t \<and> t < month_start (b + 1) \<longleftrightarrow> a \<le> month_number t \<and> month_number t \<le> b"
  using instant_in_month [of t] month_start_mono [of a "month_number t"]
    month_start_mono [of "month_number t + 1" a] month_start_mono [of "b + 1" "month_number t"]
    month_start_mono [of "month_number t + 1" "b + 1"]
  by linarith

lemma month_number_start [simp]: "month_number (month_start n) = n"
proof -
  have "month_start n < month_start (n + 1)"
    using month_days_pos by (simp add: month_start_next ms_per_day_def)
  then show ?thesis
    using month_window [of n "month_start n" n] by simp
qed

section \<open>Names of months\<close>

definition month_text :: "int \<Rightarrow> string" where
  "month_text n = pad_start 4 (decimal (nat (n div 12))) @ ''-'' @ pad_start 2 (decimal (nat (n mod 12 + 1)))"

lemma month_text_inject:
  assumes "0 \<le> n" "n < 120000" "0 \<le> k" "k < 120000" "month_text n = month_text k"
  shows "n = k"
proof -
  have len: "length (pad_start 4 (decimal (nat (x div 12)))) = 4" if "0 \<le> x" "x < 120000" for x :: int
  proof -
    have "nat (x div 12) < 10 ^ 4" using that by simp
    then show ?thesis by (metis length_pad_decimal zero_less_numeral)
  qed
  have "pad_start 4 (decimal (nat (n div 12))) = pad_start 4 (decimal (nat (k div 12)))"
    "pad_start 2 (decimal (nat (n mod 12 + 1))) = pad_start 2 (decimal (nat (k mod 12 + 1)))"
    using assms(5) len [OF assms(1,2)] len [OF assms(3,4)] by (simp_all add: month_text_def)
  then have "nat (n div 12) = nat (k div 12)" "nat (n mod 12 + 1) = nat (k mod 12 + 1)"
    by (metis undecimal_pad)+
  moreover have "0 \<le> n div 12" "0 \<le> k div 12" "0 \<le> n mod 12" "0 \<le> k mod 12"
    using assms by simp_all
  ultimately have "n div 12 = k div 12" "n mod 12 = k mod 12"
    by (simp_all add: eq_nat_nat_iff)
  then show ?thesis
    by (metis mult_div_mod_eq)
qed

lemma session_month_utc:
  assumes "0 \<le> month_number t" "month_number t < 120000"
  shows "session_month (\<lambda>_. 0) t = month_text (month_number t)"
proof -
  obtain y m d where c: "civil_from_days (t div ms_per_day) = (y, m, d)"
    by (cases "civil_from_days (t div ms_per_day)")
  have n: "month_number t = 12 * y + (m - 1)"
    using c by (simp add: month_number_def)
  have m: "1 \<le> m" "m \<le> 12"
    using civil_from_days_valid [OF c] by (auto simp: valid_civil_def)
  have y: "0 \<le> y" "y \<le> 9999"
    using assms m unfolding n by linarith+
  have "nat y < 10 ^ 4" "nat m < 10 ^ 2"
    using y m by simp_all
  then have len: "length (pad_start 4 (decimal (nat y))) = 4" "length (pad_start 2 (decimal (nat m))) = 2"
    by (metis length_pad_decimal zero_less_numeral)+
  show ?thesis
    unfolding n month_text_def month_of_number [OF c]
    using y len by (simp add: session_month_def day_string_def c year_string_def)
qed

lemma decimal_length_4: "1000 \<le> n \<Longrightarrow> n < 10000 \<Longrightarrow> length (decimal n) = 4"
  by (auto simp: decimal.simps [of n] decimal.simps [of "n div 10"] decimal.simps [of "n div 10 div 10"]
      decimal.simps [of "n div 10 div 10 div 10"])

lemma monthKey_text:
  assumes "12000 \<le> n" "n < 120000"
  shows "monthKey (month_start n) = month_text n"
proof -
  obtain y m d where c: "civil_from_days (month_start n div ms_per_day) = (y, m, d)"
    by (cases "civil_from_days (month_start n div ms_per_day)")
  have n: "n = 12 * y + (m - 1)"
    using month_number_start [of n] c unfolding month_number_def by simp
  have m: "1 \<le> m" "m \<le> 12"
    using civil_from_days_valid [OF c] by (auto simp: valid_civil_def)
  have y: "1000 \<le> y" "y \<le> 9999"
    using assms m unfolding n by linarith+
  have "length (decimal (nat y)) = 4"
    using y by (intro decimal_length_4) auto
  then have "pad_start 4 (decimal (nat y)) = decimal (nat y)"
    by (simp add: pad_start_def)
  then show ?thesis
    unfolding month_text_def n month_of_number [OF c] using y c
    by (simp add: monthKey_def n [symmetric])
qed

section \<open>The series\<close>

definition month_activities :: "db \<Rightarrow> uuid \<Rightarrow> int \<Rightarrow> activity_row list" where
  "month_activities d bondId n =
     filter (\<lambda>a. act_bondId a = bondId \<and> act_deletedAt a = None \<and>
        month_number (reference_instant a) = n) (db_activities d)"

definition month_point :: "db \<Rightarrow> uuid \<Rightarrow> int \<Rightarrow> bond_trend_point" where
  "month_point d bondId n =
     (let acts = month_activities d bondId n in
      \<lparr>tp_month = monthKey (month_start n), tp_activitiesTotal = length acts,
       tp_completionRate = percentage (of_nat (length (filter (\<lambda>a. act_status a = DONE) acts)))
         (of_nat (length acts))\<rparr>)"

lemma map_of_image: "map_of (map (\<lambda>k. (k, f k)) ks) k = (if k \<in> set ks then Some (f k) else None)"
  by (induction ks) auto

lemma group_filter:
  assumes "12000 \<le> n" "n < 120000" "a \<le> n" "n \<le> b" "12000 \<le> a" "b < 120000"
  shows "filter (\<lambda>x. session_month (\<lambda>_. 0) (reference_instant x) = monthKey (month_start n) \<and> P x)
      (findActivities d i (month_start a) (month_start (b + 1))) =
    filter P (month_activities d i n)"
  unfolding findActivities_def month_activities_def filter_filter
proof (rule filter_cong [OF refl])
  fix x
  let ?k = "month_number (reference_instant x)"
  have w: "in_window (month_start a) (month_start (b + 1)) x \<longleftrightarrow> act_deletedAt x = None \<and> a \<le> ?k \<and> ?k \<le> b"
    using month_window by (auto simp: in_window_def)
  have same: "session_month (\<lambda>_. 0) (reference_instant x) = monthKey (month_start n) \<longleftrightarrow> ?k = n"
    if "a \<le> ?k" "?k \<le> b"
    using month_text_inject [of ?k n] session_month_utc [of "reference_instant x"] monthKey_text [of n]
      assms that by auto
  show "((act_bondId x = i \<and> in_window (month_start a) (month_start (b + 1)) x) \<and>
      session_month (\<lambda>_. 0) (reference_instant x) = monthKey (month_start n) \<and> P x) =
    ((act_bondId x = i \<and> act_deletedAt x = None \<and> ?k = n) \<and> P x)"
    using w same assms by auto
qed

lemma rev_offsets: "map (\<lambda>offset. n - int offset) (rev [0..<k]) = [n - int k + 1..n]"
proof (induction k)
  case (Suc k)
  have "[n - int (Suc k) + 1..n] = (n - int k) # [n - int k + 1..n]"
    by (subst upto_rec1) simp_all
  with Suc show ?case
    by simp
qed simp

text \<open>With the session of the database in UTC, the trend is the series of its months.\<close>

lemma trend_series:
  assumes n: "n = month_number now" "12000 + int k \<le> n" "n < 119999"
  shows "buildBondTrend (trendByMonth (\<lambda>_. 0) d i (month_start (n - int k + 1)) (month_start (n + 1))) k now =
    map (month_point d i) [n - int k + 1..n]"
proof -
  let ?acts = "findActivities d i (month_start (n - int k + 1)) (month_start (n + 1))"
  let ?m = "\<lambda>a. session_month (\<lambda>_. 0) (reference_instant a)"
  let ?row = "\<lambda>key. \<lparr>ta_month = key, ta_activitiesTotal = length (filter (\<lambda>a. ?m a = key) ?acts),
     ta_activitiesCompleted = length (filter (\<lambda>a. ?m a = key \<and> act_status a = DONE) ?acts)\<rparr>"
  let ?keys = "sort (remdups (map ?m ?acts))"
  have rows: "trendByMonth (\<lambda>_. 0) d i (month_start (n - int k + 1)) (month_start (n + 1)) = map ?row ?keys"
    by (simp only: trendByMonth_def Let_def)
  have lookup: "map_of (rev (map (\<lambda>r. (ta_month r, r)) (map ?row ?keys))) key =
      (if key \<in> ?m ` set ?acts then Some (?row key) else None)" for key
    using map_of_image [of ?row "rev ?keys" key] by (simp add: rev_map o_def)
  have point: "(case (if key \<in> ?m ` set ?acts then Some (?row key) else None) of
        Some row \<Rightarrow> \<lparr>tp_month = key, tp_activitiesTotal = ta_activitiesTotal row,
          tp_completionRate = percentage (of_nat (ta_activitiesCompleted row)) (of_nat (ta_activitiesTotal row))\<rparr>
      | None \<Rightarrow> \<lparr>tp_month = key, tp_activitiesTotal = 0, tp_completionRate = percentage 0 0\<rparr>) =
      month_point d i j"
    if key: "key = monthKey (month_start j)" and j: "n - int k + 1 \<le> j" "j \<le> n" for j key
  proof -
    note g = group_filter [of j "n - int k + 1" n]
    have all: "filter (\<lambda>a. ?m a = key) ?acts = month_activities d i j"
      using g [of "\<lambda>_. True" d i] j n(2,3) key by simp
    have fin: "filter (\<lambda>a. ?m a = key \<and> act_status a = DONE) ?acts =
        filter (\<lambda>a. act_status a = DONE) (month_activities d i j)"
      using g [of "\<lambda>a. act_status a = DONE" d i] j n(2,3) key by simp
    show ?thesis
    proof (cases "key \<in> ?m ` set ?acts")
      case True
      then show ?thesis
        by (simp add: month_point_def all fin key [symmetric] Let_def del: image_iff)
    next
      case False
      then have "filter (\<lambda>a. ?m a = key) ?acts = []"
        by (auto simp: filter_empty_conv)
      then have "month_activities d i j = []"
        by (simp only: all)
      then show ?thesis
        using False by (simp add: month_point_def key [symmetric] Let_def del: image_iff)
    qed
  qed
  have "buildBondTrend (map ?row ?keys) k now =
      map (\<lambda>offset. month_point d i (n - int offset)) (rev [0..<k])"
    unfolding buildBondTrend_def Let_def lookup n(1) [symmetric]
    by (rule map_cong [OF refl], rule point [OF refl]) auto
  also have "\<dots> = map (month_point d i) (map (\<lambda>offset. n - int offset) (rev [0..<k]))"
    by simp
  finally show ?thesis
    by (simp only: rows rev_offsets)
qed

end
