(* ===== verification/Report_Machine.thy ===== *)
theory Report_Machine
  imports Reports
begin

text \<open>The life of the PDF reports under every interleaving: requests insert rows and enqueue jobs,
  the worker takes any job that was accepted, at any time and any number of times (retries), and
  may have read any earlier database. A state is the history of the database (the current one
  first), the storage and the jobs.\<close>

inductive report_reach ::
  "('s, 'b) storage_service \<Rightarrow> (bond_report \<Rightarrow> 'b option) \<Rightarrow> (string \<Rightarrow> string option) \<Rightarrow>
   (string \<Rightarrow> bool) \<Rightarrow> db list \<times> 's \<times> uuid list \<Rightarrow> bool"
  for st :: "('s, 'b) storage_service" and render :: "bond_report \<Rightarrow> 'b option"
    and date_column :: "string \<Rightarrow> string option" and accepts :: "string \<Rightarrow> bool" where
  start: "db_reports d = [] \<Longrightarrow> report_reach st render date_column accepts ([d], s, [])"
| request: "report_reach st render date_column accepts (d # h, s, jobs) \<Longrightarrow>
    \<forall>d0 \<in> set (d # h). env_uuid e 0 \<notin> rep_id ` set (db_reports d0) \<Longrightarrow>
    CHR '':'' \<notin> set (env_uuid e 0) \<Longrightarrow>
    requestPdf date_column accepts e bondId dateFrom dateTo u (d, jobs) = (r, d', jobs') \<Longrightarrow>
    report_reach st render date_column accepts (d' # d # h, s, jobs')"
| work: "report_reach st render date_column accepts (d # h, s, jobs) \<Longrightarrow> i \<in> set jobs \<Longrightarrow>
    d0 \<in> set (d # h) \<Longrightarrow> generatePdf st render e i d0 (d, s) = (r, d', s') \<Longrightarrow>
    report_reach st render date_column accepts (d' # d # h, s', jobs)"
| other: "report_reach st render date_column accepts (d # h, s, jobs) \<Longrightarrow>
    db_reports d' = db_reports d \<Longrightarrow>
    report_reach st render date_column accepts (d' # d # h, s', jobs)"

section \<open>Rows\<close>

definition report_wf :: "report_row \<Rightarrow> bool" where
  "report_wf r \<longleftrightarrow>
     (if rep_status r = R_COMPLETED
      then rep_fileUrl r = Some (report_path r) \<and> rep_generatedBy r = Some (rep_requestedBy r) \<and>
           rep_generatedAt r \<noteq> None
      else rep_status r = R_REQUESTED \<and> rep_fileUrl r = None \<and> rep_generatedBy r = None \<and>
           rep_generatedAt r = None)"

text \<open>What no step changes of a row, and that a completed one stays completed.\<close>

definition continues :: "report_row \<Rightarrow> report_row \<Rightarrow> bool" where
  "continues r0 r \<longleftrightarrow> rep_id r = rep_id r0 \<and> rep_bondId r = rep_bondId r0 \<and>
     rep_requestedBy r = rep_requestedBy r0 \<and> rep_dateFrom r = rep_dateFrom r0 \<and>
     rep_dateTo r = rep_dateTo r0 \<and> rep_createdAt r = rep_createdAt r0 \<and>
     (rep_status r0 = R_COMPLETED \<longrightarrow> rep_status r = R_COMPLETED)"

lemma continues_refl [simp]: "continues r r"
  by (simp add: continues_def)

lemma continues_trans: "continues r0 r1 \<Longrightarrow> continues r1 r2 \<Longrightarrow> continues r0 r2"
  by (auto simp: continues_def)

definition rows_continue :: "db \<Rightarrow> db \<Rightarrow> bool" where
  "rows_continue d0 d \<longleftrightarrow>
     (\<forall>r0 \<in> set (db_reports d0). \<exists>r \<in> set (db_reports d). continues r0 r)"

lemma rows_continue_trans: "rows_continue d0 d1 \<Longrightarrow> rows_continue d1 d2 \<Longrightarrow> rows_continue d0 d2"
  unfolding rows_continue_def by (meson continues_trans)

definition reports_ok :: "db list \<Rightarrow> bool" where
  "reports_ok h \<longleftrightarrow>
     (case h of [] \<Rightarrow> False
      | d # _ \<Rightarrow> distinct (map rep_id (db_reports d)) \<and> list_all report_wf (db_reports d) \<and>
          (\<forall>d0 \<in> set h. rows_continue d0 d))"

lemma reports_ok_step:
  assumes "reports_ok (d # h)" and "rows_continue d d'"
    and "distinct (map rep_id (db_reports d'))" "list_all report_wf (db_reports d')"
  shows "reports_ok (d' # d # h)"
proof -
  have "rows_continue d' d'"
    unfolding rows_continue_def using continues_refl by blast
  then have "\<forall>d0 \<in> set (d' # d # h). rows_continue d0 d'"
    using assms(1,2) by (auto simp: reports_ok_def intro: rows_continue_trans)
  then show ?thesis
    using assms(3,4) by (simp add: reports_ok_def)
qed

lemma requestPdf_db:
  assumes "requestPdf date_column accepts e bondId dateFrom dateTo u (d, jobs) = (r, d', jobs')"
  shows "d' = d \<and> jobs' = jobs \<or>
    (\<exists>row. d' = d\<lparr>db_reports := db_reports d @ [row]\<rparr> \<and> rep_id row = env_uuid e 0 \<and>
       report_wf row \<and> jobs' = enqueue_report accepts (env_uuid e 0) jobs)"
proof (cases "dateTo < dateFrom \<or> findReportBond d bondId = None")
  case True
  then have "d' = d \<and> jobs' = jobs"
    using assms by (cases "dateTo < dateFrom") (simp_all add: requestPdf_def)
  then show ?thesis
    by (rule disjI1)
next
  case ok: False
  show ?thesis
  proof (cases "(date_column dateFrom, date_column dateTo)")
    case (Pair f t)
    show ?thesis
    proof (cases "f = None \<or> t = None")
      case True
      then show ?thesis
        using assms ok Pair by (cases f) (auto simp: requestPdf_def)
    next
      case False
      then obtain f' t' where dates: "date_column dateFrom = Some f'" "date_column dateTo = Some t'"
        using Pair by auto
      have ok': "\<not> dateTo < dateFrom" "findReportBond d bondId \<noteq> None"
        using ok by blast+
      show ?thesis
        using assms ok' dates
        by (intro disjI2 exI [of _ "\<lparr>rep_id = env_uuid e 0, rep_bondId = bondId, rep_requestedBy = u,
              rep_generatedBy = None, rep_dateFrom = f', rep_dateTo = t', rep_status = R_REQUESTED,
              rep_fileUrl = None, rep_generatedAt = None, rep_createdAt = env_dbnow e\<rparr>"])
          (simp add: requestPdf_def report_wf_def Let_def del: not_None_eq)
    qed
  qed
qed

lemma generatePdf_db:
  assumes "generatePdf st render e i d0 (d, s) = (r, d', s')"
  shows "d' = d \<or>
    (\<exists>r0 at0. findReportById d0 i = Some r0 \<and>
       d' = markCompleted (rep_id r0) (report_path r0) at0 (rep_requestedBy r0) d)"
proof -
  have up: "uploadObject st p b c s0 = (Some q, s1) \<Longrightarrow> q = p" for p b c s0 q s1
    by (auto simp: uploadObject_def split: option.splits prod.splits if_splits)
  show ?thesis
  proof (cases "findReportById d0 i")
    case (Some r0)
    show ?thesis
    proof (cases "report_isFinished (rep_status r0)")
      case False
      with assms Some show ?thesis
        by (auto simp: generatePdf_def dest!: up split: sum.splits option.splits prod.splits)
    qed (use assms Some in \<open>simp add: generatePdf_def\<close>)
  qed (use assms in \<open>simp add: generatePdf_def\<close>)
qed

lemma mark_completed_ok:
  assumes ok: "reports_ok (d # h)" and d0: "d0 \<in> set (d # h)" and r0: "findReportById d0 i = Some r0"
  shows "reports_ok (markCompleted (rep_id r0) (report_path r0) at0 (rep_requestedBy r0) d # d # h)"
proof (rule reports_ok_step [OF ok])
  let ?f = "\<lambda>r. r\<lparr>rep_status := R_COMPLETED, rep_fileUrl := Some (report_path r0),
    rep_generatedAt := Some at0, rep_generatedBy := Some (rep_requestedBy r0)\<rparr>"
  have dist: "distinct (map rep_id (db_reports d))" and wf: "list_all report_wf (db_reports d)"
    and cont: "rows_continue d0 d"
    using ok d0 by (auto simp: reports_ok_def)
  have mem: "r0 \<in> set (db_reports d0)"
    using r0 by (auto simp: findReportById_def dest: lookup_by_SomeD)
  have same: "rep_bondId r = rep_bondId r0 \<and> rep_requestedBy r = rep_requestedBy r0"
    if "r \<in> set (db_reports d)" "rep_id r = rep_id r0" for r
  proof -
    obtain r' where r': "r' \<in> set (db_reports d)" "continues r0 r'"
      using cont mem by (auto simp: rows_continue_def)
    then have "r' = r"
      using that dist by (metis continues_def distinct_map inj_onD)
    then show ?thesis
      using r'(2) by (simp add: continues_def)
  qed
  show "rows_continue d (markCompleted (rep_id r0) (report_path r0) at0 (rep_requestedBy r0) d)"
    unfolding rows_continue_def
  proof
    fix r
    assume "r \<in> set (db_reports d)"
    then have "(if rep_id r = rep_id r0 then ?f r else r) \<in>
        set (db_reports (markCompleted (rep_id r0) (report_path r0) at0 (rep_requestedBy r0) d))"
      by (auto simp: markCompleted_def update_by_def)
    moreover have "continues r (if rep_id r = rep_id r0 then ?f r else r)"
      by (simp add: continues_def)
    ultimately show "\<exists>r' \<in> set (db_reports
        (markCompleted (rep_id r0) (report_path r0) at0 (rep_requestedBy r0) d)). continues r r'"
      by blast
  qed
  show "distinct (map rep_id (db_reports (markCompleted (rep_id r0) (report_path r0) at0 (rep_requestedBy r0) d)))"
    using dist by (simp add: markCompleted_def update_by_def o_def if_distrib cong: if_cong)
  show "list_all report_wf (db_reports (markCompleted (rep_id r0) (report_path r0) at0 (rep_requestedBy r0) d))"
    using wf same by (auto simp: markCompleted_def update_by_def list_all_iff report_wf_def report_path_def)
qed

lemma report_reach_ok: "report_reach st render date_column accepts (h, s, jobs) \<Longrightarrow> reports_ok h"
proof (induction "(h, s, jobs)" arbitrary: h s jobs rule: report_reach.induct)
  case (start d s)
  then show ?case
    by (simp add: reports_ok_def rows_continue_def)
next
  case (request d h s jobs e bondId dateFrom dateTo u r d' jobs')
  have ok: "reports_ok (d # h)"
    using request by simp
  from requestPdf_db [OF request(5)] show ?case
  proof (elim disjE exE conjE)
    assume "d' = d"
    then show ?thesis
      using ok by (auto simp: reports_ok_def rows_continue_def)
  next
    fix row
    assume "d' = d\<lparr>db_reports := db_reports d @ [row]\<rparr>" "rep_id row = env_uuid e 0" "report_wf row"
    then show ?thesis
      using ok request(3)
      by (intro reports_ok_step [OF ok]) (auto simp: reports_ok_def rows_continue_def)
  qed
next
  case (work d h s jobs i d0 e r d' s')
  have ok: "reports_ok (d # h)"
    using work by simp
  from generatePdf_db [OF work(5)] show ?case
    using mark_completed_ok [OF ok work(4)] ok by (auto simp: reports_ok_def rows_continue_def)
next
  case (other d h s jobs d' s')
  then show ?case
    by (auto simp: reports_ok_def rows_continue_def)
qed

text \<open>When the queue refuses the ids the producer makes, there is never a job to work on.\<close>

lemma report_reach_stuck:
  assumes law: "\<And>i. length (filter (\<lambda>c. c = CHR '':'') i) = 1 \<Longrightarrow> \<not> accepts i"
  shows "report_reach st render date_column accepts (h, s, jobs) \<Longrightarrow>
    jobs = [] \<and> (\<forall>d \<in> set h. \<forall>r \<in> set (db_reports d). rep_status r = R_REQUESTED \<and> report_wf r)"
proof (induction "(h, s, jobs)" arbitrary: h s jobs rule: report_reach.induct)
  case (request d h s jobs e bondId dateFrom dateTo u r d' jobs')
  have "filter (\<lambda>c. c = CHR '':'') (env_uuid e 0) = []"
    using request(4) by (auto simp: filter_empty_conv)
  then have "\<not> accepts (report_job_id (env_uuid e 0))"
    by (intro law) (simp add: report_job_id_def)
  moreover have "rep_status row = R_REQUESTED" if "report_wf row" "row \<in> set (db_reports d') - set (db_reports d)" for row
    using that request(5)
    by (auto simp: requestPdf_def Let_def split: if_splits option.splits)
  ultimately show ?case
    using request requestPdf_db [OF request(5)] by (fastforce simp: enqueue_report_def)
qed auto

end
