(* ===== verification/Report_Properties.thy ===== *)
theory Report_Properties
  imports Report_Trend Report_Machine Examples
begin

text \<open>The properties of the reports: the list of bonds and the report agree, percentages are
  percentages, the trend is the series of its months, the rows of PDF reports stay well formed,
  and a PDF is never generated because the queue refuses the id of its job.\<close>

section \<open>An instance\<close>

definition ex_report_expense :: "uuid \<Rightarrow> expense_status \<Rightarrow> int \<Rightarrow> expense_row" where
  "ex_report_expense i st cents = \<lparr>exp_id = i, exp_bondId = ''b'', exp_childId = None,
     exp_categoryId = Some ''c'', exp_activityId = None, exp_concept = [], exp_description = None,
     exp_amount = cents, exp_expenseDate = ''2026-06-10'', exp_splitRatioPayer = 5000,
     exp_splitRatioOther = 5000, exp_status = st, exp_requestedBy = ''u1'', exp_approvedBy = None,
     exp_approvedAt = None, exp_paidAt = None, exp_deletedAt = None, exp_createdAt = 0,
     exp_updatedAt = 0\<rparr>"

definition ex_report_db :: db where
  "ex_report_db = ex_db0\<lparr>db_expenses :=
     [ex_report_expense ''e1'' PAID 1010, ex_report_expense ''e2'' PENDING 2030]\<rparr>"

lemma ex_day_texts:
  "day_text 2026 6 1 = ''2026-06-01''" "day_text 2026 6 30 = ''2026-06-30''"
  "day_text 2026 7 1 = ''2026-07-01''"
  by (simp_all add: day_text_def pad_start_def decimal.simps digit_def
      char_of_def bit_0)

lemma ex_day:
  assumes "valid_civil 2026 m d"
  shows "js_parse_day (day_text 2026 m d) = Some (days_from_civil 2026 m d)"
    and "is_calendar_day (day_text 2026 m d)"
proof -
  show p: "js_parse_day (day_text 2026 m d) = Some (days_from_civil 2026 m d)"
    unfolding js_parse_day_iff using valid_civil_bounds [OF assms]
    by (intro exI [of _ 2026] exI [of _ m] exI [of _ d]) simp
  show "is_calendar_day (day_text 2026 m d)"
    using day_string_civil [OF assms] by (simp add: is_calendar_day_def p)
qed

lemma ex_days:
  "js_parse_day ''2026-06-01'' = Some 20605" "js_parse_day ''2026-06-30'' = Some 20634"
  "js_parse_day ''2026-07-01'' = Some 20635" "is_calendar_day ''2026-06-01''"
  "addDaysToIsoDate ''2026-06-30'' 1 = Some ''2026-07-01''"
proof -
  have v: "valid_civil 2026 6 1" "valid_civil 2026 6 30" "valid_civil 2026 7 1"
    by (simp_all add: valid_civil_def month_days_def)
  have z: "days_from_civil 2026 6 1 = 20605" "days_from_civil 2026 6 30 = 20634"
    "days_from_civil 2026 7 1 = 20635"
    by (simp_all add: days_from_civil_def days_before_year_def days_before_month_def is_leap_def)
  note days = ex_day [OF v(1)] ex_day [OF v(2)] ex_day [OF v(3)]
  show "js_parse_day ''2026-06-01'' = Some 20605" "js_parse_day ''2026-06-30'' = Some 20634"
    "js_parse_day ''2026-07-01'' = Some 20635" "is_calendar_day ''2026-06-01''"
    using days unfolding ex_day_texts z by blast+
  then show "addDaysToIsoDate ''2026-06-30'' 1 = Some ''2026-07-01''"
    using day_string_civil [OF v(3)] toISOString_day [of 20635]
    by (simp add: addDaysToIsoDate_def ex_day_texts z)
qed

lemma ex_build:
  "\<exists>r. build ex_report_db ex_env ''b'' ''2026-06-01'' ''2026-06-30'' = Inr r"
  by (simp add: build_def ensure_def ex_days midnight_def findReportBond_def ex_report_db_def ex_defs)

lemma ex_amounts_fit: "amounts_fit ex_report_db ''b''"
  by (simp add: amounts_fit_def ex_report_db_def ex_report_expense_def sum_hundredths_def)

section \<open>One period, two screens\<close>

lemma build_parts:
  assumes "build d e bondId dateFrom dateTo = Inr r"
  obtains b w f t where "findReportBond d bondId = Some b" "is_calendar_day dateFrom"
    "midnight dateFrom = Some f" "addDaysToIsoDate dateTo 1 = Some w" "midnight w = Some t"
    "\<not> dateTo < dateFrom" "r = buildBondReport (report_input d b dateFrom dateTo f t w (env_clock e 0))"
  using assms by (auto simp: build_def chain_simps)

text \<open>C31. For the same period, the card of a bond in the list of bonds and the report of that bond
  agree: the same number of activities, the same completion rate, the same percentage paid, the
  same numbers of members and of children. The card takes exact sums made by the database and the
  report adds doubles one by one; the two percentages are equal all the same, because rounding to
  hundredths undoes the error of the additions, for non-negative amounts whose number times their
  total stays within \<open>2^48\<close> hundredths. In particular the list answers whenever the report
  does.\<close>

theorem card_and_report_agree:
  assumes "build d e bondId dateFrom dateTo = Inr r" and "amounts_fit d bondId"
  shows "\<exists>rows row. health d dateFrom dateTo = Inr rows \<and> row \<in> set rows \<and>
    bh_bondId row = bondId \<and>
    bh_activitiesTotal row = as_total (br_activities r) \<and>
    bh_completionRate row = as_completionRate (br_activities r) \<and>
    bh_paidAmountPercentage row = es_paidAmountPercentage (br_expenses r) \<and>
    bh_membersCount row = length (br_members r) \<and>
    bh_childrenCount row = length (br_children r)"
proof -
  obtain b w f t where p: "findReportBond d bondId = Some b" "is_calendar_day dateFrom"
    "midnight dateFrom = Some f" "addDaysToIsoDate dateTo 1 = Some w" "midnight w = Some t"
    "\<not> dateTo < dateFrom" "r = buildBondReport (report_input d b dateFrom dateTo f t w (env_clock e 0))"
    using assms(1) by (rule build_parts)
  have b: "b \<in> set (findBonds d)" "bond_id b = bondId"
    using p(1) by (auto simp: findReportBond_def findBonds_def dest: lookup_by_SomeD)
  let ?ids = "map bond_id (findBonds d)"
  let ?row = "buildBondHealthRow b (aggregatesByBond d ?ids f t bondId)"
  obtain rows where rows: "health d dateFrom dateTo = Inr rows" "?row \<in> set rows"
    using health_row [OF b(1) p(3-6)] b(2) by auto
  have "bondId \<in> set ?ids"
    using b by force
  note agree = report_and_aggregates [OF p(1-5) assms(2) this p(7) refl]
  have "bh_bondId ?row = bondId"
    using b(2) by (simp add: buildBondHealthRow_def Let_def)
  with rows agree show ?thesis
    by blast
qed

theorem card_and_report_agree_witness:
  "\<exists>r rows row. build ex_report_db ex_env ''b'' ''2026-06-01'' ''2026-06-30'' = Inr r \<and>
     health ex_report_db ''2026-06-01'' ''2026-06-30'' = Inr rows \<and> row \<in> set rows \<and>
     bh_paidAmountPercentage row = es_paidAmountPercentage (br_expenses r)"
proof -
  obtain r where r: "build ex_report_db ex_env ''b'' ''2026-06-01'' ''2026-06-30'' = Inr r"
    using ex_build by blast
  then show ?thesis
    using card_and_report_agree [OF r ex_amounts_fit] by blast
qed

section \<open>Percentages\<close>

lemma amount_number_mono:
  assumes "0 \<le> p" "p \<le> t" "t < 2 ^ 48"
  shows "0 \<le> amount_number p \<and> amount_number p \<le> amount_number t"
proof (cases "p = t")
  case True
  then show ?thesis
    using assms by (simp add: amount_number_def to_double_nonneg)
next
  case False
  let ?p = "of_int p / 100 :: rat" and ?t = "of_int t / 100 :: rat"
  have "(of_int (p + 1) :: rat) \<le> of_int t" "(of_int t :: rat) \<le> of_int (2 ^ 48)"
    using assms False by (simp_all only: of_int_le_iff)
  then have b: "?p + 1 / 100 \<le> ?t" "?t \<le> 281474976710656 / 100"
    by simp_all
  have p: "0 \<le> ?p"
    using assms(1) by simp
  have "to_double ?p \<le> ?p + ?p / 9007199254740992" "?t - ?t / 9007199254740992 \<le> to_double ?t"
    using to_double_bounds [of ?p] to_double_bounds [of ?t] p b(1) by simp_all
  then have "to_double ?p \<le> to_double ?t"
    using b p by linarith
  then show ?thesis
    using to_double_nonneg [OF p] by (simp add: amount_number_def)
qed

lemma of_nat_percentage:
  "c \<le> t \<Longrightarrow> 0 \<le> percentage (of_nat c) (of_nat t) \<and> percentage (of_nat c) (of_nat t) \<le> 100"
  by (rule percentage_bounds) simp_all

text \<open>C32. Every percentage of a report lies between 0 and 100: the completion rate, the share of
  paid expenses by number and by amount, and the completion of each member. Up to 10000 activities
  the completion rate is 100 exactly when every activity of the period is done and 0 exactly when
  none is.\<close>

theorem report_rates_are_percentages:
  assumes "build d e bondId dateFrom dateTo = Inr r" and "amounts_fit d bondId"
  shows "0 \<le> as_completionRate (br_activities r) \<and> as_completionRate (br_activities r) \<le> 100 \<and>
    0 \<le> es_paidCountPercentage (br_expenses r) \<and> es_paidCountPercentage (br_expenses r) \<le> 100 \<and>
    0 \<le> es_paidAmountPercentage (br_expenses r) \<and> es_paidAmountPercentage (br_expenses r) \<le> 100 \<and>
    (\<forall>m \<in> set (br_members r). 0 \<le> rmb_completionPercentage m \<and> rmb_completionPercentage m \<le> 100) \<and>
    (0 < as_total (br_activities r) \<and> as_total (br_activities r) \<le> 10000 \<longrightarrow>
       (as_completionRate (br_activities r) = 100 \<longleftrightarrow>
          as_completed (br_activities r) = as_total (br_activities r)) \<and>
       (as_completionRate (br_activities r) = 0 \<longleftrightarrow> as_completed (br_activities r) = 0))"
proof -
  obtain b w f t where p: "findReportBond d bondId = Some b" "is_calendar_day dateFrom"
    "midnight dateFrom = Some f" "addDaysToIsoDate dateTo 1 = Some w" "midnight w = Some t"
    "\<not> dateTo < dateFrom" "r = buildBondReport (report_input d b dateFrom dateTo f t w (env_clock e 0))"
    using assms(1) by (rule build_parts)
  have i: "bond_id b = bondId"
    using p(1) by (auto simp: findReportBond_def dest: lookup_by_SomeD)
  define inp where "inp = report_input d b dateFrom dateTo f t w (env_clock e 0)"
  have acts: "br_activities r = report_activities inp" and exps: "br_expenses r = report_expenses inp"
    and mems: "br_members r = report_members inp"
    by (simp_all add: p(7) buildBondReport_def inp_def)
  let ?done = "as_completed (br_activities r)" and ?all = "as_total (br_activities r)"
  have part: "?done \<le> ?all" and rate: "as_completionRate (br_activities r) = percentage (of_nat ?done) (of_nat ?all)"
    by (simp_all add: acts report_activities_def Let_def)
  have counts: "0 \<le> es_paidCountPercentage (br_expenses r) \<and> es_paidCountPercentage (br_expenses r) \<le> 100"
    unfolding exps report_expenses_def Let_def expense_section.simps
    by (rule of_nat_percentage) (rule length_filter_le)
  let ?paid = "bond_expenses d bondId dateFrom w (\<lambda>s. s = PAID)"
  let ?el = "bond_expenses d bondId dateFrom w (\<lambda>s. s \<noteq> REJECTED)"
  have "sum_hundredths ?paid = sum_hundredths (filter (\<lambda>x. exp_status x = PAID) ?el)"
    unfolding bond_expenses_def filter_filter
    by (rule arg_cong [of _ _ sum_hundredths], rule filter_cong) auto
  moreover have "\<forall>x \<in> set ?el. 0 \<le> exp_amount x"
    using assms(2) by (auto simp: amounts_fit_def Let_def bond_expenses_def findExpenses_def)
  ultimately have "sum_hundredths ?paid \<le> sum_hundredths ?el"
    by (simp add: sum_hundredths_def sum_list_filter_le)
  then have amounts: "0 \<le> amount_number (sum_hundredths ?paid) \<and>
      amount_number (sum_hundredths ?paid) \<le> amount_number (sum_hundredths ?el)"
    using fit_sublist(2,3) [OF assms(2)] by (intro amount_number_mono)
  have "es_paidAmountPercentage (br_expenses r) =
      percentage (amount_number (sum_hundredths ?paid)) (amount_number (sum_hundredths ?el))"
    unfolding exps inp_def
    by (simp add: report_expenses_def report_input_def i Let_def eligible_rows paid_rows
        fit_sublist(1) [OF assms(2)] del: filter_filter)
  then have paid: "0 \<le> es_paidAmountPercentage (br_expenses r) \<and> es_paidAmountPercentage (br_expenses r) \<le> 100"
    using percentage_bounds amounts by simp
  have members: "\<forall>m \<in> set (br_members r). 0 \<le> rmb_completionPercentage m \<and> rmb_completionPercentage m \<le> 100"
    unfolding mems report_members_def Let_def set_map ball_simps report_member.simps
    using of_nat_percentage length_filter_le by blast
  show ?thesis
    using of_nat_percentage [OF part] percentage_ends [OF part] counts paid members
    unfolding rate by blast
qed

theorem report_rates_are_percentages_witness:
  "\<exists>r. build ex_report_db ex_env ''b'' ''2026-06-01'' ''2026-06-30'' = Inr r \<and>
     es_paidAmountPercentage (br_expenses r) \<le> 100"
proof -
  obtain r where r: "build ex_report_db ex_env ''b'' ''2026-06-01'' ''2026-06-30'' = Inr r"
    using ex_build by blast
  then show ?thesis
    using report_rates_are_percentages [OF r ex_amounts_fit] by blast
qed

section \<open>The trend\<close>

lemma sum_by_key:
  "sum_list (map (\<lambda>n. length (filter (\<lambda>x. f x = n \<and> P x) xs)) [a..b]) =
     length (filter (\<lambda>x. (a \<le> f x \<and> f x \<le> b) \<and> P x) xs)" for a b :: int
proof (induction xs)
  case (Cons x xs)
  have split: "sum_list (map (\<lambda>n. length (filter (\<lambda>x. f x = n \<and> P x) (x # xs))) [a..b]) =
      sum_list (map (\<lambda>n. if f x = n \<and> P x then 1 else 0) [a..b]) +
      sum_list (map (\<lambda>n. length (filter (\<lambda>x. f x = n \<and> P x) xs)) [a..b])"
    unfolding sum_list_addf [symmetric] by (rule arg_cong [of _ _ sum_list], rule map_cong) auto
  have "sum_list (map (\<lambda>n. if f x = n \<and> P x then 1 else 0) [a..b]) =
      (if (a \<le> f x \<and> f x \<le> b) \<and> P x then 1 else (0::nat))"
    by (simp add: sum_list_distinct_conv_sum_set)
  with split Cons show ?case
    by simp
qed simp

text \<open>C33. When the session of the database is in UTC, the trend of a bond is, month by month up to
  the current one, the number of its activities whose reference date falls in that month and the
  percentage of them that are done; there are as many points as months asked for, from 1 to 12, and
  together they count every activity of the period once. The years are those of four digits,
  where the two sides write a month in the same way.\<close>

theorem trend_is_the_monthly_series:
  assumes "trend (\<lambda>_. 0) d e bondId given = Inr (i, points)"
    and "n = month_number (env_clock e 0)" "12012 \<le> n" "n < 119999"
  shows "\<exists>k. 1 \<le> k \<and> k \<le> 12 \<and> length points = nat k \<and>
    points = map (month_point d bondId) [n - k + 1..n] \<and>
    sum_list (map tp_activitiesTotal points) =
      length (findActivities d bondId (month_start (n - k + 1)) (month_start (n + 1)))"
proof -
  define k where "k = (case given of Some m \<Rightarrow> m | None \<Rightarrow> DEFAULT_TREND_MONTHS)"
  have k: "1 \<le> k" "k \<le> 12"
    and p: "points = buildBondTrend (trendByMonth (\<lambda>_. 0) d bondId (month_start (n - (k - 1)))
      (month_start (n + 1))) (nat k) (env_clock e 0)"
    using assms(1,2) by (auto simp: trend_def chain_simps Let_def k_def [symmetric])
  have series: "points = map (month_point d bondId) [n - k + 1..n]"
    using p trend_series [OF assms(2), of "nat k" d bondId] k assms(3,4) by (simp add: algebra_simps)
  have "sum_list (map tp_activitiesTotal points) =
      sum_list (map (\<lambda>m. length (month_activities d bondId m)) [n - k + 1..n])"
    by (simp add: series month_point_def Let_def o_def)
  also have "\<dots> = length (filter (\<lambda>a. (n - k + 1 \<le> month_number (reference_instant a) \<and>
      month_number (reference_instant a) \<le> n) \<and> act_bondId a = bondId \<and> act_deletedAt a = None)
      (db_activities d))"
    unfolding month_activities_def sum_by_key [symmetric]
    by (rule arg_cong [of _ _ sum_list], rule map_cong [OF refl], rule arg_cong [of _ _ length],
        rule filter_cong) auto
  also have "\<dots> = length (findActivities d bondId (month_start (n - k + 1)) (month_start (n + 1)))"
    unfolding findActivities_def in_window_def month_window [symmetric]
    by (rule arg_cong [of _ _ length], rule filter_cong) auto
  finally have total: "sum_list (map tp_activitiesTotal points) =
      length (findActivities d bondId (month_start (n - k + 1)) (month_start (n + 1)))" .
  have "length points = nat k"
    using k by (simp add: series)
  with k series total show ?thesis
    by blast
qed

theorem trend_is_the_monthly_series_witness:
  "\<exists>i points. trend (\<lambda>_. 0) ex_report_db (ex_env\<lparr>env_clock := \<lambda>_. month_start 24317\<rparr>) ''b'' (Some 3) =
     Inr (i, points) \<and> length points = 3"
proof -
  let ?e = "ex_env\<lparr>env_clock := \<lambda>_. month_start 24317\<rparr>"
  have "\<exists>i points. trend (\<lambda>_. 0) ex_report_db ?e ''b'' (Some 3) = Inr (i, points)"
    by (simp add: trend_def ensure_def findReportBond_def ex_report_db_def ex_defs Let_def)
  then obtain i points where t: "trend (\<lambda>_. 0) ex_report_db ?e ''b'' (Some 3) = Inr (i, points)"
    by blast
  have "length points = 3"
    using t by (auto simp: trend_def ensure_def chain_simps Let_def buildBondTrend_def)
  then show ?thesis
    using t trend_is_the_monthly_series [OF t refl] by simp
qed

section \<open>PDF reports\<close>

text \<open>C34. Under every interleaving of requests and of workers that may have read any earlier state,
  the rows of the reports stay well formed: an id names one report, a report is requested, with no
  file, or completed, with the path of its own PDF, the time and, as the author, whoever asked for
  it; what was asked for never changes and a completed report stays completed.\<close>

theorem report_rows_well_formed:
  assumes "report_reach st render date_column accepts (d # h, s, jobs)"
  shows "distinct (map rep_id (db_reports d)) \<and> list_all report_wf (db_reports d) \<and>
    (\<forall>d0 \<in> set h. \<forall>r0 \<in> set (db_reports d0). \<exists>r \<in> set (db_reports d). continues r0 r)"
  using report_reach_ok [OF assms] by (auto simp: reports_ok_def rows_continue_def)

definition ex_storage :: "(unit, unit) storage_service" where
  "ex_storage = storage_service_of None None None"

definition ex_requested_db :: db where
  "ex_requested_db = fst (snd (requestPdf Some (\<lambda>i. length (filter (\<lambda>c. c = CHR '':'') i) \<noteq> 1) ex_env ''b''
     ''2026-06-01'' ''2026-06-30'' ''u1'' (ex_report_db, [])))"

lemma ex_request:
  "report_reach ex_storage (\<lambda>_. Some ()) Some (\<lambda>i. length (filter (\<lambda>c. c = CHR '':'') i) \<noteq> 1)
     ([ex_requested_db, ex_report_db], (), [])"
  and ex_request_rows: "length (db_reports ex_requested_db) = 1"
proof -
  let ?acc = "\<lambda>i. length (filter (\<lambda>c. c = CHR '':'') i) \<noteq> 1"
  have none: "db_reports ex_report_db = []"
    by (simp add: ex_report_db_def ex_defs)
  have r: "\<exists>r. requestPdf Some ?acc ex_env ''b'' ''2026-06-01'' ''2026-06-30'' ''u1'' (ex_report_db, []) =
      (r, ex_requested_db, [])"
    by (simp add: ex_requested_db_def requestPdf_def findReportBond_def ex_report_db_def ex_defs Let_def
        enqueue_report_def report_job_id_def)
  then obtain r where req: "requestPdf Some ?acc ex_env ''b'' ''2026-06-01'' ''2026-06-30'' ''u1'' (ex_report_db, []) =
      (r, ex_requested_db, [])" by blast
  show "report_reach ex_storage (\<lambda>_. Some ()) Some ?acc ([ex_requested_db, ex_report_db], (), [])"
    by (rule report_reach.request [OF report_reach.start [OF none] _ _ req])
      (simp_all add: none ex_env_def)
  show "length (db_reports ex_requested_db) = 1"
    by (simp add: ex_requested_db_def requestPdf_def findReportBond_def ex_report_db_def ex_defs Let_def)
qed

theorem report_rows_well_formed_witness: "list_all report_wf (db_reports ex_requested_db)"
  using report_rows_well_formed [OF ex_request] by blast

text \<open>C35. No PDF is ever generated. The producer names its job \<open>report-pdf:<id>\<close>, and BullMQ refuses
  a custom id with a colon in it (the comment of \<open>activity-timers.job.ts\<close> says so; the one
  exception is an id of three parts): \<open>add\<close> throws, the producer logs the error and swallows it.
  So in every reachable state no job waits, every report is still requested, and no view of a
  report has a link.\<close>

theorem report_pdf_never_generated:
  assumes "\<And>i. length (filter (\<lambda>c. c = CHR '':'') i) = 1 \<Longrightarrow> \<not> accepts i"
    and "report_reach st render date_column accepts (d # h, s, jobs)"
  shows "jobs = [] \<and>
    (\<forall>r \<in> set (db_reports d). rep_status r = R_REQUESTED \<and> rv_fileUrl (report_toView st s r) = None)"
  using report_reach_stuck [of accepts st render date_column "d # h" s jobs, OF assms]
  by (auto simp: report_toView_def report_isFinished_def)

theorem report_pdf_never_generated_witness:
  "map rep_status (db_reports ex_requested_db) = [R_REQUESTED]"
proof -
  have law: "length (filter (\<lambda>c. c = CHR '':'') i) = 1 \<Longrightarrow>
      \<not> length (filter (\<lambda>c. c = CHR '':'') i) \<noteq> 1" for i :: string
    by simp
  have "\<forall>r \<in> set (db_reports ex_requested_db). rep_status r = R_REQUESTED"
    using report_pdf_never_generated [OF law ex_request] by blast
  then show ?thesis
    using ex_request_rows by (cases "db_reports ex_requested_db") auto
qed

end
