(* ===== verification/Administration.thy ===== *)
theory Administration
  imports Accounts
begin

text \<open>The administration of bonds, members and children (\<open>admin/admin.service.ts\<close>) and the routes of
  the children that members use (\<open>children/children.service.ts\<close>), with the reads they rest on.
  The routes that read a row and then save it are one step each. A route of a member checks the membership with \<open>findActiveBondForMember\<close>, which does not look at
  whether the bond is active. Deleting a child cascades as its foreign keys say: the links to
  activities go, an expense loses its child.\<close>

section \<open>Reads\<close>

definition findUsersByIds :: "db \<Rightarrow> uuid list \<Rightarrow> user_row list" where
  "findUsersByIds d ids = filter (\<lambda>u. user_id u \<in> set ids) (db_users d)"

definition findBondById :: "db \<Rightarrow> uuid \<Rightarrow> bond_row option" where
  "findBondById d bondId = lookup_by bond_id bondId (db_bonds d)"

definition findChildById :: "db \<Rightarrow> uuid \<Rightarrow> child_row option" where
  "findChildById d childId = lookup_by child_id childId (db_children d)"

definition findByBond :: "db \<Rightarrow> uuid \<Rightarrow> child_row list" where
  "findByBond d bondId =
     rev (sort_key child_createdAt (rev (filter (\<lambda>c. child_bondId c = bondId) (db_children d))))"

section \<open>Views\<close>

record bond_admin_member =
  bm_id :: uuid
  bm_email :: "string option"
  bm_role :: bond_member_role

record bond_admin_view =
  bv_id :: uuid
  bv_title :: utf16
  bv_agreementType :: agreement_type
  bv_isActive :: bool
  bv_members :: "bond_admin_member list"
  bv_childrenCount :: nat
  bv_createdAt :: instant

text \<open>The enriched query joins every member, those who left included, and every child.\<close>

definition toBondAdminView :: "db \<Rightarrow> bond_row \<Rightarrow> bond_admin_view" where
  "toBondAdminView d b =
     \<lparr>bv_id = bond_id b, bv_title = bond_title b, bv_agreementType = bond_agreementType b,
      bv_isActive = bond_isActive b,
      bv_members = map (\<lambda>m. \<lparr>bm_id = mem_userId m,
          bm_email = map_option user_email (lookup_by user_id (mem_userId m) (db_users d)),
          bm_role = mem_role m\<rparr>) (filter (\<lambda>m. mem_bondId m = bond_id b) (db_members d)),
      bv_childrenCount = length (filter (\<lambda>c. child_bondId c = bond_id b) (db_children d)),
      bv_createdAt = bond_createdAt b\<rparr>"

record admin_child_view =
  cv_id :: uuid
  cv_bondId :: uuid
  cv_firstName :: utf16
  cv_lastName :: utf16
  cv_dateOfBirth :: "string option"
  cv_createdAt :: instant

definition toAdminChildView :: "child_row \<Rightarrow> admin_child_view" where
  "toAdminChildView c =
     \<lparr>cv_id = child_id c, cv_bondId = child_bondId c, cv_firstName = child_firstName c,
      cv_lastName = child_lastName c, cv_dateOfBirth = child_dateOfBirth c,
      cv_createdAt = child_createdAt c\<rparr>"

section \<open>Writes\<close>

record child_dto =
  cd_firstName :: utf16
  cd_lastName :: utf16
  cd_dateOfBirth :: "string option"

record create_bond_dto =
  cb_title :: utf16
  cb_agreementType :: agreement_type
  cb_userIds :: "uuid list"
  cb_children :: "child_dto list"

text \<open>Whether the columns take a child: \<open>date_column\<close> is how the database reads a text for a column
  of type \<open>date\<close>.\<close>

definition child_fits :: "(string \<Rightarrow> string option) \<Rightarrow> child_dto \<Rightarrow> bool" where
  "child_fits date_column c \<longleftrightarrow> fits_varchar 100 (cd_firstName c) \<and> fits_varchar 100 (cd_lastName c) \<and>
     (case cd_dateOfBirth c of None \<Rightarrow> True | Some v \<Rightarrow> date_column v \<noteq> None)"

text \<open>A saved entity keeps the text of the body; the row has what the column stores. Both agree on
  days written as \<open>YYYY-MM-DD\<close>.\<close>

definition child_of_dto :: "(string \<Rightarrow> string option) \<Rightarrow> uuid \<Rightarrow> instant \<Rightarrow> uuid \<Rightarrow> child_dto \<Rightarrow> child_row" where
  "child_of_dto date_column i now bondId c =
     \<lparr>child_id = i, child_bondId = bondId, child_firstName = cd_firstName c,
      child_lastName = cd_lastName c, child_dateOfBirth = Option.bind (cd_dateOfBirth c) date_column,
      child_createdAt = now, child_updatedAt = now\<rparr>"

definition new_bond :: "env \<Rightarrow> create_bond_dto \<Rightarrow> bond_row" where
  "new_bond e dto = \<lparr>bond_id = env_uuid e 0, bond_title = cb_title dto,
     bond_agreementType = cb_agreementType dto, bond_courtCaseRef = None, bond_startDate = None,
     bond_endDate = None, bond_isActive = True, bond_createdAt = env_dbnow e,
     bond_updatedAt = env_dbnow e\<rparr>"

definition new_progenitor :: "uuid \<Rightarrow> uuid \<Rightarrow> uuid \<Rightarrow> instant \<Rightarrow> instant \<Rightarrow> member_row" where
  "new_progenitor i bondId userId joinedAt now =
     \<lparr>mem_id = i, mem_bondId = bondId, mem_userId = userId, mem_role = PROGENITOR,
      mem_joinedAt = Some joinedAt, mem_leftAt = None, mem_createdAt = now\<rparr>"

definition bond_members_of :: "env \<Rightarrow> create_bond_dto \<Rightarrow> member_row list" where
  "bond_members_of e dto =
     map (\<lambda>(n, u). new_progenitor (env_uuid e (1 + n)) (env_uuid e 0) u (env_clock e n) (env_dbnow e))
       (enumerate 0 (cb_userIds dto))"

definition bond_children_of :: "(string \<Rightarrow> string option) \<Rightarrow> env \<Rightarrow> create_bond_dto \<Rightarrow> child_row list" where
  "bond_children_of date_column e dto =
     map (\<lambda>(n, c). child_of_dto date_column (env_uuid e (1 + length (cb_userIds dto) + n)) (env_dbnow e)
            (env_uuid e 0) c) (enumerate 0 (cb_children dto))"

text \<open>The three inserts are one transaction; it fails when a column refuses a value.\<close>

definition createBond ::
  "(string \<Rightarrow> string option) \<Rightarrow> env \<Rightarrow> create_bond_dto \<Rightarrow> db \<Rightarrow> db \<Rightarrow> bond_admin_view served" where
  "createBond date_column e dto d0 d =
     (if length (cb_userIds dto) \<noteq> 2
      then (Inl (badRequestException ''A bond must have exactly 2 members''), d)
      else if cb_children dto = []
      then (Inl (badRequestException ''A bond must have at least one child''), d)
      else if length (findUsersByIds d0 (cb_userIds dto)) \<noteq> length (cb_userIds dto)
      then (Inl (badRequestException ''One or more user IDs are invalid''), d)
      else if \<not> fits_varchar 255 (cb_title dto) \<or> \<not> list_all (child_fits date_column) (cb_children dto)
      then (Inl internal_error, d)
      else (let b = new_bond e dto;
                d' = d\<lparr>db_bonds := db_bonds d @ [b],
                       db_members := db_members d @ bond_members_of e dto,
                       db_children := db_children d @ bond_children_of date_column e dto\<rparr>
            in (Inr (toBondAdminView d' b), d')))"

definition listBonds :: "db \<Rightarrow> bond_admin_view list" where
  "listBonds d = map (toBondAdminView d) (rev (sort_key bond_createdAt (rev (db_bonds d))))"

definition bond_not_found :: "uuid \<Rightarrow> http_error" where
  "bond_not_found bondId = notFoundException (''Bond '' @ bondId @ '' not found'')"

definition child_not_found :: "uuid \<Rightarrow> http_error" where
  "child_not_found childId = notFoundException (''Child '' @ childId @ '' not found'')"

definition save_bond_active :: "instant \<Rightarrow> bool \<Rightarrow> bond_row \<Rightarrow> bond_row" where
  "save_bond_active at0 active b =
     (if bond_isActive b = active then b else b\<lparr>bond_isActive := active, bond_updatedAt := at0\<rparr>)"

definition setBondActive :: "env \<Rightarrow> uuid \<Rightarrow> bool \<Rightarrow> db \<Rightarrow> bond_admin_view served" where
  "setBondActive e bondId active d =
     (case findBondById d bondId of
        None \<Rightarrow> (Inl (bond_not_found bondId), d)
      | Some b \<Rightarrow>
          (let b' = save_bond_active (env_dbnow e) active b;
               d' = d\<lparr>db_bonds := update_by bond_id bondId (save_bond_active (env_dbnow e) active) (db_bonds d)\<rparr>
           in (Inr (toBondAdminView d' b'), d')))"

record member_ticket =
  mt_id :: uuid
  mt_bondId :: uuid
  mt_userId :: uuid
  mt_role :: bond_member_role

definition addBondMember :: "env \<Rightarrow> uuid \<Rightarrow> uuid \<Rightarrow> db \<Rightarrow> db \<Rightarrow> member_ticket served" where
  "addBondMember e bondId userId d0 d =
     (if findBondById d0 bondId = None then (Inl (bond_not_found bondId), d)
      else if lookup_by user_id userId (db_users d0) = None then (Inl (user_not_found userId), d)
      else if findOneByBondAndUser d0 bondId userId \<noteq> None
      then (Inl (conflictException (''User '' @ userId @ '' is already a member of this bond'')), d)
      else (let m = new_progenitor (env_uuid e 0) bondId userId (env_clock e 0) (env_dbnow e)
            in (Inr \<lparr>mt_id = mem_id m, mt_bondId = bondId, mt_userId = userId, mt_role = mem_role m\<rparr>,
                d\<lparr>db_members := db_members d @ [m]\<rparr>)))"

section \<open>Children\<close>

definition save_new_child ::
  "(string \<Rightarrow> string option) \<Rightarrow> env \<Rightarrow> uuid \<Rightarrow> child_dto \<Rightarrow> db \<Rightarrow> child_row served" where
  "save_new_child date_column e bondId dto d =
     (if child_fits date_column dto
      then (let c = child_of_dto date_column (env_uuid e 0) (env_dbnow e) bondId dto
            in (Inr c, d\<lparr>db_children := db_children d @ [c]\<rparr>))
      else (Inl internal_error, d))"

fun map_served :: "('a \<Rightarrow> 'b) \<Rightarrow> 'a served \<Rightarrow> 'b served" where
  "map_served f (Inl err, d) = (Inl err, d)"
| "map_served f (Inr x, d) = (Inr (f x), d)"

definition listBondChildren :: "db \<Rightarrow> uuid \<Rightarrow> http_error + child_row list" where
  "listBondChildren d bondId =
     chain (some_or (findBondById d bondId) (bond_not_found bondId)) (\<lambda>_. Inr (findByBond d bondId))"

definition addChildToBond ::
  "(string \<Rightarrow> string option) \<Rightarrow> env \<Rightarrow> uuid \<Rightarrow> child_dto \<Rightarrow> db \<Rightarrow> admin_child_view served" where
  "addChildToBond date_column e bondId dto d =
     (if findBondById d bondId = None then (Inl (bond_not_found bondId), d)
      else map_served toAdminChildView (save_new_child date_column e bondId dto d))"

text \<open>A partial edition: a key that is absent leaves its column alone, a null date clears it. The
  decorators let a null name through, which the column refuses.\<close>

fun required_patch :: "'a option patch \<Rightarrow> 'a \<Rightarrow> 'a" where
  "required_patch (Put (Some v)) old = v"
| "required_patch p old = old"

fun required_fits :: "('a \<Rightarrow> bool) \<Rightarrow> 'a option patch \<Rightarrow> bool" where
  "required_fits fits Keep = True"
| "required_fits fits (Put None) = False"
| "required_fits fits (Put (Some v)) = fits v"

record child_patch =
  cp_firstName :: "utf16 option patch"
  cp_lastName :: "utf16 option patch"
  cp_dateOfBirth :: "string option patch"

definition patched_child :: "(string \<Rightarrow> string option) \<Rightarrow> child_patch \<Rightarrow> child_row \<Rightarrow> child_row" where
  "patched_child date_column p c =
     c\<lparr>child_firstName := required_patch (cp_firstName p) (child_firstName c),
       child_lastName := required_patch (cp_lastName p) (child_lastName c),
       child_dateOfBirth := (case cp_dateOfBirth p of Keep \<Rightarrow> child_dateOfBirth c
          | Put v \<Rightarrow> Option.bind v date_column)\<rparr>"

definition patch_fits :: "(string \<Rightarrow> string option) \<Rightarrow> child_patch \<Rightarrow> bool" where
  "patch_fits date_column p \<longleftrightarrow>
     required_fits (fits_varchar 100) (cp_firstName p) \<and>
     required_fits (fits_varchar 100) (cp_lastName p) \<and>
     (case cp_dateOfBirth p of Put (Some v) \<Rightarrow> date_column v \<noteq> None | _ \<Rightarrow> True)"

definition save_child ::
  "(string \<Rightarrow> string option) \<Rightarrow> env \<Rightarrow> child_patch \<Rightarrow> child_row \<Rightarrow> db \<Rightarrow> child_row served" where
  "save_child date_column e p c d =
     (if patch_fits date_column p
      then (let f = (\<lambda>r. if patched_child date_column p r = r then r
                       else (patched_child date_column p r)\<lparr>child_updatedAt := env_dbnow e\<rparr>)
            in (Inr (f c), d\<lparr>db_children := update_by child_id (child_id c) f (db_children d)\<rparr>))
      else (Inl internal_error, d))"

definition delete_child_row :: "uuid \<Rightarrow> db \<Rightarrow> db" where
  "delete_child_row childId d =
     d\<lparr>db_children := filter (\<lambda>c. child_id c \<noteq> childId) (db_children d),
       db_activity_children := filter (\<lambda>ac. ac_childId ac \<noteq> childId) (db_activity_children d),
       db_expenses := map (\<lambda>x. if exp_childId x = Some childId then x\<lparr>exp_childId := None\<rparr> else x)
         (db_expenses d)\<rparr>"

definition updateChild ::
  "(string \<Rightarrow> string option) \<Rightarrow> env \<Rightarrow> uuid \<Rightarrow> child_patch \<Rightarrow> db \<Rightarrow> admin_child_view served" where
  "updateChild date_column e childId p d =
     (case findChildById d childId of
        None \<Rightarrow> (Inl (child_not_found childId), d)
      | Some c \<Rightarrow> map_served toAdminChildView (save_child date_column e p c d))"

definition removeChild :: "uuid \<Rightarrow> db \<Rightarrow> unit served" where
  "removeChild childId d =
     (case findChildById d childId of
        None \<Rightarrow> (Inl (child_not_found childId), d)
      | Some c \<Rightarrow> (Inr (), delete_child_row childId d))"

section \<open>The routes of the members\<close>

definition verifyBondMembership :: "db \<Rightarrow> uuid \<Rightarrow> uuid \<Rightarrow> http_error + unit" where
  "verifyBondMembership d bondId userId =
     ensure (findActiveBondForMember d bondId userId \<noteq> None)
       (forbiddenException ''You are not a member of this bond'')"

definition child_missing :: "uuid \<Rightarrow> http_error" where
  "child_missing i = notFoundException (''Child with id \"'' @ i @ ''\" not found'')"

definition create_child ::
  "(string \<Rightarrow> string option) \<Rightarrow> env \<Rightarrow> uuid \<Rightarrow> child_dto \<Rightarrow> uuid \<Rightarrow> db \<Rightarrow> child_row served" where
  "create_child date_column e bondId dto userId d =
     (case verifyBondMembership d bondId userId of
        Inl err \<Rightarrow> (Inl err, d)
      | Inr _ \<Rightarrow> save_new_child date_column e bondId dto d)"

definition children_of_bond :: "db \<Rightarrow> uuid \<Rightarrow> uuid \<Rightarrow> http_error + child_row list" where
  "children_of_bond d bondId userId =
     chain (verifyBondMembership d bondId userId) (\<lambda>_. Inr (findByBond d bondId))"

definition findOneChild :: "db \<Rightarrow> uuid \<Rightarrow> uuid \<Rightarrow> http_error + child_row" where
  "findOneChild d i userId =
     chain (some_or (findChildById d i) (child_missing i)) (\<lambda>c.
     chain (verifyBondMembership d (child_bondId c) userId) (\<lambda>_. Inr c))"

definition update_child ::
  "(string \<Rightarrow> string option) \<Rightarrow> env \<Rightarrow> uuid \<Rightarrow> child_patch \<Rightarrow> uuid \<Rightarrow> db \<Rightarrow> child_row served" where
  "update_child date_column e i p userId d =
     (case findOneChild d i userId of
        Inl err \<Rightarrow> (Inl err, d)
      | Inr c \<Rightarrow> save_child date_column e p c d)"

definition remove_child :: "uuid \<Rightarrow> uuid \<Rightarrow> db \<Rightarrow> unit served" where
  "remove_child i userId d =
     (case findOneChild d i userId of
        Inl err \<Rightarrow> (Inl err, d)
      | Inr c \<Rightarrow> (Inr (), delete_child_row i d))"

end
