(* ===== verification/Admin_Properties.thy ===== *)
theory Admin_Properties
  imports Administration
begin

text \<open>The properties of accounts, bonds and children: who registers can log in; an account that an
  administrator makes for an address that is not in normal form cannot; a half-made account; a
  bond is created whole and both progenitors, and nobody else, are its members; a bond that loses
  its last child disappears from its members' list.\<close>

section \<open>Accounts\<close>

lemma lookup_appended:
  "lookup_by key k rows = None \<Longrightarrow> key r = k \<Longrightarrow> lookup_by key k (rows @ [r]) = Some r"
  by (simp add: lookup_by_append)

lemma save_account_done:
  assumes "save_account pw e email password f l d = (Inr u, d')"
  shows "findOneByEmail d email = None" "findOneByEmail d' email = Some u" "user_isActive u"
    and "user_email u = email" "user_passwordHash u = pw_hash pw password"
    and "db_users d' = db_users d @ [u]"
proof -
  obtain d1 where i: "insert_user e email (pw_hash pw password) d = Some (u, d1)"
    and p: "insert_personal e (user_id u) f l d1 = Some d'"
    using assms by (auto simp: save_account_def split: option.splits prod.splits)
  show none: "findOneByEmail d email = None" and u: "user_isActive u" "user_email u = email"
    "user_passwordHash u = pw_hash pw password"
    using i by (auto simp: insert_user_def Let_def split: if_splits)
  have "db_users d1 = db_users d @ [u]"
    using i by (auto simp: insert_user_def Let_def split: if_splits)
  then show users: "db_users d' = db_users d @ [u]"
    using p by (auto simp: insert_personal_def split: if_splits)
  show "findOneByEmail d' email = Some u"
    unfolding findOneByEmail_def users
    by (rule lookup_appended) (use none u in \<open>simp_all add: findOneByEmail_def\<close>)
qed

text \<open>C39. Who registers can log in: after a registration, every login whose address and password
  have the same normal form (case and outer spaces apart) is answered exactly as the registration
  was, and one with a password that the hash does not match is refused with 401. The hash is only
  assumed to match its own password.\<close>

theorem registered_account_can_log_in:
  assumes "\<And>p. pw_compare pw p (pw_hash pw p)"
    and "register pw sign_token e (transform_register raw) d0 d = (Inr answer, d')"
    and "normalizedEmail (lg_email attempt) = normalizedEmail (rg_email raw)"
  shows "(trimmedPassword (lg_password attempt) = trimmedPassword (rg_password raw) \<longrightarrow>
      login pw sign_token (transform_login attempt) d' = Inr answer) \<and>
    (\<not> pw_compare pw (trimmedPassword (lg_password attempt)) (pw_hash pw (trimmedPassword (rg_password raw))) \<longrightarrow>
      login pw sign_token (transform_login attempt) d' = Inl (unauthorizedException ''Invalid credentials''))"
proof -
  obtain u where s: "save_account pw e (normalizedEmail (rg_email raw)) (trimmedPassword (rg_password raw))
      (rg_firstName raw) (rg_lastName raw) d = (Inr u, d')"
    and answer: "answer = buildAuthResponse sign_token d' u"
    using assms(2) by (auto simp: register_def transform_register_def split: if_splits prod.splits sum.splits)
  note a = save_account_done [OF s]
  show ?thesis
    using a(2,3,5) assms(1,3) by (simp add: login_def transform_login_def ensure_def answer)
qed

definition ex_passwords :: passwords where
  "ex_passwords = \<lparr>pw_hash = (\<lambda>p. map (\<lambda>u. char_of (unat u)) p), pw_compare = (\<lambda>p h. map (\<lambda>u. char_of (unat u)) p = h)\<rparr>"

definition ex_account_env :: env where
  "ex_account_env = \<lparr>env_clock = (\<lambda>n. int n), env_dbnow = 0, env_uuid = (\<lambda>n. replicate (Suc n) CHR ''x''),
     env_response_timeout_hours = None, env_min_lead_time_hours = None\<rparr>"

definition ex_register :: register_dto where
  "ex_register = \<lparr>rg_email = '' Juan@Test.prod'', rg_password = js ''coord-new99 '', rg_firstName = js ''Juan'',
     rg_lastName = js ''Paz''\<rparr>"

fun succeeds :: "'a served \<Rightarrow> bool" where
  "succeeds (Inl _, _) = False"
| "succeeds (Inr _, _) = True"

lemma succeedsD: "succeeds r \<Longrightarrow> \<exists>x d. r = (Inr x, d)"
  by (cases r rule: succeeds.cases) auto

lemma ex_registered:
  "succeeds (register ex_passwords (\<lambda>_. ''t'') ex_account_env (transform_register ex_register) empty_db empty_db)"
  "normalizedEmail ''juan@test.prod'' = normalizedEmail '' Juan@Test.prod''"
  "trimmedPassword (js ''coord-new99'') = trimmedPassword (js ''coord-new99 '')"
  by code_simp+

theorem registered_account_can_log_in_witness:
  "\<exists>answer d'. register ex_passwords (\<lambda>_. ''t'') ex_account_env (transform_register ex_register) empty_db empty_db =
       (Inr answer, d') \<and>
     login ex_passwords (\<lambda>_. ''t'') (transform_login \<lparr>lg_email = ''juan@test.prod'', lg_password = js ''coord-new99''\<rparr>) d'
       = Inr answer"
proof -
  have law: "pw_compare ex_passwords p (pw_hash ex_passwords p)" for p
    by (simp add: ex_passwords_def)
  obtain answer d' where r: "register ex_passwords (\<lambda>_. ''t'') ex_account_env (transform_register ex_register) empty_db empty_db =
       (Inr answer, d')"
    using succeedsD [OF ex_registered(1)] by blast
  show ?thesis
    using registered_account_can_log_in [OF law r, of "\<lparr>lg_email = ''juan@test.prod'', lg_password = js ''coord-new99''\<rparr>"]
      ex_registered(2,3) r by (auto simp: ex_register_def)
qed

text \<open>C40. An account that an administrator creates for an address that is not in normal form is
  locked out: the body of that route is stored as it came, the login lowers and trims what it
  receives, and so every login with that address, in whatever case, is refused with 401, although
  the creation was answered with success (unless another account has the normal form).\<close>

theorem admin_account_locked_out:
  assumes "createUser pw e dto d0 d = (Inr view, d')"
    and "normalizedEmail (cu_email dto) \<noteq> cu_email dto"
    and "findOneByEmail d (normalizedEmail (cu_email dto)) = None"
    and "normalizedEmail (lg_email attempt) = normalizedEmail (cu_email dto)"
  shows "login pw sign_token (transform_login attempt) d' = Inl (unauthorizedException ''Invalid credentials'')"
proof -
  obtain u where s: "save_account pw e (cu_email dto) (cu_password dto) (cu_firstName dto) (cu_lastName dto) d = (Inr u, d')"
    using assms(1) by (auto simp: createUser_def split: if_splits prod.splits sum.splits)
  note a = save_account_done [OF s]
  have "findOneByEmail d' (normalizedEmail (cu_email dto)) = None"
    using assms(2,3) a(4,6) by (simp add: findOneByEmail_def lookup_by_append)
  then show ?thesis
    using assms(4) by (simp add: login_def transform_login_def)
qed

definition ex_create_user :: create_user_dto where
  "ex_create_user = \<lparr>cu_email = ''Juan@Test.prod'', cu_password = js ''coord-new99'', cu_firstName = js ''Juan'',
     cu_lastName = js ''Paz''\<rparr>"

lemma ex_created_user:
  "succeeds (createUser ex_passwords ex_account_env ex_create_user empty_db empty_db)"
  "normalizedEmail ''Juan@Test.prod'' \<noteq> ''Juan@Test.prod''"
  by code_simp+

theorem admin_account_locked_out_witness:
  "\<exists>view d'. createUser ex_passwords ex_account_env ex_create_user empty_db empty_db = (Inr view, d') \<and>
     login ex_passwords (\<lambda>_. ''t'') (transform_login \<lparr>lg_email = ''Juan@Test.prod'', lg_password = js ''coord-new99''\<rparr>) d' =
       Inl (unauthorizedException ''Invalid credentials'')"
proof -
  obtain view d' where c: "createUser ex_passwords ex_account_env ex_create_user empty_db empty_db = (Inr view, d')"
    using succeedsD [OF ex_created_user(1)] by blast
  show ?thesis
    using admin_account_locked_out [OF c, of "\<lparr>lg_email = ''Juan@Test.prod'', lg_password = js ''coord-new99''\<rparr>" "\<lambda>_. ''t''"]
      ex_created_user(2) c by (auto simp: ex_create_user_def findOneByEmail_def empty_db_def)
qed

text \<open>An account is two inserts without a transaction: when the second one fails (a name of more
  than 100 characters, which no validation excludes) the answer is an error and the user stays,
  so that registering again is refused as already registered.\<close>

lemma half_made_account:
  assumes "findOneByEmail d (rg_email dto) = None" "length (rg_email dto) \<le> 255"
    and "\<not> fits_varchar 100 (rg_firstName dto)"
  shows "\<exists>d'. register pw sign_token e dto d d = (Inl internal_error, d') \<and>
    findOneByEmail d' (rg_email dto) \<noteq> None \<and>
    (\<forall>e' dto'. rg_email dto' = rg_email dto \<longrightarrow>
       fst (register pw sign_token e' dto' d' d') = Inl (badRequestException ''Email already registered''))"
proof -
  have "\<exists>d'. register pw sign_token e dto d d = (Inl internal_error, d') \<and> findOneByEmail d' (rg_email dto) \<noteq> None"
    using assms
    by (simp add: register_def save_account_def insert_user_def insert_personal_def findOneByEmail_def
        lookup_by_append Let_def)
  then obtain d' where r: "register pw sign_token e dto d d = (Inl internal_error, d')"
    and f: "findOneByEmail d' (rg_email dto) \<noteq> None"
    by blast
  have "fst (register pw sign_token e' dto' d' d') = Inl (badRequestException ''Email already registered'')"
    if "rg_email dto' = rg_email dto" for e' dto'
    using f that by (simp add: register_def)
  with r f show ?thesis
    by blast
qed

section \<open>Bonds\<close>

lemma listed_bond_iff:
  "i \<in> bond_id ` set (findBondsByUserId d w) \<longleftrightarrow>
     isActiveBondForMember d i w \<and> (\<exists>c \<in> set (db_children d). child_bondId c = i)"
proof -
  have "i \<in> bond_id ` set (findBondsByUserId d w) \<longleftrightarrow>
      (\<exists>b. b \<in> set (db_bonds d) \<and> bond_isActive b \<and>
         (\<exists>m \<in> set (db_members d). mem_bondId m = bond_id b \<and> mem_userId m = w \<and> mem_leftAt m = None) \<and>
         (\<exists>c \<in> set (db_children d). child_bondId c = bond_id b) \<and> bond_id b = i)"
    by (auto simp: findBondsByUserId_def list_ex_iff)
  also have "\<dots> \<longleftrightarrow> isActiveBondForMember d i w \<and> (\<exists>c \<in> set (db_children d). child_bondId c = i)"
    unfolding isActiveBondForMember_iff by (rule iffI) (blast, metis)
  finally show ?thesis .
qed

lemma two_users:
  assumes "distinct (map user_id (db_users d))" "length (findUsersByIds d [u, v]) = 2"
  shows "u \<noteq> v \<and> u \<in> user_id ` set (db_users d) \<and> v \<in> user_id ` set (db_users d)"
proof -
  let ?rows = "findUsersByIds d [u, v]"
  have "distinct (map user_id ?rows)"
    using assms(1) by (simp add: findUsersByIds_def distinct_map_filter)
  then have "card (user_id ` set ?rows) = 2"
    using assms(2) distinct_card [of "map user_id ?rows"] by simp
  moreover have sub: "user_id ` set ?rows \<subseteq> {u, v}"
    by (auto simp: findUsersByIds_def)
  ultimately have "u \<noteq> v" "user_id ` set ?rows = {u, v}"
    by (auto simp: card_2_iff doubleton_eq_iff)
  moreover have "set ?rows \<subseteq> set (db_users d)"
    by (auto simp: findUsersByIds_def)
  ultimately show ?thesis
    by auto
qed

lemma bond_members_set:
  "cb_userIds dto = [u, v] \<Longrightarrow>
     bond_members_of e dto =
       [new_progenitor (env_uuid e 1) (env_uuid e 0) u (env_clock e 0) (env_dbnow e),
        new_progenitor (env_uuid e 2) (env_uuid e 0) v (env_clock e 1) (env_dbnow e)]"
  by (simp add: bond_members_of_def numeral_2_eq_2)

lemma bond_children_facts:
  "length (bond_children_of date_column e dto) = length (cb_children dto)"
  "\<forall>c \<in> set (bond_children_of date_column e dto). child_bondId c = env_uuid e 0"
  by (auto simp: bond_children_of_def child_of_dto_def in_set_enumerate_eq)

text \<open>The id of the new bond is used by no row.\<close>

definition unused_bond_id :: "uuid \<Rightarrow> db \<Rightarrow> bool" where
  "unused_bond_id i d \<longleftrightarrow> i \<notin> bond_id ` set (db_bonds d) \<and> i \<notin> mem_bondId ` set (db_members d) \<and>
     i \<notin> child_bondId ` set (db_children d)"

text \<open>C38. A bond is created whole or not at all: a refusal leaves the database as it was; otherwise
  there is one more bond, with as members exactly the two users named, who are different and have
  accounts, both progenitors, and with all its children, at least one. From then on the bond is an
  active bond of those two and of nobody else, it appears in their lists and in no other, and no
  membership of another bond has changed.\<close>

theorem created_bond_is_whole:
  assumes "createBond date_column e dto d0 d = (r, d')" and "distinct (map user_id (db_users d0))"
    and "unused_bond_id (env_uuid e 0) d"
  shows "((\<exists>err. r = Inl err) \<and> d' = d) \<or>
    (\<exists>view u v. r = Inr view \<and> cb_userIds dto = [u, v] \<and> u \<noteq> v \<and>
       {u, v} \<subseteq> user_id ` set (db_users d0) \<and>
       map bond_id (db_bonds d') = map bond_id (db_bonds d) @ [bv_id view] \<and>
       map bm_id (bv_members view) = [u, v] \<and> map bm_role (bv_members view) = [PROGENITOR, PROGENITOR] \<and>
       bv_childrenCount view = length (cb_children dto) \<and> 0 < bv_childrenCount view \<and>
       (\<forall>w. isActiveBondForMember d' (bv_id view) w \<longleftrightarrow> w = u \<or> w = v) \<and>
       (\<forall>w. bv_id view \<in> bond_id ` set (findBondsByUserId d' w) \<longleftrightarrow> w = u \<or> w = v) \<and>
       (\<forall>b w. b \<noteq> bv_id view \<longrightarrow> isActiveBondForMember d' b w = isActiveBondForMember d b w))"
proof (cases "length (cb_userIds dto) \<noteq> 2 \<or> cb_children dto = [] \<or>
    length (findUsersByIds d0 (cb_userIds dto)) \<noteq> length (cb_userIds dto) \<or>
    \<not> fits_varchar 255 (cb_title dto) \<or> \<not> list_all (child_fits date_column) (cb_children dto)")
  case True
  then show ?thesis
    using assms(1) by (auto simp: createBond_def split: if_splits)
next
  case False
  then obtain u v where uv: "cb_userIds dto = [u, v]"
    by (auto simp: length_Suc_conv numeral_2_eq_2)
  have users: "u \<noteq> v \<and> u \<in> user_id ` set (db_users d0) \<and> v \<in> user_id ` set (db_users d0)"
    using two_users [OF assms(2), of u v] False uv by simp
  let ?b = "new_bond e dto" and ?i = "env_uuid e 0"
  have d': "d' = d\<lparr>db_bonds := db_bonds d @ [?b], db_members := db_members d @ bond_members_of e dto,
      db_children := db_children d @ bond_children_of date_column e dto\<rparr>"
    and r: "r = Inr (toBondAdminView d' ?b)"
    using assms(1) False by (auto simp: createBond_def Let_def)
  have b: "bond_id ?b = ?i" "bond_isActive ?b"
    by (simp_all add: new_bond_def)
  have fresh: "\<forall>b \<in> set (db_bonds d). bond_id b \<noteq> ?i" "\<forall>m \<in> set (db_members d). mem_bondId m \<noteq> ?i"
    "\<forall>c \<in> set (db_children d). child_bondId c \<noteq> ?i"
    using assms(3) unfolding unused_bond_id_def by (metis image_eqI)+
  have mine: "filter (\<lambda>m. mem_bondId m = ?i) (db_members d') = bond_members_of e dto"
    using fresh(2) by (auto simp: d' bond_members_set [OF uv] new_progenitor_def filter_empty_conv)
  have kids: "filter (\<lambda>c. child_bondId c = ?i) (db_children d') = bond_children_of date_column e dto"
    using fresh(3) bond_children_facts(2) [of date_column e dto]
    by (auto simp: d' filter_empty_conv filter_id_conv)
  let ?view = "toBondAdminView d' ?b"
  have view: "bv_id ?view = ?i" "map bm_id (bv_members ?view) = [u, v]"
    "map bm_role (bv_members ?view) = [PROGENITOR, PROGENITOR]"
    "bv_childrenCount ?view = length (cb_children dto)"
    by (simp_all add: toBondAdminView_def b mine kids bond_members_set [OF uv] new_progenitor_def
        bond_children_facts(1))
  have members: "isActiveBondForMember d' ?i w \<longleftrightarrow> w = u \<or> w = v" for w
    using fresh(2) b by (auto simp: isActiveBondForMember_iff d' bond_members_set [OF uv] new_progenitor_def)
  have some_child: "\<exists>c \<in> set (db_children d'). child_bondId c = ?i"
  proof -
    have "bond_children_of date_column e dto \<noteq> []"
      using False bond_children_facts(1) [of date_column e dto] by force
    then show ?thesis
      using bond_children_facts(2) [of date_column e dto] by (auto simp: d' neq_Nil_conv)
  qed
  have lists: "?i \<in> bond_id ` set (findBondsByUserId d' w) \<longleftrightarrow> w = u \<or> w = v" for w
    using some_child by (simp only: listed_bond_iff members) blast
  have others: "isActiveBondForMember d' b' w = isActiveBondForMember d b' w" if "b' \<noteq> ?i" for b' w
    using that b by (auto simp: isActiveBondForMember_iff d' bond_members_set [OF uv] new_progenitor_def)
  have "map bond_id (db_bonds d') = map bond_id (db_bonds d) @ [bond_id ?b]"
    by (simp add: d')
  then have "map bond_id (db_bonds d') = map bond_id (db_bonds d) @ [bv_id ?view]"
    by (simp only: view(1) b(1))
  then show ?thesis
    using r uv users view members lists others False by auto
qed

definition ex_two_users :: db where
  "ex_two_users = empty_db\<lparr>db_users := map (\<lambda>i. \<lparr>user_id = i, user_email = i, user_passwordHash = [],
     user_systemRole = Role_user, user_isActive = True, user_createdAt = 0, user_updatedAt = 0\<rparr>) [''u1'', ''u2'']\<rparr>"

definition ex_bond_dto :: create_bond_dto where
  "ex_bond_dto = \<lparr>cb_title = js ''Paz'', cb_agreementType = FORMAL, cb_userIds = [''u1'', ''u2''],
     cb_children = [\<lparr>cd_firstName = js ''Mateo'', cd_lastName = js ''Paz'', cd_dateOfBirth = None\<rparr>]\<rparr>"

lemma ex_bond_created: "succeeds (createBond Some ex_account_env ex_bond_dto ex_two_users ex_two_users)"
  by code_simp

theorem created_bond_is_whole_witness:
  "\<exists>view d'. createBond Some ex_account_env ex_bond_dto ex_two_users ex_two_users = (Inr view, d') \<and>
     isActiveBondForMember d' (bv_id view) ''u2'' \<and> \<not> isActiveBondForMember d' (bv_id view) ''u3''"
proof -
  obtain view d' where c: "createBond Some ex_account_env ex_bond_dto ex_two_users ex_two_users = (Inr view, d')"
    using succeedsD [OF ex_bond_created] by blast
  have "distinct (map user_id (db_users ex_two_users))" "unused_bond_id (env_uuid ex_account_env 0) ex_two_users"
    by (simp_all add: ex_two_users_def unused_bond_id_def empty_db_def)
  from created_bond_is_whole [OF c this] show ?thesis
    using c by (auto simp: ex_bond_dto_def)
qed

text \<open>A member, or an administrator, can delete the last child of a bond, a state that the
  creation refuses; from then on the bond is still an active bond of its members, and no list
  shows it to anybody, because the query of the lists joins the children.\<close>

theorem last_child_hides_bond:
  assumes "findChildById d i = Some c" "\<forall>c' \<in> set (db_children d). child_bondId c' = child_bondId c \<longrightarrow> child_id c' = i"
    and "removeChild i d = (r, d') \<or> remove_child i userId d = (Inr (), d')"
  shows "(\<forall>w. child_bondId c \<notin> bond_id ` set (findBondsByUserId d' w)) \<and>
    (\<forall>w. isActiveBondForMember d' (child_bondId c) w = isActiveBondForMember d (child_bondId c) w)"
proof -
  have d': "d' = delete_child_row i d"
    using assms(1,3) by (auto simp: removeChild_def remove_child_def split: sum.splits)
  have "\<forall>c' \<in> set (db_children d'). child_bondId c' \<noteq> child_bondId c"
    using assms(2) by (auto simp: d' delete_child_row_def)
  then have "child_bondId c \<notin> bond_id ` set (findBondsByUserId d' w)" for w
    by (auto simp: findBondsByUserId_def list_ex_iff)
  moreover have "isActiveBondForMember d' b w = isActiveBondForMember d b w" for b w
    by (rule membership_frame) (simp_all add: d' delete_child_row_def)
  ultimately show ?thesis
    by blast
qed

definition ex_family :: db where
  "ex_family = ex_two_users\<lparr>db_bonds := [new_bond ex_account_env ex_bond_dto],
     db_members := bond_members_of ex_account_env ex_bond_dto,
     db_children := bond_children_of Some ex_account_env ex_bond_dto\<rparr>"

lemma ex_family_rows:
  "findChildById ex_family ''xxxx'' = Some (hd (db_children ex_family))"
  "db_children ex_family = [hd (db_children ex_family)]" "child_id (hd (db_children ex_family)) = ''xxxx''"
  by (simp_all add: ex_family_def findChildById_def bond_children_of_def child_of_dto_def ex_bond_dto_def
      ex_account_env_def eval_nat_numeral)

theorem last_child_hides_bond_witness:
  "\<exists>d'. removeChild ''xxxx'' ex_family = (Inr (), d') \<and> findBondsByUserId d' ''u1'' = []"
proof -
  have r: "removeChild ''xxxx'' ex_family = (Inr (), delete_child_row ''xxxx'' ex_family)"
    by (simp add: removeChild_def ex_family_rows(1))
  have "\<forall>c' \<in> set (db_children ex_family). child_bondId c' = child_bondId (hd (db_children ex_family)) \<longrightarrow>
      child_id c' = ''xxxx''"
    using ex_family_rows(2,3) by (metis empty_iff empty_set set_ConsD)
  from last_child_hides_bond [OF ex_family_rows(1) this disjI1 [OF r]]
  have "child_bondId (hd (db_children ex_family)) \<notin> bond_id ` set (findBondsByUserId (delete_child_row ''xxxx'' ex_family) ''u1'')"
    by blast
  moreover have "bond_id b = child_bondId (hd (db_children ex_family))"
    if "b \<in> set (findBondsByUserId (delete_child_row ''xxxx'' ex_family) ''u1'')" for b
  proof -
    have "b \<in> set (db_bonds ex_family)"
      using that by (auto simp: findBondsByUserId_def delete_child_row_def)
    then have "b = new_bond ex_account_env ex_bond_dto"
      by (simp add: ex_family_def)
    then show ?thesis
      by (simp add: new_bond_def ex_family_def bond_children_of_def child_of_dto_def ex_bond_dto_def)
  qed
  ultimately have "findBondsByUserId (delete_child_row ''xxxx'' ex_family) ''u1'' = []"
    by (metis image_eqI last_in_set)
  with r show ?thesis
    by blast
qed

text \<open>The children of a deactivated bond stay writable: the check of their routes does not look at
  whether the bond is active, unlike the check of every other route of a member.\<close>

lemma deactivated_bond_children_writable:
  assumes "setBondActive e0 bondId False d = (Inr view, d')" "distinct (map bond_id (db_bonds d))"
    and "isActiveBondForMember d bondId userId" "child_fits date_column dto"
  shows "\<not> isActiveBondForMember d' bondId userId \<and>
    (\<exists>c d''. create_child date_column e bondId dto userId d' = (Inr c, d''))"
proof -
  obtain b where b: "findBondById d bondId = Some b"
    and d': "d' = d\<lparr>db_bonds := update_by bond_id bondId (save_bond_active (env_dbnow e0) False) (db_bonds d)\<rparr>"
    using assms(1) by (auto simp: setBondActive_def Let_def split: option.splits)
  have off: "\<not> bond_isActive (save_bond_active a False x)" "bond_id (save_bond_active a False x) = bond_id x" for a x
    by (simp_all add: save_bond_active_def)
  have "\<forall>x \<in> set (db_bonds d'). bond_id x = bondId \<longrightarrow> \<not> bond_isActive x"
  proof (intro ballI impI)
    fix x
    assume x: "x \<in> set (db_bonds d')" "bond_id x = bondId"
    then have "x \<in> set (update_by bond_id bondId (save_bond_active (env_dbnow e0) False) (db_bonds d))"
      by (simp add: d')
    from set_update_by_cases [OF this] x(2) show "\<not> bond_isActive x"
      using off(1) by blast
  qed
  then have "\<not> isActiveBondForMember d' bondId userId"
    unfolding isActiveBondForMember_iff by blast
  moreover have "findActiveBondForMember d' bondId userId \<noteq> None"
  proof -
    have "b \<in> set (db_bonds d)" "bond_id b = bondId"
      using b by (auto simp: findBondById_def dest: lookup_by_SomeD)
    then have "save_bond_active (env_dbnow e0) False b \<in> set (db_bonds d')"
      "bond_id (save_bond_active (env_dbnow e0) False b) = bondId"
      by (auto simp: d' update_by_def off)
    moreover have "list_ex (\<lambda>m. mem_bondId m = bondId \<and> mem_userId m = userId \<and> mem_leftAt m = None) (db_members d')"
      using assms(3) by (auto simp: isActiveBondForMember_iff d' list_ex_iff)
    ultimately show ?thesis
      unfolding findActiveBondForMember_def find_None_iff by blast
  qed
  then have "\<exists>c d''. create_child date_column e bondId dto userId d' = (Inr c, d'')"
    using assms(4)
    by (simp add: create_child_def verifyBondMembership_def ensure_def save_new_child_def Let_def)
  ultimately show ?thesis
    by blast
qed

end
