(* ===== verification/Attachments.thy ===== *)
theory Attachments
  imports Activities_Repository Expenses_Repository Accounts Storage
begin

text \<open>The documents of activities and expenses (\<open>activities/attachments/\<close>,
  \<open>expenses/attachments/\<close>): a row with the path of an object of the storage. The client uploads the
  object itself, with a signed URL; the service checks that the path lies under the folder of the
  activity or the expense. A conversion makes a second row for the object of an activity. The bodies
  are those the checks of their classes let through, texts without the character NUL. A route
  reads on \<open>d0\<close> and writes on \<open>d\<close>; the storage has its own state. \<open>save\<close> writes every column of the row the
  request read, over what another request has written in between, and inserts the row again when it
  is gone.\<close>

definition ALLOWED_EXT :: "string \<rightharpoonup> string" where
  "ALLOWED_EXT = [''image/jpeg'' \<mapsto> ''jpg'', ''image/png'' \<mapsto> ''png'', ''application/pdf'' \<mapsto> ''pdf'']"

record presigned =
  ps_uploadUrl :: string
  ps_path :: utf16
  ps_method :: string
  ps_contentType :: string
  ps_expiresIn :: nat

record confirm_dto =
  cf_path :: utf16
  cf_fileName :: utf16
  cf_mimeType :: string

record attachment_response =
  at_id :: uuid
  at_ownerId :: uuid
  at_fileName :: utf16
  at_fileType :: string
  at_uploadedBy :: uuid
  at_uploadedAt :: instant
  at_viewUrl :: "string option"

fun starts_with :: "'a list \<Rightarrow> 'a list \<Rightarrow> bool" where
  "starts_with [] s = True"
| "starts_with (x # p) [] = False"
| "starts_with (x # p) (y # s) = (x = y \<and> starts_with p s)"

type_synonym ('a, 's) stored = "(http_error + 'a) \<times> db \<times> 's"

definition save_row :: "('r \<Rightarrow> 'k) \<Rightarrow> 'r \<Rightarrow> 'r list \<Rightarrow> 'r list" where
  "save_row key row rows =
     (if key row \<in> key ` set rows then update_by key (key row) (\<lambda>_. row) rows else rows @ [row])"

section \<open>Activities\<close>

definition act_response :: "act_attachment_row \<Rightarrow> string option \<Rightarrow> attachment_response" where
  "act_response a viewUrl =
     \<lparr>at_id = aa_id a, at_ownerId = aa_activityId a, at_fileName = aa_fileName a,
      at_fileType = aa_fileType a, at_uploadedBy = aa_uploadedBy a, at_uploadedAt = aa_uploadedAt a,
      at_viewUrl = viewUrl\<rparr>"

definition attachment_member :: "db \<Rightarrow> uuid \<Rightarrow> auth_user \<Rightarrow> http_error + activity_row" where
  "attachment_member d activityId user =
     chain (some_or (findById d activityId) (notFoundException ''Activity not found'')) (\<lambda>a.
     chain (ensure (list_ex (\<lambda>b. bond_id b = act_bondId a) (findBondsByUserId d (usr_id user)))
              (forbiddenException ''Not a member of this bond'')) (\<lambda>_. Inr a))"

definition ensureMemberAndEditable :: "db \<Rightarrow> uuid \<Rightarrow> auth_user \<Rightarrow> http_error + activity_row" where
  "ensureMemberAndEditable d activityId user =
     chain (attachment_member d activityId user) (\<lambda>a.
     chain (ensure (act_status a \<notin> {DONE, CANCELLED, OVERDUE})
              (forbiddenException ''Attachments cannot be edited in terminal state'')) (\<lambda>_.
     chain (ensure (\<not> (act_status a = CREATED \<and> act_assignedTo a = None))
              (forbiddenException ''Attachments can only be added after assignment'')) (\<lambda>_. Inr a)))"

definition activity_folder :: "uuid \<Rightarrow> uuid \<Rightarrow> utf16" where
  "activity_folder bondId activityId = js (''activities/'' @ bondId @ ''/'' @ activityId @ ''/'')"

definition presign_at ::
  "('s, 'b) storage_service \<Rightarrow> 's \<Rightarrow> utf16 \<Rightarrow> string \<Rightarrow> string \<Rightarrow> http_error + presigned" where
  "presign_at st s folder random mimeType =
     chain (some_or (ALLOWED_EXT mimeType) (badRequestException ''Invalid mimeType'')) (\<lambda>ext.
     chain (some_or (createSignedUploadUrl st s (folder @ js (random @ ''.'' @ ext)))
              (badRequestException ''Storage not configured'')) (\<lambda>(url, path).
       Inr \<lparr>ps_uploadUrl = url, ps_path = path, ps_method = ''PUT'', ps_contentType = mimeType,
            ps_expiresIn = 300\<rparr>))"

definition presign_activity ::
  "('s, 'b) storage_service \<Rightarrow> 's \<Rightarrow> db \<Rightarrow> uuid \<Rightarrow> auth_user \<Rightarrow> string \<Rightarrow> string \<Rightarrow> http_error + presigned" where
  "presign_activity st s d activityId user random mimeType =
     chain (ensureMemberAndEditable d activityId user) (\<lambda>a.
       presign_at st s (activity_folder (act_bondId a) activityId) random mimeType)"

text \<open>The checks of a path: under the folder, and present in the storage.\<close>

definition check_path ::
  "('s, 'b) storage_service \<Rightarrow> 's \<Rightarrow> utf16 \<Rightarrow> utf16 \<Rightarrow> http_error + unit" where
  "check_path st s folder path =
     chain (ensure (starts_with folder path) (forbiddenException ''Invalid path'')) (\<lambda>_.
       ensure (objectExists st s path) (badRequestException ''File not found in storage''))"

definition confirm_activity ::
  "('s, 'b) storage_service \<Rightarrow> 's \<Rightarrow> env \<Rightarrow> uuid \<Rightarrow> auth_user \<Rightarrow> confirm_dto \<Rightarrow> db \<Rightarrow> db \<Rightarrow>
   attachment_response served" where
  "confirm_activity st s e activityId user dto d0 d =
     (case chain (ensureMemberAndEditable d0 activityId user) (\<lambda>a.
             check_path st s (activity_folder (act_bondId a) activityId) (cf_path dto)) of
        Inl err \<Rightarrow> (Inl err, d)
      | Inr _ \<Rightarrow>
          (let row = \<lparr>aa_id = env_uuid e 0, aa_activityId = activityId, aa_fileUrl = cf_path dto,
                 aa_fileName = cf_fileName dto, aa_fileType = cf_mimeType dto,
                 aa_uploadedBy = usr_id user, aa_uploadedAt = env_dbnow e\<rparr>
           in (Inr (act_response row (createSignedDownloadUrl st s (aa_fileUrl row))),
               d\<lparr>db_act_attachments := db_act_attachments d @ [row]\<rparr>)))"

definition list_activity_attachments ::
  "('s, 'b) storage_service \<Rightarrow> 's \<Rightarrow> db \<Rightarrow> uuid \<Rightarrow> auth_user \<Rightarrow> http_error + attachment_response list" where
  "list_activity_attachments st s d activityId user =
     chain (attachment_member d activityId user) (\<lambda>_.
       Inr (map (\<lambda>a. act_response a (createSignedDownloadUrl st s (aa_fileUrl a)))
         (sort_key aa_uploadedAt (filter (\<lambda>a. aa_activityId a = activityId) (db_act_attachments d)))))"

text \<open>The attachment of an edition: of this activity, and the user's own unless an administrator.\<close>

definition own_attachment ::
  "db \<Rightarrow> uuid \<Rightarrow> auth_user \<Rightarrow> uuid \<Rightarrow> string \<Rightarrow> http_error + act_attachment_row" where
  "own_attachment d activityId user attachmentId message =
     chain (some_or (find (\<lambda>a. aa_id a = attachmentId \<and> aa_activityId a = activityId) (db_act_attachments d))
              (notFoundException ''Attachment not found'')) (\<lambda>a.
     chain (ensure (\<not> (aa_uploadedBy a \<noteq> usr_id user \<and> usr_systemRole user \<noteq> ''admin''))
              (forbiddenException message)) (\<lambda>_. Inr a))"

definition remove_attachment ::
  "('s, 'b) storage_service \<Rightarrow> uuid \<Rightarrow> auth_user \<Rightarrow> uuid \<Rightarrow> db \<Rightarrow> db \<times> 's \<Rightarrow> (unit, 's) stored" where
  "remove_attachment st activityId user attachmentId d0 ds =
     (case ds of (d, s) \<Rightarrow>
       (case chain (ensureMemberAndEditable d0 activityId user) (\<lambda>_.
               own_attachment d0 activityId user attachmentId ''Cannot delete this attachment'') of
          Inl err \<Rightarrow> (Inl err, d, s)
        | Inr a \<Rightarrow>
            (Inr (), d\<lparr>db_act_attachments := filter (\<lambda>r. aa_id r \<noteq> aa_id a) (db_act_attachments d)\<rparr>,
             snd (removeObject st (aa_fileUrl a) s))))"

definition rename_attachment ::
  "('s, 'b) storage_service \<Rightarrow> 's \<Rightarrow> uuid \<Rightarrow> auth_user \<Rightarrow> uuid \<Rightarrow> utf16 \<Rightarrow> db \<Rightarrow> db \<Rightarrow>
   attachment_response served" where
  "rename_attachment st s activityId user attachmentId fileName d0 d =
     (case chain (ensureMemberAndEditable d0 activityId user) (\<lambda>_.
             own_attachment d0 activityId user attachmentId ''Cannot rename this attachment'') of
        Inl err \<Rightarrow> (Inl err, d)
      | Inr a \<Rightarrow>
          (let row = a\<lparr>aa_fileName := fileName\<rparr>
           in (Inr (act_response row (createSignedDownloadUrl st s (aa_fileUrl row))),
               d\<lparr>db_act_attachments := save_row aa_id row (db_act_attachments d)\<rparr>)))"

text \<open>A replacement saves the new path first and removes the old object as a best effort.\<close>

definition replace_attachment ::
  "('s, 'b) storage_service \<Rightarrow> uuid \<Rightarrow> auth_user \<Rightarrow> uuid \<Rightarrow> confirm_dto \<Rightarrow> db \<Rightarrow> db \<times> 's \<Rightarrow>
   (attachment_response, 's) stored" where
  "replace_attachment st activityId user attachmentId dto d0 ds =
     (case ds of (d, s) \<Rightarrow>
       (case chain (ensureMemberAndEditable d0 activityId user) (\<lambda>act.
             chain (own_attachment d0 activityId user attachmentId ''Cannot replace this attachment'') (\<lambda>a.
             chain (check_path st s (activity_folder (act_bondId act) activityId) (cf_path dto)) (\<lambda>_. Inr a))) of
          Inl err \<Rightarrow> (Inl err, d, s)
        | Inr a \<Rightarrow>
            (let row = a\<lparr>aa_fileUrl := cf_path dto, aa_fileName := cf_fileName dto,
                   aa_fileType := cf_mimeType dto\<rparr>;
                 s' = snd (removeObject st (aa_fileUrl a) s)
             in (Inr (act_response row (createSignedDownloadUrl st s' (aa_fileUrl row))),
                 d\<lparr>db_act_attachments := save_row aa_id row (db_act_attachments d)\<rparr>, s'))))"

section \<open>Expenses\<close>

definition exp_response :: "expense_attachment_row \<Rightarrow> string option \<Rightarrow> attachment_response" where
  "exp_response a viewUrl =
     \<lparr>at_id = ea_id a, at_ownerId = ea_expenseId a, at_fileName = ea_fileName a,
      at_fileType = ea_fileType a, at_uploadedBy = ea_uploadedBy a, at_uploadedAt = ea_uploadedAt a,
      at_viewUrl = viewUrl\<rparr>"

definition expenseNotFound :: http_error where
  "expenseNotFound = notFoundException ''Expense not found''"

definition ensureMember :: "db \<Rightarrow> uuid \<Rightarrow> auth_user \<Rightarrow> http_error + expense_row" where
  "ensureMember d expenseId user =
     chain (some_or (findAliveById d expenseId) expenseNotFound) (\<lambda>(x, _).
     chain (ensure (isActiveBondForMember d (exp_bondId x) (usr_id user)) expenseNotFound) (\<lambda>_. Inr x))"

definition ensureRequester :: "db \<Rightarrow> uuid \<Rightarrow> auth_user \<Rightarrow> http_error + expense_row" where
  "ensureRequester d expenseId user =
     chain (ensureMember d expenseId user) (\<lambda>x.
     chain (ensure (exp_requestedBy x = usr_id user)
              (forbiddenException ''Only the requester can attach a document to this expense'')) (\<lambda>_. Inr x))"

definition keyPrefix :: "expense_row \<Rightarrow> utf16" where
  "keyPrefix x = js (''expenses/'' @ exp_bondId x @ ''/'' @ exp_id x)"

definition presign_expense ::
  "('s, 'b) storage_service \<Rightarrow> 's \<Rightarrow> db \<Rightarrow> uuid \<Rightarrow> auth_user \<Rightarrow> string \<Rightarrow> string \<Rightarrow> http_error + presigned" where
  "presign_expense st s d expenseId user random mimeType =
     chain (ensureRequester d expenseId user) (\<lambda>x.
       presign_at st s (keyPrefix x @ [slash]) random mimeType)"

definition createAttachment ::
  "env \<Rightarrow> uuid \<Rightarrow> utf16 \<Rightarrow> utf16 \<Rightarrow> string \<Rightarrow> uuid \<Rightarrow> db \<Rightarrow> expense_attachment_row \<times> db" where
  "createAttachment e expenseId fileUrl fileName fileType uploadedBy d =
     (let row = \<lparr>ea_id = env_uuid e 0, ea_expenseId = expenseId, ea_fileUrl = fileUrl,
            ea_fileName = fileName, ea_fileType = fileType, ea_uploadedBy = uploadedBy,
            ea_uploadedAt = env_dbnow e\<rparr>
      in (row, d\<lparr>db_expense_attachments := db_expense_attachments d @ [row]\<rparr>))"

definition confirm_expense ::
  "('s, 'b) storage_service \<Rightarrow> 's \<Rightarrow> env \<Rightarrow> uuid \<Rightarrow> auth_user \<Rightarrow> confirm_dto \<Rightarrow> db \<Rightarrow> db \<Rightarrow>
   attachment_response served" where
  "confirm_expense st s e expenseId user dto d0 d =
     (case chain (ensureRequester d0 expenseId user) (\<lambda>x.
             check_path st s (keyPrefix x @ [slash]) (cf_path dto)) of
        Inl err \<Rightarrow> (Inl err, d)
      | Inr _ \<Rightarrow>
          (case createAttachment e expenseId (cf_path dto) (cf_fileName dto) (cf_mimeType dto)
                  (usr_id user) d of
             (row, d') \<Rightarrow> (Inr (exp_response row (createSignedDownloadUrl st s (ea_fileUrl row))), d')))"

text \<open>The attachment of an activity with its activity, deleted or not.\<close>

definition findActivityAttachment :: "db \<Rightarrow> uuid \<Rightarrow> (act_attachment_row \<times> activity_row option) option" where
  "findActivityAttachment d i =
     map_option (\<lambda>a. (a, lookup_by act_id (aa_activityId a) (db_activities d)))
       (lookup_by aa_id i (db_act_attachments d))"

definition attachmentNotFound :: http_error where
  "attachmentNotFound = notFoundException ''Activity attachment not found''"

definition convertible :: "db \<Rightarrow> expense_row \<Rightarrow> uuid \<Rightarrow> http_error + act_attachment_row" where
  "convertible d x i =
     chain (some_or (findActivityAttachment d i) attachmentNotFound) (\<lambda>(a, activity).
     chain (ensure (case activity of Some act \<Rightarrow> act_bondId act = exp_bondId x | None \<Rightarrow> False)
              attachmentNotFound) (\<lambda>_. Inr a))"

definition convert ::
  "('s, 'b) storage_service \<Rightarrow> 's \<Rightarrow> env \<Rightarrow> uuid \<Rightarrow> auth_user \<Rightarrow> uuid \<Rightarrow> db \<Rightarrow> db \<Rightarrow>
   attachment_response served" where
  "convert st s e expenseId user activityAttachmentId d0 d =
     (case chain (ensureRequester d0 expenseId user) (\<lambda>x. convertible d0 x activityAttachmentId) of
        Inl err \<Rightarrow> (Inl err, d)
      | Inr a \<Rightarrow>
          (case createAttachment e expenseId (aa_fileUrl a) (aa_fileName a) (aa_fileType a)
                  (usr_id user) d of
             (row, d') \<Rightarrow>
               (Inr (exp_response row (createSignedDownloadUrl st s (ea_fileUrl row))),
                snd (updateActivityId (env_dbnow e) expenseId (aa_activityId a) d'))))"

end
