(* ===== verification/Attachment_Properties.thy ===== *)
theory Attachment_Properties
  imports Attachments Expense_Properties
begin

text \<open>The documents of activities and expenses under every interleaving: wherever an object of the
  storage is attached, it lies in a folder of the bond it is shown to. And what the sharing of an
  object by a conversion costs: the removal of one document takes the file of the other.\<close>

section \<open>Links\<close>

definition act_links :: "db \<Rightarrow> (uuid \<times> uuid) set" where
  "act_links d = (\<lambda>a. (act_id a, act_bondId a)) ` set (db_activities d)"

definition exp_links :: "db \<Rightarrow> (uuid \<times> uuid) set" where
  "exp_links d = (\<lambda>x. (exp_id x, exp_bondId x)) ` set (db_expenses d)"

definition owner_links :: "db \<Rightarrow> (uuid \<times> uuid) set" where
  "owner_links d = (\<lambda>r. (aa_id r, aa_activityId r)) ` set (db_act_attachments d)"

definition expense_folder :: "uuid \<Rightarrow> uuid \<Rightarrow> utf16" where
  "expense_folder bondId i = js (''expenses/'' @ bondId @ ''/'' @ i) @ [slash]"

text \<open>A state is the history of the database (the current one first) and the storage. A request
  reads any database of the history. The other requests neither write documents nor move an
  activity or an expense to another bond; the storage changes at any time.\<close>

inductive attach_reach :: "('s, 'b) storage_service \<Rightarrow> db list \<times> 's \<Rightarrow> bool"
  for st :: "('s, 'b) storage_service" where
  start: "db_act_attachments d = [] \<Longrightarrow> db_expense_attachments d = [] \<Longrightarrow>
    single_valued (act_links d) \<Longrightarrow> attach_reach st ([d], s)"
| confirm: "attach_reach st (d # h, s) \<Longrightarrow> d0 \<in> set (d # h) \<Longrightarrow>
    \<forall>d1 \<in> set (d # h). env_uuid e 0 \<notin> aa_id ` set (db_act_attachments d1) \<Longrightarrow>
    confirm_activity st s e i user dto d0 d = (r, d') \<Longrightarrow> attach_reach st (d' # d # h, s)"
| replace: "attach_reach st (d # h, s) \<Longrightarrow> d0 \<in> set (d # h) \<Longrightarrow>
    replace_attachment st i user k dto d0 (d, s) = (r, d', s') \<Longrightarrow> attach_reach st (d' # d # h, s')"
| rename: "attach_reach st (d # h, s) \<Longrightarrow> d0 \<in> set (d # h) \<Longrightarrow>
    rename_attachment st s i user k name d0 d = (r, d') \<Longrightarrow> attach_reach st (d' # d # h, s)"
| remove: "attach_reach st (d # h, s) \<Longrightarrow> d0 \<in> set (d # h) \<Longrightarrow>
    remove_attachment st i user k d0 (d, s) = (r, d', s') \<Longrightarrow> attach_reach st (d' # d # h, s')"
| confirm_expense: "attach_reach st (d # h, s) \<Longrightarrow> d0 \<in> set (d # h) \<Longrightarrow>
    confirm_expense st s e i user dto d0 d = (r, d') \<Longrightarrow> attach_reach st (d' # d # h, s)"
| convert: "attach_reach st (d # h, s) \<Longrightarrow> d0 \<in> set (d # h) \<Longrightarrow>
    convert st s e i user k d0 d = (r, d') \<Longrightarrow> attach_reach st (d' # d # h, s)"
| other: "attach_reach st (d # h, s) \<Longrightarrow> db_act_attachments d' = db_act_attachments d \<Longrightarrow>
    db_expense_attachments d' = db_expense_attachments d \<Longrightarrow>
    act_links d \<subseteq> act_links d' \<Longrightarrow> exp_links d \<subseteq> exp_links d' \<Longrightarrow>
    single_valued (act_links d') \<Longrightarrow> attach_reach st (d' # d # h, s')"

section \<open>The invariant\<close>

definition act_paths_ok :: "db \<Rightarrow> bool" where
  "act_paths_ok d \<longleftrightarrow> (\<forall>r \<in> set (db_act_attachments d). \<exists>b. (aa_activityId r, b) \<in> act_links d \<and>
     starts_with (activity_folder b (aa_activityId r)) (aa_fileUrl r))"

definition exp_paths_ok :: "db \<Rightarrow> bool" where
  "exp_paths_ok d \<longleftrightarrow> (\<forall>r \<in> set (db_expense_attachments d). \<exists>b. (ea_expenseId r, b) \<in> exp_links d \<and>
     (starts_with (expense_folder b (ea_expenseId r)) (ea_fileUrl r) \<or>
      (\<exists>a. (a, b) \<in> act_links d \<and> starts_with (activity_folder b a) (ea_fileUrl r))))"

definition attach_inv :: "db list \<Rightarrow> bool" where
  "attach_inv h \<longleftrightarrow> h \<noteq> [] \<and> single_valued (act_links (hd h)) \<and>
     single_valued (\<Union> (owner_links ` set h)) \<and>
     (\<forall>d0 \<in> set h. act_links d0 \<subseteq> act_links (hd h) \<and> exp_links d0 \<subseteq> exp_links (hd h) \<and>
        act_paths_ok d0 \<and> exp_paths_ok d0)"

lemma attach_inv_step:
  assumes "attach_inv (d # h)" "act_links d \<subseteq> act_links d'" "exp_links d \<subseteq> exp_links d'"
    and "single_valued (act_links d')" "single_valued (owner_links d' \<union> \<Union> (owner_links ` set (d # h)))"
    and "act_paths_ok d'" "exp_paths_ok d'"
  shows "attach_inv (d' # d # h)"
  using assms unfolding attach_inv_def by simp blast

text \<open>A step that touches the rows of the activity documents only.\<close>

lemma attach_inv_act:
  assumes inv: "attach_inv (d # h)" and d': "d' = d\<lparr>db_act_attachments := rows\<rparr>"
    and "single_valued (owner_links d' \<union> \<Union> (owner_links ` set (d # h)))"
    and ok: "\<And>r. r \<in> set rows \<Longrightarrow> \<exists>b. (aa_activityId r, b) \<in> act_links d \<and>
       starts_with (activity_folder b (aa_activityId r)) (aa_fileUrl r)"
  shows "attach_inv (d' # d # h)"
proof (rule attach_inv_step [OF inv _ _ _ assms(3)])
  have links: "act_links d' = act_links d" "exp_links d' = exp_links d"
    by (simp_all add: d' act_links_def exp_links_def)
  show "act_links d \<subseteq> act_links d'" "exp_links d \<subseteq> exp_links d'"
    by (simp_all add: links)
  show "single_valued (act_links d')"
    using inv by (simp add: links attach_inv_def)
  show "act_paths_ok d'"
    using ok by (simp add: act_paths_ok_def links) (simp add: d')
  show "exp_paths_ok d'"
    using inv by (simp add: exp_paths_ok_def links attach_inv_def) (simp add: d')
qed

text \<open>A step that touches the rows of the expense documents only.\<close>

lemma attach_inv_exp:
  assumes inv: "attach_inv (d # h)"
    and d': "db_act_attachments d' = db_act_attachments d" "db_activities d' = db_activities d"
      "exp_links d' = exp_links d" "db_expense_attachments d' = db_expense_attachments d @ [r]"
    and r: "(ea_expenseId r, b) \<in> exp_links d" "starts_with (expense_folder b (ea_expenseId r)) (ea_fileUrl r) \<or>
      (\<exists>a. (a, b) \<in> act_links d \<and> starts_with (activity_folder b a) (ea_fileUrl r))"
  shows "attach_inv (d' # d # h)"
proof (rule attach_inv_step [OF inv])
  have links: "act_links d' = act_links d" "owner_links d' = owner_links d"
    by (simp_all add: d' act_links_def owner_links_def)
  show "act_links d \<subseteq> act_links d'" "exp_links d \<subseteq> exp_links d'"
    by (simp_all add: links d')
  show "single_valued (act_links d')" "act_paths_ok d'"
    using inv by (simp_all add: links d' attach_inv_def act_paths_ok_def)
  show "single_valued (owner_links d' \<union> \<Union> (owner_links ` set (d # h)))"
    using inv by (simp add: links attach_inv_def Un_assoc [symmetric])
  show "exp_paths_ok d'"
    using inv r by (auto simp: exp_paths_ok_def links d' attach_inv_def)
qed

text \<open>What the checks of a route give.\<close>

lemma findById_link: "findById d i = Some a \<Longrightarrow> (i, act_bondId a) \<in> act_links d"
  by (force simp: findById_def find_Some_iff act_links_def)

lemma ensureMemberAndEditable_link:
  "ensureMemberAndEditable d i user = Inr a \<Longrightarrow> (i, act_bondId a) \<in> act_links d"
  by (auto simp: ensureMemberAndEditable_def attachment_member_def chain_simps intro: findById_link)

lemma own_attachment_owner:
  assumes "own_attachment d i user k m = Inr a"
  shows "(aa_id a, i) \<in> owner_links d" "a \<in> set (db_act_attachments d)"
    "aa_id a = k" "aa_activityId a = i"
  using assms by (force simp: own_attachment_def chain_simps find_Some_iff owner_links_def)+

lemma check_path_folder: "check_path st s folder path = Inr u \<Longrightarrow> starts_with folder path"
  by (simp add: check_path_def chain_simps)

lemma ensureRequester_link:
  assumes "ensureRequester d i user = Inr x"
  shows "(i, exp_bondId x) \<in> exp_links d" "exp_id x = i"
proof -
  have f: "find (\<lambda>x. exp_id x = i \<and> is_alive x) (db_expenses d) = Some x"
    using assms by (auto simp: ensureRequester_def ensureMember_def chain_simps findAliveById_def)
  then show "exp_id x = i"
    by (auto simp: find_Some_iff)
  from f show "(i, exp_bondId x) \<in> exp_links d"
    by (force simp: find_Some_iff exp_links_def)
qed

lemma convertible_link:
  assumes "convertible d x k = Inr a"
  shows "a \<in> set (db_act_attachments d)" "(aa_activityId a, exp_bondId x) \<in> act_links d"
  using assms
  by (force simp: convertible_def chain_simps findActivityAttachment_def act_links_def image_iff
      dest!: lookup_by_SomeD split: option.splits)+

text \<open>What the invariant gives about an earlier database.\<close>

lemma attach_inv_past:
  assumes "attach_inv (d # h)" "d0 \<in> set (d # h)"
  shows "act_links d0 \<subseteq> act_links d" "exp_links d0 \<subseteq> exp_links d" "single_valued (act_links d)"
    "act_paths_ok d0" "act_paths_ok d"
    and "(k, i) \<in> owner_links d0 \<Longrightarrow> (k, i') \<in> owner_links d \<Longrightarrow> i = i'"
  using assms unfolding attach_inv_def single_valued_def by auto blast

lemma owner_subset:
  assumes "attach_inv (d # h)" "owner_links d' \<subseteq> owner_links d"
  shows "single_valued (owner_links d' \<union> \<Union> (owner_links ` set (d # h)))"
proof -
  have "owner_links d' \<union> \<Union> (owner_links ` set (d # h)) = \<Union> (owner_links ` set (d # h))"
    using assms(2) by auto
  then show ?thesis
    using assms(1) by (simp add: attach_inv_def)
qed

lemma attach_inv_same: "attach_inv (d # h) \<Longrightarrow> attach_inv (d # d # h)"
  by (rule attach_inv_step) (auto simp: attach_inv_def Un_assoc [symmetric])

section \<open>Every step keeps it\<close>

lemma confirm_activity_inv:
  assumes inv: "attach_inv (d # h)" and d0: "d0 \<in> set (d # h)"
    and fresh: "\<forall>d1 \<in> set (d # h). env_uuid e 0 \<notin> aa_id ` set (db_act_attachments d1)"
    and run: "confirm_activity st s e i user dto d0 d = (r, d')"
  shows "attach_inv (d' # d # h)"
proof (cases "d' = d")
  case False
  then obtain act row where act: "ensureMemberAndEditable d0 i user = Inr act"
      and path: "check_path st s (activity_folder (act_bondId act) i) (cf_path dto) = Inr ()"
      and d': "d' = d\<lparr>db_act_attachments := db_act_attachments d @ [row]\<rparr>"
      and row: "aa_id row = env_uuid e 0" "aa_activityId row = i" "aa_fileUrl row = cf_path dto"
    using run by (auto simp: confirm_activity_def chain_simps Let_def split: sum.splits)
  show ?thesis
  proof (rule attach_inv_act [OF inv d'])
    have "owner_links d' = insert (env_uuid e 0, i) (owner_links d)"
      by (simp add: d' owner_links_def row)
    moreover have "(env_uuid e 0, j) \<notin> \<Union> (owner_links ` set (d # h))" for j
      using fresh by (auto simp: owner_links_def)
    ultimately show "single_valued (owner_links d' \<union> \<Union> (owner_links ` set (d # h)))"
      using inv unfolding attach_inv_def single_valued_def by auto
    show "\<exists>b. (aa_activityId r, b) \<in> act_links d \<and>
        starts_with (activity_folder b (aa_activityId r)) (aa_fileUrl r)"
      if "r \<in> set (db_act_attachments d @ [row])" for r
    proof (cases "r = row")
      case True
      then show ?thesis
        using ensureMemberAndEditable_link [OF act] attach_inv_past(1) [OF inv d0]
          check_path_folder [OF path] row by auto
    next
      case False
      then show ?thesis
        using that attach_inv_past(5) [OF inv d0] by (auto simp: act_paths_ok_def)
    qed
  qed
qed (use inv in \<open>simp add: attach_inv_same\<close>)

text \<open>Both editions save a row of the owner it had, with a path of that owner's folder.\<close>

lemma save_row_cases: "r \<in> set (save_row key row rows) \<Longrightarrow> r = row \<or> r \<in> set rows"
  by (auto simp: save_row_def update_by_def split: if_splits)

lemma save_attachment_inv:
  assumes inv: "attach_inv (d # h)" and d0: "d0 \<in> set (d # h)"
    and own: "(aa_id row, aa_activityId row) \<in> owner_links d0"
    and path: "(aa_activityId row, b) \<in> act_links d"
      "starts_with (activity_folder b (aa_activityId row)) (aa_fileUrl row)"
  shows "attach_inv (d\<lparr>db_act_attachments := save_row aa_id row (db_act_attachments d)\<rparr> # d # h)"
proof (rule attach_inv_act [OF inv refl])
  let ?d' = "d\<lparr>db_act_attachments := save_row aa_id row (db_act_attachments d)\<rparr>"
  have "owner_links ?d' \<subseteq> owner_links d0 \<union> owner_links d"
    using own by (auto simp: owner_links_def dest!: save_row_cases)
  then have "owner_links ?d' \<union> \<Union> (owner_links ` set (d # h)) = \<Union> (owner_links ` set (d # h))"
    using d0 by auto
  then show "single_valued (owner_links ?d' \<union> \<Union> (owner_links ` set (d # h)))"
    using inv by (simp add: attach_inv_def)
  show "\<exists>b. (aa_activityId r, b) \<in> act_links d \<and>
      starts_with (activity_folder b (aa_activityId r)) (aa_fileUrl r)"
    if "r \<in> set (save_row aa_id row (db_act_attachments d))" for r
    using save_row_cases [OF that] path attach_inv_past(5) [OF inv d0] by (auto simp: act_paths_ok_def)
qed

lemma replace_attachment_inv:
  assumes inv: "attach_inv (d # h)" and d0: "d0 \<in> set (d # h)"
    and run: "replace_attachment st i user k dto d0 (d, s) = (r, d', s')"
  shows "attach_inv (d' # d # h)"
proof (cases "d' = d")
  case False
  then obtain act a where act: "ensureMemberAndEditable d0 i user = Inr act"
      and a: "own_attachment d0 i user k ''Cannot replace this attachment'' = Inr a"
      and path: "check_path st s (activity_folder (act_bondId act) i) (cf_path dto) = Inr ()"
      and d': "d' = d\<lparr>db_act_attachments := save_row aa_id (a\<lparr>aa_fileUrl := cf_path dto,
        aa_fileName := cf_fileName dto, aa_fileType := cf_mimeType dto\<rparr>) (db_act_attachments d)\<rparr>"
    using run by (auto simp: replace_attachment_def chain_simps Let_def split: sum.splits)
  have "(i, act_bondId act) \<in> act_links d"
    using ensureMemberAndEditable_link [OF act] attach_inv_past(1) [OF inv d0] by blast
  then show ?thesis
    unfolding d' using own_attachment_owner [OF a] check_path_folder [OF path]
    by (intro save_attachment_inv [OF inv d0, of _ "act_bondId act"]) simp_all
qed (use inv in \<open>simp add: attach_inv_same\<close>)

lemma rename_attachment_inv:
  assumes inv: "attach_inv (d # h)" and d0: "d0 \<in> set (d # h)"
    and run: "rename_attachment st s i user k name d0 d = (r, d')"
  shows "attach_inv (d' # d # h)"
proof (cases "d' = d")
  case False
  then obtain a where a: "own_attachment d0 i user k ''Cannot rename this attachment'' = Inr a"
      and d': "d' = d\<lparr>db_act_attachments := save_row aa_id (a\<lparr>aa_fileName := name\<rparr>) (db_act_attachments d)\<rparr>"
    using run by (auto simp: rename_attachment_def chain_simps Let_def split: sum.splits)
  obtain b where "(aa_activityId a, b) \<in> act_links d0"
      "starts_with (activity_folder b (aa_activityId a)) (aa_fileUrl a)"
    using own_attachment_owner(2) [OF a] attach_inv_past(4) [OF inv d0] by (auto simp: act_paths_ok_def)
  then show ?thesis
    unfolding d' using own_attachment_owner [OF a] attach_inv_past(1) [OF inv d0]
    by (intro save_attachment_inv [OF inv d0, of _ b]) auto
qed (use inv in \<open>simp add: attach_inv_same\<close>)

lemma remove_attachment_inv:
  assumes inv: "attach_inv (d # h)" and d0: "d0 \<in> set (d # h)"
    and run: "remove_attachment st i user k d0 (d, s) = (r, d', s')"
  shows "attach_inv (d' # d # h)"
proof (cases "d' = d")
  case False
  then obtain a where "chain (ensureMemberAndEditable d0 i user) (\<lambda>_.
      own_attachment d0 i user k ''Cannot delete this attachment'') = Inr a"
    using run by (auto simp: remove_attachment_def split: sum.splits)
  then have d': "d' = d\<lparr>db_act_attachments :=
      filter (\<lambda>r. aa_id r \<noteq> aa_id a) (db_act_attachments d)\<rparr>"
    using run by (simp add: remove_attachment_def)
  show ?thesis
  proof (rule attach_inv_act [OF inv d'])
    show "single_valued (owner_links d' \<union> \<Union> (owner_links ` set (d # h)))"
      by (rule owner_subset [OF inv]) (auto simp: d' owner_links_def)
  qed (use attach_inv_past(5) [OF inv d0] in \<open>auto simp: act_paths_ok_def\<close>)
qed (use inv in \<open>simp add: attach_inv_same\<close>)

lemma confirm_expense_inv:
  assumes inv: "attach_inv (d # h)" and d0: "d0 \<in> set (d # h)"
    and run: "confirm_expense st s e i user dto d0 d = (r, d')"
  shows "attach_inv (d' # d # h)"
proof (cases "d' = d")
  case False
  then obtain x row where x: "ensureRequester d0 i user = Inr x"
      and path: "check_path st s (keyPrefix x @ [slash]) (cf_path dto) = Inr ()"
      and d': "d' = d\<lparr>db_expense_attachments := db_expense_attachments d @ [row]\<rparr>"
      and row: "ea_expenseId row = i" "ea_fileUrl row = cf_path dto"
    using run by (auto simp: confirm_expense_def createAttachment_def chain_simps Let_def split: sum.splits)
  show ?thesis
  proof (rule attach_inv_exp [OF inv])
    show "(ea_expenseId row, exp_bondId x) \<in> exp_links d"
      using ensureRequester_link(1) [OF x] attach_inv_past(2) [OF inv d0] row(1) by auto
    show "starts_with (expense_folder (exp_bondId x) (ea_expenseId row)) (ea_fileUrl row) \<or>
        (\<exists>a. (a, exp_bondId x) \<in> act_links d \<and> starts_with (activity_folder (exp_bondId x) a) (ea_fileUrl row))"
      using check_path_folder [OF path] ensureRequester_link(2) [OF x] row
      by (simp add: keyPrefix_def expense_folder_def)
  qed (simp_all add: d' exp_links_def)
qed (use inv in \<open>simp add: attach_inv_same\<close>)

text \<open>A conversion shows an object of an activity of the same bond.\<close>

lemma convertible_path:
  assumes inv: "attach_inv (d # h)" and d0: "d0 \<in> set (d # h)" and a: "convertible d0 x k = Inr a"
  shows "(aa_activityId a, exp_bondId x) \<in> act_links d"
    and "starts_with (activity_folder (exp_bondId x) (aa_activityId a)) (aa_fileUrl a)"
proof -
  note link = convertible_link [OF a]
  obtain b where b: "(aa_activityId a, b) \<in> act_links d0"
    "starts_with (activity_folder b (aa_activityId a)) (aa_fileUrl a)"
    using attach_inv_past(4) [OF inv d0] link(1) by (auto simp: act_paths_ok_def)
  show "(aa_activityId a, exp_bondId x) \<in> act_links d"
    using link(2) attach_inv_past(1) [OF inv d0] by blast
  moreover have "(aa_activityId a, b) \<in> act_links d"
    using b(1) attach_inv_past(1) [OF inv d0] by blast
  ultimately show "starts_with (activity_folder (exp_bondId x) (aa_activityId a)) (aa_fileUrl a)"
    using attach_inv_past(3) [OF inv d0] b(2) by (auto dest: single_valuedD)
qed

lemma updateActivityId_frame [simp]:
  "db_act_attachments (snd (updateActivityId at i a d)) = db_act_attachments d"
  "db_activities (snd (updateActivityId at i a d)) = db_activities d"
  "db_expense_attachments (snd (updateActivityId at i a d)) = db_expense_attachments d"
  by (auto simp: updateActivityId_def split: option.splits)

lemma updateActivityId_links [simp]: "exp_links (snd (updateActivityId at i a d)) = exp_links d"
proof -
  have "map (\<lambda>x. (exp_id x, exp_bondId x))
      (update_by exp_id i (\<lambda>r. r\<lparr>exp_activityId := Some a, exp_updatedAt := at\<rparr>) rows) =
      map (\<lambda>x. (exp_id x, exp_bondId x)) rows" for rows :: "expense_row list"
    by (induction rows) simp_all
  from arg_cong [OF this, of set] show ?thesis
    by (simp add: exp_links_def updateActivityId_def split: option.split)
qed

lemma convert_inv:
  assumes inv: "attach_inv (d # h)" and d0: "d0 \<in> set (d # h)"
    and run: "convert st s e i user k d0 d = (r, d')"
  shows "attach_inv (d' # d # h)"
proof (cases "d' = d")
  case False
  then obtain x a row where x: "ensureRequester d0 i user = Inr x"
      and a: "convertible d0 x k = Inr a"
      and d': "d' = snd (updateActivityId (env_dbnow e) i (aa_activityId a)
        (d\<lparr>db_expense_attachments := db_expense_attachments d @ [row]\<rparr>))"
      and row: "ea_expenseId row = i" "ea_fileUrl row = aa_fileUrl a"
    using run by (auto simp: convert_def createAttachment_def chain_simps Let_def split: sum.splits)
  show ?thesis
  proof (rule attach_inv_exp [OF inv])
    show "(ea_expenseId row, exp_bondId x) \<in> exp_links d"
      using ensureRequester_link(1) [OF x] attach_inv_past(2) [OF inv d0] row(1) by auto
    show "starts_with (expense_folder (exp_bondId x) (ea_expenseId row)) (ea_fileUrl row) \<or>
        (\<exists>a. (a, exp_bondId x) \<in> act_links d \<and> starts_with (activity_folder (exp_bondId x) a) (ea_fileUrl row))"
      using convertible_path [OF inv d0 a] row by auto
  qed (simp_all add: d' exp_links_def [of "d\<lparr>db_expense_attachments := X\<rparr>" for X] exp_links_def [of d])
qed (use inv in \<open>simp add: attach_inv_same\<close>)

lemma attach_inv_reachable: "attach_reach st c \<Longrightarrow> attach_inv (fst c)"
proof (induction rule: attach_reach.induct)
  case (start d s)
  then show ?case
    by (simp add: attach_inv_def owner_links_def act_paths_ok_def exp_paths_ok_def)
next
  case (confirm d h s d0 e i user dto r d')
  show ?case
    using confirm_activity_inv [OF confirm.IH [unfolded fst_conv] confirm.hyps(2,3,4)] by simp
next
  case (replace d h s d0 i user k dto r d' s')
  show ?case
    using replace_attachment_inv [OF replace.IH [unfolded fst_conv] replace.hyps(2,3)] by simp
next
  case (rename d h s d0 i user k name r d')
  show ?case
    using rename_attachment_inv [OF rename.IH [unfolded fst_conv] rename.hyps(2,3)] by simp
next
  case (remove d h s d0 i user k r d' s')
  show ?case
    using remove_attachment_inv [OF remove.IH [unfolded fst_conv] remove.hyps(2,3)] by simp
next
  case (confirm_expense d h s d0 e i user dto r d')
  show ?case
    using confirm_expense_inv [OF confirm_expense.IH [unfolded fst_conv] confirm_expense.hyps(2,3)] by simp
next
  case (convert d h s d0 e i user k r d')
  show ?case
    using convert_inv [OF convert.IH [unfolded fst_conv] convert.hyps(2,3)] by simp
next
  case (other d h s d' s')
  have inv: "attach_inv (d # h)"
    using other.IH by simp
  have "act_paths_ok d'" "exp_paths_ok d'"
    using inv other.hyps by (fastforce simp: attach_inv_def act_paths_ok_def exp_paths_ok_def)+
  moreover have "single_valued (owner_links d' \<union> \<Union> (owner_links ` set (d # h)))"
    using other.hyps by (intro owner_subset [OF inv]) (simp add: owner_links_def)
  ultimately show ?case
    using attach_inv_step [OF inv] other.hyps by simp
qed

section \<open>An example\<close>

text \<open>A storage that holds a list of paths, an assigned activity and a pending expense of its bond.\<close>

definition ex_disk :: "(utf16 list, unit) storage_service" where
  "ex_disk = storage_service_of (Some
     \<lparr>sb_createSignedUploadUrl = (\<lambda>s b p. Some ''up''),
      sb_list = (\<lambda>s b dir name n. Some (if dir @ slash # name \<in> set s then [name] else [])),
      sb_createSignedUrl = (\<lambda>s b p n. if p \<in> set s then Some ''down'' else None),
      sb_remove = (\<lambda>s b ps. (True, filter (\<lambda>p. p \<notin> set ps) s)),
      sb_upload = (\<lambda>s b p body c. (True, p # s))\<rparr>) None None"

definition ex_path :: utf16 where
  "ex_path = js ''activities/b/x/f.pdf''"

definition ex_owner :: auth_user where
  "ex_owner = \<lparr>usr_id = ''u1'', usr_email = [], usr_systemRole = ''user''\<rparr>"

definition ex_docs_db :: db where
  "ex_docs_db = ex_db0\<lparr>db_activities := [ex_created (Some ''u2'')], db_expenses := [ex_expense]\<rparr>"

definition ex_confirmed_db :: db where
  "ex_confirmed_db = snd (confirm_activity ex_disk [ex_path] ex_env ''x'' ex_owner
     \<lparr>cf_path = ex_path, cf_fileName = js ''f.pdf'', cf_mimeType = ''application/pdf''\<rparr> ex_docs_db ex_docs_db)"

definition ex_converted_db :: db where
  "ex_converted_db = snd (convert ex_disk [ex_path] ex_env ''x'' ex_owner ''x'' ex_confirmed_db ex_confirmed_db)"

lemma ex_docs_rows [simp]:
  "db_activities ex_docs_db = [ex_created (Some ''u2'')]" "db_expenses ex_docs_db = [ex_expense]"
  "db_bonds ex_docs_db = [ex_bond]" "db_children ex_docs_db = [ex_child]"
  "db_members ex_docs_db = [ex_member ''m1'' ''u1'' PROGENITOR, ex_member ''m2'' ''u2'' PROGENITOR]"
  "db_act_attachments ex_docs_db = []" "db_expense_attachments ex_docs_db = []"
  by (simp_all add: ex_docs_db_def) (simp_all add: ex_defs)

lemma ex_editable:
  assumes "db_activities d = db_activities ex_docs_db" "db_bonds d = db_bonds ex_docs_db"
    "db_children d = db_children ex_docs_db" "db_members d = db_members ex_docs_db"
  shows "ensureMemberAndEditable d ''x'' ex_owner = Inr (ex_created (Some ''u2''))"
  using assms
  by (simp add: ensureMemberAndEditable_def attachment_member_def findById_def is_live_def
      findBondsByUserId_def ex_owner_def ensure_def) (simp add: ex_defs)

lemma ex_path_facts [simp]:
  "starts_with (activity_folder ''b'' ''x'') ex_path" "objectExists ex_disk [ex_path] ex_path"
  by (simp_all add: activity_folder_def ex_path_def objectExists_def ex_disk_def storage_service_of_def)
    code_simp+

lemma ex_confirmed:
  "ex_confirmed_db = ex_docs_db\<lparr>db_act_attachments := [\<lparr>aa_id = ''x'', aa_activityId = ''x'',
     aa_fileUrl = ex_path, aa_fileName = js ''f.pdf'', aa_fileType = ''application/pdf'',
     aa_uploadedBy = ''u1'', aa_uploadedAt = 0\<rparr>]\<rparr>"
  by (simp add: ex_confirmed_db_def confirm_activity_def ex_editable check_path_def ensure_def)
    (simp add: ex_env_def ex_owner_def Let_def)

lemma ex_requester:
  assumes "db_expenses d = db_expenses ex_docs_db" "db_bonds d = db_bonds ex_docs_db"
    "db_members d = db_members ex_docs_db"
  shows "ensureRequester d ''x'' ex_owner = Inr ex_expense"
  using assms
  by (simp add: ensureRequester_def ensureMember_def findAliveById_def is_alive_def ex_owner_def
      ensure_def isActiveBondForMember_iff) (simp add: ex_defs)

lemma ex_converted:
  "fst (convert ex_disk [ex_path] ex_env ''x'' ex_owner ''x'' ex_confirmed_db ex_confirmed_db) \<noteq> Inl err"
  "map ea_fileUrl (db_expense_attachments ex_converted_db) = [ex_path]"
  by (simp_all add: ex_converted_db_def convert_def ex_requester ex_confirmed convertible_def
      findActivityAttachment_def ensure_def createAttachment_def Let_def)

lemma ex_attach_reach:
  "attach_reach ex_disk ([ex_converted_db, ex_confirmed_db, ex_docs_db], [ex_path])"
proof -
  have "attach_reach ex_disk ([ex_docs_db], [ex_path])"
    by (rule attach_reach.start) (simp_all add: act_links_def single_valued_def)
  then have "attach_reach ex_disk ([ex_confirmed_db, ex_docs_db], [ex_path])"
    by (rule attach_reach.confirm [where d0 = ex_docs_db and e = ex_env])
      (auto simp: ex_confirmed_db_def intro: prod_eqI)
  then show ?thesis
    by (rule attach_reach.convert [where d0 = ex_confirmed_db])
      (auto simp: ex_converted_db_def intro: prod_eqI)
qed

section \<open>Properties\<close>

text \<open>C36. In every reachable state, under every interleaving of confirmations, replacements, renamings,
  removals and conversions with stale reads, the path of an activity's document begins with the folder
  of that activity and its bond, and the path of an expense's document begins with the folder of that
  expense and its bond or with the folder of an activity of the same bond: no document is shown under
  the folder of another bond. (Whether the storage resolves a segment of two dots is not known here;
  the service does not reject one.)\<close>

theorem attachments_stay_in_their_bond:
  assumes "attach_reach st (d # h, s)"
  shows "(\<forall>r \<in> set (db_act_attachments d). \<exists>a \<in> set (db_activities d). act_id a = aa_activityId r \<and>
       starts_with (activity_folder (act_bondId a) (act_id a)) (aa_fileUrl r)) \<and>
    (\<forall>r \<in> set (db_expense_attachments d). \<exists>x \<in> set (db_expenses d). exp_id x = ea_expenseId r \<and>
       (starts_with (keyPrefix x @ [slash]) (ea_fileUrl r) \<or>
        (\<exists>a \<in> set (db_activities d). act_bondId a = exp_bondId x \<and>
           starts_with (activity_folder (act_bondId a) (act_id a)) (ea_fileUrl r))))"
proof -
  have "act_paths_ok d" "exp_paths_ok d"
    using attach_inv_reachable [OF assms] by (simp_all add: attach_inv_def)
  then show ?thesis
    by (fastforce simp: act_paths_ok_def exp_paths_ok_def act_links_def exp_links_def keyPrefix_def
        expense_folder_def)
qed

theorem attachments_stay_in_their_bond_witness:
  "attach_reach ex_disk ([ex_converted_db, ex_confirmed_db, ex_docs_db], [ex_path]) \<and>
   (\<exists>r \<in> set (db_expense_attachments ex_converted_db). \<exists>x \<in> set (db_expenses ex_converted_db).
      exp_id x = ea_expenseId r \<and> ea_fileUrl r = ex_path)"
proof -
  obtain r where "r \<in> set (db_expense_attachments ex_converted_db)" "ea_fileUrl r = ex_path"
    using ex_converted(2) by (auto simp: map_eq_Cons_conv)
  then show ?thesis
    using attachments_stay_in_their_bond [OF ex_attach_reach] ex_attach_reach by blast
qed

text \<open>C37. A conversion makes a second row for the object of an activity's document. When that document
  is then removed and the storage deletes the object, the document of the expense stays a row, the
  expense still says it has a document, and there is nothing left to download. The hypothesis on the
  storage: after a removal that succeeded there is no signed URL for the path.\<close>

theorem removed_document_breaks_expense:
  assumes storage: "ss_supabase st = Some client"
    and law: "\<forall>s s' p n. sb_remove client s (ss_bucket st) [p] = (True, s') \<longrightarrow>
      sb_createSignedUrl client s' (ss_bucket st) p n = None"
    and works: "\<forall>p. fst (sb_remove client s (ss_bucket st) [p])"
    and ids: "distinct (map aa_id (db_act_attachments d))"
    and conv: "convert st s e x user k d d = (Inr doc, d1)"
    and rm: "remove_attachment st i other k d1 (d1, s) = (Inr (), d2, s2)"
  shows "hasDocument d2 x \<and>
    (\<exists>row \<in> set (db_expense_attachments d2). ea_id row = at_id doc \<and> ea_expenseId row = x \<and>
       createSignedDownloadUrl st s2 (ea_fileUrl row) = None)"
proof -
  obtain v a row where a: "convertible d v k = Inr a"
      and d1: "d1 = snd (updateActivityId (env_dbnow e) x (aa_activityId a)
        (d\<lparr>db_expense_attachments := db_expense_attachments d @ [row]\<rparr>))"
      and row: "ea_id row = at_id doc" "ea_expenseId row = x" "ea_fileUrl row = aa_fileUrl a"
    using conv by (auto simp: convert_def createAttachment_def exp_response_def chain_simps Let_def
        split: sum.splits)
  have look: "lookup_by aa_id k (db_act_attachments d) = Some a"
    using a by (auto simp: convertible_def chain_simps findActivityAttachment_def split: option.splits)
  obtain b where b: "own_attachment d1 i other k ''Cannot delete this attachment'' = Inr b"
      and d2: "db_expense_attachments d2 = db_expense_attachments d1"
      and s2: "s2 = snd (removeObject st (aa_fileUrl b) s)"
    using rm by (auto simp: remove_attachment_def chain_simps split: sum.splits)
  have "b \<in> set (db_act_attachments d)" "aa_id b = k"
    using b by (auto simp: own_attachment_def chain_simps find_Some_iff d1)
  then have "b = a"
    using lookup_by_distinct [OF ids] look by fastforce
  then have "sb_remove client s (ss_bucket st) [aa_fileUrl a] = (True, s2)"
    using works s2 by (simp add: removeObject_def storage prod_eq_iff)
  then have "createSignedDownloadUrl st s2 (ea_fileUrl row) = None"
    using law row(3) by (auto simp: createSignedDownloadUrl_def storage)
  moreover have "row \<in> set (db_expense_attachments d2)"
    by (simp add: d2 d1)
  ultimately show ?thesis
    using row by (auto simp: hasDocument_def list_ex_iff)
qed

theorem removed_document_breaks_expense_witness:
  "\<exists>doc d2 s2. convert ex_disk [ex_path] ex_env ''x'' ex_owner ''x'' ex_confirmed_db ex_confirmed_db =
       (Inr doc, ex_converted_db) \<and>
     remove_attachment ex_disk ''x'' ex_owner ''x'' ex_converted_db (ex_converted_db, [ex_path]) =
       (Inr (), d2, s2) \<and>
     (\<exists>row \<in> set (db_expense_attachments d2). ea_id row = at_id doc \<and>
        createSignedDownloadUrl ex_disk s2 (ea_fileUrl row) = None)"
proof -
  obtain doc where conv: "convert ex_disk [ex_path] ex_env ''x'' ex_owner ''x'' ex_confirmed_db ex_confirmed_db =
      (Inr doc, ex_converted_db)"
    using ex_converted(1) by (metis ex_converted_db_def obj_sumE prod.collapse)
  have same: "db_activities ex_converted_db = db_activities ex_docs_db" "db_bonds ex_converted_db = db_bonds ex_docs_db"
    "db_children ex_converted_db = db_children ex_docs_db" "db_members ex_converted_db = db_members ex_docs_db"
    "db_act_attachments ex_converted_db = db_act_attachments ex_confirmed_db"
    by (simp_all add: ex_converted_db_def convert_def ex_requester ex_confirmed convertible_def
      findActivityAttachment_def ensure_def createAttachment_def Let_def) (simp_all add: updateActivityId_def is_alive_def)
  obtain d2 s2 where rm: "remove_attachment ex_disk ''x'' ex_owner ''x'' ex_converted_db (ex_converted_db, [ex_path]) =
       (Inr (), d2, s2)"
    by (simp add: remove_attachment_def ex_editable same(1-4) own_attachment_def same(5) ex_confirmed
        ensure_def ex_owner_def [THEN arg_cong [of _ _ usr_id]])
  have "ss_supabase ex_disk = Some (the (ss_supabase ex_disk))"
    by (simp add: ex_disk_def storage_service_of_def)
  from removed_document_breaks_expense [OF this _ _ _ conv rm] conv rm show ?thesis
    by (auto simp: ex_disk_def storage_service_of_def ex_confirmed)
qed

text \<open>A replacement by the same path deletes the object it has just confirmed.\<close>

lemma replacement_by_itself_loses_the_file:
  assumes storage: "ss_supabase st = Some client"
    and law: "\<forall>s s' p n. sb_remove client s (ss_bucket st) [p] = (True, s') \<longrightarrow>
      sb_createSignedUrl client s' (ss_bucket st) p n = None"
    and works: "\<forall>p. fst (sb_remove client s (ss_bucket st) [p])"
    and own: "own_attachment d i user k ''Cannot replace this attachment'' = Inr a"
    and rep: "replace_attachment st i user k dto d (d, s) = (Inr doc, d', s')"
    and same: "cf_path dto = aa_fileUrl a"
  shows "at_viewUrl doc = None"
proof -
  have "at_viewUrl doc = createSignedDownloadUrl st s' (aa_fileUrl a)" "s' = snd (removeObject st (aa_fileUrl a) s)"
    using rep own same by (auto simp: replace_attachment_def chain_simps act_response_def Let_def
        split: sum.splits)
  then show ?thesis
    using law works by (simp add: removeObject_def createSignedDownloadUrl_def storage prod_eq_iff)
qed

text \<open>A renaming that read the row before a replacement committed writes the old path back: the row
  names the object the replacement has removed.\<close>

lemma rename_brings_the_old_path_back:
  assumes rep: "replace_attachment st i user k dto d (d, s) = (Inr doc, d1, s1)"
    and ren: "rename_attachment st s1 i user k name d d1 = (Inr doc', d2)"
    and old: "find (\<lambda>a. aa_id a = k \<and> aa_activityId a = i) (db_act_attachments d) = Some a"
  shows "a\<lparr>aa_fileName := name\<rparr> \<in> set (db_act_attachments d2)"
proof -
  have d2: "d2 = d1\<lparr>db_act_attachments := save_row aa_id (a\<lparr>aa_fileName := name\<rparr>) (db_act_attachments d1)\<rparr>"
    using ren old by (auto simp: rename_attachment_def own_attachment_def chain_simps Let_def
        split: sum.splits)
  have "row \<in> set (save_row aa_id row rows)" for row :: act_attachment_row and rows
    by (force simp: save_row_def update_by_def)
  then show ?thesis
    by (simp add: d2)
qed

text \<open>A confirmation is not idempotent: a second one with the same path makes a second row.\<close>

lemma confirmation_repeats:
  assumes "confirm_activity st s e i user dto d d = (Inr doc, d1)"
    and "confirm_activity st s e' i user dto d1 d1 = (Inr doc', d2)"
  shows "length (filter (\<lambda>r. aa_fileUrl r = cf_path dto) (db_act_attachments d2)) =
    length (filter (\<lambda>r. aa_fileUrl r = cf_path dto) (db_act_attachments d)) + 2"
  using assms by (auto simp: confirm_activity_def Let_def split: sum.splits)

end
