(* ===== verification/Categories.thy ===== *)
theory Categories
  imports Administration
begin

text \<open>The catalogue of categories (\<open>categories/categories.service.ts\<close>). Names are unique by an index
  of the table; the service looks for the name first, on \<open>d0\<close>, and writes on \<open>d\<close>, where the index
  has the last word. A category of an activity or an expense cannot be deleted: the foreign keys
  refuse. The bodies are those the decorators let through, texts without the character NUL; a null is
  let through for every optional key. The order of names is the collation of the database, a
  parameter.\<close>

section \<open>Reads\<close>

definition findCategoryByName :: "db \<Rightarrow> utf16 \<Rightarrow> category_row option" where
  "findCategoryByName d n = lookup_by cat_name n (db_categories d)"

definition findCategoryById :: "db \<Rightarrow> uuid \<Rightarrow> category_row option" where
  "findCategoryById d i = lookup_by cat_id i (db_categories d)"

definition findAllCategories :: "(utf16 \<Rightarrow> 'k::linorder) \<Rightarrow> db \<Rightarrow> category_row list" where
  "findAllCategories collation d = sort_key (\<lambda>c. collation (cat_name c)) (db_categories d)"

definition findActiveCategories :: "(utf16 \<Rightarrow> 'k::linorder) \<Rightarrow> db \<Rightarrow> category_row list" where
  "findActiveCategories collation d =
     sort_key (\<lambda>c. collation (cat_name c)) (filter cat_isActive (db_categories d))"

definition category_not_found :: "uuid \<Rightarrow> http_error" where
  "category_not_found i = notFoundException (''Category with id \"'' @ i @ ''\" not found'')"

definition findOneCategory :: "db \<Rightarrow> uuid \<Rightarrow> http_error + category_row" where
  "findOneCategory d i = some_or (findCategoryById d i) (category_not_found i)"

section \<open>Writes\<close>

text \<open>The optional keys of a body.\<close>

record category_fields =
  gf_description :: "utf16 option patch"
  gf_color :: "string option patch"
  gf_icon :: "string option patch"
  gf_isActive :: "bool option patch"

text \<open>The message names the category; the texts of errors are ASCII here, any other unit is a question
  mark.\<close>

definition ascii :: "utf16 \<Rightarrow> string" where
  "ascii n = map (\<lambda>u. if u < 128 then char_of (unat u) else CHR ''?'') n"

definition category_exists :: "utf16 \<Rightarrow> http_error" where
  "category_exists n = conflictException (''Category \"'' @ ascii n @ ''\" already exists'')"

definition new_category :: "env \<Rightarrow> utf16 \<Rightarrow> category_fields \<Rightarrow> category_row" where
  "new_category e n f =
     \<lparr>cat_id = env_uuid e 0, cat_name = n, cat_description = patched (gf_description f) None,
      cat_color = patched (gf_color f) None, cat_icon = patched (gf_icon f) None,
      cat_criticality = MEDIUM, cat_isActive = required_patch (gf_isActive f) True,
      cat_createdAt = env_dbnow e, cat_updatedAt = env_dbnow e\<rparr>"

definition create_category ::
  "env \<Rightarrow> utf16 \<Rightarrow> category_fields \<Rightarrow> db \<Rightarrow> db \<Rightarrow> category_row served" where
  "create_category e n f d0 d =
     (if findCategoryByName d0 n \<noteq> None then (Inl (category_exists n), d)
      else if findCategoryByName d n \<noteq> None \<or> \<not> required_fits (\<lambda>_. True) (gf_isActive f)
      then (Inl internal_error, d)
      else (Inr (new_category e n f), d\<lparr>db_categories := db_categories d @ [new_category e n f]\<rparr>))"

definition assign_category :: "utf16 option patch \<Rightarrow> category_fields \<Rightarrow> category_row \<Rightarrow> category_row" where
  "assign_category n f c =
     c\<lparr>cat_name := required_patch n (cat_name c), cat_description := patched (gf_description f) (cat_description c),
       cat_color := patched (gf_color f) (cat_color c), cat_icon := patched (gf_icon f) (cat_icon c),
       cat_isActive := required_patch (gf_isActive f) (cat_isActive c)\<rparr>"

definition saved_category :: "instant \<Rightarrow> utf16 option patch \<Rightarrow> category_fields \<Rightarrow> category_row \<Rightarrow> category_row" where
  "saved_category at0 n f c =
     (if assign_category n f c = c then c else (assign_category n f c)\<lparr>cat_updatedAt := at0\<rparr>)"

lemma saved_category_keys [simp]:
  "cat_id (saved_category at0 n f c) = cat_id c"
  "cat_name (saved_category at0 n f c) = required_patch n (cat_name c)"
proof -
  have "cat_id (assign_category n f c) = cat_id c" "cat_name (assign_category n f c) = required_patch n (cat_name c)"
    by (simp_all add: assign_category_def)
  then show "cat_id (saved_category at0 n f c) = cat_id c"
    "cat_name (saved_category at0 n f c) = required_patch n (cat_name c)"
    by (simp_all add: saved_category_def) metis
qed

text \<open>The name that the service looks for: one that is given and differs.\<close>

fun wanted_name :: "utf16 option patch \<Rightarrow> category_row \<Rightarrow> utf16 option" where
  "wanted_name (Put (Some n)) c = (if n \<noteq> [] \<and> n \<noteq> cat_name c then Some n else None)"
| "wanted_name p c = None"

text \<open>The row is read and saved in one step; only the search for the name may be stale.\<close>

definition update_category ::
  "env \<Rightarrow> uuid \<Rightarrow> utf16 option patch \<Rightarrow> category_fields \<Rightarrow> db \<Rightarrow> db \<Rightarrow>
   category_row served" where
  "update_category e i n f d0 d =
     (case findCategoryById d i of
        None \<Rightarrow> (Inl (category_not_found i), d)
      | Some c \<Rightarrow>
          (let duplicate = (case wanted_name n c of Some w \<Rightarrow> findCategoryByName d0 w \<noteq> None | None \<Rightarrow> False);
               name' = required_patch n (cat_name c);
               row = saved_category (env_dbnow e) n f c
           in if duplicate then (Inl (category_exists name'), d)
              else if \<not> required_fits (\<lambda>_. True) n \<or> \<not> required_fits (\<lambda>_. True) (gf_isActive f) \<or>
                list_ex (\<lambda>r. cat_id r \<noteq> i \<and> cat_name r = name') (db_categories d)
              then (Inl internal_error, d)
              else (Inr row, d\<lparr>db_categories := update_by cat_id i (\<lambda>_. row) (db_categories d)\<rparr>)))"

definition category_in_use :: "db \<Rightarrow> uuid \<Rightarrow> bool" where
  "category_in_use d i \<longleftrightarrow> list_ex (\<lambda>a. act_categoryId a = i) (db_activities d) \<or>
     list_ex (\<lambda>x. exp_categoryId x = Some i) (db_expenses d)"

definition remove_category :: "uuid \<Rightarrow> db \<Rightarrow> unit served" where
  "remove_category i d =
     (if findCategoryById d i = None then (Inl (category_not_found i), d)
      else if category_in_use d i then (Inl internal_error, d)
      else (Inr (), d\<lparr>db_categories := filter (\<lambda>c. cat_id c \<noteq> i) (db_categories d)\<rparr>))"

section \<open>Facts\<close>

text \<open>Names and ids are unique in every state that the operations reach, whatever the checks read.\<close>

definition catalogue_ok :: "db \<Rightarrow> bool" where
  "catalogue_ok d \<longleftrightarrow> distinct (map cat_id (db_categories d)) \<and> distinct (map cat_name (db_categories d))"

inductive catalogue_reach :: "db \<Rightarrow> bool" where
  start: "catalogue_ok d \<Longrightarrow> catalogue_reach d"
| create: "catalogue_reach d \<Longrightarrow> env_uuid e 0 \<notin> cat_id ` set (db_categories d) \<Longrightarrow>
    create_category e n f d0 d = (r, d') \<Longrightarrow> catalogue_reach d'"
| update: "catalogue_reach d \<Longrightarrow> update_category e i p f d0 d = (r, d') \<Longrightarrow> catalogue_reach d'"
| remove: "catalogue_reach d \<Longrightarrow> remove_category i d = (r, d') \<Longrightarrow> catalogue_reach d'"
| other: "catalogue_reach d \<Longrightarrow> db_categories d' = db_categories d \<Longrightarrow> catalogue_reach d'"

lemma create_category_ok:
  assumes "catalogue_ok d" "env_uuid e 0 \<notin> cat_id ` set (db_categories d)"
    and "create_category e n f d0 d = (r, d')"
  shows "catalogue_ok d'"
  using assms
  by (auto simp: create_category_def catalogue_ok_def findCategoryByName_def lookup_by_None_iff
      new_category_def image_iff split: if_splits)

lemma distinct_update_by:
  assumes "distinct (map cat_id rows)" "distinct (map cat_name rows)" "cat_id row = i"
    and "\<And>r. r \<in> set rows \<Longrightarrow> cat_id r \<noteq> i \<Longrightarrow> cat_name r \<noteq> cat_name row"
  shows "distinct (map cat_name (update_by cat_id i (\<lambda>_. row) rows))"
  using assms
proof (induction rows)
  case (Cons r rows)
  show ?case
  proof (cases "cat_id r = i")
    case True
    then have "i \<notin> cat_id ` set rows"
      using Cons.prems(1) by auto
    then have "update_by cat_id i (\<lambda>_. row) rows = rows"
      by (rule update_by_absent)
    moreover have "cat_name row \<notin> cat_name ` set rows"
    proof
      assume "cat_name row \<in> cat_name ` set rows"
      then obtain q where q: "q \<in> set rows" "cat_name row = cat_name q"
        by blast
      moreover have "cat_id q \<noteq> i"
        using q(1) \<open>i \<notin> cat_id ` set rows\<close> by blast
      ultimately show False
        using Cons.prems(4) [of q] by simp
    qed
    ultimately show ?thesis
      using True Cons.prems(2) by simp
  next
    case False
    then have "cat_name r \<notin> cat_name ` set (update_by cat_id i (\<lambda>_. row) rows)"
      using Cons.prems(2,4) by (auto dest!: set_update_by_cases)
    then show ?thesis
      using False Cons by simp
  qed
qed simp

lemma update_category_ok:
  assumes ok: "catalogue_ok d" and run: "update_category e i p f d0 d = (r, d')"
  shows "catalogue_ok d'"
proof (cases "d' = d")
  case False
  obtain c where c: "findCategoryById d i = Some c"
    using run False by (cases "findCategoryById d i") (simp_all add: update_category_def)
  define row where "row = saved_category (env_dbnow e) p f c"
  have free: "\<not> list_ex (\<lambda>r. cat_id r \<noteq> i \<and> cat_name r = required_patch p (cat_name c)) (db_categories d)"
    and d': "d' = d\<lparr>db_categories := update_by cat_id i (\<lambda>_. row) (db_categories d)\<rparr>"
    using run False c by (auto simp: update_category_def Let_def row_def split: option.splits if_splits)
  have row: "cat_id row = cat_id c" "cat_name row = required_patch p (cat_name c)"
    by (simp_all add: row_def)
  have id: "cat_id row = i"
    using c row(1) by (auto simp: findCategoryById_def dest!: lookup_by_SomeD)
  have "map cat_id (update_by cat_id i (\<lambda>_. row) rows) = map cat_id rows" for rows
    by (induction rows) (simp_all add: id)
  moreover have "distinct (map cat_name (update_by cat_id i (\<lambda>_. row) (db_categories d)))"
    using ok free row(2) by (intro distinct_update_by) (auto simp: catalogue_ok_def id list_ex_iff)
  ultimately show ?thesis
    using ok by (simp add: catalogue_ok_def d')
qed (use ok in simp)

text \<open>Names stay unique, whatever the searches of the service have read; an update never makes two.\<close>

lemma names_stay_unique:
  assumes "catalogue_reach d"
  shows "distinct (map cat_id (db_categories d)) \<and> distinct (map cat_name (db_categories d))"
proof -
  have "catalogue_ok d"
    using assms
  proof (induction rule: catalogue_reach.induct)
    case (create d e n f d0 r d')
    then show ?case by (blast intro: create_category_ok)
  next
    case (update d e i p f d0 r d')
    then show ?case by (blast intro: update_category_ok)
  next
    case (remove d i r d')
    then show ?case
      by (auto simp: remove_category_def catalogue_ok_def split: if_splits intro: distinct_map_filter)
  qed (simp_all add: catalogue_ok_def)
  then show ?thesis
    by (simp add: catalogue_ok_def)
qed

text \<open>A category in use is never deleted, so that no activity and no expense loses its category; the
  answer is the internal error of the foreign key, not a conflict.\<close>

lemma category_in_use_stays:
  assumes "category_in_use d i" "findCategoryById d i \<noteq> None"
  shows "remove_category i d = (Inl internal_error, d)"
  using assms by (cases "findCategoryById d i") (simp_all add: remove_category_def)

end
