(* ===== verification/Compliance.thy ===== *)
theory Compliance
  imports Activities_Service Report_Numbers
begin

text \<open>The compliance of the members of a bond in the current month
  (\<open>ActivitiesService.getComplianceForBond\<close>): the activities assigned to each active member whose start
  falls in the month, how many are done, and the percentage with one decimal. The month is the one of
  the clock of the server, whose time zone is a parameter.\<close>

record time_zone =
  tz_offset :: "instant \<Rightarrow> int"  \<comment> \<open>local time minus UTC, at an instant\<close>
  tz_utc :: "int \<Rightarrow> instant"  \<comment> \<open>the instant of a local time\<close>

text \<open>\<open>getFullYear\<close> and \<open>getMonth\<close> (here from 1), and \<open>new Date(year, month, 1)\<close>, where the month after
  December is January of the next year.\<close>

definition local_month :: "time_zone \<Rightarrow> instant \<Rightarrow> int \<times> int" where
  "local_month tz now =
     (case civil_from_days ((now + tz_offset tz now) div ms_per_day) of (y, m, _) \<Rightarrow> (y, m))"

definition local_month_begin :: "time_zone \<Rightarrow> int \<Rightarrow> int \<Rightarrow> instant" where
  "local_month_begin tz y m =
     (if m = 13 then tz_utc tz (days_from_civil (y + 1) 1 1 * ms_per_day)
      else tz_utc tz (days_from_civil y m 1 * ms_per_day))"

definition period_text :: "int \<Rightarrow> int \<Rightarrow> string" where
  "period_text y m =
     (if y < 0 then CHR ''-'' # decimal (nat (- y)) else decimal (nat y)) @ ''-'' @
     pad_start 2 (decimal (nat m))"

record compliance_member_row =
  cm_userId :: uuid
  cm_firstName :: utf16
  cm_lastName :: utf16
  cm_total :: nat
  cm_completed :: nat

text \<open>The query: the active members with their personal data, each joined to its activities, grouped
  by user and names. The join does not look at \<open>deleted_at\<close>. A user who is twice an active member
  counts twice. The order of the groups, which SQL leaves open, is the one of the members.\<close>

definition active_members_with_data :: "db \<Rightarrow> uuid \<Rightarrow> (uuid \<times> utf16 \<times> utf16) list" where
  "active_members_with_data d bondId =
     concat (map (\<lambda>m. map (\<lambda>p. (mem_userId m, pd_firstName p, pd_lastName p))
                        (filter (\<lambda>p. pd_userId p = mem_userId m) (db_personal d)))
       (filter (\<lambda>m. mem_bondId m = bondId \<and> mem_leftAt m = None) (db_members d)))"

definition joined_activities :: "db \<Rightarrow> uuid \<Rightarrow> instant \<Rightarrow> instant \<Rightarrow> uuid \<Rightarrow> activity_row list" where
  "joined_activities d bondId from to userId =
     filter (\<lambda>a. act_assignedTo a = Some userId \<and> act_bondId a = bondId \<and>
        (case act_scheduledStart a of None \<Rightarrow> False | Some t \<Rightarrow> from \<le> t \<and> t < to)) (db_activities d)"

definition findActiveMembersWithActStats ::
  "db \<Rightarrow> uuid \<Rightarrow> instant \<Rightarrow> instant \<Rightarrow> compliance_member_row list" where
  "findActiveMembersWithActStats d bondId from to =
     (let members = active_members_with_data d bondId in
      map (\<lambda>(u, first, last).
          let joined = concat (map (\<lambda>_. joined_activities d bondId from to u)
                (filter (\<lambda>g. g = (u, first, last)) members))
          in \<lparr>cm_userId = u, cm_firstName = first, cm_lastName = last, cm_total = length joined,
              cm_completed = length (filter (\<lambda>a. act_status a = DONE) joined)\<rparr>)
        (remdups members))"

definition compliance_percentage :: "nat \<Rightarrow> nat \<Rightarrow> rat" where
  "compliance_percentage completed assigned =
     (if 0 < assigned
      then js_div (of_int (js_round (js_mul (js_div (of_nat completed) (of_nat assigned)) 1000))) 10
      else 0)"

definition getComplianceForBond ::
  "time_zone \<Rightarrow> env \<Rightarrow> db \<Rightarrow> uuid \<Rightarrow> uuid \<Rightarrow> http_error + (string \<times> (compliance_member_row \<times> rat) list)" where
  "getComplianceForBond tz e d bondId viewerId =
     chain (assertBondMember d bondId viewerId) (\<lambda>_.
       case local_month tz (env_clock e 0) of (y, m) \<Rightarrow>
         (let rows = findActiveMembersWithActStats d bondId (local_month_begin tz y m)
                (local_month_begin tz y (m + 1))
          in Inr (period_text y m, map (\<lambda>r. (r, compliance_percentage (cm_completed r) (cm_total r))) rows)))"

section \<open>Facts\<close>

lemma completed_le_total:
  "r \<in> set (findActiveMembersWithActStats d bondId from to) \<Longrightarrow> cm_completed r \<le> cm_total r"
  by (auto simp: findActiveMembersWithActStats_def Let_def intro: length_filter_le)

lemma thousandths_argument:
  assumes "0 \<le> q" "q \<le> (1::rat)"
  shows "\<bar>to_double (to_double q * 1000) - 1000 * q\<bar> \<le> 1 / 10000"
proof -
  define p where "p = to_double q"
  have p: "\<bar>p - q\<bar> \<le> q / 9007199254740992"
    using to_double_near [of q] assms(1) by (simp add: p_def)
  have "\<bar>to_double (p * 1000) - p * 1000\<bar> \<le> \<bar>p * 1000\<bar> / 9007199254740992"
    by (rule to_double_near)
  with p assms show ?thesis
    unfolding p_def [symmetric] by (auto simp: abs_le_iff abs_if split: if_splits)
qed

text \<open>A percentage lies between 0 and 100; of up to 1000 activities, 100 means all are done and 0 means
  none.\<close>

lemma compliance_percentage_range:
  assumes "c \<le> t"
  shows "0 \<le> compliance_percentage c t \<and> compliance_percentage c t \<le> 100"
proof (cases "t = 0")
  case False
  define q :: rat where "q = of_nat c / of_nat t"
  have q: "0 \<le> q" "q \<le> 1"
    using assms False by (simp_all add: q_def divide_le_eq)
  define n where "n = js_round (to_double (to_double q * 1000))"
  have "\<bar>to_double (to_double q * 1000) - 1000 * q\<bar> \<le> 1 / 10000"
    by (rule thousandths_argument [OF q])
  then have "0 - 1 / 10000 \<le> to_double (to_double q * 1000)" "to_double (to_double q * 1000) \<le> 1000 + 1 / 10000"
    using q by linarith+
  then have "0 \<le> n" "n \<le> 1000"
    unfolding n_def js_round_def by (simp_all add: floor_le_iff le_floor_iff)
  then have "0 \<le> to_double (of_int (10 * n) / 100)" "to_double (of_int (10 * n) / 100) \<le> 100"
    by (intro hundredths_bounds; simp)+
  moreover have "compliance_percentage c t = to_double (of_int (10 * n) / 100)"
    using False by (simp add: compliance_percentage_def js_div_def js_mul_def n_def q_def)
  ultimately show ?thesis
    by simp
qed (simp add: compliance_percentage_def)

lemma map_filter_update_by:
  assumes "\<And>r. P (f r) = P r" "\<And>r. g (f r) = g r"
  shows "map g (filter P (update_by key k f rows)) = map g (filter P rows)"
  by (induction rows) (simp_all add: assms)

text \<open>The deletion of an activity does not change the figures, unlike those of the reports and of
  \<open>countActivitiesByAssignee\<close>.\<close>

lemma compliance_counts_deleted_activities:
  assumes "db_activities d' = update_by act_id i (\<lambda>a. a\<lparr>act_deletedAt := t, act_updatedAt := at0\<rparr>) (db_activities d)"
    and "db_bonds d' = db_bonds d" "db_members d' = db_members d" "db_personal d' = db_personal d"
  shows "getComplianceForBond tz e d' bondId viewerId = getComplianceForBond tz e d bondId viewerId"
proof -
  have same: "map (\<lambda>a. act_status a = DONE) (joined_activities d' bondId lo hi u) =
      map (\<lambda>a. act_status a = DONE) (joined_activities d bondId lo hi u)" for lo hi u
    unfolding joined_activities_def assms(1) by (rule map_filter_update_by) simp_all
  have counts: "length (joined_activities d' bondId lo hi u) = length (joined_activities d bondId lo hi u)"
    "length (filter (\<lambda>a. act_status a = DONE) (joined_activities d' bondId lo hi u)) =
     length (filter (\<lambda>a. act_status a = DONE) (joined_activities d bondId lo hi u))" for lo hi u
    using arg_cong [OF same [of lo hi u], of length]
      arg_cong [OF same [of lo hi u], of "\<lambda>bs. length (filter (\<lambda>b. b) bs)"]
    by (simp_all add: filter_map o_def)
  have "length (concat (map (\<lambda>_. xs) ys)) = length ys * length xs" for xs :: "activity_row list" and ys :: "(uuid \<times> utf16 \<times> utf16) list"
    by (induction ys) auto
  moreover have "length (filter P (concat (map (\<lambda>_. xs) ys))) = length ys * length (filter P xs)"
    for P and xs :: "activity_row list" and ys :: "(uuid \<times> utf16 \<times> utf16) list"
    by (induction ys) auto
  moreover have "active_members_with_data d' bondId = active_members_with_data d bondId"
    by (simp add: active_members_with_data_def assms)
  moreover have "assertBondMember d' bondId viewerId = assertBondMember d bondId viewerId"
    using assms(2,3) by (simp add: assertBondMember_def isActiveBondForMember_iff)
  ultimately show ?thesis
    by (simp add: getComplianceForBond_def findActiveMembersWithActStats_def counts Let_def)
qed

end
